(* ===== verification/Prelude.thy ===== *)
theory Prelude
  imports Main "HOL-Library.Word" "HOL-Library.Monad_Syntax"
begin

text \<open>
  Shared vocabulary of the development: the outcome type of fallible operations, the
  inversion rules that read a successful outcome off a chain of guards, rows of a
  database table as lists keyed by a primary key, and sums over such tables.

  A fallible Python coroutine is a function into \<open>'e + 'a\<close>: \<open>Inl\<close> carries the raised
  error and \<open>Inr\<close> the returned value. A guard \<open>if c: raise E\<close> is
  \<open>if c then Inl E else ...\<close>, a row that must exist is \<open>need\<close> and a call that may
  raise is sequenced by \<open>andthen\<close>. The collection \<open>outcome_inv\<close> holds, for each of these three
  shapes, the equivalence that describes when the whole chain returns \<open>Inr\<close>.
\<close>

named_theorems outcome_inv \<open>inversion of chains of guards that return \<open>Inr\<close>\<close>
named_theorems row_simps \<open>look-ups and sums over updated tables\<close>

type_synonym uuid = "128 word"
type_synonym instant = int

subsection \<open>Outcomes\<close>

lemma if_Inl_eq_Inr [outcome_inv]:
  "((if c then Inl e else k) = Inr y) \<longleftrightarrow> \<not> c \<and> k = Inr y"
  by simp

lemma if_else_Inl_eq_Inr [outcome_inv]:
  "((if c then k else Inl e) = Inr y) \<longleftrightarrow> c \<and> k = Inr y"
  by simp

lemma case_prod_eq_Inr [outcome_inv]:
  "((case p of (a, b) \<Rightarrow> k a b) = Inr y) \<longleftrightarrow> (\<exists>a b. p = (a, b) \<and> k a b = Inr y)"
  by (cases p) auto

lemma Let_eq_Inr [outcome_inv]: "(Let v k = Inr y) \<longleftrightarrow> k v = Inr y"
  by (simp add: Let_def)

text \<open>
  \<open>andthen\<close> runs a call and continues with its value unless it raised; \<open>need\<close> continues with a
  row unless the look-up found none.
\<close>

definition andthen :: "'e + 'a \<Rightarrow> ('a \<Rightarrow> 'e + 'b) \<Rightarrow> 'e + 'b" where
  "andthen m k = (case m of Inl e \<Rightarrow> Inl e | Inr x \<Rightarrow> k x)"

definition need :: "'a option \<Rightarrow> 'e \<Rightarrow> ('a \<Rightarrow> 'e + 'b) \<Rightarrow> 'e + 'b" where
  "need m e k = (case m of None \<Rightarrow> Inl e | Some x \<Rightarrow> k x)"

lemma andthen_simps [simp]: "andthen (Inl e) k = Inl e" "andthen (Inr x) k = k x"
  by (simp_all add: andthen_def)

lemma need_simps [simp]: "need None e k = Inl e" "need (Some x) e k = k x"
  by (simp_all add: need_def)

lemma andthen_eq_Inr [outcome_inv]: "(andthen m k = Inr y) \<longleftrightarrow> (\<exists>x. m = Inr x \<and> k x = Inr y)"
  by (cases m) auto

lemma need_eq_Inr [outcome_inv]: "(need m e k = Inr y) \<longleftrightarrow> (\<exists>x. m = Some x \<and> k x = Inr y)"
  by (cases m) auto

subsection \<open>Tables\<close>

text \<open>
  A table is the list of its rows in insertion order; \<open>key\<close> is the primary key column.
  \<open>row_get\<close> is a primary-key look-up, \<open>row_put\<close> the UPDATE issued by a flush of a changed
  row, and an INSERT appends after its constraints have been checked.
\<close>

definition row_get :: "('r \<Rightarrow> 'k) \<Rightarrow> 'k \<Rightarrow> 'r list \<Rightarrow> 'r option" where
  "row_get key k t = find (\<lambda>r. key r = k) t"

definition row_put :: "('r \<Rightarrow> 'k) \<Rightarrow> 'r \<Rightarrow> 'r list \<Rightarrow> 'r list" where
  "row_put key row t = map (\<lambda>r. if key r = key row then row else r) t"

definition row_keys :: "('r \<Rightarrow> 'k) \<Rightarrow> 'r list \<Rightarrow> 'k list" where
  "row_keys key t = map key t"

fun max_by :: "('r \<Rightarrow> int) \<Rightarrow> 'r list \<Rightarrow> 'r option" where
  "max_by f [] = None"
| "max_by f (r # t) = (case max_by f t of None \<Rightarrow> Some r
                        | Some b \<Rightarrow> if f b < f r then Some r else Some b)"

lemma find_SomeD: "find P xs = Some x \<Longrightarrow> x \<in> set xs \<and> P x"
  by (induction xs) (auto split: if_splits)

lemma find_None_iff: "find P xs = None \<longleftrightarrow> (\<forall>x \<in> set xs. \<not> P x)"
  by (induction xs) auto

lemma row_get_SomeD: "row_get key k t = Some r \<Longrightarrow> r \<in> set t \<and> key r = k"
  by (auto simp: row_get_def dest: find_SomeD)

lemma row_get_NoneD: "row_get key k t = None \<Longrightarrow> r \<in> set t \<Longrightarrow> key r \<noteq> k"
  by (auto simp: row_get_def find_None_iff)

lemma row_get_None_iff: "row_get key k t = None \<longleftrightarrow> k \<notin> set (row_keys key t)"
  by (induction t) (auto simp: row_get_def row_keys_def)

lemma row_get_in:
  "distinct (row_keys key t) \<Longrightarrow> r \<in> set t \<Longrightarrow> row_get key (key r) t = Some r"
  by (induction t) (auto simp: row_get_def row_keys_def)

lemma row_get_eq_iff:
  "distinct (row_keys key t) \<Longrightarrow> row_get key k t = Some r \<longleftrightarrow> r \<in> set t \<and> key r = k"
  by (metis row_get_SomeD row_get_in)

lemma row_unique:
  "distinct (row_keys key t) \<Longrightarrow> r \<in> set t \<Longrightarrow> s \<in> set t \<Longrightarrow> key r = key s \<Longrightarrow> r = s"
  by (metis option.inject row_get_in)

lemma row_get_append [row_simps]:
  "row_get key k (t @ u) = (case row_get key k t of None \<Rightarrow> row_get key k u | Some r \<Rightarrow> Some r)"
  by (induction t) (auto simp: row_get_def)

lemma row_get_Cons [row_simps]:
  "row_get key k (r # t) = (if key r = k then Some r else row_get key k t)"
  by (simp add: row_get_def)

lemma row_get_Nil [row_simps]: "row_get key k [] = None"
  by (simp add: row_get_def)

lemma row_keys_put [simp]: "row_keys key (row_put key row t) = row_keys key t"
  by (auto simp: row_keys_def row_put_def)

lemma row_keys_append [simp]: "row_keys key (t @ [r]) = row_keys key t @ [key r]"
  by (simp add: row_keys_def)

lemma row_get_put [row_simps]:
  "row_get key k (row_put key row t)
     = (if k = key row then map_option (\<lambda>_. row) (row_get key k t) else row_get key k t)"
  by (induction t) (auto simp: row_get_def row_put_def)

lemma set_row_put:
  "r \<in> set t \<Longrightarrow> key r = key row \<Longrightarrow>
   set (row_put key row t) = insert row {s \<in> set t. key s \<noteq> key row}"
  by (auto simp: row_put_def image_iff split: if_splits)

lemma in_set_row_putD:
  "s \<in> set (row_put key row t) \<Longrightarrow> s = row \<or> (s \<in> set t \<and> key s \<noteq> key row)"
  by (auto simp: row_put_def split: if_splits)

lemma row_put_same: "distinct (row_keys key t) \<Longrightarrow> r \<in> set t \<Longrightarrow> row_put key r t = t"
  by (auto simp: row_put_def intro!: map_idI dest: row_unique)

lemma find_keyed:
  assumes "r \<in> set rows" "P r" "distinct (row_keys key rows)" "\<And>x. P x \<Longrightarrow> key x = key r"
  shows "find P rows = Some r"
proof -
  obtain x where x: "find P rows = Some x" using assms(1,2) find_None_iff[of P rows] by (cases "find P rows") auto
  then have "x \<in> set rows" "key x = key r" using assms(4) by (auto dest: find_SomeD)
  then have "x = r" using assms(1,3) by (auto simp: row_keys_def distinct_map dest: inj_onD)
  with x show ?thesis by simp
qed

lemma filter_key_one:
  "distinct (map f xs) \<Longrightarrow> x \<in> set xs \<Longrightarrow> filter (\<lambda>y. f y = f x) xs = [x]"
  by (induction xs) (auto simp: filter_empty_conv, metis image_eqI)

text \<open>The rows of a join that belong to one keyed row.\<close>

lemma join_of_row:
  assumes "distinct (row_keys key t)" "r \<in> set t"
  shows "filter (\<lambda>x. key (fst x) = key r) (concat (map (\<lambda>e. map (Pair e) (f e)) t)) = map (Pair r) (f r)"
  using assms
proof (induction t)
  case (Cons e t)
  have skip: "filter (\<lambda>x. key (fst x) = key r) (map (Pair e) (f e)) = []" if "key e \<noteq> key r"
    using that by (simp add: filter_empty_conv)
  have none: "filter (\<lambda>x. key (fst x) = key r) (concat (map (\<lambda>e. map (Pair e) (f e)) t)) = []" if "key r \<notin> key ` set t"
    using that by (auto simp: filter_empty_conv) (metis image_eqI)
  show ?case
  proof (cases "r = e")
    case True
    then show ?thesis using Cons.prems none by (simp add: row_keys_def)
  next
    case False
    then have "r \<in> set t" "key e \<noteq> key r" using Cons.prems by (auto simp: row_keys_def)
    then show ?thesis using Cons skip by (simp add: row_keys_def)
  qed
qed simp

text \<open>
  The accounting lemma: replacing one row of a table with distinct keys changes a sum over
  the table by exactly the difference of the two rows.
\<close>

lemma sum_list_row_put:
  fixes f :: "'r \<Rightarrow> int"
  assumes "distinct (row_keys key t)" "r \<in> set t" "key r = key row"
  shows "sum_list (map f (row_put key row t)) = sum_list (map f t) - f r + f row"
  using assms
proof (induction t)
  case (Cons s t)
  show ?case
  proof (cases "key s = key row")
    case True
    then have "key x \<noteq> key row" if "x \<in> set t" for x
      using Cons.prems that by (auto simp: row_keys_def image_iff)
    then have "row_put key row t = t"
      by (auto simp: row_put_def intro: map_idI)
    moreover have "r = s"
      using Cons.prems True by (auto simp: row_keys_def image_iff)
    ultimately show ?thesis
      using True by (simp add: row_put_def)
  next
    case False
    then have "r \<in> set t"
      using Cons.prems by auto
    then show ?thesis
      using Cons False by (simp add: row_keys_def row_put_def)
  qed
qed simp

lemma sum_list_map_cong:
  "(\<And>x. x \<in> set t \<Longrightarrow> f x = g x) \<Longrightarrow> sum_list (map f t) = sum_list (map g t)"
  by (induction t) auto

lemma sum_list_map_nonneg:
  fixes f :: "'r \<Rightarrow> int"
  shows "(\<And>x. x \<in> set t \<Longrightarrow> 0 \<le> f x) \<Longrightarrow> 0 \<le> sum_list (map f t)"
  by (induction t) force+

lemma sum_list_member_le:
  fixes f :: "'r \<Rightarrow> int"
  shows "(\<And>x. x \<in> set t \<Longrightarrow> 0 \<le> f x) \<Longrightarrow> r \<in> set t \<Longrightarrow> f r \<le> sum_list (map f t)"
proof (induction t)
  case (Cons a t)
  then have "0 \<le> sum_list (map f t)" "0 \<le> f a"
    by (auto intro: sum_list_map_nonneg)
  with Cons show ?case by fastforce
qed simp

lemma max_by_None_iff [simp]: "max_by f t = None \<longleftrightarrow> t = []"
  by (cases t) (auto split: option.splits)

lemma max_by_SomeD: "max_by f t = Some m \<Longrightarrow> m \<in> set t \<and> (\<forall>x \<in> set t. f x \<le> f m)"
proof (induction t arbitrary: m)
  case (Cons a t)
  then show ?case
    by (cases "max_by f t") (fastforce split: if_splits)+
qed simp

subsection \<open>Invariants of transition systems\<close>

text \<open>
  The contract between a component and its invariant: an initial state, a step relation and a
  predicate kept by every step. The client result is that every state reached by any finite
  interleaving of steps satisfies the predicate.
\<close>

locale inductive_invariant =
  fixes start :: "'s" and step :: "'s \<Rightarrow> 's \<Rightarrow> bool" and ok :: "'s \<Rightarrow> bool"
  assumes ok_start: "ok start"
    and ok_step: "ok s \<Longrightarrow> step s t \<Longrightarrow> ok t"
begin

lemma steps_keep: "step\<^sup>*\<^sup>* s t \<Longrightarrow> ok s \<Longrightarrow> ok t"
  by (induction rule: rtranclp_induct) (auto intro: ok_step)

lemma reachable_ok: "step\<^sup>*\<^sup>* start t \<Longrightarrow> ok t"
  using steps_keep ok_start by blast

end

end
