(* ===== verification/Identifiers.thy ===== *)
theory Identifiers
  imports Prelude
begin

text \<open>
  Identifier values of the model-usage contracts: UUIDs as 128-bit words with the version and
  variant test of \<open>_require_uuid7\<close>, the canonical text of a UUID, the constrained string
  aliases of \<open>model_usage/api.py\<close> as executable predicates, and the raw digest check
  \<open>_sha\<close> of \<open>model_usage/service.py\<close> together with the part of Python's \<open>int(text, 16)\<close>
  it relies on. Strings are sequences of code points below 256.
\<close>

unbundle bit_operations_syntax

subsection \<open>UUIDs\<close>

text \<open>\<open>UUID.variant == RFC_4122\<close> reads bits 63 and 62, \<open>UUID.version\<close> bits 76 to 79.\<close>

definition uuid_rfc4122 :: "uuid \<Rightarrow> bool" where
  "uuid_rfc4122 u \<longleftrightarrow> bit u 63 \<and> \<not> bit u 62"

definition uuid_version :: "uuid \<Rightarrow> nat option" where
  "uuid_version u = (if uuid_rfc4122 u then Some (unat (drop_bit 76 u AND 15)) else None)"

definition require_uuid7 :: "uuid \<Rightarrow> bool" where
  "require_uuid7 u \<longleftrightarrow> uuid_version u = Some 7 \<and> uuid_rfc4122 u"

definition hex_digit :: "nat \<Rightarrow> char" where
  "hex_digit n = ''0123456789abcdef'' ! (n mod 16)"

text \<open>The low \<open>n\<close> nibbles of a number, most significant first.\<close>

fun hex_text :: "nat \<Rightarrow> nat \<Rightarrow> string" where
  "hex_text 0 v = []"
| "hex_text (Suc n) v = hex_text n (v div 16) @ [hex_digit v]"

text \<open>\<open>str(uuid)\<close>: lowercase hexadecimal grouped 8-4-4-4-12.\<close>

definition uuid_text :: "uuid \<Rightarrow> string" where
  "uuid_text u =
     (let h = hex_text 32 (unat u) in
      take 8 h @ ''-'' @ take 4 (drop 8 h) @ ''-'' @ take 4 (drop 12 h) @ ''-'' @
      take 4 (drop 16 h) @ ''-'' @ drop 20 h)"

subsection \<open>Constrained strings\<close>

definition in_range :: "char \<Rightarrow> char \<Rightarrow> char \<Rightarrow> bool" where
  "in_range lo hi c \<longleftrightarrow> of_char lo \<le> (of_char c :: nat) \<and> of_char c \<le> (of_char hi :: nat)"

definition is_digit_char :: "char \<Rightarrow> bool" where
  "is_digit_char c \<longleftrightarrow> in_range (CHR ''0'') (CHR ''9'') c"

definition is_lower_char :: "char \<Rightarrow> bool" where
  "is_lower_char c \<longleftrightarrow> in_range (CHR ''a'') (CHR ''z'') c"

definition is_upper_char :: "char \<Rightarrow> bool" where
  "is_upper_char c \<longleftrightarrow> in_range (CHR ''A'') (CHR ''Z'') c"

definition is_lower_hex :: "char \<Rightarrow> bool" where
  "is_lower_hex c \<longleftrightarrow> is_digit_char c \<or> in_range (CHR ''a'') (CHR ''f'') c"

definition is_hex :: "char \<Rightarrow> bool" where
  "is_hex c \<longleftrightarrow> is_lower_hex c \<or> in_range (CHR ''A'') (CHR ''F'') c"

definition is_alnum_char :: "char \<Rightarrow> bool" where
  "is_alnum_char c \<longleftrightarrow> is_digit_char c \<or> is_lower_char c \<or> is_upper_char c"

text \<open>\<open>^sha256:[0-9a-f]{64}$\<close>\<close>

definition is_sha256 :: "string \<Rightarrow> bool" where
  "is_sha256 s \<longleftrightarrow> length s = 71 \<and> take 7 s = ''sha256:'' \<and> list_all is_lower_hex (drop 7 s)"

text \<open>\<open>^[a-z][a-z0-9_.-]*$\<close>, one to a hundred characters\<close>

definition is_identifier :: "string \<Rightarrow> bool" where
  "is_identifier s \<longleftrightarrow> s \<noteq> [] \<and> length s \<le> 100 \<and> is_lower_char (hd s) \<and>
     list_all (\<lambda>c. is_lower_char c \<or> is_digit_char c \<or> c \<in> set ''_.-'') (tl s)"

text \<open>\<open>^[A-Za-z0-9][A-Za-z0-9._:/-]*$\<close>, one to a hundred and sixty characters\<close>

definition is_provider_identifier :: "string \<Rightarrow> bool" where
  "is_provider_identifier s \<longleftrightarrow> s \<noteq> [] \<and> length s \<le> 160 \<and> is_alnum_char (hd s) \<and>
     list_all (\<lambda>c. is_alnum_char c \<or> c \<in> set ''._:/-'') (tl s)"

text \<open>\<open>^[A-Za-z0-9][A-Za-z0-9._:-]*$\<close>, one to two hundred and fifty-six characters\<close>

definition is_provider_response_identifier :: "string \<Rightarrow> bool" where
  "is_provider_response_identifier s \<longleftrightarrow> s \<noteq> [] \<and> length s \<le> 256 \<and> is_alnum_char (hd s) \<and>
     list_all (\<lambda>c. is_alnum_char c \<or> c \<in> set ''._:-'') (tl s)"

text \<open>\<open>Nanodollars\<close>: a strict integer between zero and nine times ten to the eighteenth.\<close>

definition is_nanodollars :: "int \<Rightarrow> bool" where
  "is_nanodollars n \<longleftrightarrow> 0 \<le> n \<and> n \<le> 9000000000000000000"

subsection \<open>Python's integer literal and the raw digest check\<close>

definition py_space :: "char \<Rightarrow> bool" where
  "py_space c \<longleftrightarrow> (let n = of_char c :: nat in
     (9 \<le> n \<and> n \<le> 13) \<or> (28 \<le> n \<and> n \<le> 32) \<or> n = 133 \<or> n = 160)"

definition py_strip :: "string \<Rightarrow> string" where
  "py_strip s = rev (dropWhile py_space (rev (dropWhile py_space s)))"

text \<open>Digits with single underscores between them, none at either end.\<close>

fun hex_groups :: "string \<Rightarrow> bool" where
  "hex_groups [] = False"
| "hex_groups [c] = is_hex c"
| "hex_groups (c # d # s) =
     (is_hex c \<and> (if d = CHR ''_'' then hex_groups s else hex_groups (d # s)))"

definition drop_sign :: "string \<Rightarrow> string" where
  "drop_sign s = (case s of c # t \<Rightarrow> if c \<in> set ''+-'' then t else s | [] \<Rightarrow> [])"

definition drop_hex_prefix :: "string \<Rightarrow> string" where
  "drop_hex_prefix s = (case s of
       CHR ''0'' # x # t \<Rightarrow>
         if x \<in> set ''xX'' then (case t of CHR ''_'' # u \<Rightarrow> u | _ \<Rightarrow> t) else s
     | _ \<Rightarrow> s)"

text \<open>\<open>int(text, 16)\<close> does not raise.\<close>

definition py_int16_ok :: "string \<Rightarrow> bool" where
  "py_int16_ok s = hex_groups (drop_hex_prefix (drop_sign (py_strip s)))"

text \<open>\<open>str.lower\<close> on code points below 256.\<close>

definition py_lower :: "string \<Rightarrow> string" where
  "py_lower s = map (\<lambda>c. let n = of_char c :: nat in
     if (65 \<le> n \<and> n \<le> 90) \<or> (192 \<le> n \<and> n \<le> 222 \<and> n \<noteq> 215) then char_of (n + 32) else c) s"

text \<open>
  \<open>_sha(value)\<close>: \<open>None\<close> stands for \<open>ModelCallConflict("model_call_digest_invalid")\<close>.
\<close>

definition sha_arg :: "string \<Rightarrow> string option" where
  "sha_arg s =
     (if length s \<noteq> 71 \<or> take 7 s \<noteq> ''sha256:'' then None
      else if \<not> py_int16_ok (drop 7 s) then None
      else if drop 7 s \<noteq> py_lower (drop 7 s) then None
      else Some s)"

subsection \<open>Facts\<close>

lemma sha_arg_SomeD: "sha_arg s = Some t \<Longrightarrow> t = s"
  by (simp add: sha_arg_def split: if_splits)

lemma hex_not_space: "is_hex c \<Longrightarrow> \<not> py_space c"
  by (auto simp: is_hex_def is_lower_hex_def is_digit_char_def in_range_def py_space_def Let_def)

lemma hex_not_sign: "is_hex c \<Longrightarrow> c \<notin> set ''+-''"
  by (auto simp: is_hex_def is_lower_hex_def is_digit_char_def in_range_def)

lemma lower_hex_not_x: "is_lower_hex c \<Longrightarrow> c \<notin> set ''xX_''"
  by (auto simp: is_lower_hex_def is_digit_char_def in_range_def)

lemma lower_hex_hex: "is_lower_hex c \<Longrightarrow> is_hex c"
  by (simp add: is_hex_def)

lemma lower_hex_lower: "is_lower_hex c \<Longrightarrow> py_lower [c] = [c]"
  by (auto simp: is_lower_hex_def is_digit_char_def in_range_def py_lower_def Let_def)

lemma py_strip_hex: "list_all is_hex s \<Longrightarrow> py_strip s = s"
proof -
  assume *: "list_all is_hex s"
  have drop: "dropWhile py_space t = t" if "list_all is_hex t" for t
    using that by (cases t) (auto dest: hex_not_space)
  from * have "list_all is_hex (rev s)" by (simp add: list_all_iff)
  with * show ?thesis by (simp add: py_strip_def drop)
qed

lemma drop_hex_prefix_hex: "list_all is_lower_hex s \<Longrightarrow> drop_hex_prefix s = s"
  by (cases s; cases "tl s") (auto simp: drop_hex_prefix_def dest: lower_hex_not_x split: char.splits bool.splits)

lemma hex_groups_hex: "s \<noteq> [] \<Longrightarrow> list_all is_lower_hex s \<Longrightarrow> hex_groups s"
  by (induction s rule: hex_groups.induct) (auto dest: lower_hex_not_x lower_hex_hex)

lemma py_int16_ok_hex: "s \<noteq> [] \<Longrightarrow> list_all is_lower_hex s \<Longrightarrow> py_int16_ok s"
proof -
  assume *: "s \<noteq> []" "list_all is_lower_hex s"
  then have "list_all is_hex s" by (auto simp: list_all_iff lower_hex_hex)
  then have "py_strip s = s" "drop_sign s = s"
    using * by (cases s; force simp: py_strip_hex drop_sign_def dest: hex_not_sign)+
  with * show ?thesis by (simp add: py_int16_ok_def drop_hex_prefix_hex hex_groups_hex)
qed

lemma py_lower_hex: "list_all is_lower_hex s \<Longrightarrow> py_lower s = s"
  using lower_hex_lower by (induction s) (auto simp: py_lower_def)

lemma sha_arg_complete: "is_sha256 s \<Longrightarrow> sha_arg s = Some s"
proof -
  assume *: "is_sha256 s"
  then have "drop 7 s \<noteq> []" "list_all is_lower_hex (drop 7 s)" by (auto simp: is_sha256_def)
  with * show ?thesis
    by (simp add: sha_arg_def is_sha256_def py_int16_ok_hex py_lower_hex)
qed

lemma hex_text_length [simp]: "length (hex_text n v) = n"
  by (induction n v rule: hex_text.induct) auto

end
