(* ===== verification/Unicode.thy ===== *)
theory Unicode
  imports Prelude
begin

text \<open>
  Python strings and their UTF-8 encoding. A string is the list of its code points, and a byte is an \<open>8 word\<close>. A string
  may contain surrogates, which no encoding accepts; no string has a code point beyond 1114111. The encoding can be
  undone: different strings have different bytes, and so have their continuations.
\<close>

type_synonym ustring = "nat list"
type_synonym octets = "8 word list"

definition utf8_octets :: "nat \<Rightarrow> octets" where
  "utf8_octets c =
     (if c < 128 then [of_nat c]
      else if c < 2048 then [of_nat (192 + c div 64), of_nat (128 + c mod 64)]
      else if c < 65536 then [of_nat (224 + c div 4096), of_nat (128 + c div 64 mod 64), of_nat (128 + c mod 64)]
      else [of_nat (240 + c div 262144), of_nat (128 + c div 4096 mod 64), of_nat (128 + c div 64 mod 64), of_nat (128 + c mod 64)])"

definition utf8_bytes :: "ustring \<Rightarrow> octets" where
  "utf8_bytes s = concat (map utf8_octets s)"

definition scalar_value :: "nat \<Rightarrow> bool" where
  "scalar_value c \<longleftrightarrow> c < 55296 \<or> 57343 < c \<and> c < 1114112"

text \<open>\<open>str.encode("utf-8")\<close>; \<open>None\<close> is \<open>UnicodeEncodeError\<close>, raised for a surrogate.\<close>

definition encode_utf8 :: "ustring \<Rightarrow> octets option" where
  "encode_utf8 s = (if list_all scalar_value s then Some (utf8_bytes s) else None)"

text \<open>The string that a text of the model stands for; its characters are code points below 256.\<close>

definition code_points :: "string \<Rightarrow> ustring" where
  "code_points s = map of_char s"

subsection \<open>Texts\<close>

lemma code_points_simps [simp]:
  "code_points [] = []" "code_points (c # s) = of_char c # code_points s"
  "code_points (s @ t) = code_points s @ code_points t" "length (code_points s) = length s"
  "set (code_points s) = of_char ` set s"
  by (simp_all add: code_points_def)

lemma code_points_inj [simp]: "code_points s = code_points t \<longleftrightarrow> s = t"
  unfolding code_points_def by (rule inj_map_eq_map) (simp add: inj_on_def)

lemma scalar_char [simp]: "scalar_value (of_char c)"
  unfolding scalar_value_def using nat_of_char_less_256[of c] by linarith

lemma code_points_scalar [simp]: "list_all scalar_value (code_points s)"
  by (auto simp: list_all_iff)

subsection \<open>Octets\<close>

lemma unat_octet: "n < 256 \<Longrightarrow> unat (of_nat n :: 8 word) = n"
  by (simp add: unat_of_nat)

lemma octet_bound: "unat (a :: 8 word) < 256"
  using unsigned_less[where 'a = nat, of a] by simp

lemma octet_mod: "unat (of_nat n :: 8 word) = n mod 256"
  by (simp add: unat_of_nat)

subsection \<open>UTF-8\<close>

text \<open>The number of bytes and the value, read off the encoding.\<close>

definition utf8_class :: "8 word \<Rightarrow> nat" where
  "utf8_class w = (if unat w < 128 then 1 else if unat w < 224 then 2 else if unat w < 240 then 3 else 4)"

definition utf8_value :: "octets \<Rightarrow> nat" where
  "utf8_value bs = (case map unat bs of
     [a] \<Rightarrow> a | [a, b] \<Rightarrow> (a - 192) * 64 + (b - 128)
   | [a, b, c] \<Rightarrow> (a - 224) * 4096 + (b - 128) * 64 + (c - 128)
   | [a, b, c, d] \<Rightarrow> (a - 240) * 262144 + (b - 128) * 4096 + (c - 128) * 64 + (d - 128) | _ \<Rightarrow> 0)"

lemma utf8_octets_read:
  assumes "c < 1114112"
  shows "utf8_octets c \<noteq> []" "utf8_class (hd (utf8_octets c)) = length (utf8_octets c)" "utf8_value (utf8_octets c) = c"
proof -
  have parts: "c = c div 64 * 64 + c mod 64" "c div 64 = c div 4096 * 64 + c div 64 mod 64"
      "c div 4096 = c div 262144 * 64 + c div 4096 mod 64"
    using div_mult_mod_eq[of c 64] div_mult_mod_eq[of "c div 64" 64] div_mult_mod_eq[of "c div 4096" 64]
    by (simp_all add: div_mult2_eq[symmetric])
  have small: "c div 262144 < 8" "c < 2048 \<Longrightarrow> c div 64 < 32" "c < 65536 \<Longrightarrow> c div 4096 < 16"
    "c mod 64 < 64" "c div 64 mod 64 < 64" "c div 4096 mod 64 < 64"
    using assms by (simp_all add: less_mult_imp_div_less)
  show "utf8_octets c \<noteq> []" "utf8_class (hd (utf8_octets c)) = length (utf8_octets c)"
    using small by (auto simp: utf8_octets_def utf8_class_def unat_octet simp del: of_nat_add)
  have joined: "c div 64 * 64 + c mod 64 = c" "c div 4096 * 4096 + c div 64 mod 64 * 64 + c mod 64 = c"
      "c div 262144 * 262144 + c div 4096 mod 64 * 4096 + c div 64 mod 64 * 64 + c mod 64 = c"
    using parts by linarith+
  have "utf8_value (utf8_octets c) =
      (if c < 128 then c else if c < 2048 then c div 64 * 64 + c mod 64
       else if c < 65536 then c div 4096 * 4096 + c div 64 mod 64 * 64 + c mod 64
       else c div 262144 * 262144 + c div 4096 mod 64 * 4096 + c div 64 mod 64 * 64 + c mod 64)"
    using small by (simp add: utf8_octets_def utf8_value_def unat_octet del: of_nat_add)
  then show "utf8_value (utf8_octets c) = c" by (simp only: joined if_cancel)
qed

lemma utf8_prefix:
  assumes "utf8_octets c @ r = utf8_octets d @ r'" "c < 1114112" "d < 1114112"
  shows "c = d \<and> r = r'"
proof -
  have "hd (utf8_octets c) = hd (utf8_octets d)"
    using assms(1) utf8_octets_read(1)[OF assms(2)] utf8_octets_read(1)[OF assms(3)] by (metis hd_append2)
  then have "length (utf8_octets c) = length (utf8_octets d)"
    using utf8_octets_read(2)[OF assms(2)] utf8_octets_read(2)[OF assms(3)] by simp
  then have same: "utf8_octets c = utf8_octets d" "r = r'" using assms(1) append_eq_append_conv by blast+
  have "c = d" using utf8_octets_read(3)[OF assms(2)] utf8_octets_read(3)[OF assms(3)] unfolding same(1) by (rule trans[OF sym])
  then show ?thesis using same(2) by simp
qed

lemma utf8_bytes_simps [simp]:
  "utf8_bytes [] = []" "utf8_bytes (c # s) = utf8_octets c @ utf8_bytes s"
  "utf8_bytes (s @ t) = utf8_bytes s @ utf8_bytes t"
  by (simp_all add: utf8_bytes_def)

lemma utf8_bytes_inj:
  assumes "utf8_bytes s = utf8_bytes t" "list_all scalar_value s" "list_all scalar_value t"
  shows "s = t"
  using assms
proof (induction s arbitrary: t)
  case Nil
  then show ?case using utf8_octets_read(1) by (cases t) (auto simp: scalar_value_def)
next
  case (Cons c s)
  obtain d t' where t: "t = d # t'"
    using Cons.prems utf8_octets_read(1)[of c] by (cases t) (auto simp: scalar_value_def)
  have "c = d \<and> utf8_bytes s = utf8_bytes t'"
    using Cons.prems t by (intro utf8_prefix) (auto simp: scalar_value_def)
  then show ?case using Cons.IH[of t'] Cons.prems(2,3) t by simp
qed

lemma encode_utf8_inj: "encode_utf8 s = Some bs \<Longrightarrow> encode_utf8 t = Some bs \<Longrightarrow> s = t"
  by (rule utf8_bytes_inj) (auto simp: encode_utf8_def split: if_splits)

lemma encode_utf8_Some: "encode_utf8 s = Some bs \<longleftrightarrow> list_all scalar_value s \<and> bs = utf8_bytes s"
  by (auto simp: encode_utf8_def)

text \<open>The number of bytes.\<close>

lemma utf8_octets_length: "1 \<le> length (utf8_octets c)" "c < 128 \<Longrightarrow> length (utf8_octets c) = 1"
  by (simp_all add: utf8_octets_def)

lemma ascii_bytes_length: "list_all (\<lambda>c. c < 128) s \<Longrightarrow> length (utf8_bytes s) = length s"
  by (induction s) (simp_all add: utf8_octets_length)

end
