(* ===== verification/Canonical_Json.thy ===== *)
theory Canonical_Json
  imports Identifiers Unicode "HOL-Library.Char_ord" "HOL-Library.List_Lexorder"
    "HOL-Library.Multiset"
begin

text \<open>
  Canonical JSON and its digest, \<open>core/hashing.py\<close>. \<open>dumps\<close> is the text of \<open>json.dumps\<close> with sorted keys, the separators
  \<open>(",", ":")\<close> and \<open>ensure_ascii=False\<close>, over the code points of Python strings. With \<open>allow_nan=False\<close> it raises for an
  infinite or undefined float, and as of Python 3.11 for an integer of more than 4300 digits; the encoding raises for a
  surrogate. SHA-256 itself is the argument \<open>sha\<close>, so every statement holds for whatever digest function the runtime
  provides. A dictionary is the list of its items, a float is given by its \<open>repr\<close>, which is what \<open>json.dumps\<close> writes and
  from which the float can be read back.
\<close>

datatype json =
    JNull
  | JBool bool
  | JInt int
  | JFloat string
  | JStr ustring
  | JArr "json list"
  | JObj "(ustring \<times> json) list"

text \<open>Values made of the texts of the model.\<close>

definition jstr :: "string \<Rightarrow> json" where
  "jstr s = JStr (code_points s)"

definition jobj :: "(string \<times> json) list \<Rightarrow> json" where
  "jobj kvs = JObj (map (map_prod code_points id) kvs)"

subsection \<open>Printing\<close>

definition dec_digit :: "nat \<Rightarrow> char" where
  "dec_digit n = char_of (48 + n mod 10)"

fun nat_text :: "nat \<Rightarrow> string" where
  "nat_text n = (if n < 10 then [dec_digit n] else nat_text (n div 10) @ [dec_digit n])"

declare nat_text.simps [simp del]

definition int_text :: "int \<Rightarrow> string" where
  "int_text i = (if i < 0 then CHR ''-'' # nat_text (nat (- i)) else nat_text (nat i))"

text \<open>The escapes of \<open>json.encoder\<close> when \<open>ensure_ascii\<close> is off.\<close>

definition escape_char :: "nat \<Rightarrow> ustring" where
  "escape_char c =
     (if c = 34 then [92, 34] else if c = 92 then [92, 92]
      else if c = 10 then [92, 110] else if c = 13 then [92, 114] else if c = 9 then [92, 116]
      else if c = 12 then [92, 102] else if c = 8 then [92, 98]
      else if c < 32 then [92, 117] @ code_points (hex_text 4 c)
      else [c])"

definition quote_text :: "ustring \<Rightarrow> ustring" where
  "quote_text s = 34 # concat (map escape_char s) @ [34]"

fun join_comma :: "ustring list \<Rightarrow> ustring" where
  "join_comma [] = []"
| "join_comma [s] = s"
| "join_comma (s # t # ss) = s @ code_points '','' @ join_comma (t # ss)"

definition member_text :: "ustring \<times> ustring \<Rightarrow> ustring" where
  "member_text kv = quote_text (fst kv) @ code_points '':'' @ snd kv"

primrec dumps :: "json \<Rightarrow> ustring" where
  "dumps JNull = code_points ''null''"
| "dumps (JBool b) = code_points (if b then ''true'' else ''false'')"
| "dumps (JInt n) = code_points (int_text n)"
| "dumps (JFloat r) = code_points r"
| "dumps (JStr s) = quote_text s"
| "dumps (JArr xs) = code_points ''['' @ join_comma (map dumps xs) @ code_points '']''"
| "dumps (JObj kvs) =
     code_points ''{'' @ join_comma (map member_text (sort_key fst (map (map_prod id dumps) kvs))) @ code_points ''}''"

subsection \<open>Values that can be hashed\<close>

primrec subvalues :: "json \<Rightarrow> json list" where
  "subvalues JNull = [JNull]"
| "subvalues (JBool b) = [JBool b]"
| "subvalues (JInt n) = [JInt n]"
| "subvalues (JFloat r) = [JFloat r]"
| "subvalues (JStr s) = [JStr s]"
| "subvalues (JArr xs) = JArr xs # concat (map subvalues xs)"
| "subvalues (JObj kvs) = JObj kvs # concat (map snd (map (map_prod id subvalues) kvs))"

text \<open>
  The \<open>repr\<close> of a finite float: an optional sign, digits, and a fraction or an exponent; those of the others are \<open>inf\<close>,
  \<open>-inf\<close> and \<open>nan\<close>.
\<close>

definition is_float_char :: "char \<Rightarrow> bool" where
  "is_float_char c \<longleftrightarrow> is_digit_char c \<or> c \<in> set ''-+.e''"

definition finite_float :: "string \<Rightarrow> bool" where
  "finite_float r \<longleftrightarrow> r \<noteq> [] \<and> (is_digit_char (hd r) \<or> hd r = CHR ''-'') \<and> list_all is_float_char r \<and>
     list_ex (\<lambda>c. c \<in> set ''.e'') r"

definition float_ok :: "json \<Rightarrow> bool" where
  "float_ok v \<longleftrightarrow> (case v of JFloat r \<Rightarrow> finite_float r | _ \<Rightarrow> True)"

definition int_ok :: "json \<Rightarrow> bool" where
  "int_ok v \<longleftrightarrow> (case v of JInt n \<Rightarrow> length (nat_text (nat \<bar>n\<bar>)) \<le> 4300 | _ \<Rightarrow> True)"

definition text_ok :: "json \<Rightarrow> bool" where
  "text_ok v \<longleftrightarrow> (case v of JStr s \<Rightarrow> list_all scalar_value s
     | JObj kvs \<Rightarrow> list_all (\<lambda>kv. list_all scalar_value (fst kv)) kvs | _ \<Rightarrow> True)"

datatype json_error = Json_ValueError | Json_UnicodeEncodeError

definition canonical_json_bytes :: "json \<Rightarrow> json_error + octets" where
  "canonical_json_bytes v =
     (if \<not> list_all (\<lambda>x. float_ok x \<and> int_ok x) (subvalues v) then Inl Json_ValueError
      else need (encode_utf8 (dumps v)) Json_UnicodeEncodeError Inr)"

definition canonical_json_hash :: "(octets \<Rightarrow> string) \<Rightarrow> json \<Rightarrow> json_error + string" where
  "canonical_json_hash sha v = andthen (canonical_json_bytes v) (\<lambda>encoded. Inr (''sha256:'' @ sha encoded))"

text \<open>
  What \<open>canonical_json_hash\<close> returns when it returns. The components use it for the values they build, which have no
  floats and consist of valid texts (\<open>json_ok\<close>) and of integers that were checked before.
\<close>

definition json_digest :: "(octets \<Rightarrow> string) \<Rightarrow> json \<Rightarrow> string" where
  "json_digest sha v = ''sha256:'' @ sha (utf8_bytes (dumps v))"

definition json_ok :: "json \<Rightarrow> bool" where
  "json_ok v \<longleftrightarrow> list_all (\<lambda>x. float_ok x \<and> text_ok x) (subvalues v)"

lemma json_ok_simps [simp]:
  "json_ok JNull" "json_ok (JBool b)" "json_ok (JInt n)" "json_ok (jstr s)"
  "json_ok (JArr xs) \<longleftrightarrow> list_all json_ok xs" "json_ok (jobj kvs) \<longleftrightarrow> list_all (\<lambda>kv. json_ok (snd kv)) kvs"
proof -
  show "json_ok (jobj kvs) \<longleftrightarrow> list_all (\<lambda>kv. json_ok (snd kv)) kvs"
    by (auto simp: json_ok_def jobj_def float_ok_def text_ok_def list_all_iff)
qed (auto simp: json_ok_def jstr_def float_ok_def text_ok_def list_all_iff)

subsection \<open>Key order does not matter\<close>

lemma sort_key_perm_eq:
  assumes "distinct (map fst xs)" "mset xs = mset ys"
  shows "sort_key fst xs = sort_key fst ys"
proof -
  have "inj_on fst (set xs)" using assms(1) by (simp add: distinct_map)
  then show ?thesis
    using assms(2) by (intro sort_key_inj_key_eq) auto
qed

lemma dumps_key_order:
  assumes "distinct (map fst kvs)" "mset kvs = mset kvs'"
  shows "dumps (JObj kvs) = dumps (JObj kvs')"
proof -
  let ?f = "map_prod id dumps"
  have "map fst (map ?f kvs) = map fst kvs" by (induction kvs) auto
  then have "distinct (map fst (map ?f kvs))" using assms(1) by simp
  moreover have "mset (map ?f kvs) = mset (map ?f kvs')" using assms(2) by simp
  ultimately have "sort_key fst (map ?f kvs) = sort_key fst (map ?f kvs')"
    by (rule sort_key_perm_eq)
  then show ?thesis by simp
qed

end
