(* ===== verification/Model_Usage_Values.thy ===== *)
theory Model_Usage_Values
  imports Canonical_Json
begin

text \<open>
  The typed contracts of \<open>model_usage/api.py\<close>. Every public class is a record with the class's
  fields, its field bounds and \<open>model_validator\<close> are the predicate \<open><name>_valid\<close>, and
  \<open>model_dump(mode="json")\<close> is the function \<open><name>_dump\<close>. Field names that several classes
  share carry a prefix of their class. The two things the contracts take from outside the
  repository, the SHA-256 digest and pydantic's rendering of a datetime, are the fields of
  the record \<open>codec\<close>.
\<close>

record codec =
  sha256_hex :: "octets \<Rightarrow> string"
  datetime_json :: "instant \<Rightarrow> string"

datatype model_error =
    Unavailable string
  | Conflict string
  | BudgetUnavailable string
  | InvalidValue string
  | IntegrityViolation string
  | PortRefused string

abbreviation juuid :: "uuid \<Rightarrow> json" where
  "juuid u \<equiv> jstr (uuid_text u)"

abbreviation jopt :: "('a \<Rightarrow> json) \<Rightarrow> 'a option \<Rightarrow> json" where
  "jopt f m \<equiv> (case m of None \<Rightarrow> JNull | Some x \<Rightarrow> f x)"

definition between :: "int \<Rightarrow> int \<Rightarrow> int \<Rightarrow> bool" where
  "between lo hi n \<longleftrightarrow> lo \<le> n \<and> n \<le> hi"

subsection \<open>Profiles and pricing\<close>

record ModelProfileSelector =
  ms_profile_id :: uuid
  ms_profile_version :: int
  ms_profile_digest :: string

definition ModelProfileSelector_valid :: "ModelProfileSelector \<Rightarrow> bool" where
  "ModelProfileSelector_valid s \<longleftrightarrow>
     1 \<le> ms_profile_version s \<and> is_sha256 (ms_profile_digest s) \<and> require_uuid7 (ms_profile_id s)"

record ModelGenerationSettings =
  reasoning_effort :: string
  text_verbosity :: string

definition ModelGenerationSettings_valid :: "ModelGenerationSettings \<Rightarrow> bool" where
  "ModelGenerationSettings_valid s \<longleftrightarrow>
     reasoning_effort s \<in> {''none'', ''minimal'', ''low'', ''medium'', ''high'', ''xhigh'', ''max''} \<and>
     text_verbosity s \<in> {''low'', ''medium'', ''high''}"

record ModelPricing =
  pricing_policy_id :: uuid
  pricing_policy_version :: int
  pricing_policy_digest :: string
  uncached_input_nanodollars_per_token :: int
  cached_input_nanodollars_per_token :: int
  output_nanodollars_per_token :: int

definition ModelPricing_valid :: "ModelPricing \<Rightarrow> bool" where
  "ModelPricing_valid p \<longleftrightarrow>
     1 \<le> pricing_policy_version p \<and> is_sha256 (pricing_policy_digest p) \<and>
     is_nanodollars (uncached_input_nanodollars_per_token p) \<and>
     is_nanodollars (cached_input_nanodollars_per_token p) \<and>
     is_nanodollars (output_nanodollars_per_token p) \<and>
     require_uuid7 (pricing_policy_id p) \<and>
     \<not> max (max (uncached_input_nanodollars_per_token p) (cached_input_nanodollars_per_token p))
           (output_nanodollars_per_token p) \<le> 0"

record ProjectModelProfileSpec =
  spec_project_id :: uuid
  spec_profile_version :: int
  provider :: string
  api :: string
  model_snapshot :: string
  settings :: ModelGenerationSettings
  maximum_request_bytes :: int
  maximum_output_bytes :: int
  maximum_response_bytes :: int
  maximum_input_tokens :: int
  maximum_output_tokens :: int
  maximum_calls :: int
  maximum_total_request_bytes :: int
  maximum_total_response_bytes :: int
  maximum_total_input_tokens :: int
  maximum_total_output_tokens :: int
  allowed_tools :: "string list"
  maximum_tool_calls :: int
  maximum_tool_output_bytes :: int
  deadline_ms :: int
  pricing :: ModelPricing

definition spec_fields_valid :: "ProjectModelProfileSpec \<Rightarrow> bool" where
  "spec_fields_valid p \<longleftrightarrow>
     1 \<le> spec_profile_version p \<and>
     is_provider_identifier (provider p) \<and> is_provider_identifier (api p) \<and>
     is_provider_identifier (model_snapshot p) \<and>
     ModelGenerationSettings_valid (settings p) \<and>
     between 1 1048576 (maximum_request_bytes p) \<and>
     between 1 1048576 (maximum_output_bytes p) \<and>
     between 1 1048576 (maximum_response_bytes p) \<and>
     between 1 10000000 (maximum_input_tokens p) \<and>
     between 1 10000000 (maximum_output_tokens p) \<and>
     between 1 100 (maximum_calls p) \<and>
     between 1 104857600 (maximum_total_request_bytes p) \<and>
     between 1 104857600 (maximum_total_response_bytes p) \<and>
     between 1 100000000 (maximum_total_input_tokens p) \<and>
     between 1 100000000 (maximum_total_output_tokens p) \<and>
     list_all is_identifier (allowed_tools p) \<and>
     between 0 1000 (maximum_tool_calls p) \<and>
     between 0 104857600 (maximum_tool_output_bytes p) \<and>
     between 100 3600000 (deadline_ms p) \<and>
     ModelPricing_valid (pricing p)"

definition coherent_bounds :: "ProjectModelProfileSpec \<Rightarrow> bool" where
  "coherent_bounds p \<longleftrightarrow>
     \<not> maximum_response_bytes p < 6 * maximum_output_bytes p + 4096 \<and>
     distinct (allowed_tools p) \<and>
     sort (allowed_tools p) = allowed_tools p \<and>
     \<not> (allowed_tools p = [] \<and> (maximum_tool_calls p \<noteq> 0 \<or> maximum_tool_output_bytes p \<noteq> 0)) \<and>
     \<not> (allowed_tools p \<noteq> [] \<and> (maximum_tool_calls p = 0 \<or> maximum_tool_output_bytes p = 0)) \<and>
     (let bounded_totals =
        [(maximum_request_bytes p, maximum_total_request_bytes p),
         (maximum_response_bytes p, maximum_total_response_bytes p),
         (maximum_input_tokens p, maximum_total_input_tokens p),
         (maximum_output_tokens p, maximum_total_output_tokens p)]
      in \<not> list_ex (\<lambda>(per_call, total). per_call > total) bounded_totals \<and>
         \<not> list_ex (\<lambda>(per_call, total). total > per_call * maximum_calls p) bounded_totals)"

definition ProjectModelProfileSpec_valid :: "ProjectModelProfileSpec \<Rightarrow> bool" where
  "ProjectModelProfileSpec_valid p \<longleftrightarrow> spec_fields_valid p \<and> coherent_bounds p"

definition input_rate :: "ProjectModelProfileSpec \<Rightarrow> int" where
  "input_rate p = max (uncached_input_nanodollars_per_token (pricing p))
                      (cached_input_nanodollars_per_token (pricing p))"

definition maximum_reservation_nanodollars :: "ProjectModelProfileSpec \<Rightarrow> model_error + int" where
  "maximum_reservation_nanodollars p =
     (let value = maximum_total_input_tokens p * input_rate p
                + maximum_total_output_tokens p * output_nanodollars_per_token (pricing p)
      in if value \<le> 0 \<or> value > 9000000000000000000
         then Inl (InvalidValue ''model profile reservation is outside the supported range'')
         else Inr value)"

definition maximum_dispatch_reservation_nanodollars ::
    "ProjectModelProfileSpec \<Rightarrow> model_error + int" where
  "maximum_dispatch_reservation_nanodollars p =
     (let value = maximum_input_tokens p * input_rate p
                + maximum_output_tokens p * output_nanodollars_per_token (pricing p)
      in if value \<le> 0 then Inl (InvalidValue ''model dispatch reservation is outside the run envelope'')
         else andthen (maximum_reservation_nanodollars p) (\<lambda>run.
           if value > run
           then Inl (InvalidValue ''model dispatch reservation is outside the run envelope'')
           else Inr value))"

definition ModelGenerationSettings_dump :: "ModelGenerationSettings \<Rightarrow> json" where
  "ModelGenerationSettings_dump s = jobj
     [(''reasoning_effort'', jstr (reasoning_effort s)), (''text_verbosity'', jstr (text_verbosity s))]"

definition ModelPricing_dump :: "ModelPricing \<Rightarrow> json" where
  "ModelPricing_dump p = jobj
     [(''pricing_policy_id'', juuid (pricing_policy_id p)),
      (''pricing_policy_version'', JInt (pricing_policy_version p)),
      (''pricing_policy_digest'', jstr (pricing_policy_digest p)),
      (''uncached_input_nanodollars_per_token'', JInt (uncached_input_nanodollars_per_token p)),
      (''cached_input_nanodollars_per_token'', JInt (cached_input_nanodollars_per_token p)),
      (''output_nanodollars_per_token'', JInt (output_nanodollars_per_token p))]"

definition ProjectModelProfileSpec_dump :: "ProjectModelProfileSpec \<Rightarrow> json" where
  "ProjectModelProfileSpec_dump p = jobj
     [(''project_id'', juuid (spec_project_id p)),
      (''profile_version'', JInt (spec_profile_version p)),
      (''provider'', jstr (provider p)), (''api'', jstr (api p)),
      (''model_snapshot'', jstr (model_snapshot p)),
      (''settings'', ModelGenerationSettings_dump (settings p)),
      (''maximum_request_bytes'', JInt (maximum_request_bytes p)),
      (''maximum_output_bytes'', JInt (maximum_output_bytes p)),
      (''maximum_response_bytes'', JInt (maximum_response_bytes p)),
      (''maximum_input_tokens'', JInt (maximum_input_tokens p)),
      (''maximum_output_tokens'', JInt (maximum_output_tokens p)),
      (''maximum_calls'', JInt (maximum_calls p)),
      (''maximum_total_request_bytes'', JInt (maximum_total_request_bytes p)),
      (''maximum_total_response_bytes'', JInt (maximum_total_response_bytes p)),
      (''maximum_total_input_tokens'', JInt (maximum_total_input_tokens p)),
      (''maximum_total_output_tokens'', JInt (maximum_total_output_tokens p)),
      (''allowed_tools'', JArr (map jstr (allowed_tools p))),
      (''maximum_tool_calls'', JInt (maximum_tool_calls p)),
      (''maximum_tool_output_bytes'', JInt (maximum_tool_output_bytes p)),
      (''deadline_ms'', JInt (deadline_ms p)),
      (''pricing'', ModelPricing_dump (pricing p))]"

record ModelProfileProvisioningFacts =
  pf_operation_id :: uuid
  pf_actor_profile_id :: uuid
  pf_spec :: ProjectModelProfileSpec
  pf_profile_digest :: string

definition ModelProfileProvisioningFacts_valid ::
    "codec \<Rightarrow> 'a ModelProfileProvisioningFacts_scheme \<Rightarrow> bool" where
  "ModelProfileProvisioningFacts_valid cd f \<longleftrightarrow>
     ProjectModelProfileSpec_valid (pf_spec f) \<and> is_sha256 (pf_profile_digest f) \<and>
     pf_profile_digest f
       = json_digest (sha256_hex cd) (ProjectModelProfileSpec_dump (pf_spec f))"

definition ModelProfileProvisioningFacts_dump :: "ModelProfileProvisioningFacts \<Rightarrow> json" where
  "ModelProfileProvisioningFacts_dump f = jobj
     [(''operation_id'', juuid (pf_operation_id f)),
      (''actor_profile_id'', juuid (pf_actor_profile_id f)),
      (''spec'', ProjectModelProfileSpec_dump (pf_spec f)),
      (''profile_digest'', jstr (pf_profile_digest f))]"

record ProjectModelProfile = ModelProfileProvisioningFacts +
  pm_profile_id :: uuid
  pm_authorization_evidence_id :: uuid
  pm_created_at :: instant

definition ProjectModelProfile_valid :: "codec \<Rightarrow> ProjectModelProfile \<Rightarrow> bool" where
  "ProjectModelProfile_valid cd p \<longleftrightarrow>
     ModelProfileProvisioningFacts_valid cd p \<and> require_uuid7 (pm_profile_id p)"

definition selector :: "ProjectModelProfile \<Rightarrow> ModelProfileSelector" where
  "selector p = \<lparr> ms_profile_id = pm_profile_id p,
                  ms_profile_version = spec_profile_version (pf_spec p),
                  ms_profile_digest = pf_profile_digest p \<rparr>"

subsection \<open>Budgets\<close>

record ProjectModelBudgetConfigurationSpec =
  bs_project_id :: uuid
  bs_configuration_version :: int
  bs_authorized_total_nanodollars :: int
  bs_externally_reconciled_prior_spend_nanodollars :: int
  bs_lifetime_limit_nanodollars :: int

definition ProjectModelBudgetConfigurationSpec_valid ::
    "ProjectModelBudgetConfigurationSpec \<Rightarrow> bool" where
  "ProjectModelBudgetConfigurationSpec_valid b \<longleftrightarrow>
     1 \<le> bs_configuration_version b \<and>
     is_nanodollars (bs_authorized_total_nanodollars b) \<and>
     is_nanodollars (bs_externally_reconciled_prior_spend_nanodollars b) \<and>
     is_nanodollars (bs_lifetime_limit_nanodollars b) \<and>
     \<not> bs_lifetime_limit_nanodollars b \<le> 0 \<and>
     \<not> bs_authorized_total_nanodollars b \<le> 0 \<and>
     \<not> bs_externally_reconciled_prior_spend_nanodollars b + bs_lifetime_limit_nanodollars b
         > bs_authorized_total_nanodollars b"

definition ProjectModelBudgetConfigurationSpec_dump ::
    "ProjectModelBudgetConfigurationSpec \<Rightarrow> json" where
  "ProjectModelBudgetConfigurationSpec_dump b = jobj
     [(''project_id'', juuid (bs_project_id b)),
      (''configuration_version'', JInt (bs_configuration_version b)),
      (''authorized_total_nanodollars'', JInt (bs_authorized_total_nanodollars b)),
      (''externally_reconciled_prior_spend_nanodollars'',
         JInt (bs_externally_reconciled_prior_spend_nanodollars b)),
      (''lifetime_limit_nanodollars'', JInt (bs_lifetime_limit_nanodollars b))]"

record ModelBudgetProvisioningFacts =
  bf_operation_id :: uuid
  bf_actor_profile_id :: uuid
  bf_spec :: ProjectModelBudgetConfigurationSpec
  bf_configuration_digest :: string

definition ModelBudgetProvisioningFacts_valid ::
    "codec \<Rightarrow> 'a ModelBudgetProvisioningFacts_scheme \<Rightarrow> bool" where
  "ModelBudgetProvisioningFacts_valid cd f \<longleftrightarrow>
     ProjectModelBudgetConfigurationSpec_valid (bf_spec f) \<and>
     is_sha256 (bf_configuration_digest f) \<and>
     bf_configuration_digest f
       = json_digest (sha256_hex cd) (ProjectModelBudgetConfigurationSpec_dump (bf_spec f))"

definition ModelBudgetProvisioningFacts_dump :: "ModelBudgetProvisioningFacts \<Rightarrow> json" where
  "ModelBudgetProvisioningFacts_dump f = jobj
     [(''operation_id'', juuid (bf_operation_id f)),
      (''actor_profile_id'', juuid (bf_actor_profile_id f)),
      (''spec'', ProjectModelBudgetConfigurationSpec_dump (bf_spec f)),
      (''configuration_digest'', jstr (bf_configuration_digest f))]"

record ProjectModelBudgetConfiguration = ModelBudgetProvisioningFacts +
  bc_configuration_id :: uuid
  bc_authorization_evidence_id :: uuid
  bc_created_at :: instant
  bc_lifetime_reserved_nanodollars :: int
  bc_lifetime_settled_nanodollars :: int

definition ProjectModelBudgetConfiguration_valid ::
    "codec \<Rightarrow> ProjectModelBudgetConfiguration \<Rightarrow> bool" where
  "ProjectModelBudgetConfiguration_valid cd c \<longleftrightarrow>
     ModelBudgetProvisioningFacts_valid cd c \<and>
     is_nanodollars (bc_lifetime_reserved_nanodollars c) \<and>
     is_nanodollars (bc_lifetime_settled_nanodollars c) \<and>
     require_uuid7 (bc_configuration_id c)"

record ModelUsageInspectionFacts =
  if_project_id :: uuid
  if_effect_id :: uuid
  if_actor_profile_id :: uuid
  if_request_id :: uuid

definition ModelUsageInspectionFacts_dump :: "ModelUsageInspectionFacts \<Rightarrow> json" where
  "ModelUsageInspectionFacts_dump f = jobj
     [(''project_id'', juuid (if_project_id f)), (''effect_id'', juuid (if_effect_id f)),
      (''actor_profile_id'', juuid (if_actor_profile_id f)),
      (''request_id'', juuid (if_request_id f))]"

subsection \<open>Paid slots\<close>

record ModelPaidSlotKey =
  pk_project_id :: uuid
  pk_assignment_id :: uuid
  pk_submission_id :: uuid
  pk_submission_version :: int
  pk_requirement_id :: string
  pk_registry_entry_digest :: string
  pk_configuration_sha256 :: string
  pk_profile_id :: uuid
  pk_profile_version :: int
  pk_profile_digest :: string
  pk_slot_index :: int

definition ModelPaidSlotKey_valid :: "ModelPaidSlotKey \<Rightarrow> bool" where
  "ModelPaidSlotKey_valid k \<longleftrightarrow>
     1 \<le> pk_submission_version k \<and> is_identifier (pk_requirement_id k) \<and>
     is_sha256 (pk_registry_entry_digest k) \<and> is_sha256 (pk_configuration_sha256 k) \<and>
     1 \<le> pk_profile_version k \<and> is_sha256 (pk_profile_digest k) \<and>
     between 0 99 (pk_slot_index k) \<and> require_uuid7 (pk_profile_id k)"

definition envelope_members :: "ModelPaidSlotKey \<Rightarrow> (string \<times> json) list" where
  "envelope_members k =
     [(''project_id'', juuid (pk_project_id k)), (''assignment_id'', juuid (pk_assignment_id k)),
      (''submission_id'', juuid (pk_submission_id k)),
      (''submission_version'', JInt (pk_submission_version k)),
      (''requirement_id'', jstr (pk_requirement_id k)),
      (''registry_entry_digest'', jstr (pk_registry_entry_digest k)),
      (''configuration_sha256'', jstr (pk_configuration_sha256 k)),
      (''profile_id'', juuid (pk_profile_id k)),
      (''profile_version'', JInt (pk_profile_version k)),
      (''profile_digest'', jstr (pk_profile_digest k))]"

definition ModelPaidSlotKey_dump :: "ModelPaidSlotKey \<Rightarrow> json" where
  "ModelPaidSlotKey_dump k = jobj (envelope_members k @ [(''slot_index'', JInt (pk_slot_index k))])"

definition slot_digest :: "codec \<Rightarrow> ModelPaidSlotKey \<Rightarrow> string" where
  "slot_digest cd k = json_digest (sha256_hex cd) (ModelPaidSlotKey_dump k)"

definition envelope_digest :: "codec \<Rightarrow> ModelPaidSlotKey \<Rightarrow> string" where
  "envelope_digest cd k = json_digest (sha256_hex cd) (jobj (envelope_members k))"

record SetupModelUsageSlotKey =
  sk_compilation_attempt_id :: uuid
  sk_project_id :: uuid
  sk_guide_id :: uuid
  sk_source_snapshot_id :: uuid
  sk_setup_run_id :: uuid
  sk_setup_generation :: int
  sk_runtime_configuration_hash :: string
  sk_profile_id :: uuid
  sk_profile_version :: int
  sk_profile_digest :: string
  sk_phase :: string
  sk_call_index :: int

definition SetupModelUsageSlotKey_valid :: "SetupModelUsageSlotKey \<Rightarrow> bool" where
  "SetupModelUsageSlotKey_valid k \<longleftrightarrow>
     1 \<le> sk_setup_generation k \<and> is_sha256 (sk_runtime_configuration_hash k) \<and>
     1 \<le> sk_profile_version k \<and> is_sha256 (sk_profile_digest k) \<and>
     sk_phase k \<in> {''draft'', ''review'', ''correction''} \<and> between 0 99 (sk_call_index k) \<and>
     require_uuid7 (sk_compilation_attempt_id k) \<and> require_uuid7 (sk_setup_run_id k) \<and>
     require_uuid7 (sk_profile_id k)"

definition setup_envelope_members :: "SetupModelUsageSlotKey \<Rightarrow> (string \<times> json) list" where
  "setup_envelope_members k =
     [(''compilation_attempt_id'', juuid (sk_compilation_attempt_id k)),
      (''project_id'', juuid (sk_project_id k)), (''guide_id'', juuid (sk_guide_id k)),
      (''source_snapshot_id'', juuid (sk_source_snapshot_id k)),
      (''setup_run_id'', juuid (sk_setup_run_id k)),
      (''setup_generation'', JInt (sk_setup_generation k)),
      (''runtime_configuration_hash'', jstr (sk_runtime_configuration_hash k)),
      (''profile_id'', juuid (sk_profile_id k)),
      (''profile_version'', JInt (sk_profile_version k)),
      (''profile_digest'', jstr (sk_profile_digest k))]"

definition SetupModelUsageSlotKey_dump :: "SetupModelUsageSlotKey \<Rightarrow> json" where
  "SetupModelUsageSlotKey_dump k = jobj (setup_envelope_members k @
     [(''phase'', jstr (sk_phase k)), (''call_index'', JInt (sk_call_index k))])"

definition setup_slot_digest :: "codec \<Rightarrow> SetupModelUsageSlotKey \<Rightarrow> string" where
  "setup_slot_digest cd k = json_digest (sha256_hex cd) (SetupModelUsageSlotKey_dump k)"

definition setup_envelope_digest :: "codec \<Rightarrow> SetupModelUsageSlotKey \<Rightarrow> string" where
  "setup_envelope_digest cd k =
     json_digest (sha256_hex cd) (jobj (setup_envelope_members k))"

subsection \<open>Dumps can be hashed\<close>

lemma ModelGenerationSettings_dump_ok [simp]: "json_ok (ModelGenerationSettings_dump x)"
  by (simp add: ModelGenerationSettings_dump_def split: option.split)

lemma ModelPricing_dump_ok [simp]: "json_ok (ModelPricing_dump x)"
  by (simp add: ModelPricing_dump_def split: option.split)

lemma ProjectModelProfileSpec_dump_ok [simp]: "json_ok (ProjectModelProfileSpec_dump x)"
  by (simp add: ProjectModelProfileSpec_dump_def list_all_iff split: option.split)

lemma ModelProfileProvisioningFacts_dump_ok [simp]: "json_ok (ModelProfileProvisioningFacts_dump x)"
  by (simp add: ModelProfileProvisioningFacts_dump_def split: option.split)

lemma ProjectModelBudgetConfigurationSpec_dump_ok [simp]: "json_ok (ProjectModelBudgetConfigurationSpec_dump x)"
  by (simp add: ProjectModelBudgetConfigurationSpec_dump_def split: option.split)

lemma ModelBudgetProvisioningFacts_dump_ok [simp]: "json_ok (ModelBudgetProvisioningFacts_dump x)"
  by (simp add: ModelBudgetProvisioningFacts_dump_def split: option.split)

lemma ModelUsageInspectionFacts_dump_ok [simp]: "json_ok (ModelUsageInspectionFacts_dump x)"
  by (simp add: ModelUsageInspectionFacts_dump_def split: option.split)

lemma ModelPaidSlotKey_dump_ok [simp]: "json_ok (ModelPaidSlotKey_dump x)"
  by (simp add: ModelPaidSlotKey_dump_def envelope_members_def setup_envelope_members_def split: option.split)

lemma SetupModelUsageSlotKey_dump_ok [simp]: "json_ok (SetupModelUsageSlotKey_dump x)"
  by (simp add: SetupModelUsageSlotKey_dump_def envelope_members_def setup_envelope_members_def split: option.split)

end
