(* ===== verification/Instants.thy ===== *)
theory Instants
  imports Canonical_Json
begin

text \<open>
  UTC instants and their text. An instant is a number of microseconds since the Unix epoch, which
  is the resolution of \<open>datetime\<close> and of \<open>timestamptz\<close>; the components render instants either with
  \<open>datetime.isoformat()\<close> or with a format of their own built on the same calendar.
\<close>

text \<open>
  Instants are microseconds since the Unix epoch in UTC. \<open>civil\<close> is the proleptic Gregorian
  date of a day number, as \<open>datetime.astimezone(UTC)\<close> computes it; months are counted from
  March so that the leap day closes a cycle.
\<close>

definition civil :: "int \<Rightarrow> int \<times> int \<times> int" where
  "civil days =
     (let z = days + 719468;
          era = z div 146097;
          doe = z mod 146097;
          yoe = (doe - doe div 1460 + doe div 36524 - doe div 146096) div 365;
          doy = doe - (365 * yoe + yoe div 4 - yoe div 100);
          mp = (5 * doy + 2) div 153;
          d = doy - (153 * mp + 2) div 5 + 1;
          m = (if mp < 10 then mp + 3 else mp - 9);
          y = yoe + era * 400 + (if m \<le> 2 then 1 else 0)
      in (y, m, d))"

definition pad_text :: "nat \<Rightarrow> int \<Rightarrow> string" where
  "pad_text w n = (let s = nat_text (nat n) in replicate (w - length s) (CHR ''0'') @ s)"

text \<open>\<open>datetime.isoformat()\<close> of an aware datetime in UTC.\<close>

definition isoformat :: "instant \<Rightarrow> string" where
  "isoformat t =
     (let rem = t mod 86400000000;
          seconds = rem div 1000000;
          microsecond = rem mod 1000000;
          (y, m, d) = civil (t div 86400000000)
      in pad_text 4 y @ ''-'' @ pad_text 2 m @ ''-'' @ pad_text 2 d @ ''T'' @
         pad_text 2 (seconds div 3600) @ '':'' @ pad_text 2 (seconds mod 3600 div 60) @ '':'' @
         pad_text 2 (seconds mod 60) @
         (if microsecond \<noteq> 0 then ''.'' @ pad_text 6 microsecond else []) @ ''+00:00'')"

text \<open>\<open>timedelta(seconds=n)\<close>\<close>

definition timedelta_seconds :: "int \<Rightarrow> instant" where
  "timedelta_seconds n = n * 1000000"

end
