(* ===== verification/Model_Usage_Calls.thy ===== *)
theory Model_Usage_Calls
  imports Model_Usage_Values Instants
begin

text \<open>
  The call-level half of \<open>model_usage/api.py\<close>: execution facts, private evidence identities,
  attempts, reservations and terminal results, the exact integer pricing rule
  \<open>model_usage_cost\<close>, the terminal digests and the action digest that binds an authority
  decision to its facts.
\<close>

datatype effect_state = Prepared | Dispatching | Uncertain | Completed | Known_failed | Known_no_effect

primrec state_text :: "effect_state \<Rightarrow> string" where
  "state_text Prepared = ''prepared''"
| "state_text Dispatching = ''dispatching''"
| "state_text Uncertain = ''uncertain''"
| "state_text Completed = ''completed''"
| "state_text Known_failed = ''known_failed''"
| "state_text Known_no_effect = ''known_no_effect''"

subsection \<open>Execution, evidence and effect identities\<close>

record ModelCallExecutionFacts =
  ex_project_id :: uuid
  ex_task_id :: uuid
  ex_assignment_id :: uuid
  ex_submission_id :: uuid
  ex_submission_version :: int
  ex_evaluation_request_id :: uuid
  ex_evaluation_generation :: int
  ex_checker_run_id :: uuid
  ex_worker_lease_id :: uuid
  ex_worker_lease_generation :: int
  ex_worker_lease_expires_at :: instant

definition ModelCallExecutionFacts_valid :: "ModelCallExecutionFacts \<Rightarrow> bool" where
  "ModelCallExecutionFacts_valid x \<longleftrightarrow>
     1 \<le> ex_submission_version x \<and> 1 \<le> ex_evaluation_generation x \<and>
     1 \<le> ex_worker_lease_generation x"

definition ModelCallExecutionFacts_dump :: "codec \<Rightarrow> ModelCallExecutionFacts \<Rightarrow> json" where
  "ModelCallExecutionFacts_dump cd x = jobj
     [(''project_id'', juuid (ex_project_id x)), (''task_id'', juuid (ex_task_id x)),
      (''assignment_id'', juuid (ex_assignment_id x)),
      (''submission_id'', juuid (ex_submission_id x)),
      (''submission_version'', JInt (ex_submission_version x)),
      (''evaluation_request_id'', juuid (ex_evaluation_request_id x)),
      (''evaluation_generation'', JInt (ex_evaluation_generation x)),
      (''checker_run_id'', juuid (ex_checker_run_id x)),
      (''worker_lease_id'', juuid (ex_worker_lease_id x)),
      (''worker_lease_generation'', JInt (ex_worker_lease_generation x)),
      (''worker_lease_expires_at'', jstr (datetime_json cd (ex_worker_lease_expires_at x)))]"

record ModelCallEvidence =
  ev_binding_id :: uuid
  ev_content_id :: uuid
  ev_put_attempt_id :: uuid
  ev_verification_receipt_id :: uuid
  ev_content_sha256 :: string
  ev_byte_count :: int

text \<open>\<open>media_type\<close> is the constant \<open>application/json\<close> of its one-value literal.\<close>

definition ModelCallEvidence_valid :: "ModelCallEvidence \<Rightarrow> bool" where
  "ModelCallEvidence_valid e \<longleftrightarrow> is_sha256 (ev_content_sha256 e) \<and> between 1 1048576 (ev_byte_count e)"

definition ModelCallEvidence_dump :: "ModelCallEvidence \<Rightarrow> json" where
  "ModelCallEvidence_dump e = jobj
     [(''binding_id'', juuid (ev_binding_id e)), (''content_id'', juuid (ev_content_id e)),
      (''put_attempt_id'', juuid (ev_put_attempt_id e)),
      (''verification_receipt_id'', juuid (ev_verification_receipt_id e)),
      (''content_sha256'', jstr (ev_content_sha256 e)),
      (''byte_count'', JInt (ev_byte_count e)), (''media_type'', jstr ''application/json'')]"

record ModelCallEffectAuthorityFacts =
  ea_project_id :: uuid
  ea_task_id :: uuid
  ea_slot_id :: uuid
  ea_slot_key :: ModelPaidSlotKey
  ea_attempt_id :: uuid
  ea_internal_call_request_id :: uuid

definition ModelCallEffectAuthorityFacts_dump :: "ModelCallEffectAuthorityFacts \<Rightarrow> json" where
  "ModelCallEffectAuthorityFacts_dump e = jobj
     [(''project_id'', juuid (ea_project_id e)), (''task_id'', juuid (ea_task_id e)),
      (''slot_id'', juuid (ea_slot_id e)), (''slot_key'', ModelPaidSlotKey_dump (ea_slot_key e)),
      (''attempt_id'', juuid (ea_attempt_id e)),
      (''internal_call_request_id'', juuid (ea_internal_call_request_id e))]"

record AttachedModelCallAttempt =
  at_slot_id :: uuid
  at_slot_key :: ModelPaidSlotKey
  at_attempt_id :: uuid
  at_attempt_number :: int
  at_internal_call_request_id :: uuid
  at_request_sha256 :: string
  at_state :: effect_state
  at_replayed :: bool

definition AttachedModelCallAttempt_valid :: "AttachedModelCallAttempt \<Rightarrow> bool" where
  "AttachedModelCallAttempt_valid a \<longleftrightarrow>
     ModelPaidSlotKey_valid (at_slot_key a) \<and> 1 \<le> at_attempt_number a \<and>
     is_sha256 (at_request_sha256 a)"

text \<open>\<open>PreparedModelCallAttempt\<close> narrows the state of the same fields to one literal.\<close>

definition PreparedModelCallAttempt_valid :: "AttachedModelCallAttempt \<Rightarrow> bool" where
  "PreparedModelCallAttempt_valid a \<longleftrightarrow> AttachedModelCallAttempt_valid a \<and> at_state a = Prepared"

definition AttachedModelCallAttempt_dump :: "AttachedModelCallAttempt \<Rightarrow> json" where
  "AttachedModelCallAttempt_dump a = jobj
     [(''slot_id'', juuid (at_slot_id a)), (''slot_key'', ModelPaidSlotKey_dump (at_slot_key a)),
      (''attempt_id'', juuid (at_attempt_id a)),
      (''attempt_number'', JInt (at_attempt_number a)),
      (''internal_call_request_id'', juuid (at_internal_call_request_id a)),
      (''request_sha256'', jstr (at_request_sha256 a)),
      (''state'', jstr (state_text (at_state a))), (''replayed'', JBool (at_replayed a))]"

record ModelCallUsage =
  us_input_tokens :: int
  us_cached_input_tokens :: int
  us_output_tokens :: int
  us_reasoning_tokens :: int

definition ModelCallUsage_valid :: "ModelCallUsage \<Rightarrow> bool" where
  "ModelCallUsage_valid u \<longleftrightarrow>
     0 \<le> us_input_tokens u \<and> 0 \<le> us_cached_input_tokens u \<and>
     0 \<le> us_output_tokens u \<and> 0 \<le> us_reasoning_tokens u \<and>
     \<not> (us_cached_input_tokens u > us_input_tokens u \<or> us_reasoning_tokens u > us_output_tokens u)"

definition ModelCallUsage_dump :: "ModelCallUsage \<Rightarrow> json" where
  "ModelCallUsage_dump u = jobj
     [(''input_tokens'', JInt (us_input_tokens u)),
      (''cached_input_tokens'', JInt (us_cached_input_tokens u)),
      (''output_tokens'', JInt (us_output_tokens u)),
      (''reasoning_tokens'', JInt (us_reasoning_tokens u))]"

subsection \<open>Reservations and terminal results\<close>

record ModelDispatchReservation =
  dr_slot_id :: uuid
  dr_attempt_id :: uuid
  dr_attempt_number :: int
  dr_internal_call_request_id :: uuid
  dr_effect :: ModelCallEffectAuthorityFacts
  dr_request_sha256 :: string
  dr_request_evidence :: ModelCallEvidence
  dr_budget_configuration_id :: uuid
  dr_budget_configuration_version :: int
  dr_budget_configuration_digest :: string
  dr_reserved_nanodollars :: int
  dr_state :: effect_state
  dr_provider_response_id :: "string option"
  dr_response_evidence :: "ModelCallEvidence option"
  dr_replayed :: bool

record ModelCallRecoveryAttachment =
  ra_slot_id :: uuid
  ra_attempt_id :: uuid
  ra_attempt_number :: int
  ra_internal_call_request_id :: uuid
  ra_provider_response_id :: string
  ra_state :: effect_state
  ra_replayed :: bool

text \<open>\<open>CompletedModelCall\<close> and \<open>KnownFailedModelCall\<close> have the same fields.\<close>

record TerminalModelCall =
  tc_slot_id :: uuid
  tc_attempt_id :: uuid
  tc_attempt_number :: int
  tc_internal_call_request_id :: uuid
  tc_provider_response_id :: string
  tc_request_evidence :: ModelCallEvidence
  tc_response_evidence :: ModelCallEvidence
  tc_usage :: ModelCallUsage
  tc_settled_nanodollars :: int
  tc_completed_at :: instant
  tc_replayed :: bool

record KnownNoEffectProof =
  np_proof_id :: uuid
  np_proof_digest :: string
  np_observed_at :: instant

definition KnownNoEffectProof_valid :: "KnownNoEffectProof \<Rightarrow> bool" where
  "KnownNoEffectProof_valid p \<longleftrightarrow> is_sha256 (np_proof_digest p)"

record ModelActionEvidence =
  ae_evidence_id :: uuid
  ae_facts_digest :: string

subsection \<open>Setup-owned effects\<close>

record PreparedSetupModelUsageEffect =
  ps_envelope_id :: uuid
  ps_slot_id :: uuid
  ps_slot_key :: SetupModelUsageSlotKey
  ps_effect_id :: uuid
  ps_attempt_number :: int
  ps_internal_call_request_id :: uuid
  ps_request_sha256 :: string
  ps_replayed :: bool

definition PreparedSetupModelUsageEffect_valid :: "PreparedSetupModelUsageEffect \<Rightarrow> bool" where
  "PreparedSetupModelUsageEffect_valid p \<longleftrightarrow>
     SetupModelUsageSlotKey_valid (ps_slot_key p) \<and> 1 \<le> ps_attempt_number p \<and>
     is_sha256 (ps_request_sha256 p)"

definition PreparedSetupModelUsageEffect_dump :: "PreparedSetupModelUsageEffect \<Rightarrow> json" where
  "PreparedSetupModelUsageEffect_dump p = jobj
     [(''envelope_id'', juuid (ps_envelope_id p)), (''slot_id'', juuid (ps_slot_id p)),
      (''slot_key'', SetupModelUsageSlotKey_dump (ps_slot_key p)),
      (''effect_id'', juuid (ps_effect_id p)), (''attempt_number'', JInt (ps_attempt_number p)),
      (''internal_call_request_id'', juuid (ps_internal_call_request_id p)),
      (''request_sha256'', jstr (ps_request_sha256 p)), (''state'', jstr ''prepared''),
      (''replayed'', JBool (ps_replayed p))]"

record SetupModelEffectAuthorityFacts =
  se_project_id :: uuid
  se_slot_id :: uuid
  se_slot_key :: SetupModelUsageSlotKey
  se_effect_id :: uuid
  se_internal_call_request_id :: uuid

definition SetupModelEffectAuthorityFacts_dump :: "SetupModelEffectAuthorityFacts \<Rightarrow> json" where
  "SetupModelEffectAuthorityFacts_dump e = jobj
     [(''project_id'', juuid (se_project_id e)), (''slot_id'', juuid (se_slot_id e)),
      (''slot_key'', SetupModelUsageSlotKey_dump (se_slot_key e)),
      (''effect_id'', juuid (se_effect_id e)),
      (''internal_call_request_id'', juuid (se_internal_call_request_id e))]"

record SetupModelDispatchReservation =
  sd_envelope_id :: uuid
  sd_slot_id :: uuid
  sd_slot_key :: SetupModelUsageSlotKey
  sd_effect_id :: uuid
  sd_attempt_number :: int
  sd_internal_call_request_id :: uuid
  sd_effect :: SetupModelEffectAuthorityFacts
  sd_request_sha256 :: string
  sd_request_evidence :: ModelCallEvidence
  sd_budget_configuration_id :: uuid
  sd_budget_configuration_version :: int
  sd_budget_configuration_digest :: string
  sd_reserved_nanodollars :: int
  sd_replayed :: bool

definition setup_exact_effect :: "SetupModelDispatchReservation \<Rightarrow> bool" where
  "setup_exact_effect r \<longleftrightarrow>
     \<not> (se_project_id (sd_effect r) \<noteq> sk_project_id (sd_slot_key r)
      \<or> se_slot_id (sd_effect r) \<noteq> sd_slot_id r
      \<or> se_slot_key (sd_effect r) \<noteq> sd_slot_key r
      \<or> se_effect_id (sd_effect r) \<noteq> sd_effect_id r
      \<or> se_internal_call_request_id (sd_effect r) \<noteq> sd_internal_call_request_id r)"

record ObservedSetupModelUsageEffect =
  os_effect :: SetupModelEffectAuthorityFacts
  os_uncertainty_digest :: string
  os_provider_response_id :: "string option"
  os_replayed :: bool

record SetupModelOwnerProfile =
  op_selector :: ModelProfileSelector
  op_provider :: string
  op_api :: string
  op_model_snapshot :: string

record CompletedSetupModelUsageEffect =
  cs_effect :: SetupModelEffectAuthorityFacts
  cs_provider_response_id :: string
  cs_request_evidence :: ModelCallEvidence
  cs_response_evidence :: ModelCallEvidence
  cs_usage :: ModelCallUsage
  cs_settled_nanodollars :: int
  cs_completed_at :: instant
  cs_state :: effect_state
  cs_replayed :: bool

record KnownNoEffectSetupModelUsageEffect =
  ns_effect :: SetupModelEffectAuthorityFacts
  ns_proof :: KnownNoEffectProof
  ns_replayed :: bool

subsection \<open>Instants and digests\<close>

definition rstrip_zeros :: "string \<Rightarrow> string" where
  "rstrip_zeros s = rev (dropWhile (\<lambda>c. c = CHR ''0'') (rev s))"

definition model_usage_instant :: "instant \<Rightarrow> string" where
  "model_usage_instant t =
     (let days = t div 86400000000;
          rem = t mod 86400000000;
          seconds = rem div 1000000;
          microsecond = rem mod 1000000;
          (y, m, d) = civil days;
          rendered = int_text y @ ''-'' @ pad_text 2 m @ ''-'' @ pad_text 2 d @ ''T'' @
                     pad_text 2 (seconds div 3600) @ '':'' @
                     pad_text 2 (seconds mod 3600 div 60) @ '':'' @ pad_text 2 (seconds mod 60)
      in rendered @
         (if microsecond \<noteq> 0 then ''.'' @ rstrip_zeros (pad_text 6 microsecond) else []) @
         ''+00:00'')"

text \<open>The facts of a retry-eligible terminal, in the two shapes of \<open>model_retry_terminal_digest\<close>.\<close>

definition no_effect_facts :: "uuid \<Rightarrow> string \<Rightarrow> instant \<Rightarrow> json" where
  "no_effect_facts proof_id proof_digest observed_at = jobj
     [(''state'', jstr ''known_no_effect''), (''proof_id'', juuid proof_id),
      (''proof_digest'', jstr proof_digest),
      (''observed_at'', jstr (model_usage_instant observed_at))]"

definition known_failed_facts :: "string \<Rightarrow> string \<Rightarrow> ModelCallUsage \<Rightarrow> int \<Rightarrow> json" where
  "known_failed_facts provider_response_id response_content_sha256 usage settled = jobj
     [(''state'', jstr ''known_failed''), (''provider_response_id'', jstr provider_response_id),
      (''response_content_sha256'', jstr response_content_sha256),
      (''usage'', ModelCallUsage_dump usage), (''settled_nanodollars'', JInt settled)]"

datatype retry_terminal = FailedTerminal TerminalModelCall | NoEffectTerminal KnownNoEffectProof

fun model_retry_terminal_digest :: "codec \<Rightarrow> retry_terminal \<Rightarrow> string" where
  "model_retry_terminal_digest cd (NoEffectTerminal p) =
     json_digest (sha256_hex cd)
       (no_effect_facts (np_proof_id p) (np_proof_digest p) (np_observed_at p))"
| "model_retry_terminal_digest cd (FailedTerminal t) =
     json_digest (sha256_hex cd)
       (known_failed_facts (tc_provider_response_id t) (ev_content_sha256 (tc_response_evidence t))
          (tc_usage t) (tc_settled_nanodollars t))"

definition model_action_digest :: "codec \<Rightarrow> string \<Rightarrow> json \<Rightarrow> string" where
  "model_action_digest cd action facts =
     json_digest (sha256_hex cd) (jobj [(''action'', jstr action), (''facts'', facts)])"

lemma ModelCallExecutionFacts_dump_ok [simp]: "json_ok (ModelCallExecutionFacts_dump cd x)"
  by (simp add: ModelCallExecutionFacts_dump_def split: option.split)

lemma ModelCallEvidence_dump_ok [simp]: "json_ok (ModelCallEvidence_dump x)"
  by (simp add: ModelCallEvidence_dump_def split: option.split)

lemma ModelCallEffectAuthorityFacts_dump_ok [simp]: "json_ok (ModelCallEffectAuthorityFacts_dump x)"
  by (simp add: ModelCallEffectAuthorityFacts_dump_def split: option.split)

lemma AttachedModelCallAttempt_dump_ok [simp]: "json_ok (AttachedModelCallAttempt_dump x)"
  by (simp add: AttachedModelCallAttempt_dump_def split: option.split)

lemma ModelCallUsage_dump_ok [simp]: "json_ok (ModelCallUsage_dump x)"
  by (simp add: ModelCallUsage_dump_def split: option.split)

lemma PreparedSetupModelUsageEffect_dump_ok [simp]: "json_ok (PreparedSetupModelUsageEffect_dump x)"
  by (simp add: PreparedSetupModelUsageEffect_dump_def split: option.split)

lemma SetupModelEffectAuthorityFacts_dump_ok [simp]: "json_ok (SetupModelEffectAuthorityFacts_dump x)"
  by (simp add: SetupModelEffectAuthorityFacts_dump_def split: option.split)

subsection \<open>Pricing\<close>

definition model_usage_cost :: "ProjectModelProfileSpec \<Rightarrow> ModelCallUsage \<Rightarrow> model_error + int" where
  "model_usage_cost p usage =
     (if \<not> ModelCallUsage_valid usage then Inl (InvalidValue ''model usage'')
      else if us_input_tokens usage > maximum_input_tokens p
            \<or> us_output_tokens usage > maximum_output_tokens p
      then Inl (Conflict ''model usage exceeds the approved profile'')
      else let uncached = us_input_tokens usage - us_cached_input_tokens usage;
               value = uncached * uncached_input_nanodollars_per_token (pricing p)
                     + us_cached_input_tokens usage * cached_input_nanodollars_per_token (pricing p)
                     + us_output_tokens usage * output_nanodollars_per_token (pricing p)
      in if value < 0 then Inl (Conflict ''model usage cost exceeds the approved reservation'')
         else andthen (maximum_reservation_nanodollars p) (\<lambda>run.
           if value > run then Inl (Conflict ''model usage cost exceeds the approved reservation'')
           else Inr value))"

lemma spec_validD:
  assumes "ProjectModelProfileSpec_valid p"
  shows "1 \<le> maximum_input_tokens p" "1 \<le> maximum_output_tokens p" "1 \<le> maximum_calls p"
    "1 \<le> maximum_request_bytes p" "1 \<le> maximum_response_bytes p"
    "maximum_input_tokens p \<le> maximum_total_input_tokens p"
    "maximum_output_tokens p \<le> maximum_total_output_tokens p"
    "maximum_total_input_tokens p \<le> maximum_input_tokens p * maximum_calls p"
    "maximum_total_output_tokens p \<le> maximum_output_tokens p * maximum_calls p"
    "0 \<le> input_rate p" "0 \<le> output_nanodollars_per_token (pricing p)"
    "0 \<le> uncached_input_nanodollars_per_token (pricing p)"
    "0 \<le> cached_input_nanodollars_per_token (pricing p)"
    "0 < input_rate p \<or> 0 < output_nanodollars_per_token (pricing p)"
  using assms
  by (auto simp: ProjectModelProfileSpec_valid_def spec_fields_valid_def coherent_bounds_def
      between_def ModelPricing_valid_def is_nanodollars_def input_rate_def Let_def)

lemma maximum_reservation_eq:
  "maximum_reservation_nanodollars p = Inr run \<Longrightarrow>
   run = maximum_total_input_tokens p * input_rate p
       + maximum_total_output_tokens p * output_nanodollars_per_token (pricing p)"
  by (simp add: maximum_reservation_nanodollars_def Let_def split: if_splits)

lemma dispatch_reservation_eq:
  "maximum_dispatch_reservation_nanodollars p = Inr r \<Longrightarrow>
   r = maximum_input_tokens p * input_rate p
     + maximum_output_tokens p * output_nanodollars_per_token (pricing p)"
  by (auto simp: maximum_dispatch_reservation_nanodollars_def Let_def outcome_inv)

text \<open>
  A profile whose run reservation is representable always has a dispatch reservation: it is
  positive, within the run, and \<open>maximum_calls\<close> of them cover the run.
\<close>

lemma dispatch_reservation_total:
  assumes v: "ProjectModelProfileSpec_valid p"
    and run: "maximum_reservation_nanodollars p = Inr run"
  shows "\<exists>r. maximum_dispatch_reservation_nanodollars p = Inr r \<and> 0 < r \<and> r \<le> run \<and>
             run \<le> r * maximum_calls p"
proof -
  let ?i = "input_rate p" and ?o = "output_nanodollars_per_token (pricing p)"
  let ?r = "maximum_input_tokens p * ?i + maximum_output_tokens p * ?o"
  note d = spec_validD[OF v]
  note run_eq = maximum_reservation_eq[OF run]
  have pos: "0 < ?r"
    using d(1,2,10,11,14) by (smt (verit) mult_nonneg_nonneg mult_pos_pos)
  have le: "?r \<le> run"
    unfolding run_eq using d(6,7,10,11) by (intro add_mono mult_right_mono)
  have "run \<le> (maximum_input_tokens p * maximum_calls p) * ?i
             + (maximum_output_tokens p * maximum_calls p) * ?o"
    unfolding run_eq using d(8,9,10,11) by (intro add_mono mult_right_mono)
  then have "run \<le> ?r * maximum_calls p"
    by (simp add: algebra_simps)
  with pos le run show ?thesis
    by (simp add: maximum_dispatch_reservation_nanodollars_def Let_def)
qed

lemma dispatch_reservation_pos:
  "maximum_dispatch_reservation_nanodollars p = Inr r \<Longrightarrow> 0 < r"
  by (auto simp: maximum_dispatch_reservation_nanodollars_def Let_def outcome_inv)

lemma dispatch_reservation_run:
  "maximum_dispatch_reservation_nanodollars p = Inr r \<Longrightarrow>
   \<exists>run. maximum_reservation_nanodollars p = Inr run \<and> r \<le> run"
  by (auto simp: maximum_dispatch_reservation_nanodollars_def Let_def outcome_inv)

lemma model_usage_cost_tokens:
  "model_usage_cost p u = Inr c \<Longrightarrow>
   ModelCallUsage_valid u \<and> us_input_tokens u \<le> maximum_input_tokens p \<and>
   us_output_tokens u \<le> maximum_output_tokens p"
  by (auto simp: model_usage_cost_def Let_def outcome_inv)

text \<open>
  The priced token classes are disjoint, so their price is at most the input tokens at the
  dearer input rate plus the output tokens at the output rate.
\<close>

lemma priced_classes_le:
  assumes v: "ProjectModelProfileSpec_valid p" and u: "ModelCallUsage_valid u"
    and i: "us_input_tokens u \<le> i" and o: "us_output_tokens u \<le> m"
  defines "c \<equiv> (us_input_tokens u - us_cached_input_tokens u)
                   * uncached_input_nanodollars_per_token (pricing p)
               + us_cached_input_tokens u * cached_input_nanodollars_per_token (pricing p)
               + us_output_tokens u * output_nanodollars_per_token (pricing p)"
  shows "0 \<le> c" "c \<le> i * input_rate p + m * output_nanodollars_per_token (pricing p)"
proof -
  let ?un = "uncached_input_nanodollars_per_token (pricing p)"
  let ?ca = "cached_input_nanodollars_per_token (pricing p)"
  let ?o = "output_nanodollars_per_token (pricing p)"
  let ?f = "us_input_tokens u - us_cached_input_tokens u"
  note d = spec_validD[OF v]
  have u': "0 \<le> ?f" "0 \<le> us_cached_input_tokens u" "0 \<le> us_output_tokens u"
    using u by (auto simp: ModelCallUsage_valid_def)
  then show "0 \<le> c"
    using d(11-13) by (simp add: c_def)
  have "?f * ?un \<le> ?f * input_rate p"
    using u' by (intro mult_left_mono) (auto simp: input_rate_def)
  moreover have "us_cached_input_tokens u * ?ca \<le> us_cached_input_tokens u * input_rate p"
    using u' by (intro mult_left_mono) (auto simp: input_rate_def)
  moreover have "us_input_tokens u * input_rate p \<le> i * input_rate p"
    using i d(10) by (intro mult_right_mono)
  moreover have "us_output_tokens u * ?o \<le> m * ?o"
    using o d(11) by (intro mult_right_mono)
  moreover have "?f * input_rate p + us_cached_input_tokens u * input_rate p
      = us_input_tokens u * input_rate p"
    by (simp add: algebra_simps)
  ultimately show "c \<le> i * input_rate p + m * ?o"
    unfolding c_def by linarith
qed

text \<open>The price of any admitted usage is bounded by the reservation of a single dispatch.\<close>

lemma model_usage_cost_bound:
  assumes v: "ProjectModelProfileSpec_valid p"
    and r: "maximum_dispatch_reservation_nanodollars p = Inr r"
    and c: "model_usage_cost p u = Inr c"
  shows "0 \<le> c \<and> c \<le> r"
  using priced_classes_le[OF v, of u "maximum_input_tokens p" "maximum_output_tokens p"]
    model_usage_cost_tokens[OF c] dispatch_reservation_eq[OF r] c
  by (auto simp: model_usage_cost_def Let_def outcome_inv)

text \<open>The second guard of the price never fires for a valid profile: pricing is total.\<close>

lemma model_usage_cost_total:
  assumes v: "ProjectModelProfileSpec_valid p"
    and run: "maximum_reservation_nanodollars p = Inr run"
    and u: "ModelCallUsage_valid u" "us_input_tokens u \<le> maximum_input_tokens p"
      "us_output_tokens u \<le> maximum_output_tokens p"
  shows "\<exists>c. model_usage_cost p u = Inr c"
  using priced_classes_le[OF v u(1), of "maximum_total_input_tokens p" "maximum_total_output_tokens p"]
    maximum_reservation_eq[OF run] spec_validD(6,7)[OF v] run u
  by (auto simp: model_usage_cost_def Let_def)

end
