(* ===== verification/Model_Usage_Rows.thy ===== *)
theory Model_Usage_Rows
  imports Model_Usage_Calls
begin

text \<open>
  The tables of \<open>model_usage/models.py\<close>: one record per mapped class, its check constraints,
  unique constraints and the foreign keys between these tables, and the INSERT and UPDATE
  statements a flush issues. A statement that breaks a constraint is an
  \<open>IntegrityViolation\<close>. UUID columns hold the UUID whose text the mapped attribute holds, JSONB
  columns hold the value whose dump they are. Foreign keys into tables of other modules and
  the \<open>created_at\<close> columns nobody reads are left out.
\<close>

definition int4 :: "int \<Rightarrow> bool" where
  "int4 n \<longleftrightarrow> between (- 2147483648) 2147483647 n"

definition int8 :: "int \<Rightarrow> bool" where
  "int8 n \<longleftrightarrow> between (- 9223372036854775808) 9223372036854775807 n"

definition opt_ok :: "('a \<Rightarrow> bool) \<Rightarrow> 'a option \<Rightarrow> bool" where
  "opt_ok P m \<longleftrightarrow> (case m of None \<Rightarrow> True | Some x \<Rightarrow> P x)"

subsection \<open>Profiles\<close>

record ProfileRow =
  pr_id :: uuid
  pr_project_id :: uuid
  pr_profile_version :: int
  pr_profile_digest :: string
  pr_provider :: string
  pr_api :: string
  pr_model_snapshot :: string
  pr_generation_settings :: ModelGenerationSettings
  pr_maximum_request_bytes :: int
  pr_maximum_output_bytes :: int
  pr_maximum_response_bytes :: int
  pr_maximum_input_tokens :: int
  pr_maximum_output_tokens :: int
  pr_maximum_calls :: int
  pr_maximum_total_request_bytes :: int
  pr_maximum_total_response_bytes :: int
  pr_maximum_total_input_tokens :: int
  pr_maximum_total_output_tokens :: int
  pr_allowed_tools :: "string list"
  pr_maximum_tool_calls :: int
  pr_maximum_tool_output_bytes :: int
  pr_deadline_ms :: int
  pr_pricing_policy_id :: uuid
  pr_pricing_policy_version :: int
  pr_pricing_policy_digest :: string
  pr_uncached_input_rate :: int
  pr_cached_input_rate :: int
  pr_output_rate :: int
  pr_operation_id :: uuid
  pr_actor_profile_id :: uuid
  pr_authorization_evidence_id :: uuid
  pr_created_at :: instant

definition profile_check :: "ProfileRow \<Rightarrow> bool" where
  "profile_check r \<longleftrightarrow>
     require_uuid7 (pr_id r) \<and>
     is_sha256 (pr_profile_digest r) \<and> is_sha256 (pr_pricing_policy_digest r) \<and>
     0 < pr_profile_version r \<and> int4 (pr_profile_version r) \<and>
     0 < pr_pricing_policy_version r \<and> int4 (pr_pricing_policy_version r) \<and>
     between 1 100 (pr_maximum_calls r) \<and>
     between 1 1048576 (pr_maximum_request_bytes r) \<and>
     between 1 1048576 (pr_maximum_output_bytes r) \<and>
     between 1 1048576 (pr_maximum_response_bytes r) \<and>
     6 * pr_maximum_output_bytes r + 4096 \<le> pr_maximum_response_bytes r \<and>
     between 1 10000000 (pr_maximum_input_tokens r) \<and>
     between 1 10000000 (pr_maximum_output_tokens r) \<and>
     between 100 3600000 (pr_deadline_ms r) \<and>
     between (pr_maximum_request_bytes r) 104857600 (pr_maximum_total_request_bytes r) \<and>
     between (pr_maximum_response_bytes r) 104857600 (pr_maximum_total_response_bytes r) \<and>
     between (pr_maximum_input_tokens r) 100000000 (pr_maximum_total_input_tokens r) \<and>
     between (pr_maximum_output_tokens r) 100000000 (pr_maximum_total_output_tokens r) \<and>
     pr_maximum_total_request_bytes r \<le> pr_maximum_request_bytes r * pr_maximum_calls r \<and>
     pr_maximum_total_response_bytes r \<le> pr_maximum_response_bytes r * pr_maximum_calls r \<and>
     pr_maximum_total_input_tokens r \<le> pr_maximum_input_tokens r * pr_maximum_calls r \<and>
     pr_maximum_total_output_tokens r \<le> pr_maximum_output_tokens r * pr_maximum_calls r \<and>
     between 0 1000 (pr_maximum_tool_calls r) \<and>
     between 0 104857600 (pr_maximum_tool_output_bytes r) \<and>
     ((pr_allowed_tools r = [] \<and> pr_maximum_tool_calls r = 0 \<and> pr_maximum_tool_output_bytes r = 0) \<or>
      (pr_allowed_tools r \<noteq> [] \<and> 0 < pr_maximum_tool_calls r \<and> 0 < pr_maximum_tool_output_bytes r)) \<and>
     0 \<le> pr_uncached_input_rate r \<and> 0 \<le> pr_cached_input_rate r \<and> 0 \<le> pr_output_rate r \<and>
     0 < max (max (pr_uncached_input_rate r) (pr_cached_input_rate r)) (pr_output_rate r) \<and>
     int8 (pr_uncached_input_rate r) \<and> int8 (pr_cached_input_rate r) \<and> int8 (pr_output_rate r)"

definition profile_clash :: "ProfileRow \<Rightarrow> ProfileRow \<Rightarrow> bool" where
  "profile_clash r s \<longleftrightarrow>
     pr_id r = pr_id s \<or>
     (pr_project_id r = pr_project_id s \<and> pr_profile_version r = pr_profile_version s) \<or>
     pr_profile_digest r = pr_profile_digest s \<or>
     pr_operation_id r = pr_operation_id s \<or>
     pr_authorization_evidence_id r = pr_authorization_evidence_id s"

subsection \<open>Budgets\<close>

record BudgetAccountRow =
  ac_project_id :: uuid
  ac_current_configuration_id :: uuid
  ac_lifetime_reserved_nanodollars :: int
  ac_lifetime_settled_nanodollars :: int

record BudgetConfigurationRow =
  cf_id :: uuid
  cf_project_id :: uuid
  cf_configuration_version :: int
  cf_configuration_digest :: string
  cf_authorized_total_nanodollars :: int
  cf_externally_reconciled_prior_spend_nanodollars :: int
  cf_lifetime_limit_nanodollars :: int
  cf_operation_id :: uuid
  cf_actor_profile_id :: uuid
  cf_authorization_evidence_id :: uuid
  cf_created_at :: instant

definition account_check :: "BudgetAccountRow \<Rightarrow> bool" where
  "account_check a \<longleftrightarrow>
     0 \<le> ac_lifetime_reserved_nanodollars a \<and> 0 \<le> ac_lifetime_settled_nanodollars a \<and>
     int8 (ac_lifetime_reserved_nanodollars a) \<and> int8 (ac_lifetime_settled_nanodollars a)"

definition configuration_check :: "BudgetConfigurationRow \<Rightarrow> bool" where
  "configuration_check c \<longleftrightarrow>
     require_uuid7 (cf_id c) \<and> is_sha256 (cf_configuration_digest c) \<and>
     0 < cf_configuration_version c \<and> int4 (cf_configuration_version c) \<and>
     0 < cf_authorized_total_nanodollars c \<and> int8 (cf_authorized_total_nanodollars c) \<and>
     0 \<le> cf_externally_reconciled_prior_spend_nanodollars c \<and>
     0 < cf_lifetime_limit_nanodollars c \<and>
     cf_externally_reconciled_prior_spend_nanodollars c + cf_lifetime_limit_nanodollars c
       \<le> cf_authorized_total_nanodollars c"

definition configuration_clash :: "BudgetConfigurationRow \<Rightarrow> BudgetConfigurationRow \<Rightarrow> bool" where
  "configuration_clash c d \<longleftrightarrow>
     cf_id c = cf_id d \<or>
     (cf_project_id c = cf_project_id d \<and> cf_configuration_version c = cf_configuration_version d) \<or>
     cf_configuration_digest c = cf_configuration_digest d \<or>
     cf_operation_id c = cf_operation_id d \<or>
     cf_authorization_evidence_id c = cf_authorization_evidence_id d"

subsection \<open>Checker envelopes and slots\<close>

record CheckerEnvelopeRow =
  ce_id :: uuid
  ce_task_id :: uuid
  ce_project_id :: uuid
  ce_assignment_id :: uuid
  ce_submission_id :: uuid
  ce_submission_version :: int
  ce_requirement_id :: string
  ce_registry_entry_digest :: string
  ce_configuration_sha256 :: string
  ce_profile_id :: uuid
  ce_profile_version :: int
  ce_profile_digest :: string

definition envelope_check :: "CheckerEnvelopeRow \<Rightarrow> bool" where
  "envelope_check e \<longleftrightarrow>
     require_uuid7 (ce_id e) \<and> is_sha256 (ce_registry_entry_digest e) \<and>
     is_sha256 (ce_configuration_sha256 e) \<and> is_sha256 (ce_profile_digest e) \<and>
     0 < ce_submission_version e \<and> int4 (ce_submission_version e) \<and>
     0 < ce_profile_version e \<and> int4 (ce_profile_version e) \<and>
     is_identifier (ce_requirement_id e)"

record CheckerSlotRow =
  sl_id :: uuid
  sl_envelope_id :: uuid
  sl_task_id :: uuid
  sl_project_id :: uuid
  sl_assignment_id :: uuid
  sl_submission_id :: uuid
  sl_submission_version :: int
  sl_requirement_id :: string
  sl_registry_entry_digest :: string
  sl_configuration_sha256 :: string
  sl_profile_id :: uuid
  sl_profile_version :: int
  sl_profile_digest :: string
  sl_slot_index :: int
  sl_first_request_sha256 :: string

definition slot_check :: "CheckerSlotRow \<Rightarrow> bool" where
  "slot_check s \<longleftrightarrow>
     require_uuid7 (sl_id s) \<and> is_sha256 (sl_registry_entry_digest s) \<and>
     is_sha256 (sl_configuration_sha256 s) \<and> is_sha256 (sl_profile_digest s) \<and>
     is_sha256 (sl_first_request_sha256 s) \<and>
     0 < sl_submission_version s \<and> int4 (sl_submission_version s) \<and>
     0 < sl_profile_version s \<and> int4 (sl_profile_version s) \<and>
     between 0 99 (sl_slot_index s) \<and> is_identifier (sl_requirement_id s)"

text \<open>\<open>checker_model_usage_envelopes_stable_identity\<close> and \<open>checker_model_usage_slots_stable_identity\<close>\<close>

definition ce_identity where
  "ce_identity e = (ce_project_id e, ce_assignment_id e, ce_submission_id e, ce_submission_version e,
     ce_requirement_id e, ce_registry_entry_digest e, ce_configuration_sha256 e, ce_profile_id e,
     ce_profile_version e, ce_profile_digest e)"

definition sl_identity where
  "sl_identity s = (sl_project_id s, sl_assignment_id s, sl_submission_id s, sl_submission_version s,
     sl_requirement_id s, sl_registry_entry_digest s, sl_configuration_sha256 s, sl_profile_id s,
     sl_profile_version s, sl_profile_digest s, sl_slot_index s)"

definition envelope_clash :: "CheckerEnvelopeRow \<Rightarrow> CheckerEnvelopeRow \<Rightarrow> bool" where
  "envelope_clash e f \<longleftrightarrow> ce_id e = ce_id f \<or> ce_identity e = ce_identity f"

definition slot_clash :: "CheckerSlotRow \<Rightarrow> CheckerSlotRow \<Rightarrow> bool" where
  "slot_clash s t \<longleftrightarrow> sl_id s = sl_id t \<or> sl_identity s = sl_identity t"

subsection \<open>Setup envelopes and slots\<close>

record SetupEnvelopeRow =
  sn_id :: uuid
  sn_compilation_attempt_id :: uuid
  sn_project_id :: uuid
  sn_guide_id :: uuid
  sn_source_snapshot_id :: uuid
  sn_setup_run_id :: uuid
  sn_setup_generation :: int
  sn_runtime_configuration_hash :: string
  sn_profile_id :: uuid
  sn_profile_version :: int
  sn_profile_digest :: string

definition setup_envelope_check :: "SetupEnvelopeRow \<Rightarrow> bool" where
  "setup_envelope_check e \<longleftrightarrow>
     require_uuid7 (sn_id e) \<and> is_sha256 (sn_runtime_configuration_hash e) \<and>
     is_sha256 (sn_profile_digest e) \<and> 0 < sn_setup_generation e \<and> int8 (sn_setup_generation e) \<and>
     0 < sn_profile_version e \<and> int4 (sn_profile_version e)"

text \<open>\<open>setup_model_usage_envelopes_one_per_attempt\<close> subsumes the longer stable identity.\<close>

definition setup_envelope_clash :: "SetupEnvelopeRow \<Rightarrow> SetupEnvelopeRow \<Rightarrow> bool" where
  "setup_envelope_clash e f \<longleftrightarrow>
     sn_id e = sn_id f \<or> sn_compilation_attempt_id e = sn_compilation_attempt_id f"

record SetupSlotRow =
  st_id :: uuid
  st_envelope_id :: uuid
  st_compilation_attempt_id :: uuid
  st_project_id :: uuid
  st_guide_id :: uuid
  st_source_snapshot_id :: uuid
  st_setup_run_id :: uuid
  st_setup_generation :: int
  st_runtime_configuration_hash :: string
  st_profile_id :: uuid
  st_profile_version :: int
  st_profile_digest :: string
  st_phase :: string
  st_call_index :: int
  st_request_sha256 :: string

definition setup_slot_check :: "SetupSlotRow \<Rightarrow> bool" where
  "setup_slot_check s \<longleftrightarrow>
     require_uuid7 (st_id s) \<and> is_sha256 (st_runtime_configuration_hash s) \<and>
     is_sha256 (st_profile_digest s) \<and> is_sha256 (st_request_sha256 s) \<and>
     0 < st_setup_generation s \<and> int8 (st_setup_generation s) \<and>
     0 < st_profile_version s \<and> int4 (st_profile_version s) \<and>
     between 0 99 (st_call_index s) \<and> st_phase s \<in> {''draft'', ''review'', ''correction''}"

definition st_identity where
  "st_identity s = (st_compilation_attempt_id s, st_runtime_configuration_hash s, st_profile_id s,
     st_profile_version s, st_profile_digest s, st_phase s, st_call_index s)"

definition setup_slot_clash :: "SetupSlotRow \<Rightarrow> SetupSlotRow \<Rightarrow> bool" where
  "setup_slot_clash s t \<longleftrightarrow> st_id s = st_id t \<or> st_identity s = st_identity t"

subsection \<open>Effects\<close>

text \<open>
  The six nullable columns of one evidence side. The code addresses both sides through the
  column prefix \<open>request\<close> or \<open>response\<close>, so each side is one record of columns.
\<close>

record EvidenceColumns =
  ec_binding_id :: "uuid option"
  ec_content_id :: "uuid option"
  ec_put_attempt_id :: "uuid option"
  ec_verification_receipt_id :: "uuid option"
  ec_content_sha256 :: "string option"
  ec_byte_count :: "int option"

definition no_evidence :: EvidenceColumns where
  "no_evidence = \<lparr> ec_binding_id = None, ec_content_id = None, ec_put_attempt_id = None,
     ec_verification_receipt_id = None, ec_content_sha256 = None, ec_byte_count = None \<rparr>"

record EffectRow =
  ef_id :: uuid
  ef_checker_slot_id :: "uuid option"
  ef_setup_slot_id :: "uuid option"
  ef_attempt_number :: int
  ef_internal_call_request_id :: uuid
  ef_parent_attempt_id :: "uuid option"
  ef_request_sha256 :: string
  ef_state :: effect_state
  ef_prepared_execution_facts :: "ModelCallExecutionFacts option"
  ef_prepared_authorization_evidence_id :: uuid
  ef_request :: EvidenceColumns
  ef_budget_configuration_id :: "uuid option"
  ef_budget_configuration_version :: "int option"
  ef_budget_configuration_digest :: "string option"
  ef_reserved_nanodollars :: "int option"
  ef_dispatch_execution_facts :: "ModelCallExecutionFacts option"
  ef_dispatch_authorization_evidence_id :: "uuid option"
  ef_provider_response_id :: "string option"
  ef_response :: EvidenceColumns
  ef_input_tokens :: "int option"
  ef_cached_input_tokens :: "int option"
  ef_output_tokens :: "int option"
  ef_reasoning_tokens :: "int option"
  ef_settled_nanodollars :: "int option"
  ef_settlement_authorization_evidence_id :: "uuid option"
  ef_settled_at :: "instant option"
  ef_no_effect_proof_id :: "uuid option"
  ef_no_effect_proof_digest :: "string option"
  ef_no_effect_observed_at :: "instant option"
  ef_terminal_authorization_evidence_id :: "uuid option"
  ef_uncertainty_digest :: "string option"
  ef_observation_authorization_evidence_id :: "uuid option"
  ef_prepared_at :: instant
  ef_dispatched_at :: "instant option"
  ef_terminal_at :: "instant option"

text \<open>
  The row a constructor call leaves: the columns it names and null everywhere else.
\<close>

definition new_effect ::
    "uuid \<Rightarrow> uuid option \<Rightarrow> uuid option \<Rightarrow> int \<Rightarrow> uuid \<Rightarrow> uuid option \<Rightarrow> string \<Rightarrow>
     ModelCallExecutionFacts option \<Rightarrow> uuid \<Rightarrow> instant \<Rightarrow> EffectRow" where
  "new_effect i checker_slot setup_slot number request_id parent sha facts authority at =
   \<lparr> ef_id = i, ef_checker_slot_id = checker_slot, ef_setup_slot_id = setup_slot,
     ef_attempt_number = number, ef_internal_call_request_id = request_id,
     ef_parent_attempt_id = parent, ef_request_sha256 = sha, ef_state = Prepared,
     ef_prepared_execution_facts = facts, ef_prepared_authorization_evidence_id = authority,
     ef_request = no_evidence, ef_budget_configuration_id = None,
     ef_budget_configuration_version = None, ef_budget_configuration_digest = None,
     ef_reserved_nanodollars = None, ef_dispatch_execution_facts = None,
     ef_dispatch_authorization_evidence_id = None, ef_provider_response_id = None,
     ef_response = no_evidence, ef_input_tokens = None, ef_cached_input_tokens = None,
     ef_output_tokens = None, ef_reasoning_tokens = None, ef_settled_nanodollars = None,
     ef_settlement_authorization_evidence_id = None, ef_settled_at = None,
     ef_no_effect_proof_id = None, ef_no_effect_proof_digest = None,
     ef_no_effect_observed_at = None, ef_terminal_authorization_evidence_id = None,
     ef_uncertainty_digest = None, ef_observation_authorization_evidence_id = None,
     ef_prepared_at = at, ef_dispatched_at = None, ef_terminal_at = None \<rparr>"

definition effect_check :: "EffectRow \<Rightarrow> bool" where
  "effect_check e \<longleftrightarrow>
     require_uuid7 (ef_id e) \<and> is_sha256 (ef_request_sha256 e) \<and>
     0 < ef_attempt_number e \<and> int4 (ef_attempt_number e) \<and>
     opt_ok (\<lambda>n. 0 < n) (ef_reserved_nanodollars e) \<and>
     opt_ok (\<lambda>n. 0 \<le> n) (ef_settled_nanodollars e) \<and>
     opt_ok (\<lambda>i. 0 \<le> i \<and> int4 i \<and> opt_ok (\<lambda>c. 0 \<le> c \<and> c \<le> i) (ef_cached_input_tokens e) \<and>
        opt_ok (\<lambda>m. 0 \<le> m \<and> int4 m \<and> opt_ok (\<lambda>r. 0 \<le> r \<and> r \<le> m) (ef_reasoning_tokens e))
          (ef_output_tokens e)) (ef_input_tokens e) \<and>
     (ef_checker_slot_id e = None) \<noteq> (ef_setup_slot_id e = None)"

definition same_some :: "'a option \<Rightarrow> 'a option \<Rightarrow> bool" where
  "same_some a b \<longleftrightarrow> a \<noteq> None \<and> a = b"

text \<open>Unique columns; a null never clashes.\<close>

definition effect_clash :: "EffectRow \<Rightarrow> EffectRow \<Rightarrow> bool" where
  "effect_clash e f \<longleftrightarrow>
     ef_id e = ef_id f \<or>
     (same_some (ef_checker_slot_id e) (ef_checker_slot_id f) \<and> ef_attempt_number e = ef_attempt_number f) \<or>
     (same_some (ef_setup_slot_id e) (ef_setup_slot_id f) \<and> ef_attempt_number e = ef_attempt_number f) \<or>
     ef_internal_call_request_id e = ef_internal_call_request_id f \<or>
     ef_prepared_authorization_evidence_id e = ef_prepared_authorization_evidence_id f \<or>
     same_some (ef_dispatch_authorization_evidence_id e) (ef_dispatch_authorization_evidence_id f) \<or>
     same_some (ef_settlement_authorization_evidence_id e) (ef_settlement_authorization_evidence_id f) \<or>
     same_some (ef_terminal_authorization_evidence_id e) (ef_terminal_authorization_evidence_id f) \<or>
     same_some (ef_observation_authorization_evidence_id e) (ef_observation_authorization_evidence_id f)"

subsection \<open>Recoveries and invocation grants\<close>

record RecoveryRow =
  rc_id :: uuid
  rc_attempt_id :: uuid
  rc_checker_run_id :: uuid
  rc_worker_lease_id :: uuid
  rc_worker_lease_generation :: int
  rc_execution_facts :: ModelCallExecutionFacts
  rc_effect_facts :: ModelCallEffectAuthorityFacts
  rc_authorization_evidence_id :: uuid

definition recovery_check :: "RecoveryRow \<Rightarrow> bool" where
  "recovery_check r \<longleftrightarrow>
     require_uuid7 (rc_id r) \<and> 0 < rc_worker_lease_generation r \<and> int4 (rc_worker_lease_generation r)"

definition recovery_clash :: "RecoveryRow \<Rightarrow> RecoveryRow \<Rightarrow> bool" where
  "recovery_clash r s \<longleftrightarrow>
     rc_id r = rc_id s \<or>
     (rc_attempt_id r = rc_attempt_id s \<and> rc_checker_run_id r = rc_checker_run_id s \<and>
      rc_worker_lease_id r = rc_worker_lease_id s \<and>
      rc_worker_lease_generation r = rc_worker_lease_generation s) \<or>
     rc_authorization_evidence_id r = rc_authorization_evidence_id s"

record GrantRow =
  gr_id :: uuid
  gr_token_hash :: string
  gr_project_id :: uuid
  gr_checker_run_id :: uuid
  gr_registry_entry_id :: uuid
  gr_execution_facts :: ModelCallExecutionFacts
  gr_paid_slot :: ModelPaidSlotKey
  gr_external_request_digest :: string
  gr_expires_at :: instant
  gr_issued_at :: instant
  gr_authorization_evidence_id :: uuid

definition grant_check :: "GrantRow \<Rightarrow> bool" where
  "grant_check g \<longleftrightarrow>
     require_uuid7 (gr_id g) \<and> is_sha256 (gr_token_hash g) \<and> is_sha256 (gr_external_request_digest g)"

definition grant_clash :: "GrantRow \<Rightarrow> GrantRow \<Rightarrow> bool" where
  "grant_clash g h \<longleftrightarrow>
     gr_id g = gr_id h \<or> gr_token_hash g = gr_token_hash h \<or>
     gr_authorization_evidence_id g = gr_authorization_evidence_id h"

record GrantCallRow =
  gc_grant_id :: uuid
  gc_call_index :: int
  gc_attempt_id :: uuid
  gc_request_sha256 :: string

definition grant_call_check :: "GrantCallRow \<Rightarrow> bool" where
  "grant_call_check c \<longleftrightarrow> between 0 99 (gc_call_index c) \<and> is_sha256 (gc_request_sha256 c)"

definition grant_call_clash :: "GrantCallRow \<Rightarrow> GrantCallRow \<Rightarrow> bool" where
  "grant_call_clash c d \<longleftrightarrow> gc_grant_id c = gc_grant_id d \<and> gc_call_index c = gc_call_index d"

subsection \<open>The database and its statements\<close>

record model_db =
  profiles :: "ProfileRow list"
  accounts :: "BudgetAccountRow list"
  configurations :: "BudgetConfigurationRow list"
  envelopes :: "CheckerEnvelopeRow list"
  slots :: "CheckerSlotRow list"
  setup_envelopes :: "SetupEnvelopeRow list"
  setup_slots :: "SetupSlotRow list"
  effects :: "EffectRow list"
  recoveries :: "RecoveryRow list"
  grants :: "GrantRow list"
  grant_calls :: "GrantCallRow list"

definition empty_db :: model_db where
  "empty_db = \<lparr> profiles = [], accounts = [], configurations = [], envelopes = [], slots = [],
     setup_envelopes = [], setup_slots = [], effects = [], recoveries = [], grants = [],
     grant_calls = [] \<rparr>"

text \<open>
  A checked statement: the first failing kind of constraint is the error, otherwise the new
  database. \<open>row_insertable\<close> is check, unique and foreign-key constraint in one.
\<close>

definition checked :: "bool \<Rightarrow> string \<Rightarrow> 'db \<Rightarrow> model_error + 'db" where
  "checked ok table db = (if ok then Inr db else Inl (IntegrityViolation table))"

definition profile_reference :: "model_db \<Rightarrow> uuid \<Rightarrow> int \<Rightarrow> string \<Rightarrow> bool" where
  "profile_reference db i v d \<longleftrightarrow>
     list_ex (\<lambda>p. pr_id p = i \<and> pr_profile_version p = v \<and> pr_profile_digest p = d) (profiles db)"

definition insert_profile :: "model_db \<Rightarrow> ProfileRow \<Rightarrow> model_error + model_db" where
  "insert_profile db r = checked
     (profile_check r \<and> \<not> list_ex (profile_clash r) (profiles db))
     ''model_usage_profiles'' (db\<lparr>profiles := profiles db @ [r]\<rparr>)"

definition insert_configuration :: "model_db \<Rightarrow> BudgetConfigurationRow \<Rightarrow> model_error + model_db" where
  "insert_configuration db r = checked
     (configuration_check r \<and> \<not> list_ex (configuration_clash r) (configurations db))
     ''model_usage_budget_configurations'' (db\<lparr>configurations := configurations db @ [r]\<rparr>)"

text \<open>The account's configuration is a row of the same project and current for no other account.\<close>

definition account_ok :: "model_db \<Rightarrow> BudgetAccountRow \<Rightarrow> bool" where
  "account_ok db a \<longleftrightarrow>
     account_check a \<and>
     list_ex (\<lambda>c. cf_id c = ac_current_configuration_id a \<and> cf_project_id c = ac_project_id a)
       (configurations db) \<and>
     \<not> list_ex (\<lambda>b. ac_project_id b \<noteq> ac_project_id a \<and>
                    ac_current_configuration_id b = ac_current_configuration_id a) (accounts db)"

definition insert_account :: "model_db \<Rightarrow> BudgetAccountRow \<Rightarrow> model_error + model_db" where
  "insert_account db a = checked
     (account_ok db a \<and> \<not> list_ex (\<lambda>b. ac_project_id b = ac_project_id a) (accounts db))
     ''model_usage_budget_accounts'' (db\<lparr>accounts := accounts db @ [a]\<rparr>)"

definition update_account :: "model_db \<Rightarrow> BudgetAccountRow \<Rightarrow> model_error + model_db" where
  "update_account db a = checked (account_ok db a)
     ''model_usage_budget_accounts'' (db\<lparr>accounts := row_put ac_project_id a (accounts db)\<rparr>)"

definition insert_envelope :: "model_db \<Rightarrow> CheckerEnvelopeRow \<Rightarrow> model_error + model_db" where
  "insert_envelope db r = checked
     (envelope_check r \<and> \<not> list_ex (envelope_clash r) (envelopes db) \<and>
      profile_reference db (ce_profile_id r) (ce_profile_version r) (ce_profile_digest r))
     ''checker_model_usage_envelopes'' (db\<lparr>envelopes := envelopes db @ [r]\<rparr>)"

definition insert_slot :: "model_db \<Rightarrow> CheckerSlotRow \<Rightarrow> model_error + model_db" where
  "insert_slot db r = checked
     (slot_check r \<and> \<not> list_ex (slot_clash r) (slots db) \<and>
      list_ex (\<lambda>e. ce_id e = sl_envelope_id r) (envelopes db) \<and>
      profile_reference db (sl_profile_id r) (sl_profile_version r) (sl_profile_digest r))
     ''checker_model_usage_slots'' (db\<lparr>slots := slots db @ [r]\<rparr>)"

definition insert_setup_envelope :: "model_db \<Rightarrow> SetupEnvelopeRow \<Rightarrow> model_error + model_db" where
  "insert_setup_envelope db r = checked
     (setup_envelope_check r \<and> \<not> list_ex (setup_envelope_clash r) (setup_envelopes db) \<and>
      profile_reference db (sn_profile_id r) (sn_profile_version r) (sn_profile_digest r))
     ''setup_model_usage_envelopes'' (db\<lparr>setup_envelopes := setup_envelopes db @ [r]\<rparr>)"

definition insert_setup_slot :: "model_db \<Rightarrow> SetupSlotRow \<Rightarrow> model_error + model_db" where
  "insert_setup_slot db r = checked
     (setup_slot_check r \<and> \<not> list_ex (setup_slot_clash r) (setup_slots db) \<and>
      list_ex (\<lambda>e. sn_id e = st_envelope_id r) (setup_envelopes db) \<and>
      profile_reference db (st_profile_id r) (st_profile_version r) (st_profile_digest r))
     ''setup_model_usage_slots'' (db\<lparr>setup_slots := setup_slots db @ [r]\<rparr>)"

text \<open>Foreign keys of an effect: its owner slot, its parent attempt and its budget version.\<close>

definition effect_references :: "model_db \<Rightarrow> EffectRow \<Rightarrow> bool" where
  "effect_references db r \<longleftrightarrow>
     opt_ok (\<lambda>i. list_ex (\<lambda>s. sl_id s = i) (slots db)) (ef_checker_slot_id r) \<and>
     opt_ok (\<lambda>i. list_ex (\<lambda>s. st_id s = i) (setup_slots db)) (ef_setup_slot_id r) \<and>
     opt_ok (\<lambda>i. list_ex (\<lambda>e. ef_id e = i) (effects db)) (ef_parent_attempt_id r) \<and>
     (case (ef_budget_configuration_id r, ef_budget_configuration_version r,
            ef_budget_configuration_digest r) of
        (Some i, Some v, Some d) \<Rightarrow>
          list_ex (\<lambda>c. cf_id c = i \<and> cf_configuration_version c = v \<and> cf_configuration_digest c = d)
            (configurations db)
      | _ \<Rightarrow> True)"

definition insert_effect :: "model_db \<Rightarrow> EffectRow \<Rightarrow> model_error + model_db" where
  "insert_effect db r = checked
     (effect_check r \<and> effect_references db r \<and> \<not> list_ex (effect_clash r) (effects db))
     ''model_usage_effects'' (db\<lparr>effects := effects db @ [r]\<rparr>)"

definition update_effect :: "model_db \<Rightarrow> EffectRow \<Rightarrow> model_error + model_db" where
  "update_effect db r = checked
     (effect_check r \<and> effect_references db r \<and>
      \<not> list_ex (\<lambda>e. ef_id e \<noteq> ef_id r \<and> effect_clash r e) (effects db))
     ''model_usage_effects'' (db\<lparr>effects := row_put ef_id r (effects db)\<rparr>)"

definition insert_recovery :: "model_db \<Rightarrow> RecoveryRow \<Rightarrow> model_error + model_db" where
  "insert_recovery db r = checked
     (recovery_check r \<and> \<not> list_ex (recovery_clash r) (recoveries db) \<and>
      list_ex (\<lambda>e. ef_id e = rc_attempt_id r) (effects db))
     ''checker_model_usage_recoveries'' (db\<lparr>recoveries := recoveries db @ [r]\<rparr>)"

definition insert_grant :: "model_db \<Rightarrow> GrantRow \<Rightarrow> model_error + model_db" where
  "insert_grant db r = checked
     (grant_check r \<and> \<not> list_ex (grant_clash r) (grants db))
     ''checker_model_invocation_grants'' (db\<lparr>grants := grants db @ [r]\<rparr>)"

definition insert_grant_call :: "model_db \<Rightarrow> GrantCallRow \<Rightarrow> model_error + model_db" where
  "insert_grant_call db r = checked
     (grant_call_check r \<and> \<not> list_ex (grant_call_clash r) (grant_calls db) \<and>
      list_ex (\<lambda>g. gr_id g = gc_grant_id r) (grants db) \<and>
      list_ex (\<lambda>e. ef_id e = gc_attempt_id r) (effects db))
     ''checker_model_invocation_grant_calls'' (db\<lparr>grant_calls := grant_calls db @ [r]\<rparr>)"

subsection \<open>Reading a statement that succeeded\<close>

lemma checked_Inr [outcome_inv]: "(checked ok t d = Inr y) \<longleftrightarrow> ok \<and> d = y"
  by (simp add: checked_def)

text \<open>
  \<open>owns_row\<close> is the contract an INSERT of any of the tables keeps: afterwards the table is the
  old one followed by the row, and the row's key was unused.
\<close>

locale inserting =
  fixes insert_row :: "model_db \<Rightarrow> 'r \<Rightarrow> model_error + model_db"
    and rows :: "model_db \<Rightarrow> 'r list" and key :: "'r \<Rightarrow> 'k"
  assumes rows_after: "insert_row db r = Inr db' \<Longrightarrow> rows db' = rows db @ [r]"
    and key_fresh: "insert_row db r = Inr db' \<Longrightarrow> key r \<notin> set (row_keys key (rows db))"
begin

lemma distinct_after:
  "insert_row db r = Inr db' \<Longrightarrow> distinct (row_keys key (rows db)) \<Longrightarrow>
   distinct (row_keys key (rows db'))"
  using rows_after key_fresh by fastforce

lemma get_new: "insert_row db r = Inr db' \<Longrightarrow> row_get key (key r) (rows db') = Some r"
proof -
  assume *: "insert_row db r = Inr db'"
  then have "row_get key (key r) (rows db) = None"
    using key_fresh[OF *] by (simp add: row_get_None_iff)
  then show ?thesis
    using rows_after[OF *] by (simp add: row_get_append row_get_Cons)
qed

lemma get_old:
  "insert_row db r = Inr db' \<Longrightarrow> row_get key k (rows db) = Some s \<Longrightarrow> row_get key k (rows db') = Some s"
  using rows_after by (simp add: row_get_append)

lemma get_other:
  "insert_row db r = Inr db' \<Longrightarrow> k \<noteq> key r \<Longrightarrow> row_get key k (rows db') = row_get key k (rows db)"
  using rows_after by (simp add: row_get_append row_get_Cons row_get_Nil split: option.split)

end

interpretation ins_profile: inserting insert_profile profiles pr_id
  by unfold_locales
     (auto simp: insert_profile_def outcome_inv profile_clash_def row_keys_def list_ex_iff)

interpretation ins_configuration: inserting insert_configuration configurations cf_id
  by unfold_locales
     (auto simp: insert_configuration_def outcome_inv configuration_clash_def row_keys_def list_ex_iff)

interpretation ins_account: inserting insert_account accounts ac_project_id
  by unfold_locales
     (auto simp: insert_account_def outcome_inv row_keys_def list_ex_iff)

interpretation ins_envelope: inserting insert_envelope envelopes ce_id
  by unfold_locales
     (auto simp: insert_envelope_def outcome_inv envelope_clash_def row_keys_def list_ex_iff)

interpretation ins_slot: inserting insert_slot slots sl_id
  by unfold_locales
     (auto simp: insert_slot_def outcome_inv slot_clash_def row_keys_def list_ex_iff)

interpretation ins_setup_envelope: inserting insert_setup_envelope setup_envelopes sn_id
  by unfold_locales
     (auto simp: insert_setup_envelope_def outcome_inv setup_envelope_clash_def row_keys_def list_ex_iff)

interpretation ins_setup_slot: inserting insert_setup_slot setup_slots st_id
  by unfold_locales
     (auto simp: insert_setup_slot_def outcome_inv setup_slot_clash_def row_keys_def list_ex_iff)

interpretation ins_effect: inserting insert_effect effects ef_id
  by unfold_locales
     (auto simp: insert_effect_def outcome_inv effect_clash_def row_keys_def list_ex_iff)

interpretation ins_recovery: inserting insert_recovery recoveries rc_id
  by unfold_locales
     (auto simp: insert_recovery_def outcome_inv recovery_clash_def row_keys_def list_ex_iff)

interpretation ins_grant: inserting insert_grant grants gr_id
  by unfold_locales
     (auto simp: insert_grant_def outcome_inv grant_clash_def row_keys_def list_ex_iff)

interpretation ins_grant_call: inserting insert_grant_call grant_calls "\<lambda>c. (gc_grant_id c, gc_call_index c)"
  by unfold_locales
     (auto simp: insert_grant_call_def outcome_inv grant_call_clash_def row_keys_def list_ex_iff)

end
