(* ===== verification/Model_Usage_Repository.thy ===== *)
theory Model_Usage_Repository
  imports Model_Usage_Rows
begin

text \<open>
  The queries of \<open>model_usage/repository.py\<close> and the profile reader of
  \<open>model_usage/profiles.py\<close>. Advisory and row locks (\<open>lock_*_scope\<close>, \<open>with_for_update\<close>) serialise
  the transactions that run an operation on the same project, envelope or slot; an operation is
  therefore one atomic function of the database it sees, and a look-up before and after taking
  a lock is the same look-up. Insertion order stands for the arbitrary order of an unordered
  SELECT; every query that reads one row filters on a unique key.
\<close>

record session_state =
  has_transaction :: bool
  transaction_is_active :: bool
  in_nested_transaction :: bool

definition require_model_call_transaction :: "session_state \<Rightarrow> model_error + unit" where
  "require_model_call_transaction s =
     (if \<not> has_transaction s \<or> \<not> transaction_is_active s \<or> in_nested_transaction s
      then Inl (Unavailable ''model_call_transaction_unavailable'') else Inr ())"

subsection \<open>Profiles\<close>

definition profile_by_operation :: "model_db \<Rightarrow> uuid \<Rightarrow> ProfileRow option" where
  "profile_by_operation db op = find (\<lambda>p. pr_operation_id p = op) (profiles db)"

definition profile_by_version :: "model_db \<Rightarrow> uuid \<Rightarrow> int \<Rightarrow> ProfileRow option" where
  "profile_by_version db project v =
     find (\<lambda>p. pr_project_id p = project \<and> pr_profile_version p = v) (profiles db)"

definition latest_profile :: "model_db \<Rightarrow> uuid \<Rightarrow> ProfileRow option" where
  "latest_profile db project =
     max_by pr_profile_version (filter (\<lambda>p. pr_project_id p = project) (profiles db))"

definition profile_exact :: "model_db \<Rightarrow> uuid \<Rightarrow> int \<Rightarrow> string \<Rightarrow> ProfileRow option" where
  "profile_exact db i v d =
     find (\<lambda>p. pr_id p = i \<and> pr_profile_version p = v \<and> pr_profile_digest p = d) (profiles db)"

definition row_pricing :: "ProfileRow \<Rightarrow> ModelPricing" where
  "row_pricing r =
   \<lparr> pricing_policy_id = pr_pricing_policy_id r,
     pricing_policy_version = pr_pricing_policy_version r,
     pricing_policy_digest = pr_pricing_policy_digest r,
     uncached_input_nanodollars_per_token = pr_uncached_input_rate r,
     cached_input_nanodollars_per_token = pr_cached_input_rate r,
     output_nanodollars_per_token = pr_output_rate r \<rparr>"

definition row_spec :: "ProfileRow \<Rightarrow> ProjectModelProfileSpec" where
  "row_spec r =
   \<lparr> spec_project_id = pr_project_id r, spec_profile_version = pr_profile_version r,
     provider = pr_provider r, api = pr_api r, model_snapshot = pr_model_snapshot r,
     settings = pr_generation_settings r,
     maximum_request_bytes = pr_maximum_request_bytes r,
     maximum_output_bytes = pr_maximum_output_bytes r,
     maximum_response_bytes = pr_maximum_response_bytes r,
     maximum_input_tokens = pr_maximum_input_tokens r,
     maximum_output_tokens = pr_maximum_output_tokens r,
     maximum_calls = pr_maximum_calls r,
     maximum_total_request_bytes = pr_maximum_total_request_bytes r,
     maximum_total_response_bytes = pr_maximum_total_response_bytes r,
     maximum_total_input_tokens = pr_maximum_total_input_tokens r,
     maximum_total_output_tokens = pr_maximum_total_output_tokens r,
     allowed_tools = pr_allowed_tools r,
     maximum_tool_calls = pr_maximum_tool_calls r,
     maximum_tool_output_bytes = pr_maximum_tool_output_bytes r,
     deadline_ms = pr_deadline_ms r, pricing = row_pricing r \<rparr>"

definition row_profile :: "ProfileRow \<Rightarrow> ProjectModelProfile" where
  "row_profile r =
   \<lparr> pf_operation_id = pr_operation_id r, pf_actor_profile_id = pr_actor_profile_id r,
     pf_spec = row_spec r, pf_profile_digest = pr_profile_digest r,
     pm_profile_id = pr_id r, pm_authorization_evidence_id = pr_authorization_evidence_id r,
     pm_created_at = pr_created_at r \<rparr>"

definition stored_model_profile :: "codec \<Rightarrow> ProfileRow \<Rightarrow> model_error + ProjectModelProfile" where
  "stored_model_profile cd r =
     (if ProjectModelProfile_valid cd (row_profile r) then Inr (row_profile r)
      else Inl (InvalidValue ''ProjectModelProfile''))"

text \<open>\<open>ModelProfileReader.read_exact\<close> and \<open>read_latest_matching\<close>.\<close>

definition reader_read_exact ::
    "codec \<Rightarrow> session_state \<Rightarrow> model_db \<Rightarrow> ModelProfileSelector \<Rightarrow> uuid \<Rightarrow>
     model_error + ProjectModelProfile" where
  "reader_read_exact cd sess db sel project =
     (if \<not> has_transaction sess \<or> \<not> transaction_is_active sess \<or> in_nested_transaction sess
      then Inl (Unavailable ''model_profile_unavailable'')
      else if \<not> ModelProfileSelector_valid sel then Inl (Unavailable ''model_profile_unavailable'')
      else need (find (\<lambda>p. pr_id p = ms_profile_id sel \<and> pr_profile_version p = ms_profile_version sel \<and>
                         pr_profile_digest p = ms_profile_digest sel \<and> pr_project_id p = project)
                  (profiles db)) (Unavailable ''model_profile_unavailable'') (\<lambda>row. stored_model_profile cd row))"

definition read_latest_matching ::
    "codec \<Rightarrow> session_state \<Rightarrow> model_db \<Rightarrow> uuid \<Rightarrow> string \<Rightarrow> string \<Rightarrow> string \<Rightarrow>
     model_error + ProjectModelProfile" where
  "read_latest_matching cd sess db project prov interface snapshot =
     (if \<not> has_transaction sess \<or> \<not> transaction_is_active sess \<or> in_nested_transaction sess
      then Inl (Unavailable ''model_profile_unavailable'')
      else need (max_by pr_profile_version
                  (filter (\<lambda>p. pr_project_id p = project \<and> pr_provider p = prov \<and>
                              pr_api p = interface \<and> pr_model_snapshot p = snapshot) (profiles db))) (Unavailable ''model_profile_unavailable'') (\<lambda>row. stored_model_profile cd row))"

subsection \<open>Budgets\<close>

definition budget_account :: "model_db \<Rightarrow> uuid \<Rightarrow> BudgetAccountRow option" where
  "budget_account db project = row_get ac_project_id project (accounts db)"

definition budget_configuration_by_operation :: "model_db \<Rightarrow> uuid \<Rightarrow> BudgetConfigurationRow option" where
  "budget_configuration_by_operation db op = find (\<lambda>c. cf_operation_id c = op) (configurations db)"

definition budget_configuration_by_version ::
    "model_db \<Rightarrow> uuid \<Rightarrow> int \<Rightarrow> BudgetConfigurationRow option" where
  "budget_configuration_by_version db project v =
     find (\<lambda>c. cf_project_id c = project \<and> cf_configuration_version c = v) (configurations db)"

definition current_budget_configuration ::
    "model_db \<Rightarrow> BudgetAccountRow \<Rightarrow> BudgetConfigurationRow option" where
  "current_budget_configuration db a = row_get cf_id (ac_current_configuration_id a) (configurations db)"

subsection \<open>Checker envelopes, slots and attempts\<close>

definition envelope_predicates :: "ModelPaidSlotKey \<Rightarrow> CheckerEnvelopeRow \<Rightarrow> bool" where
  "envelope_predicates k e \<longleftrightarrow>
     ce_project_id e = pk_project_id k \<and> ce_assignment_id e = pk_assignment_id k \<and>
     ce_submission_id e = pk_submission_id k \<and> ce_submission_version e = pk_submission_version k \<and>
     ce_requirement_id e = pk_requirement_id k \<and>
     ce_registry_entry_digest e = pk_registry_entry_digest k \<and>
     ce_configuration_sha256 e = pk_configuration_sha256 k \<and> ce_profile_id e = pk_profile_id k \<and>
     ce_profile_version e = pk_profile_version k \<and> ce_profile_digest e = pk_profile_digest k"

definition envelope :: "model_db \<Rightarrow> ModelPaidSlotKey \<Rightarrow> CheckerEnvelopeRow option" where
  "envelope db k = find (envelope_predicates k) (envelopes db)"

definition slot_predicates :: "ModelPaidSlotKey \<Rightarrow> CheckerSlotRow \<Rightarrow> bool" where
  "slot_predicates k s \<longleftrightarrow>
     sl_project_id s = pk_project_id k \<and> sl_assignment_id s = pk_assignment_id k \<and>
     sl_submission_id s = pk_submission_id k \<and> sl_submission_version s = pk_submission_version k \<and>
     sl_requirement_id s = pk_requirement_id k \<and>
     sl_registry_entry_digest s = pk_registry_entry_digest k \<and>
     sl_configuration_sha256 s = pk_configuration_sha256 k \<and> sl_profile_id s = pk_profile_id k \<and>
     sl_profile_version s = pk_profile_version k \<and> sl_profile_digest s = pk_profile_digest k \<and>
     sl_slot_index s = pk_slot_index k"

definition slot :: "model_db \<Rightarrow> ModelPaidSlotKey \<Rightarrow> CheckerSlotRow option" where
  "slot db k = find (slot_predicates k) (slots db)"

definition latest_attempt :: "model_db \<Rightarrow> uuid \<Rightarrow> EffectRow option" where
  "latest_attempt db slot_id =
     max_by ef_attempt_number (filter (\<lambda>e. ef_checker_slot_id e = Some slot_id) (effects db))"

definition attempt :: "model_db \<Rightarrow> uuid \<Rightarrow> EffectRow option" where
  "attempt db i = row_get ef_id i (effects db)"

definition recovery :: "model_db \<Rightarrow> uuid \<Rightarrow> uuid \<Rightarrow> uuid \<Rightarrow> int \<Rightarrow> RecoveryRow option" where
  "recovery db attempt_id run lease generation =
     find (\<lambda>r. rc_attempt_id r = attempt_id \<and> rc_checker_run_id r = run \<and>
              rc_worker_lease_id r = lease \<and> rc_worker_lease_generation r = generation) (recoveries db)"

text \<open>
  The aggregates of \<open>envelope_totals\<close>. A null column contributes nothing to a sum; the join on
  the slot's primary key selects an effect once.
\<close>

record ModelUsageEnvelopeTotals =
  dispatches :: int
  pending_dispatches :: int
  total_reserved_nanodollars :: int
  total_settled_nanodollars :: int
  request_bytes :: int
  response_bytes :: int
  input_tokens :: int
  output_tokens :: int

definition pending :: "EffectRow \<Rightarrow> bool" where
  "pending e \<longleftrightarrow> ef_state e \<in> {Dispatching, Uncertain}"

definition or_zero :: "int option \<Rightarrow> int" where
  "or_zero m = (case m of None \<Rightarrow> 0 | Some n \<Rightarrow> n)"

definition one_if :: "bool \<Rightarrow> int" where
  "one_if b = (if b then 1 else 0)"

definition pending_reserved :: "EffectRow \<Rightarrow> int" where
  "pending_reserved e = (if pending e then or_zero (ef_reserved_nanodollars e) else 0)"

definition settled_amount :: "EffectRow \<Rightarrow> int" where
  "settled_amount e = or_zero (ef_settled_nanodollars e)"

definition totals_of :: "EffectRow list \<Rightarrow> ModelUsageEnvelopeTotals" where
  "totals_of rows =
   \<lparr> dispatches = sum_list (map (\<lambda>e. one_if (ef_state e \<noteq> Prepared)) rows),
     pending_dispatches = sum_list (map (\<lambda>e. one_if (pending e)) rows),
     total_reserved_nanodollars = sum_list (map pending_reserved rows),
     total_settled_nanodollars = sum_list (map settled_amount rows),
     request_bytes = sum_list (map (\<lambda>e. or_zero (ec_byte_count (ef_request e))) rows),
     response_bytes = sum_list (map (\<lambda>e. or_zero (ec_byte_count (ef_response e))) rows),
     input_tokens = sum_list (map (\<lambda>e. or_zero (ef_input_tokens e)) rows),
     output_tokens = sum_list (map (\<lambda>e. or_zero (ef_output_tokens e)) rows) \<rparr>"

definition envelope_effects :: "model_db \<Rightarrow> uuid \<Rightarrow> EffectRow list" where
  "envelope_effects db envelope_id =
     filter (\<lambda>e. list_ex (\<lambda>s. ef_checker_slot_id e = Some (sl_id s) \<and> sl_envelope_id s = envelope_id)
                   (slots db)) (effects db)"

definition envelope_totals :: "model_db \<Rightarrow> uuid \<Rightarrow> ModelUsageEnvelopeTotals" where
  "envelope_totals db envelope_id = totals_of (envelope_effects db envelope_id)"

subsection \<open>Setup envelopes and slots\<close>

definition setup_envelope_predicates :: "SetupModelUsageSlotKey \<Rightarrow> SetupEnvelopeRow \<Rightarrow> bool" where
  "setup_envelope_predicates k e \<longleftrightarrow>
     sn_compilation_attempt_id e = sk_compilation_attempt_id k \<and> sn_project_id e = sk_project_id k \<and>
     sn_guide_id e = sk_guide_id k \<and> sn_source_snapshot_id e = sk_source_snapshot_id k \<and>
     sn_setup_run_id e = sk_setup_run_id k \<and> sn_setup_generation e = sk_setup_generation k \<and>
     sn_runtime_configuration_hash e = sk_runtime_configuration_hash k \<and>
     sn_profile_id e = sk_profile_id k \<and> sn_profile_version e = sk_profile_version k \<and>
     sn_profile_digest e = sk_profile_digest k"

definition setup_envelope :: "model_db \<Rightarrow> SetupModelUsageSlotKey \<Rightarrow> SetupEnvelopeRow option" where
  "setup_envelope db k = find (setup_envelope_predicates k) (setup_envelopes db)"

definition setup_slot_predicates :: "SetupModelUsageSlotKey \<Rightarrow> SetupSlotRow \<Rightarrow> bool" where
  "setup_slot_predicates k s \<longleftrightarrow>
     st_compilation_attempt_id s = sk_compilation_attempt_id k \<and>
     st_runtime_configuration_hash s = sk_runtime_configuration_hash k \<and>
     st_profile_id s = sk_profile_id k \<and> st_profile_version s = sk_profile_version k \<and>
     st_profile_digest s = sk_profile_digest k \<and> st_phase s = sk_phase k \<and>
     st_call_index s = sk_call_index k"

definition setup_slot :: "model_db \<Rightarrow> SetupModelUsageSlotKey \<Rightarrow> SetupSlotRow option" where
  "setup_slot db k = find (setup_slot_predicates k) (setup_slots db)"

definition latest_setup_effect :: "model_db \<Rightarrow> uuid \<Rightarrow> EffectRow option" where
  "latest_setup_effect db slot_id =
     max_by ef_attempt_number (filter (\<lambda>e. ef_setup_slot_id e = Some slot_id) (effects db))"

definition setup_envelope_effects :: "model_db \<Rightarrow> uuid \<Rightarrow> EffectRow list" where
  "setup_envelope_effects db envelope_id =
     filter (\<lambda>e. list_ex (\<lambda>s. ef_setup_slot_id e = Some (st_id s) \<and> st_envelope_id s = envelope_id)
                   (setup_slots db)) (effects db)"

definition setup_envelope_totals :: "model_db \<Rightarrow> uuid \<Rightarrow> ModelUsageEnvelopeTotals" where
  "setup_envelope_totals db envelope_id = totals_of (setup_envelope_effects db envelope_id)"

end
