(* ===== verification/Model_Usage_Service.thy ===== *)
theory Model_Usage_Service
  imports Model_Usage_Repository
begin

text \<open>
  \<open>ModelCallService\<close> of \<open>model_usage/service.py\<close>: publication of profiles and budgets,
  preparation, dispatch, recovery and terminal accounting of checker model calls. An operation
  takes its environment, the database and its arguments and returns the raised error or the
  result with the new database; an error leaves the caller to roll back, so it carries none.

  The environment holds what the service is constructed with: the authority, current-execution
  and evidence ports, the state of the caller's transaction, the codec, and the identifiers and
  clock readings the call draws, in the order it draws them (\<open>new_record_id\<close>,
  \<open>clock_timestamp()\<close>).
\<close>

record call_env =
  en_codec :: codec
  en_session :: session_state
  new_id :: "nat \<Rightarrow> uuid"
  clock :: "nat \<Rightarrow> instant"

record checker_env = call_env +
  authorize_profile :: "ModelProfileProvisioningFacts \<Rightarrow> model_error + ModelActionEvidence"
  authorize_budget :: "ModelBudgetProvisioningFacts \<Rightarrow> model_error + ModelActionEvidence"
  authorize_prepare :: "ModelCallExecutionFacts \<Rightarrow> ModelPaidSlotKey \<Rightarrow> string \<Rightarrow>
                        model_error + ModelActionEvidence"
  authorize_dispatch :: "ModelCallExecutionFacts \<Rightarrow> AttachedModelCallAttempt \<Rightarrow> ModelCallEvidence \<Rightarrow>
                         model_error + ModelActionEvidence"
  authorize_recover :: "ModelCallExecutionFacts \<Rightarrow> ModelCallEffectAuthorityFacts \<Rightarrow>
                        model_error + ModelActionEvidence"
  authorize_observe :: "ModelCallEffectAuthorityFacts \<Rightarrow> string option \<Rightarrow> string \<Rightarrow>
                        model_error + ModelActionEvidence"
  authorize_child :: "uuid \<Rightarrow> uuid \<Rightarrow> string \<Rightarrow> model_error + ModelActionEvidence"
  authorize_complete :: "ModelCallEffectAuthorityFacts \<Rightarrow> ModelCallEvidence option \<Rightarrow> string \<Rightarrow>
                         model_error + ModelActionEvidence"
  require_current :: "ModelCallExecutionFacts \<Rightarrow> ModelPaidSlotKey \<Rightarrow> model_error + unit"
  require_recovery_current :: "ModelPaidSlotKey \<Rightarrow> uuid \<Rightarrow> model_error + unit"
  require_request :: "AttachedModelCallAttempt \<Rightarrow> ModelCallEvidence \<Rightarrow> model_error + unit"
  require_response :: "uuid \<Rightarrow> ModelCallEvidence \<Rightarrow> model_error + unit"

abbreviation env_hash :: "'a call_env_scheme \<Rightarrow> json \<Rightarrow> string" where
  "env_hash env \<equiv> json_digest (sha256_hex (en_codec env))"

subsection \<open>Helpers\<close>

definition sha_checked :: "string \<Rightarrow> model_error + string" where
  "sha_checked s = (need (sha_arg s) (Conflict ''model_call_digest_invalid'') (\<lambda>d. Inr d))"

text \<open>
  Hashing facts that contain an infinite float or a surrogate raises \<open>ValueError\<close>; no facts built by the services do.
\<close>

definition require_authority ::
    "codec \<Rightarrow> string \<Rightarrow> json \<Rightarrow> ModelActionEvidence \<Rightarrow> model_error + unit" where
  "require_authority cd action facts ev =
     (if \<not> json_ok facts then Inl (InvalidValue ''model_action_digest'')
      else if ae_facts_digest ev \<noteq> model_action_digest cd action facts
      then Inl (Unavailable ''model_call_authority_unavailable'') else Inr ())"

definition slot_key :: "CheckerSlotRow \<Rightarrow> ModelPaidSlotKey" where
  "slot_key s =
   \<lparr> pk_project_id = sl_project_id s, pk_assignment_id = sl_assignment_id s,
     pk_submission_id = sl_submission_id s, pk_submission_version = sl_submission_version s,
     pk_requirement_id = sl_requirement_id s,
     pk_registry_entry_digest = sl_registry_entry_digest s,
     pk_configuration_sha256 = sl_configuration_sha256 s, pk_profile_id = sl_profile_id s,
     pk_profile_version = sl_profile_version s, pk_profile_digest = sl_profile_digest s,
     pk_slot_index = sl_slot_index s \<rparr>"

text \<open>\<open>_evidence(row, prefix)\<close> on the columns of one side.\<close>

definition evidence_of :: "EvidenceColumns \<Rightarrow> model_error + ModelCallEvidence" where
  "evidence_of c =
     (case (ec_binding_id c, ec_content_id c, ec_put_attempt_id c, ec_verification_receipt_id c,
            ec_content_sha256 c, ec_byte_count c) of
        (Some b, Some i, Some p, Some v, Some h, Some n) \<Rightarrow>
          let e = \<lparr> ev_binding_id = b, ev_content_id = i, ev_put_attempt_id = p,
                    ev_verification_receipt_id = v, ev_content_sha256 = h, ev_byte_count = n \<rparr>
          in if ModelCallEvidence_valid e then Inr e else Inl (InvalidValue ''ModelCallEvidence'')
      | _ \<Rightarrow> Inl (Unavailable ''model_call_evidence_unavailable''))"

text \<open>\<open>_set_evidence\<close>: every column of the side is overwritten.\<close>

definition evidence_columns :: "ModelCallEvidence \<Rightarrow> EvidenceColumns" where
  "evidence_columns e =
   \<lparr> ec_binding_id = Some (ev_binding_id e), ec_content_id = Some (ev_content_id e),
     ec_put_attempt_id = Some (ev_put_attempt_id e),
     ec_verification_receipt_id = Some (ev_verification_receipt_id e),
     ec_content_sha256 = Some (ev_content_sha256 e), ec_byte_count = Some (ev_byte_count e) \<rparr>"

definition attempt_view :: "CheckerSlotRow \<Rightarrow> EffectRow \<Rightarrow> bool \<Rightarrow> AttachedModelCallAttempt" where
  "attempt_view s r replayed =
   \<lparr> at_slot_id = sl_id s, at_slot_key = slot_key s, at_attempt_id = ef_id r,
     at_attempt_number = ef_attempt_number r,
     at_internal_call_request_id = ef_internal_call_request_id r,
     at_request_sha256 = ef_request_sha256 r, at_state = ef_state r, at_replayed = replayed \<rparr>"

definition effect_view :: "CheckerSlotRow \<Rightarrow> EffectRow \<Rightarrow> ModelCallEffectAuthorityFacts" where
  "effect_view s r =
   \<lparr> ea_project_id = sl_project_id s, ea_task_id = sl_task_id s, ea_slot_id = sl_id s,
     ea_slot_key = slot_key s, ea_attempt_id = ef_id r,
     ea_internal_call_request_id = ef_internal_call_request_id r \<rparr>"

definition require_effect ::
    "ModelCallEffectAuthorityFacts \<Rightarrow> CheckerSlotRow \<Rightarrow> EffectRow \<Rightarrow> model_error + unit" where
  "require_effect supplied s r =
     (if supplied \<noteq> effect_view s r then Inl (Unavailable ''model_call_effect_unavailable'')
      else Inr ())"

text \<open>\<open>_usage(row)\<close>: absent, complete, or an error when only part of it is stored.\<close>

definition usage_of :: "EffectRow \<Rightarrow> model_error + ModelCallUsage option" where
  "usage_of r =
     (case (ef_input_tokens r, ef_cached_input_tokens r, ef_output_tokens r, ef_reasoning_tokens r) of
        (None, None, None, None) \<Rightarrow> Inr None
      | (Some i, Some c, Some m, Some t) \<Rightarrow>
          let u = \<lparr> us_input_tokens = i, us_cached_input_tokens = c, us_output_tokens = m,
                    us_reasoning_tokens = t \<rparr>
          in if ModelCallUsage_valid u then Inr (Some u) else Inl (InvalidValue ''ModelCallUsage'')
      | _ \<Rightarrow> Inl (Unavailable ''model_call_usage_unavailable''))"

definition stored_retry_terminal_digest :: "codec \<Rightarrow> EffectRow \<Rightarrow> model_error + string option" where
  "stored_retry_terminal_digest cd r =
     (if ef_state r = Known_no_effect then
        (case (ef_no_effect_proof_id r, ef_no_effect_proof_digest r, ef_no_effect_observed_at r,
               ef_reserved_nanodollars r) of
           (Some i, Some d, Some at, Some _) \<Rightarrow>
             Inr (Some (json_digest (sha256_hex cd) (no_effect_facts i d at)))
         | _ \<Rightarrow> Inr None)
      else if ef_state r = Known_failed then
        (andthen (usage_of r) (\<lambda>usage.
           (case (usage, ef_provider_response_id r, ec_content_sha256 (ef_response r),
                  ef_settled_nanodollars r, ef_settlement_authorization_evidence_id r, ef_settled_at r) of
              (Some u, Some p, Some h, Some n, Some _, Some _) \<Rightarrow>
                Inr (Some (json_digest (sha256_hex cd) (known_failed_facts p h u n)))
            | _ \<Rightarrow> Inr None)))
      else Inr None)"

definition eligible_parent :: "codec \<Rightarrow> EffectRow \<Rightarrow> string \<Rightarrow> model_error + bool" where
  "eligible_parent cd r terminal_digest =
     (andthen (stored_retry_terminal_digest cd r) (\<lambda>d. Inr (d = Some terminal_digest)))"

definition require_execution_slot ::
    "ModelCallExecutionFacts \<Rightarrow> ModelPaidSlotKey \<Rightarrow> model_error + unit" where
  "require_execution_slot x k =
     (if ex_project_id x \<noteq> pk_project_id k \<or> ex_assignment_id x \<noteq> pk_assignment_id k \<or>
         ex_submission_id x \<noteq> pk_submission_id k \<or> ex_submission_version x \<noteq> pk_submission_version k
      then Inl (Unavailable ''model_call_execution_unavailable'') else Inr ())"

subsection \<open>Profiles\<close>

definition profile_row :: "ModelProfileProvisioningFacts \<Rightarrow> uuid \<Rightarrow> uuid \<Rightarrow> instant \<Rightarrow> ProfileRow" where
  "profile_row f i authority at = (let p = pf_spec f; c = pricing p in
   \<lparr> pr_id = i, pr_project_id = spec_project_id p, pr_profile_version = spec_profile_version p,
     pr_profile_digest = pf_profile_digest f, pr_provider = provider p, pr_api = api p,
     pr_model_snapshot = model_snapshot p, pr_generation_settings = settings p,
     pr_maximum_request_bytes = maximum_request_bytes p,
     pr_maximum_output_bytes = maximum_output_bytes p,
     pr_maximum_response_bytes = maximum_response_bytes p,
     pr_maximum_input_tokens = maximum_input_tokens p,
     pr_maximum_output_tokens = maximum_output_tokens p,
     pr_maximum_calls = maximum_calls p,
     pr_maximum_total_request_bytes = maximum_total_request_bytes p,
     pr_maximum_total_response_bytes = maximum_total_response_bytes p,
     pr_maximum_total_input_tokens = maximum_total_input_tokens p,
     pr_maximum_total_output_tokens = maximum_total_output_tokens p,
     pr_allowed_tools = allowed_tools p, pr_maximum_tool_calls = maximum_tool_calls p,
     pr_maximum_tool_output_bytes = maximum_tool_output_bytes p, pr_deadline_ms = deadline_ms p,
     pr_pricing_policy_id = pricing_policy_id c,
     pr_pricing_policy_version = pricing_policy_version c,
     pr_pricing_policy_digest = pricing_policy_digest c,
     pr_uncached_input_rate = uncached_input_nanodollars_per_token c,
     pr_cached_input_rate = cached_input_nanodollars_per_token c,
     pr_output_rate = output_nanodollars_per_token c,
     pr_operation_id = pf_operation_id f, pr_actor_profile_id = pf_actor_profile_id f,
     pr_authorization_evidence_id = authority, pr_created_at = at \<rparr>)"

definition stored_profile_facts :: "ProjectModelProfile \<Rightarrow> ModelProfileProvisioningFacts" where
  "stored_profile_facts p =
   \<lparr> pf_operation_id = pf_operation_id p, pf_actor_profile_id = pf_actor_profile_id p,
     pf_spec = pf_spec p, pf_profile_digest = pf_profile_digest p \<rparr>"

definition provision_profile ::
    "checker_env \<Rightarrow> model_db \<Rightarrow> ModelProfileProvisioningFacts \<Rightarrow>
     model_error + (ProjectModelProfile \<times> model_db)" where
  "provision_profile env db facts =
    (andthen (require_model_call_transaction (en_session env)) (\<lambda>_.
     if \<not> ModelProfileProvisioningFacts_valid (en_codec env) facts
     then Inl (InvalidValue ''ModelProfileProvisioningFacts'') else
     andthen (maximum_reservation_nanodollars (pf_spec facts)) (\<lambda>_.
     andthen (authorize_profile env facts) (\<lambda>authority.
     andthen (require_authority (en_codec env) ''profile'' (ModelProfileProvisioningFacts_dump facts)
            authority) (\<lambda>_.
     case profile_by_operation db (pf_operation_id facts) of
       Some by_operation \<Rightarrow>
         (andthen (stored_model_profile (en_codec env) by_operation) (\<lambda>existing.
          if stored_profile_facts existing \<noteq> facts
          then Inl (Conflict ''model_profile_operation_conflict'')
          else Inr (existing, db)))
     | None \<Rightarrow>
       if profile_by_version db (spec_project_id (pf_spec facts)) (spec_profile_version (pf_spec facts))
            \<noteq> None
       then Inl (Conflict ''model_profile_version_conflict'') else
       let latest = latest_profile db (spec_project_id (pf_spec facts));
           expected_version = (case latest of None \<Rightarrow> 1 | Some p \<Rightarrow> pr_profile_version p + 1)
       in if spec_profile_version (pf_spec facts) \<noteq> expected_version
          then Inl (Conflict ''model_profile_version_conflict'') else
          let row = profile_row facts (new_id env 0) (ae_evidence_id authority) (clock env 0)
          in andthen (insert_profile db row) (\<lambda>db'.
             andthen (stored_model_profile (en_codec env) row) (\<lambda>p.
             Inr (p, db'))))))))"

definition read_exact ::
    "checker_env \<Rightarrow> model_db \<Rightarrow> ModelProfileSelector \<Rightarrow> uuid \<Rightarrow> model_error + ProjectModelProfile" where
  "read_exact env db sel project =
    (andthen (require_model_call_transaction (en_session env)) (\<lambda>_.
     if \<not> ModelProfileSelector_valid sel then Inl (InvalidValue ''ModelProfileSelector'') else
     need (profile_exact db (ms_profile_id sel) (ms_profile_version sel) (ms_profile_digest sel)) (Unavailable ''model_profile_unavailable'') (\<lambda>row.
     andthen (stored_model_profile (en_codec env) row) (\<lambda>result.
     if spec_project_id (pf_spec result) \<noteq> project
     then Inl (Unavailable ''model_profile_unavailable'') else Inr result))))"

definition profile_for_slot :: "checker_env \<Rightarrow> model_db \<Rightarrow> ModelPaidSlotKey \<Rightarrow>
    model_error + ProjectModelProfile" where
  "profile_for_slot env db k =
     read_exact env db \<lparr> ms_profile_id = pk_profile_id k, ms_profile_version = pk_profile_version k,
                         ms_profile_digest = pk_profile_digest k \<rparr> (pk_project_id k)"

definition profile_for_stored_slot :: "checker_env \<Rightarrow> model_db \<Rightarrow> ModelPaidSlotKey \<Rightarrow>
    model_error + ProjectModelProfile" where
  "profile_for_stored_slot env db k =
    (need (profile_exact db (pk_profile_id k) (pk_profile_version k) (pk_profile_digest k)) (Unavailable ''model_profile_unavailable'') (\<lambda>row.
     andthen (stored_model_profile (en_codec env) row) (\<lambda>result.
     if spec_project_id (pf_spec result) \<noteq> pk_project_id k
     then Inl (Unavailable ''model_profile_unavailable'') else Inr result)))"

subsection \<open>Budgets\<close>

definition budget_value ::
    "BudgetConfigurationRow \<Rightarrow> BudgetAccountRow \<Rightarrow> ProjectModelBudgetConfiguration" where
  "budget_value r a =
   \<lparr> bf_operation_id = cf_operation_id r, bf_actor_profile_id = cf_actor_profile_id r,
     bf_spec = \<lparr> bs_project_id = cf_project_id r,
                 bs_configuration_version = cf_configuration_version r,
                 bs_authorized_total_nanodollars = cf_authorized_total_nanodollars r,
                 bs_externally_reconciled_prior_spend_nanodollars =
                   cf_externally_reconciled_prior_spend_nanodollars r,
                 bs_lifetime_limit_nanodollars = cf_lifetime_limit_nanodollars r \<rparr>,
     bf_configuration_digest = cf_configuration_digest r,
     bc_configuration_id = cf_id r,
     bc_authorization_evidence_id = cf_authorization_evidence_id r,
     bc_created_at = cf_created_at r,
     bc_lifetime_reserved_nanodollars = ac_lifetime_reserved_nanodollars a,
     bc_lifetime_settled_nanodollars = ac_lifetime_settled_nanodollars a \<rparr>"

definition budget_result ::
    "codec \<Rightarrow> BudgetConfigurationRow \<Rightarrow> BudgetAccountRow \<Rightarrow>
     model_error + ProjectModelBudgetConfiguration" where
  "budget_result cd r a =
     (if ProjectModelBudgetConfiguration_valid cd (budget_value r a) then Inr (budget_value r a)
      else Inl (InvalidValue ''ProjectModelBudgetConfiguration''))"

definition stored_budget_facts :: "ProjectModelBudgetConfiguration \<Rightarrow> ModelBudgetProvisioningFacts" where
  "stored_budget_facts b =
   \<lparr> bf_operation_id = bf_operation_id b, bf_actor_profile_id = bf_actor_profile_id b,
     bf_spec = bf_spec b, bf_configuration_digest = bf_configuration_digest b \<rparr>"

definition configuration_row ::
    "ModelBudgetProvisioningFacts \<Rightarrow> uuid \<Rightarrow> uuid \<Rightarrow> instant \<Rightarrow> BudgetConfigurationRow" where
  "configuration_row f i authority at =
   \<lparr> cf_id = i, cf_project_id = bs_project_id (bf_spec f),
     cf_configuration_version = bs_configuration_version (bf_spec f),
     cf_configuration_digest = bf_configuration_digest f,
     cf_authorized_total_nanodollars = bs_authorized_total_nanodollars (bf_spec f),
     cf_externally_reconciled_prior_spend_nanodollars =
       bs_externally_reconciled_prior_spend_nanodollars (bf_spec f),
     cf_lifetime_limit_nanodollars = bs_lifetime_limit_nanodollars (bf_spec f),
     cf_operation_id = bf_operation_id f, cf_actor_profile_id = bf_actor_profile_id f,
     cf_authorization_evidence_id = authority, cf_created_at = at \<rparr>"

text \<open>
  The part of \<open>provision_budget\<close> after the idempotency look-up: version and reconciliation guards
  against the current configuration, the lifetime-usage guard, the new row and the repointed or
  newly opened account.
\<close>

definition advance_budget ::
    "checker_env \<Rightarrow> model_db \<Rightarrow> ModelBudgetProvisioningFacts \<Rightarrow> ModelActionEvidence \<Rightarrow>
     model_error + (ProjectModelBudgetConfiguration \<times> model_db)" where
  "advance_budget env db facts authority =
    (let spec = bf_spec facts;
         account = budget_account db (bs_project_id spec);
         current = Option.bind account (current_budget_configuration db);
         expected_version = (case current of None \<Rightarrow> 1 | Some c \<Rightarrow> cf_configuration_version c + 1);
         reserved = (case account of None \<Rightarrow> 0 | Some a \<Rightarrow> ac_lifetime_reserved_nanodollars a);
         settled = (case account of None \<Rightarrow> 0 | Some a \<Rightarrow> ac_lifetime_settled_nanodollars a)
     in if bs_configuration_version spec \<noteq> expected_version
        then Inl (Conflict ''model_budget_version_conflict'')
        else if (case current of None \<Rightarrow> False | Some c \<Rightarrow>
                   bs_authorized_total_nanodollars spec < cf_authorized_total_nanodollars c \<or>
                   bs_externally_reconciled_prior_spend_nanodollars spec
                     < cf_externally_reconciled_prior_spend_nanodollars c)
        then Inl (Conflict ''model_budget_reconciliation_conflict'')
        else if budget_configuration_by_version db (bs_project_id spec) (bs_configuration_version spec)
                  \<noteq> None
        then Inl (Conflict ''model_budget_version_conflict'')
        else if bs_lifetime_limit_nanodollars spec < reserved + settled
        then Inl (BudgetUnavailable ''model_budget_below_lifetime_usage'') else
        let row = configuration_row facts (new_id env 0) (ae_evidence_id authority) (clock env 0)
        in andthen (insert_configuration db row) (\<lambda>db1.
           (case account of
              None \<Rightarrow>
                let a = \<lparr> ac_project_id = bs_project_id spec, ac_current_configuration_id = cf_id row,
                          ac_lifetime_reserved_nanodollars = 0, ac_lifetime_settled_nanodollars = 0 \<rparr>
                in (andthen (insert_account db1 a) (\<lambda>db2.
                    andthen (budget_result (en_codec env) row a) (\<lambda>b. Inr (b, db2))))
            | Some old \<Rightarrow>
                let a = old\<lparr>ac_current_configuration_id := cf_id row\<rparr>
                in (andthen (update_account db1 a) (\<lambda>db2.
                    andthen (budget_result (en_codec env) row a) (\<lambda>b. Inr (b, db2)))))))"

definition provision_budget ::
    "checker_env \<Rightarrow> model_db \<Rightarrow> ModelBudgetProvisioningFacts \<Rightarrow>
     model_error + (ProjectModelBudgetConfiguration \<times> model_db)" where
  "provision_budget env db facts =
    (andthen (require_model_call_transaction (en_session env)) (\<lambda>_.
     if \<not> ModelBudgetProvisioningFacts_valid (en_codec env) facts
     then Inl (InvalidValue ''ModelBudgetProvisioningFacts'') else
     andthen (authorize_budget env facts) (\<lambda>authority.
     andthen (require_authority (en_codec env) ''budget'' (ModelBudgetProvisioningFacts_dump facts)
            authority) (\<lambda>_.
     case budget_configuration_by_operation db (bf_operation_id facts) of
       None \<Rightarrow> advance_budget env db facts authority
     | Some by_operation \<Rightarrow>
       (need (budget_account db (bs_project_id (bf_spec facts))) (Unavailable ''model_budget_account_unavailable'') (\<lambda>account.
        andthen (budget_result (en_codec env) by_operation account) (\<lambda>result.
        if stored_budget_facts result \<noteq> facts
        then Inl (Conflict ''model_budget_operation_conflict'') else Inr (result, db))))))))"

subsection \<open>Preparation\<close>

definition envelope_row :: "uuid \<Rightarrow> uuid \<Rightarrow> ModelPaidSlotKey \<Rightarrow> CheckerEnvelopeRow" where
  "envelope_row i task k =
   \<lparr> ce_id = i, ce_task_id = task, ce_project_id = pk_project_id k,
     ce_assignment_id = pk_assignment_id k, ce_submission_id = pk_submission_id k,
     ce_submission_version = pk_submission_version k, ce_requirement_id = pk_requirement_id k,
     ce_registry_entry_digest = pk_registry_entry_digest k,
     ce_configuration_sha256 = pk_configuration_sha256 k, ce_profile_id = pk_profile_id k,
     ce_profile_version = pk_profile_version k, ce_profile_digest = pk_profile_digest k \<rparr>"

definition slot_row :: "uuid \<Rightarrow> uuid \<Rightarrow> uuid \<Rightarrow> ModelPaidSlotKey \<Rightarrow> string \<Rightarrow> CheckerSlotRow" where
  "slot_row i envelope_id task k sha =
   \<lparr> sl_id = i, sl_envelope_id = envelope_id, sl_task_id = task, sl_project_id = pk_project_id k,
     sl_assignment_id = pk_assignment_id k, sl_submission_id = pk_submission_id k,
     sl_submission_version = pk_submission_version k, sl_requirement_id = pk_requirement_id k,
     sl_registry_entry_digest = pk_registry_entry_digest k,
     sl_configuration_sha256 = pk_configuration_sha256 k, sl_profile_id = pk_profile_id k,
     sl_profile_version = pk_profile_version k, sl_profile_digest = pk_profile_digest k,
     sl_slot_index = pk_slot_index k, sl_first_request_sha256 = sha \<rparr>"

definition require_checker_envelope ::
    "model_db \<Rightarrow> uuid \<Rightarrow> ModelCallExecutionFacts \<Rightarrow> ModelPaidSlotKey \<Rightarrow>
     model_error + (CheckerEnvelopeRow \<times> model_db)" where
  "require_checker_envelope db i x k =
    (case envelope db k of
       None \<Rightarrow>
         let row = envelope_row i (ex_task_id x) k
         in (andthen (insert_envelope db row) (\<lambda>db'. Inr (row, db')))
     | Some row \<Rightarrow>
         if ce_task_id row \<noteq> ex_task_id x then Inl (Conflict ''model_call_envelope_conflict'')
         else Inr (row, db))"

text \<open>The slot half of \<open>prepare_attempt\<close>: reuse the exact slot or open it.\<close>

definition require_checker_slot ::
    "model_db \<Rightarrow> uuid \<Rightarrow> CheckerEnvelopeRow \<Rightarrow> ModelCallExecutionFacts \<Rightarrow> ModelPaidSlotKey \<Rightarrow> string \<Rightarrow>
     model_error + (CheckerSlotRow \<times> model_db)" where
  "require_checker_slot db i env_row x k sha =
    (case slot db k of
       None \<Rightarrow>
         let row = slot_row i (ce_id env_row) (ex_task_id x) k sha
         in (andthen (insert_slot db row) (\<lambda>db'. Inr (row, db')))
     | Some row \<Rightarrow>
         if sl_first_request_sha256 row \<noteq> sha \<or> sl_task_id row \<noteq> ex_task_id x
         then Inl (Conflict ''model_call_request_conflict'') else Inr (row, db))"

definition prepare_attempt ::
    "checker_env \<Rightarrow> model_db \<Rightarrow> ModelCallExecutionFacts \<Rightarrow> ModelPaidSlotKey \<Rightarrow> string \<Rightarrow>
     model_error + (AttachedModelCallAttempt \<times> model_db)" where
  "prepare_attempt env db x k sha_text =
    (andthen (require_model_call_transaction (en_session env)) (\<lambda>_.
     if \<not> ModelCallExecutionFacts_valid x then Inl (InvalidValue ''ModelCallExecutionFacts'') else
     if \<not> ModelPaidSlotKey_valid k then Inl (InvalidValue ''ModelPaidSlotKey'') else
     andthen (sha_checked sha_text) (\<lambda>sha.
     andthen (require_execution_slot x k) (\<lambda>_.
     andthen (authorize_prepare env x k sha) (\<lambda>authority.
     andthen (require_authority (en_codec env) ''prepare''
            (jobj [(''execution'', ModelCallExecutionFacts_dump (en_codec env) x),
                   (''slot'', ModelPaidSlotKey_dump k), (''request_sha256'', jstr sha)])
            authority) (\<lambda>_.
     andthen (require_current env x k) (\<lambda>_.
     andthen (profile_for_slot env db k) (\<lambda>_.
     andthen (require_checker_envelope db (new_id env 0) x k) (\<lambda>(env_row, db1).
     andthen (require_checker_slot db1 (new_id env 1) env_row x k sha) (\<lambda>(s, db2).
     case latest_attempt db2 (sl_id s) of
       Some row \<Rightarrow> Inr (attempt_view s row True, db2)
     | None \<Rightarrow>
       let row = new_effect (new_id env 2) (Some (sl_id s)) None 1 (new_id env 3) None sha (Some x)
                   (ae_evidence_id authority) (clock env 0)
       in andthen (insert_effect db2 row) (\<lambda>db3. Inr (attempt_view s row False, db3))))))))))))"

definition prepare_recovery_child ::
    "checker_env \<Rightarrow> model_db \<Rightarrow> ModelPaidSlotKey \<Rightarrow> uuid \<Rightarrow> string \<Rightarrow> string \<Rightarrow>
     model_error + (AttachedModelCallAttempt \<times> model_db)" where
  "prepare_recovery_child env db k parent_id terminal_text sha_text =
    (andthen (require_model_call_transaction (en_session env)) (\<lambda>_.
     if \<not> ModelPaidSlotKey_valid k then Inl (InvalidValue ''ModelPaidSlotKey'') else
     andthen (sha_checked terminal_text) (\<lambda>terminal_digest.
     andthen (sha_checked sha_text) (\<lambda>sha.
     andthen (authorize_child env (pk_project_id k) parent_id terminal_digest) (\<lambda>authority.
     andthen (require_authority (en_codec env) ''child''
            (jobj [(''project_id'', juuid (pk_project_id k)), (''parent_attempt_id'', juuid parent_id),
                   (''terminal_digest'', jstr terminal_digest)])
            authority) (\<lambda>_.
     andthen (require_recovery_current env k parent_id) (\<lambda>_.
     andthen (profile_for_slot env db k) (\<lambda>_.
     need (envelope db k) (Unavailable ''model_call_parent_unavailable'') (\<lambda>_.
     need (slot db k) (Unavailable ''model_call_parent_unavailable'') (\<lambda>s.
     if sl_first_request_sha256 s \<noteq> sha then Inl (Conflict ''model_call_request_conflict'') else
     need (latest_attempt db (sl_id s)) (Unavailable ''model_call_parent_unavailable'') (\<lambda>latest.
     need ((if ef_id latest = parent_id then Some latest else attempt db parent_id)) (Conflict ''model_call_parent_not_retryable'') (\<lambda>parent.
     if ef_checker_slot_id parent \<noteq> Some (sl_id s)
     then Inl (Conflict ''model_call_parent_not_retryable'') else
     andthen (eligible_parent (en_codec env) parent terminal_digest) (\<lambda>eligible.
     if \<not> eligible then Inl (Conflict ''model_call_parent_not_retryable'') else
     if ef_id latest \<noteq> parent_id then
       (if ef_attempt_number latest > 1 \<and> ef_state latest = Prepared \<and>
           ef_parent_attempt_id latest = Some parent_id \<and> ef_request_sha256 latest = sha
        then Inr (attempt_view s latest True, db)
        else Inl (Conflict ''model_call_parent_superseded''))
     else
       let child = new_effect (new_id env 0) (Some (sl_id s)) None (ef_attempt_number latest + 1)
                     (new_id env 1) (Some parent_id) sha None (ae_evidence_id authority) (clock env 0)
       in andthen (insert_effect db child) (\<lambda>db'. Inr (attempt_view s child False, db')))))))))))))))"

subsection \<open>Dispatch\<close>

text \<open>\<open>session.get(CheckerModelUsageSlot, row.checker_slot_id)\<close>: a null key loads nothing.\<close>

definition get_slot :: "model_db \<Rightarrow> uuid option \<Rightarrow> CheckerSlotRow option" where
  "get_slot db m = Option.bind m (\<lambda>i. row_get sl_id i (slots db))"

definition dispatch_result :: "EffectRow \<Rightarrow> CheckerSlotRow \<Rightarrow> bool \<Rightarrow> model_error + ModelDispatchReservation" where
  "dispatch_result r s replayed =
    (if ef_state r \<notin> {Dispatching, Uncertain, Completed}
     then Inl (Conflict ''model_call_not_dispatchable'') else
     need (ef_checker_slot_id r) (InvalidValue ''slot_id'') (\<lambda>slot_id.
     andthen (evidence_of (ef_request r)) (\<lambda>request_evidence.
     need (ef_budget_configuration_id r) (InvalidValue ''budget_configuration_id'') (\<lambda>budget_id.
     need (ef_budget_configuration_version r) (InvalidValue ''budget_configuration_version'') (\<lambda>budget_version.
     need (ef_budget_configuration_digest r) (InvalidValue ''budget_configuration_digest'') (\<lambda>budget_digest.
     need (ef_reserved_nanodollars r) (InvalidValue ''reserved_nanodollars'') (\<lambda>reserved.
     andthen (if ec_content_sha256 (ef_response r) \<noteq> None
              then andthen (evidence_of (ef_response r)) (\<lambda>e. Inr (Some e)) else Inr None)
       (\<lambda>response_evidence.
     Inr \<lparr> dr_slot_id = slot_id, dr_attempt_id = ef_id r, dr_attempt_number = ef_attempt_number r,
           dr_internal_call_request_id = ef_internal_call_request_id r,
           dr_effect = effect_view s r, dr_request_sha256 = ef_request_sha256 r,
           dr_request_evidence = request_evidence, dr_budget_configuration_id = budget_id,
           dr_budget_configuration_version = budget_version,
           dr_budget_configuration_digest = budget_digest, dr_reserved_nanodollars = reserved,
           dr_state = ef_state r, dr_provider_response_id = ef_provider_response_id r,
           dr_response_evidence = response_evidence, dr_replayed = replayed \<rparr>))))))))"

text \<open>The six whole-run ceilings tested before a new dispatch.\<close>

definition run_envelope_exceeded ::
    "ModelUsageEnvelopeTotals \<Rightarrow> ProjectModelProfileSpec \<Rightarrow> int \<Rightarrow> int \<Rightarrow> int \<Rightarrow> bool" where
  "run_envelope_exceeded t p reservation run byte_count \<longleftrightarrow>
     dispatches t \<ge> maximum_calls p \<or>
     total_reserved_nanodollars t + total_settled_nanodollars t + reservation > run \<or>
     request_bytes t + byte_count > maximum_total_request_bytes p \<or>
     response_bytes t + (pending_dispatches t + 1) * maximum_response_bytes p
       > maximum_total_response_bytes p \<or>
     input_tokens t + (pending_dispatches t + 1) * maximum_input_tokens p
       > maximum_total_input_tokens p \<or>
     output_tokens t + (pending_dispatches t + 1) * maximum_output_tokens p
       > maximum_total_output_tokens p"

text \<open>The columns a reservation writes on the effect.\<close>

definition dispatched_row ::
    "EffectRow \<Rightarrow> ModelCallEvidence \<Rightarrow> BudgetConfigurationRow \<Rightarrow> int \<Rightarrow> ModelCallExecutionFacts option \<Rightarrow>
     uuid \<Rightarrow> instant \<Rightarrow> EffectRow" where
  "dispatched_row r ev budget reservation x authority at =
     r\<lparr> ef_request := evidence_columns ev,
        ef_budget_configuration_id := Some (cf_id budget),
        ef_budget_configuration_version := Some (cf_configuration_version budget),
        ef_budget_configuration_digest := Some (cf_configuration_digest budget),
        ef_reserved_nanodollars := Some reservation,
        ef_dispatch_execution_facts := x,
        ef_dispatch_authorization_evidence_id := Some authority,
        ef_dispatched_at := Some at, ef_state := Dispatching \<rparr>"

definition reserve_dispatch ::
    "checker_env \<Rightarrow> model_db \<Rightarrow> ModelCallExecutionFacts \<Rightarrow> AttachedModelCallAttempt \<Rightarrow> ModelCallEvidence \<Rightarrow>
     model_error + (ModelDispatchReservation \<times> model_db)" where
  "reserve_dispatch env db x a ev =
    andthen (require_model_call_transaction (en_session env)) (\<lambda>_.
    if \<not> ModelCallExecutionFacts_valid x then Inl (InvalidValue ''ModelCallExecutionFacts'') else
    if \<not> PreparedModelCallAttempt_valid a then Inl (InvalidValue ''PreparedModelCallAttempt'') else
    if \<not> ModelCallEvidence_valid ev then Inl (InvalidValue ''ModelCallEvidence'') else
    andthen (require_execution_slot x (at_slot_key a)) (\<lambda>_.
    let authority_attempt = a\<lparr>at_replayed := False\<rparr> in
    andthen (authorize_dispatch env x authority_attempt ev) (\<lambda>authority.
    andthen (require_authority (en_codec env) ''dispatch''
        (jobj [(''execution'', ModelCallExecutionFacts_dump (en_codec env) x),
               (''attempt'', AttachedModelCallAttempt_dump authority_attempt),
               (''request_evidence'', ModelCallEvidence_dump ev)]) authority) (\<lambda>_.
    andthen (require_current env x (at_slot_key a)) (\<lambda>_.
    andthen (require_request env a ev) (\<lambda>_.
    andthen (profile_for_stored_slot env db (at_slot_key a)) (\<lambda>profile.
    if ev_content_sha256 ev \<noteq> at_request_sha256 a \<or>
       ev_byte_count ev > maximum_request_bytes (pf_spec profile)
    then Inl (Conflict ''model_call_request_evidence_conflict'') else
    need (envelope db (at_slot_key a)) (Unavailable ''model_call_envelope_unavailable'') (\<lambda>env_row.
    need (slot db (at_slot_key a)) (Unavailable ''model_call_attempt_unavailable'') (\<lambda>s.
    if sl_id s \<noteq> at_slot_id a then Inl (Unavailable ''model_call_attempt_unavailable'') else
    need (attempt db (at_attempt_id a)) (Unavailable ''model_call_attempt_unavailable'') (\<lambda>row.
    if ef_checker_slot_id row \<noteq> Some (sl_id s)
    then Inl (Unavailable ''model_call_attempt_unavailable'') else
    if ef_state row \<noteq> Prepared then
      andthen (evidence_of (ef_request row)) (\<lambda>stored.
      if stored \<noteq> ev then Inl (Conflict ''model_call_dispatch_conflict'') else
      andthen (dispatch_result row s True) (\<lambda>result. Inr (result, db)))
    else if ef_request_sha256 row \<noteq> at_request_sha256 a \<or>
            ef_attempt_number row \<noteq> at_attempt_number a \<or>
            ef_internal_call_request_id row \<noteq> at_internal_call_request_id a
    then Inl (Conflict ''model_call_attempt_conflict'') else
    andthen (maximum_dispatch_reservation_nanodollars (pf_spec profile)) (\<lambda>reservation.
    andthen (maximum_reservation_nanodollars (pf_spec profile)) (\<lambda>run.
    if run_envelope_exceeded (envelope_totals db (ce_id env_row)) (pf_spec profile) reservation run
         (ev_byte_count ev)
    then Inl (BudgetUnavailable ''model_run_envelope_unavailable'') else
    need (budget_account db (pk_project_id (at_slot_key a)))
         (BudgetUnavailable ''model_budget_unavailable'') (\<lambda>account.
    need (current_budget_configuration db account)
         (BudgetUnavailable ''model_budget_unavailable'') (\<lambda>budget.
    if ac_lifetime_reserved_nanodollars account + ac_lifetime_settled_nanodollars account + reservation
         > cf_lifetime_limit_nanodollars budget
    then Inl (BudgetUnavailable ''model_budget_exhausted'') else
    let account' = account\<lparr>ac_lifetime_reserved_nanodollars :=
                             ac_lifetime_reserved_nanodollars account + reservation\<rparr>;
        row' = dispatched_row row ev budget reservation (Some x) (ae_evidence_id authority) (clock env 0)
    in andthen (update_account db account') (\<lambda>db1.
       andthen (update_effect db1 row') (\<lambda>db2.
       andthen (dispatch_result row' s False) (\<lambda>result. Inr (result, db2))))))))))))))))))"

subsection \<open>Recovery attachments\<close>

text \<open>
  The prefix shared by \<open>attach_recovery\<close> and \<open>attach_completed\<close>: authority, currentness, and the
  slot that owns the named attempt, read before and after the locks.
\<close>

definition attach_preflight ::
    "checker_env \<Rightarrow> model_db \<Rightarrow> ModelCallExecutionFacts \<Rightarrow> ModelCallEffectAuthorityFacts \<Rightarrow>
     model_error + (ModelActionEvidence \<times> CheckerSlotRow \<times> EffectRow)" where
  "attach_preflight env db x eff =
    andthen (require_model_call_transaction (en_session env)) (\<lambda>_.
    if \<not> ModelCallExecutionFacts_valid x then Inl (InvalidValue ''ModelCallExecutionFacts'') else
    if \<not> ModelPaidSlotKey_valid (ea_slot_key eff)
    then Inl (InvalidValue ''ModelCallEffectAuthorityFacts'') else
    andthen (require_execution_slot x (ea_slot_key eff)) (\<lambda>_.
    if ex_task_id x \<noteq> ea_task_id eff then Inl (Unavailable ''model_call_execution_unavailable'') else
    andthen (authorize_recover env x eff) (\<lambda>authority.
    andthen (require_authority (en_codec env) ''recover''
        (jobj [(''execution'', ModelCallExecutionFacts_dump (en_codec env) x),
               (''effect'', ModelCallEffectAuthorityFacts_dump eff)]) authority) (\<lambda>_.
    andthen (require_current env x (ea_slot_key eff)) (\<lambda>_.
    need (attempt db (ea_attempt_id eff)) (Unavailable ''model_call_attempt_unavailable'') (\<lambda>row.
    need (get_slot db (ef_checker_slot_id row)) (Unavailable ''model_call_attempt_unavailable'') (\<lambda>s.
    andthen (require_execution_slot x (slot_key s)) (\<lambda>_.
    need (envelope db (slot_key s)) (Unavailable ''model_call_envelope_unavailable'') (\<lambda>_.
    need (slot db (slot_key s)) (Unavailable ''model_call_attempt_unavailable'') (\<lambda>locked.
    if sl_id locked \<noteq> sl_id s then Inl (Unavailable ''model_call_attempt_unavailable'') else
    Inr (authority, locked, row)))))))))))"

definition recovery_row ::
    "uuid \<Rightarrow> ModelCallExecutionFacts \<Rightarrow> ModelCallEffectAuthorityFacts \<Rightarrow> uuid \<Rightarrow> RecoveryRow" where
  "recovery_row i x eff authority =
   \<lparr> rc_id = i, rc_attempt_id = ea_attempt_id eff, rc_checker_run_id = ex_checker_run_id x,
     rc_worker_lease_id = ex_worker_lease_id x,
     rc_worker_lease_generation = ex_worker_lease_generation x,
     rc_execution_facts = x, rc_effect_facts = eff, rc_authorization_evidence_id = authority \<rparr>"

text \<open>Reuse the attachment of this exact run and lease or insert it; the flag tells which.\<close>

definition attach_once ::
    "checker_env \<Rightarrow> model_db \<Rightarrow> ModelCallExecutionFacts \<Rightarrow> ModelCallEffectAuthorityFacts \<Rightarrow>
     ModelActionEvidence \<Rightarrow> model_error + (bool \<times> model_db)" where
  "attach_once env db x eff authority =
    (case recovery db (ea_attempt_id eff) (ex_checker_run_id x) (ex_worker_lease_id x)
            (ex_worker_lease_generation x) of
       Some _ \<Rightarrow> Inr (True, db)
     | None \<Rightarrow> andthen (insert_recovery db (recovery_row (new_id env 0) x eff (ae_evidence_id authority)))
                 (\<lambda>db'. Inr (False, db')))"

definition attach_recovery ::
    "checker_env \<Rightarrow> model_db \<Rightarrow> ModelCallExecutionFacts \<Rightarrow> ModelCallEffectAuthorityFacts \<Rightarrow>
     model_error + (ModelCallRecoveryAttachment \<times> model_db)" where
  "attach_recovery env db x eff =
    andthen (attach_preflight env db x eff) (\<lambda>(authority, s, row).
    andthen (require_effect eff s row) (\<lambda>_.
    need (ef_provider_response_id row) (Unavailable ''model_call_recovery_unavailable'') (\<lambda>response_id.
    if \<not> pending row then Inl (Unavailable ''model_call_recovery_unavailable'') else
    andthen (attach_once env db x eff authority) (\<lambda>(replayed, db').
    Inr (\<lparr> ra_slot_id = sl_id s, ra_attempt_id = ef_id row, ra_attempt_number = ef_attempt_number row,
           ra_internal_call_request_id = ef_internal_call_request_id row,
           ra_provider_response_id = response_id, ra_state = ef_state row,
           ra_replayed = replayed \<rparr>, db')))))"

text \<open>\<open>_completed_result\<close> and \<open>_failed_result\<close> read the same columns.\<close>

definition terminal_result :: "EffectRow \<Rightarrow> bool \<Rightarrow> model_error + TerminalModelCall" where
  "terminal_result r replayed =
    andthen (usage_of r) (\<lambda>usage.
    need usage (Unavailable ''model_call_completion_unavailable'') (\<lambda>u.
    need (ef_terminal_at r) (Unavailable ''model_call_completion_unavailable'') (\<lambda>at.
    need (ef_settled_nanodollars r) (Unavailable ''model_call_completion_unavailable'') (\<lambda>settled.
    need (ef_checker_slot_id r) (InvalidValue ''slot_id'') (\<lambda>slot_id.
    need (ef_provider_response_id r) (InvalidValue ''provider_response_id'') (\<lambda>response_id.
    andthen (evidence_of (ef_request r)) (\<lambda>request_evidence.
    andthen (evidence_of (ef_response r)) (\<lambda>response_evidence.
    Inr \<lparr> tc_slot_id = slot_id, tc_attempt_id = ef_id r, tc_attempt_number = ef_attempt_number r,
          tc_internal_call_request_id = ef_internal_call_request_id r,
          tc_provider_response_id = response_id, tc_request_evidence = request_evidence,
          tc_response_evidence = response_evidence, tc_usage = u, tc_settled_nanodollars = settled,
          tc_completed_at = at, tc_replayed = replayed \<rparr>))))))))"

definition attach_completed ::
    "checker_env \<Rightarrow> model_db \<Rightarrow> ModelCallExecutionFacts \<Rightarrow> ModelCallEffectAuthorityFacts \<Rightarrow>
     model_error + (TerminalModelCall \<times> model_db)" where
  "attach_completed env db x eff =
    andthen (attach_preflight env db x eff) (\<lambda>(authority, s, row).
    if ef_state row \<noteq> Completed then Inl (Unavailable ''model_call_completion_unavailable'') else
    andthen (require_effect eff s row) (\<lambda>_.
    andthen (attach_once env db x eff authority) (\<lambda>(replayed, db').
    andthen (terminal_result row replayed) (\<lambda>result. Inr (result, db')))))"

subsection \<open>Terminal accounting\<close>

definition terminal_preflight ::
    "checker_env \<Rightarrow> model_db \<Rightarrow> uuid \<Rightarrow> model_error + (EffectRow \<times> CheckerSlotRow \<times> ProjectModelProfile)" where
  "terminal_preflight env db attempt_id =
    andthen (require_model_call_transaction (en_session env)) (\<lambda>_.
    need (attempt db attempt_id) (Unavailable ''model_call_attempt_unavailable'') (\<lambda>row.
    need (get_slot db (ef_checker_slot_id row)) (Unavailable ''model_call_attempt_unavailable'') (\<lambda>s.
    need (profile_exact db (sl_profile_id s) (sl_profile_version s) (sl_profile_digest s))
         (Unavailable ''model_profile_unavailable'') (\<lambda>profile_row.
    andthen (stored_model_profile (en_codec env) profile_row) (\<lambda>profile.
    Inr (row, s, profile))))))"

definition lock_terminal :: "model_db \<Rightarrow> CheckerSlotRow \<Rightarrow> uuid \<Rightarrow> model_error + EffectRow" where
  "lock_terminal db s attempt_id =
    need (envelope db (slot_key s)) (Unavailable ''model_call_envelope_unavailable'') (\<lambda>_.
    need (slot db (slot_key s)) (Unavailable ''model_call_attempt_unavailable'') (\<lambda>locked.
    if sl_id locked \<noteq> sl_id s then Inl (Unavailable ''model_call_attempt_unavailable'') else
    need (attempt db attempt_id) (Unavailable ''model_call_attempt_unavailable'') (\<lambda>row.
    if ef_checker_slot_id row \<noteq> Some (sl_id s)
    then Inl (Unavailable ''model_call_attempt_unavailable'') else Inr row)))"

definition require_effect_pending :: "EffectRow \<Rightarrow> model_error + unit" where
  "require_effect_pending r =
    (if \<not> pending r then Inl (Conflict ''model_call_terminal_conflict'')
     else if ef_reserved_nanodollars r = None
     then Inl (Unavailable ''model_call_reservation_unavailable'') else Inr ())"

text \<open>\<open>_settle\<close> and \<open>_release\<close>: the project's account with the reservation moved or returned.\<close>

definition settle :: "model_db \<Rightarrow> EffectRow \<Rightarrow> CheckerSlotRow \<Rightarrow> int \<Rightarrow> model_error + BudgetAccountRow" where
  "settle db r s cost =
    need (budget_account db (sl_project_id s)) (Unavailable ''model_budget_unavailable'') (\<lambda>account.
    need (ef_reserved_nanodollars r) (Unavailable ''model_budget_unavailable'') (\<lambda>reserved.
    if ac_lifetime_reserved_nanodollars account < reserved
    then Inl (Unavailable ''model_budget_conservation_failed'') else
    Inr (account\<lparr> ac_lifetime_reserved_nanodollars := ac_lifetime_reserved_nanodollars account - reserved,
                  ac_lifetime_settled_nanodollars := ac_lifetime_settled_nanodollars account + cost \<rparr>)))"

definition release :: "model_db \<Rightarrow> EffectRow \<Rightarrow> CheckerSlotRow \<Rightarrow> model_error + BudgetAccountRow" where
  "release db r s =
    need (budget_account db (sl_project_id s)) (Unavailable ''model_budget_unavailable'') (\<lambda>account.
    need (ef_reserved_nanodollars r) (Unavailable ''model_budget_unavailable'') (\<lambda>reserved.
    if ac_lifetime_reserved_nanodollars account < reserved
    then Inl (Unavailable ''model_budget_conservation_failed'') else
    Inr (account\<lparr> ac_lifetime_reserved_nanodollars := ac_lifetime_reserved_nanodollars account - reserved \<rparr>)))"

definition set_usage :: "EffectRow \<Rightarrow> ModelCallUsage \<Rightarrow> EffectRow" where
  "set_usage r u =
     r\<lparr> ef_input_tokens := Some (us_input_tokens u), ef_cached_input_tokens := Some (us_cached_input_tokens u),
        ef_output_tokens := Some (us_output_tokens u), ef_reasoning_tokens := Some (us_reasoning_tokens u) \<rparr>"

text \<open>One flush of the changed account and effect.\<close>

definition flush_terminal ::
    "model_db \<Rightarrow> BudgetAccountRow \<Rightarrow> EffectRow \<Rightarrow> model_error + model_db" where
  "flush_terminal db account r =
    andthen (update_account db account) (\<lambda>db1. update_effect db1 r)"

definition uncertain_row :: "EffectRow \<Rightarrow> string \<Rightarrow> string option \<Rightarrow> uuid \<Rightarrow> EffectRow" where
  "uncertain_row r digest response_id authority =
     r\<lparr> ef_state := Uncertain, ef_uncertainty_digest := Some digest,
        ef_provider_response_id := response_id,
        ef_observation_authorization_evidence_id := Some authority \<rparr>"

definition mark_uncertain ::
    "checker_env \<Rightarrow> model_db \<Rightarrow> ModelCallEffectAuthorityFacts \<Rightarrow> string \<Rightarrow> string option \<Rightarrow>
     model_error + (ModelDispatchReservation \<times> model_db)" where
  "mark_uncertain env db eff digest_text response_id =
    andthen (require_model_call_transaction (en_session env)) (\<lambda>_.
    if \<not> ModelPaidSlotKey_valid (ea_slot_key eff)
    then Inl (InvalidValue ''ModelCallEffectAuthorityFacts'') else
    andthen (sha_checked digest_text) (\<lambda>digest.
    if \<not> opt_ok is_provider_response_identifier response_id
    then Inl (InvalidValue ''provider_response_id'') else
    andthen (authorize_observe env eff response_id digest) (\<lambda>authority.
    andthen (require_authority (en_codec env) ''observe''
        (jobj [(''effect'', ModelCallEffectAuthorityFacts_dump eff),
               (''provider_response_id'', jopt jstr response_id),
               (''observation_digest'', jstr digest)]) authority) (\<lambda>_.
    andthen (terminal_preflight env db (ea_attempt_id eff)) (\<lambda>(_, s, _).
    andthen (lock_terminal db s (ea_attempt_id eff)) (\<lambda>row.
    andthen (require_effect eff s row) (\<lambda>_.
    if ef_state row = Uncertain then
      (if ef_uncertainty_digest row \<noteq> Some digest \<or> ef_provider_response_id row \<noteq> response_id
       then Inl (Conflict ''model_call_uncertainty_conflict'')
       else andthen (dispatch_result row s True) (\<lambda>result. Inr (result, db)))
    else if ef_state row \<noteq> Dispatching then Inl (Conflict ''model_call_uncertainty_conflict'') else
    let row' = uncertain_row row digest response_id (ae_evidence_id authority)
    in andthen (update_effect db row') (\<lambda>db'.
       andthen (dispatch_result row' s False) (\<lambda>result. Inr (result, db'))))))))))"

definition terminal_facts ::
    "string \<Rightarrow> string \<Rightarrow> string \<Rightarrow> ModelCallEvidence \<Rightarrow> ModelCallUsage \<Rightarrow> (string \<times> json) list" where
  "terminal_facts status response_id snapshot ev u =
     [(''status'', jstr status), (''provider_response_id'', jstr response_id),
      (''provider_model_snapshot'', jstr snapshot),
      (''response_evidence'', ModelCallEvidence_dump ev), (''usage'', ModelCallUsage_dump u)]"

text \<open>
  The shared first half of \<open>complete\<close> and \<open>complete_known_failure\<close>: validation, authority over the
  terminal digest, response evidence, profile bounds, price, locks and effect identity.
\<close>

definition settlement_preflight ::
    "checker_env \<Rightarrow> model_db \<Rightarrow> string \<Rightarrow> ModelCallEffectAuthorityFacts \<Rightarrow> string \<Rightarrow> string \<Rightarrow>
     ModelCallEvidence \<Rightarrow> ModelCallUsage \<Rightarrow>
     model_error + (ModelActionEvidence \<times> CheckerSlotRow \<times> EffectRow \<times> int)" where
  "settlement_preflight env db status eff response_id snapshot ev u =
    (if \<not> ModelPaidSlotKey_valid (ea_slot_key eff)
     then Inl (InvalidValue ''ModelCallEffectAuthorityFacts'') else
     if \<not> is_provider_response_identifier response_id
     then Inl (InvalidValue ''provider_response_id'') else
     if \<not> ModelCallEvidence_valid ev then Inl (InvalidValue ''ModelCallEvidence'') else
     if \<not> ModelCallUsage_valid u then Inl (InvalidValue ''ModelCallUsage'') else
     let terminal_digest = env_hash env (jobj (terminal_facts status response_id snapshot ev u)) in
     andthen (authorize_complete env eff (Some ev) terminal_digest) (\<lambda>authority.
     andthen (require_authority (en_codec env) ''complete''
        (jobj [(''effect'', ModelCallEffectAuthorityFacts_dump eff),
               (''response_evidence'', ModelCallEvidence_dump ev),
               (''terminal_digest'', jstr terminal_digest)]) authority) (\<lambda>_.
     andthen (require_response env (ea_attempt_id eff) ev) (\<lambda>_.
     andthen (terminal_preflight env db (ea_attempt_id eff)) (\<lambda>(_, s, profile).
     if snapshot \<noteq> model_snapshot (pf_spec profile) \<or>
        ev_byte_count ev > maximum_response_bytes (pf_spec profile)
     then Inl (Conflict ''model_call_response_conflict'') else
     andthen (model_usage_cost (pf_spec profile) u) (\<lambda>cost.
     andthen (lock_terminal db s (ea_attempt_id eff)) (\<lambda>row.
     andthen (require_effect eff s row) (\<lambda>_.
     Inr (authority, s, row, cost)))))))))"

text \<open>The stored terminal facts equal the supplied ones; stored columns may fail to decode.\<close>

definition same_terminal ::
    "EffectRow \<Rightarrow> string \<Rightarrow> ModelCallEvidence \<Rightarrow> ModelCallUsage \<Rightarrow> int \<Rightarrow> model_error + bool" where
  "same_terminal r response_id ev u cost =
    (if ef_provider_response_id r \<noteq> Some response_id then Inr False else
     andthen (evidence_of (ef_response r)) (\<lambda>stored_evidence.
     if stored_evidence \<noteq> ev then Inr False else
     andthen (usage_of r) (\<lambda>stored_usage.
     Inr (stored_usage = Some u \<and> ef_settled_nanodollars r = Some cost))))"

definition completed_row ::
    "EffectRow \<Rightarrow> string \<Rightarrow> ModelCallEvidence \<Rightarrow> ModelCallUsage \<Rightarrow> int \<Rightarrow> uuid \<Rightarrow> instant \<Rightarrow> EffectRow" where
  "completed_row r response_id ev u cost authority at =
     (set_usage r u)\<lparr> ef_response := evidence_columns ev, ef_provider_response_id := Some response_id,
        ef_settled_nanodollars := Some cost, ef_terminal_authorization_evidence_id := Some authority,
        ef_terminal_at := Some at, ef_state := Completed \<rparr>"

definition complete ::
    "checker_env \<Rightarrow> model_db \<Rightarrow> ModelCallEffectAuthorityFacts \<Rightarrow> string \<Rightarrow> string \<Rightarrow> ModelCallEvidence \<Rightarrow>
     ModelCallUsage \<Rightarrow> model_error + (TerminalModelCall \<times> model_db)" where
  "complete env db eff response_id snapshot ev u =
    andthen (settlement_preflight env db ''completed'' eff response_id snapshot ev u)
      (\<lambda>(authority, s, row, cost).
    if ef_state row = Completed then
      andthen (same_terminal row response_id ev u cost) (\<lambda>same.
      if \<not> same then Inl (Conflict ''model_call_terminal_conflict'') else
      andthen (terminal_result row True) (\<lambda>result. Inr (result, db)))
    else
    andthen (require_effect_pending row) (\<lambda>_.
    if ef_provider_response_id row \<noteq> None \<and> ef_provider_response_id row \<noteq> Some response_id
    then Inl (Conflict ''model_call_provider_response_conflict'') else
    andthen (settle db row s cost) (\<lambda>account.
    let row' = completed_row row response_id ev u cost (ae_evidence_id authority) (clock env 0) in
    andthen (flush_terminal db account row') (\<lambda>db'.
    andthen (terminal_result row' False) (\<lambda>result. Inr (result, db'))))))"

definition failed_row ::
    "EffectRow \<Rightarrow> string \<Rightarrow> ModelCallEvidence \<Rightarrow> ModelCallUsage \<Rightarrow> int \<Rightarrow> uuid \<Rightarrow> instant \<Rightarrow> instant \<Rightarrow> EffectRow" where
  "failed_row r response_id ev u cost authority settled_at terminal_at =
     (set_usage r u)\<lparr> ef_settled_nanodollars := Some cost,
        ef_settlement_authorization_evidence_id := Some authority, ef_settled_at := Some settled_at,
        ef_response := evidence_columns ev, ef_provider_response_id := Some response_id,
        ef_terminal_authorization_evidence_id := Some authority, ef_terminal_at := Some terminal_at,
        ef_state := Known_failed \<rparr>"

definition complete_known_failure ::
    "checker_env \<Rightarrow> model_db \<Rightarrow> ModelCallEffectAuthorityFacts \<Rightarrow> string \<Rightarrow> string \<Rightarrow> ModelCallEvidence \<Rightarrow>
     ModelCallUsage \<Rightarrow> model_error + (TerminalModelCall \<times> model_db)" where
  "complete_known_failure env db eff response_id snapshot ev u =
    andthen (settlement_preflight env db ''known_failed'' eff response_id snapshot ev u)
      (\<lambda>(authority, s, row, cost).
    if ef_state row = Known_failed then
      andthen (usage_of row) (\<lambda>_.
      andthen (same_terminal row response_id ev u cost) (\<lambda>same.
      if \<not> same then Inl (Conflict ''model_call_terminal_conflict'') else
      andthen (terminal_result row True) (\<lambda>result. Inr (result, db))))
    else
    andthen (require_effect_pending row) (\<lambda>_.
    if ef_provider_response_id row \<noteq> None \<and> ef_provider_response_id row \<noteq> Some response_id
    then Inl (Conflict ''model_call_provider_response_conflict'') else
    andthen (settle db row s cost) (\<lambda>account.
    let row' = failed_row row response_id ev u cost (ae_evidence_id authority) (clock env 0) (clock env 1) in
    andthen (flush_terminal db account row') (\<lambda>db'.
    andthen (terminal_result row' False) (\<lambda>result. Inr (result, db'))))))"

definition no_effect_row :: "EffectRow \<Rightarrow> KnownNoEffectProof \<Rightarrow> uuid \<Rightarrow> instant \<Rightarrow> EffectRow" where
  "no_effect_row r p authority at =
     r\<lparr> ef_no_effect_proof_id := Some (np_proof_id p), ef_no_effect_proof_digest := Some (np_proof_digest p),
        ef_no_effect_observed_at := Some (np_observed_at p),
        ef_terminal_authorization_evidence_id := Some authority,
        ef_terminal_at := Some at, ef_state := Known_no_effect \<rparr>"

definition mark_known_no_effect ::
    "checker_env \<Rightarrow> model_db \<Rightarrow> ModelCallEffectAuthorityFacts \<Rightarrow> KnownNoEffectProof \<Rightarrow>
     model_error + (AttachedModelCallAttempt \<times> model_db)" where
  "mark_known_no_effect env db eff p =
    (if \<not> ModelPaidSlotKey_valid (ea_slot_key eff)
     then Inl (InvalidValue ''ModelCallEffectAuthorityFacts'') else
     if \<not> KnownNoEffectProof_valid p then Inl (InvalidValue ''KnownNoEffectProof'') else
     let terminal_digest = model_retry_terminal_digest (en_codec env) (NoEffectTerminal p) in
     andthen (authorize_complete env eff None terminal_digest) (\<lambda>authority.
     andthen (require_authority (en_codec env) ''complete''
        (jobj [(''effect'', ModelCallEffectAuthorityFacts_dump eff), (''response_evidence'', JNull),
               (''terminal_digest'', jstr terminal_digest)]) authority) (\<lambda>_.
     andthen (terminal_preflight env db (ea_attempt_id eff)) (\<lambda>(_, s, _).
     andthen (lock_terminal db s (ea_attempt_id eff)) (\<lambda>row.
     andthen (require_effect eff s row) (\<lambda>_.
     if ef_state row = Known_no_effect then
       (if ef_no_effect_proof_id row \<noteq> Some (np_proof_id p) \<or>
           ef_no_effect_proof_digest row \<noteq> Some (np_proof_digest p) \<or>
           ef_no_effect_observed_at row \<noteq> Some (np_observed_at p)
        then Inl (Conflict ''model_call_terminal_conflict'')
        else Inr (attempt_view s row True, db))
     else
     andthen (require_effect_pending row) (\<lambda>_.
     if ef_provider_response_id row \<noteq> None then Inl (Conflict ''model_call_no_effect_conflict'') else
     andthen (release db row s) (\<lambda>account.
     let row' = no_effect_row row p (ae_evidence_id authority) (clock env 0) in
     andthen (flush_terminal db account row') (\<lambda>db'.
     Inr (attempt_view s row' False, db'))))))))))"

end
