(* ===== verification/Model_Usage_Setup.thy ===== *)
theory Model_Usage_Setup
  imports Model_Usage_Service
begin

text \<open>
  \<open>SetupModelUsageService\<close> of \<open>model_usage/setup.py\<close>: the same ledger driven by setup-owned slots.
  Setup and checker effects share the effect table, the profiles and the project's budget
  account; a setup slot has at most one effect.
\<close>

record setup_env = call_env +
  authorize_setup_prepare :: "SetupModelUsageSlotKey \<Rightarrow> string \<Rightarrow> model_error + ModelActionEvidence"
  authorize_setup_dispatch :: "PreparedSetupModelUsageEffect \<Rightarrow> ModelCallEvidence \<Rightarrow>
                               model_error + ModelActionEvidence"
  authorize_setup_observe :: "SetupModelEffectAuthorityFacts \<Rightarrow> string option \<Rightarrow> string \<Rightarrow>
                              model_error + ModelActionEvidence"
  authorize_setup_complete :: "SetupModelEffectAuthorityFacts \<Rightarrow> ModelCallEvidence option \<Rightarrow> string \<Rightarrow>
                               model_error + ModelActionEvidence"
  require_setup_request :: "PreparedSetupModelUsageEffect \<Rightarrow> ModelCallEvidence \<Rightarrow> model_error + unit"
  require_setup_response :: "uuid \<Rightarrow> ModelCallEvidence \<Rightarrow> model_error + unit"
  require_setup_current :: "SetupModelUsageSlotKey \<Rightarrow> model_error + SetupModelOwnerProfile"

subsection \<open>Projections\<close>

definition setup_require_authority ::
    "codec \<Rightarrow> string \<Rightarrow> json \<Rightarrow> ModelActionEvidence \<Rightarrow> model_error + unit" where
  "setup_require_authority cd action facts ev =
     (if \<not> json_ok facts then Inl (InvalidValue ''model_action_digest'')
      else if ae_facts_digest ev \<noteq> model_action_digest cd action facts
      then Inl (Unavailable ''setup_model_authority_unavailable'') else Inr ())"

definition prepared_view ::
    "SetupEnvelopeRow \<Rightarrow> SetupSlotRow \<Rightarrow> EffectRow \<Rightarrow> SetupModelUsageSlotKey \<Rightarrow> bool \<Rightarrow>
     PreparedSetupModelUsageEffect" where
  "prepared_view e s r k replayed =
   \<lparr> ps_envelope_id = sn_id e, ps_slot_id = st_id s, ps_slot_key = k, ps_effect_id = ef_id r,
     ps_attempt_number = ef_attempt_number r,
     ps_internal_call_request_id = ef_internal_call_request_id r,
     ps_request_sha256 = ef_request_sha256 r, ps_replayed = replayed \<rparr>"

definition setup_slot_key :: "SetupSlotRow \<Rightarrow> SetupModelUsageSlotKey" where
  "setup_slot_key s =
   \<lparr> sk_compilation_attempt_id = st_compilation_attempt_id s, sk_project_id = st_project_id s,
     sk_guide_id = st_guide_id s, sk_source_snapshot_id = st_source_snapshot_id s,
     sk_setup_run_id = st_setup_run_id s, sk_setup_generation = st_setup_generation s,
     sk_runtime_configuration_hash = st_runtime_configuration_hash s,
     sk_profile_id = st_profile_id s, sk_profile_version = st_profile_version s,
     sk_profile_digest = st_profile_digest s, sk_phase = st_phase s,
     sk_call_index = st_call_index s \<rparr>"

definition setup_effect_view :: "SetupSlotRow \<Rightarrow> EffectRow \<Rightarrow> SetupModelEffectAuthorityFacts" where
  "setup_effect_view s r = (let k = setup_slot_key s in
   \<lparr> se_project_id = sk_project_id k, se_slot_id = st_id s, se_slot_key = k,
     se_effect_id = ef_id r, se_internal_call_request_id = ef_internal_call_request_id r \<rparr>)"

definition setup_require_effect ::
    "SetupModelEffectAuthorityFacts \<Rightarrow> SetupSlotRow \<Rightarrow> EffectRow \<Rightarrow> model_error + unit" where
  "setup_require_effect supplied s r =
     (if supplied \<noteq> setup_effect_view s r then Inl (Unavailable ''setup_model_effect_unavailable'')
      else Inr ())"

definition setup_profile ::
    "setup_env \<Rightarrow> model_db \<Rightarrow> SetupModelUsageSlotKey \<Rightarrow> SetupModelOwnerProfile option \<Rightarrow>
     model_error + ProjectModelProfile" where
  "setup_profile env db k own =
    need (profile_exact db (sk_profile_id k) (sk_profile_version k) (sk_profile_digest k))
         (Unavailable ''model_profile_unavailable'') (\<lambda>row.
    andthen (stored_model_profile (en_codec env) row) (\<lambda>p.
    if spec_project_id (pf_spec p) \<noteq> sk_project_id k \<or>
       (case own of None \<Rightarrow> False | Some w \<Rightarrow>
          selector p \<noteq> op_selector w \<or>
          (provider (pf_spec p), api (pf_spec p), model_snapshot (pf_spec p))
            \<noteq> (op_provider w, op_api w, op_model_snapshot w))
    then Inl (Unavailable ''model_profile_unavailable'') else Inr p))"

definition setup_envelope_row :: "uuid \<Rightarrow> SetupModelUsageSlotKey \<Rightarrow> SetupEnvelopeRow" where
  "setup_envelope_row i k =
   \<lparr> sn_id = i, sn_compilation_attempt_id = sk_compilation_attempt_id k,
     sn_project_id = sk_project_id k, sn_guide_id = sk_guide_id k,
     sn_source_snapshot_id = sk_source_snapshot_id k, sn_setup_run_id = sk_setup_run_id k,
     sn_setup_generation = sk_setup_generation k,
     sn_runtime_configuration_hash = sk_runtime_configuration_hash k,
     sn_profile_id = sk_profile_id k, sn_profile_version = sk_profile_version k,
     sn_profile_digest = sk_profile_digest k \<rparr>"

definition setup_slot_row :: "uuid \<Rightarrow> uuid \<Rightarrow> SetupModelUsageSlotKey \<Rightarrow> string \<Rightarrow> SetupSlotRow" where
  "setup_slot_row i envelope_id k sha =
   \<lparr> st_id = i, st_envelope_id = envelope_id,
     st_compilation_attempt_id = sk_compilation_attempt_id k,
     st_project_id = sk_project_id k, st_guide_id = sk_guide_id k,
     st_source_snapshot_id = sk_source_snapshot_id k, st_setup_run_id = sk_setup_run_id k,
     st_setup_generation = sk_setup_generation k,
     st_runtime_configuration_hash = sk_runtime_configuration_hash k,
     st_profile_id = sk_profile_id k, st_profile_version = sk_profile_version k,
     st_profile_digest = sk_profile_digest k, st_phase = sk_phase k,
     st_call_index = sk_call_index k, st_request_sha256 = sha \<rparr>"

subsection \<open>Preparation and recovery\<close>

definition require_setup_envelope ::
    "model_db \<Rightarrow> uuid \<Rightarrow> SetupModelUsageSlotKey \<Rightarrow> model_error + (SetupEnvelopeRow \<times> model_db)" where
  "require_setup_envelope db i k =
    (case setup_envelope db k of
       Some row \<Rightarrow> Inr (row, db)
     | None \<Rightarrow> let row = setup_envelope_row i k
               in andthen (insert_setup_envelope db row) (\<lambda>db'. Inr (row, db')))"

definition require_setup_slot ::
    "model_db \<Rightarrow> uuid \<Rightarrow> SetupEnvelopeRow \<Rightarrow> SetupModelUsageSlotKey \<Rightarrow> string \<Rightarrow>
     model_error + (SetupSlotRow \<times> model_db)" where
  "require_setup_slot db i e k sha =
    (case setup_slot db k of
       None \<Rightarrow> let row = setup_slot_row i (sn_id e) k sha
               in andthen (insert_setup_slot db row) (\<lambda>db'. Inr (row, db'))
     | Some s \<Rightarrow>
         if st_request_sha256 s \<noteq> sha \<or> st_envelope_id s \<noteq> sn_id e
         then Inl (Conflict ''setup_model_request_conflict'') else Inr (s, db))"

definition setup_prepare ::
    "setup_env \<Rightarrow> model_db \<Rightarrow> SetupModelUsageSlotKey \<Rightarrow> string \<Rightarrow>
     model_error + (PreparedSetupModelUsageEffect \<times> model_db)" where
  "setup_prepare env db k sha =
    andthen (require_model_call_transaction (en_session env)) (\<lambda>_.
    if \<not> SetupModelUsageSlotKey_valid k then Inl (InvalidValue ''SetupModelUsageSlotKey'') else
    andthen (authorize_setup_prepare env k sha) (\<lambda>authority.
    andthen (setup_require_authority (en_codec env) ''setup_prepare''
       (jobj [(''slot'', SetupModelUsageSlotKey_dump k), (''request_sha256'', jstr sha)]) authority) (\<lambda>_.
    andthen (require_setup_current env k) (\<lambda>own.
    andthen (setup_profile env db k (Some own)) (\<lambda>p.
    if sk_call_index k \<ge> maximum_calls (pf_spec p)
    then Inl (Conflict ''setup_model_call_index_conflict'') else
    andthen (require_setup_envelope db (new_id env 0) k) (\<lambda>(e, db1).
    andthen (require_setup_slot db1 (new_id env 1) e k sha) (\<lambda>(s, db2).
    case latest_setup_effect db2 (st_id s) of
      Some row \<Rightarrow> Inr (prepared_view e s row k True, db2)
    | None \<Rightarrow>
      let row = new_effect (new_id env 2) None (Some (st_id s)) 1 (new_id env 3) None sha None
                  (ae_evidence_id authority) (clock env 0)
      in andthen (insert_effect db2 row) (\<lambda>db3.
         Inr (prepared_view e s row k False, db3)))))))))"

definition setup_completed ::
    "EffectRow \<Rightarrow> SetupSlotRow \<Rightarrow> bool \<Rightarrow> model_error + CompletedSetupModelUsageEffect" where
  "setup_completed r s replayed =
    andthen (usage_of r) (\<lambda>usage.
    need usage (Unavailable ''setup_model_completion_unavailable'') (\<lambda>u.
    need (ef_terminal_at r) (Unavailable ''setup_model_completion_unavailable'') (\<lambda>at.
    need (ef_settled_nanodollars r) (Unavailable ''setup_model_completion_unavailable'') (\<lambda>settled.
    need (ef_provider_response_id r) (InvalidValue ''provider_response_id'') (\<lambda>response_id.
    andthen (evidence_of (ef_request r)) (\<lambda>request_evidence.
    andthen (evidence_of (ef_response r)) (\<lambda>response_evidence.
    if ef_state r \<notin> {Completed, Known_failed} then Inl (InvalidValue ''state'') else
    Inr \<lparr> cs_effect = setup_effect_view s r, cs_provider_response_id = response_id,
          cs_request_evidence = request_evidence, cs_response_evidence = response_evidence,
          cs_usage = u, cs_settled_nanodollars = settled, cs_completed_at = at,
          cs_state = ef_state r, cs_replayed = replayed \<rparr>)))))))"

datatype recovered_setup =
    NothingRetained
  | RetainedTerminal CompletedSetupModelUsageEffect
  | RetainedUncertain ObservedSetupModelUsageEffect

text \<open>
  \<open>ObservedSetupModelUsageEffect\<close> re-validates its digest and response identifier when it is built.
\<close>

definition observed_view :: "SetupSlotRow \<Rightarrow> EffectRow \<Rightarrow> string \<Rightarrow> bool \<Rightarrow>
    model_error + ObservedSetupModelUsageEffect" where
  "observed_view s r digest replayed =
    (if \<not> is_sha256 digest \<or> \<not> opt_ok is_provider_response_identifier (ef_provider_response_id r)
     then Inl (InvalidValue ''ObservedSetupModelUsageEffect'') else
     Inr \<lparr> os_effect = setup_effect_view s r, os_uncertainty_digest = digest,
           os_provider_response_id = ef_provider_response_id r, os_replayed = replayed \<rparr>)"

definition recover_existing ::
    "setup_env \<Rightarrow> model_db \<Rightarrow> SetupModelUsageSlotKey \<Rightarrow> string \<Rightarrow> model_error + recovered_setup" where
  "recover_existing env db k sha_text =
    andthen (require_model_call_transaction (en_session env)) (\<lambda>_.
    if \<not> SetupModelUsageSlotKey_valid k then Inl (InvalidValue ''SetupModelUsageSlotKey'') else
    andthen (sha_checked sha_text) (\<lambda>sha.
    andthen (authorize_setup_prepare env k sha) (\<lambda>authority.
    andthen (setup_require_authority (en_codec env) ''setup_prepare''
       (jobj [(''slot'', SetupModelUsageSlotKey_dump k), (''request_sha256'', jstr sha)]) authority) (\<lambda>_.
    andthen (require_setup_current env k) (\<lambda>own.
    andthen (setup_profile env db k (Some own)) (\<lambda>_.
    case setup_envelope db k of None \<Rightarrow> Inr NothingRetained | Some e \<Rightarrow>
    (case setup_slot db k of None \<Rightarrow> Inr NothingRetained | Some s \<Rightarrow>
    if st_envelope_id s \<noteq> sn_id e \<or> st_request_sha256 s \<noteq> sha
    then Inl (Conflict ''setup_model_request_conflict'') else
    (case latest_setup_effect db (st_id s) of None \<Rightarrow> Inr NothingRetained | Some row \<Rightarrow>
    if ef_state row = Prepared then Inr NothingRetained else
    if ef_state row = Uncertain then
      need (ef_uncertainty_digest row) (Unavailable ''setup_model_effect_not_replayable'') (\<lambda>digest.
      andthen (observed_view s row digest True) (\<lambda>obs. Inr (RetainedUncertain obs)))
    else if ef_state row \<notin> {Completed, Known_failed}
    then Inl (Unavailable ''setup_model_effect_not_replayable'') else
    andthen (setup_completed row s True) (\<lambda>c. Inr (RetainedTerminal c))))))))))"

subsection \<open>Dispatch\<close>

definition setup_dispatch_result ::
    "SetupEnvelopeRow \<Rightarrow> SetupSlotRow \<Rightarrow> EffectRow \<Rightarrow> SetupModelUsageSlotKey \<Rightarrow> ModelCallEvidence \<Rightarrow> bool \<Rightarrow>
     model_error + SetupModelDispatchReservation" where
  "setup_dispatch_result e s r k ev replayed =
    need (ef_budget_configuration_id r) (InvalidValue ''budget_configuration_id'') (\<lambda>budget_id.
    need (ef_budget_configuration_version r) (InvalidValue ''budget_configuration_version'') (\<lambda>budget_version.
    need (ef_budget_configuration_digest r) (InvalidValue ''budget_configuration_digest'') (\<lambda>budget_digest.
    need (ef_reserved_nanodollars r) (InvalidValue ''reserved_nanodollars'') (\<lambda>reserved.
    let result =
      \<lparr> sd_envelope_id = sn_id e, sd_slot_id = st_id s, sd_slot_key = k, sd_effect_id = ef_id r,
        sd_attempt_number = ef_attempt_number r,
        sd_internal_call_request_id = ef_internal_call_request_id r,
        sd_effect = setup_effect_view s r, sd_request_sha256 = ef_request_sha256 r,
        sd_request_evidence = ev, sd_budget_configuration_id = budget_id,
        sd_budget_configuration_version = budget_version,
        sd_budget_configuration_digest = budget_digest, sd_reserved_nanodollars = reserved,
        sd_replayed = replayed \<rparr>
    in if setup_exact_effect result then Inr result
       else Inl (InvalidValue ''setup dispatch effect identity mismatch'')))))"

definition setup_reserve_dispatch ::
    "setup_env \<Rightarrow> model_db \<Rightarrow> PreparedSetupModelUsageEffect \<Rightarrow> ModelCallEvidence \<Rightarrow>
     model_error + (SetupModelDispatchReservation \<times> model_db)" where
  "setup_reserve_dispatch env db prepared ev =
    andthen (require_model_call_transaction (en_session env)) (\<lambda>_.
    if \<not> PreparedSetupModelUsageEffect_valid prepared
    then Inl (InvalidValue ''PreparedSetupModelUsageEffect'') else
    if \<not> ModelCallEvidence_valid ev then Inl (InvalidValue ''ModelCallEvidence'') else
    andthen (authorize_setup_dispatch env prepared ev) (\<lambda>authority.
    andthen (setup_require_authority (en_codec env) ''setup_dispatch''
       (jobj [(''prepared'', PreparedSetupModelUsageEffect_dump prepared),
              (''request_evidence'', ModelCallEvidence_dump ev)]) authority) (\<lambda>_.
    let k = ps_slot_key prepared in
    andthen (require_setup_current env k) (\<lambda>own.
    andthen (require_setup_request env prepared ev) (\<lambda>_.
    andthen (setup_profile env db k (Some own)) (\<lambda>profile.
    if ev_content_sha256 ev \<noteq> ps_request_sha256 prepared \<or>
       ev_byte_count ev > maximum_request_bytes (pf_spec profile)
    then Inl (Conflict ''setup_model_request_evidence_conflict'') else
    need (setup_envelope db k) (Unavailable ''setup_model_envelope_unavailable'') (\<lambda>e.
    if sn_id e \<noteq> ps_envelope_id prepared then Inl (Unavailable ''setup_model_envelope_unavailable'') else
    need (setup_slot db k) (Unavailable ''setup_model_effect_unavailable'') (\<lambda>s.
    if st_id s \<noteq> ps_slot_id prepared then Inl (Unavailable ''setup_model_effect_unavailable'') else
    need (attempt db (ps_effect_id prepared)) (Unavailable ''setup_model_effect_unavailable'') (\<lambda>row.
    if ef_setup_slot_id row \<noteq> Some (st_id s)
    then Inl (Unavailable ''setup_model_effect_unavailable'') else
    if ef_state row \<noteq> Prepared then
      (if ec_content_sha256 (ef_request row) \<noteq> Some (ev_content_sha256 ev)
       then Inl (Conflict ''setup_model_dispatch_conflict'') else
       if ef_state row \<noteq> Dispatching
       then Inl (Conflict ''setup_model_effect_not_dispatchable'') else
       andthen (setup_dispatch_result e s row k ev True) (\<lambda>result. Inr (result, db)))
    else
    andthen (maximum_dispatch_reservation_nanodollars (pf_spec profile)) (\<lambda>reservation.
    andthen (maximum_reservation_nanodollars (pf_spec profile)) (\<lambda>run.
    if run_envelope_exceeded (setup_envelope_totals db (sn_id e)) (pf_spec profile) reservation run
         (ev_byte_count ev)
    then Inl (BudgetUnavailable ''model_run_envelope_unavailable'') else
    need (budget_account db (sk_project_id k)) (BudgetUnavailable ''model_budget_unavailable'') (\<lambda>account.
    need (current_budget_configuration db account) (BudgetUnavailable ''model_budget_unavailable'') (\<lambda>budget.
    if ac_lifetime_reserved_nanodollars account + ac_lifetime_settled_nanodollars account + reservation
         > cf_lifetime_limit_nanodollars budget
    then Inl (BudgetUnavailable ''model_budget_unavailable'') else
    let row' = dispatched_row row ev budget reservation (ef_dispatch_execution_facts row)
                 (ae_evidence_id authority) (clock env 0);
        account' = account\<lparr>ac_lifetime_reserved_nanodollars :=
                             ac_lifetime_reserved_nanodollars account + reservation\<rparr>
    in andthen (update_account db account') (\<lambda>db1.
       andthen (update_effect db1 row') (\<lambda>db2.
       andthen (setup_dispatch_result e s row' k ev False) (\<lambda>result. Inr (result, db2)))))))))))))))))"

subsection \<open>Terminal accounting\<close>

definition setup_terminal_preflight ::
    "setup_env \<Rightarrow> model_db \<Rightarrow> uuid \<Rightarrow> model_error + (EffectRow \<times> SetupSlotRow \<times> ProjectModelProfile)" where
  "setup_terminal_preflight env db effect_id =
    need (attempt db effect_id) (Unavailable ''setup_model_effect_unavailable'') (\<lambda>row.
    need (ef_setup_slot_id row) (Unavailable ''setup_model_effect_unavailable'') (\<lambda>slot_id.
    need (row_get st_id slot_id (setup_slots db)) (Unavailable ''setup_model_effect_unavailable'') (\<lambda>s.
    andthen (setup_profile env db (setup_slot_key s) None) (\<lambda>profile.
    Inr (row, s, profile)))))"

definition setup_lock_terminal :: "model_db \<Rightarrow> SetupSlotRow \<Rightarrow> uuid \<Rightarrow> model_error + EffectRow" where
  "setup_lock_terminal db s effect_id =
    (let k = setup_slot_key s in
     need (setup_envelope db k) (Unavailable ''setup_model_envelope_unavailable'') (\<lambda>_.
     need (setup_slot db k) (Unavailable ''setup_model_effect_unavailable'') (\<lambda>locked.
     if st_id locked \<noteq> st_id s then Inl (Unavailable ''setup_model_effect_unavailable'') else
     need (attempt db effect_id) (Unavailable ''setup_model_effect_unavailable'') (\<lambda>row.
     if ef_setup_slot_id row \<noteq> Some (st_id s)
     then Inl (Unavailable ''setup_model_effect_unavailable'') else Inr row))))"

definition require_pending :: "EffectRow \<Rightarrow> model_error + unit" where
  "require_pending r =
    (if \<not> pending r then Inl (Conflict ''setup_model_terminal_conflict'')
     else if ef_reserved_nanodollars r = None
     then Inl (Unavailable ''model_budget_unavailable'') else Inr ())"

definition setup_settle :: "model_db \<Rightarrow> EffectRow \<Rightarrow> SetupSlotRow \<Rightarrow> int \<Rightarrow> model_error + BudgetAccountRow" where
  "setup_settle db r s cost =
    need (budget_account db (st_project_id s)) (Unavailable ''model_budget_unavailable'') (\<lambda>account.
    need (ef_reserved_nanodollars r) (Unavailable ''model_budget_unavailable'') (\<lambda>reserved.
    if ac_lifetime_reserved_nanodollars account < reserved
    then Inl (Unavailable ''model_budget_conservation_failed'') else
    Inr (account\<lparr> ac_lifetime_reserved_nanodollars := ac_lifetime_reserved_nanodollars account - reserved,
                  ac_lifetime_settled_nanodollars := ac_lifetime_settled_nanodollars account + cost \<rparr>)))"

definition setup_release :: "model_db \<Rightarrow> EffectRow \<Rightarrow> SetupSlotRow \<Rightarrow> model_error + BudgetAccountRow" where
  "setup_release db r s =
    need (budget_account db (st_project_id s)) (Unavailable ''model_budget_unavailable'') (\<lambda>account.
    need (ef_reserved_nanodollars r) (Unavailable ''model_budget_unavailable'') (\<lambda>reserved.
    if ac_lifetime_reserved_nanodollars account < reserved
    then Inl (Unavailable ''model_budget_conservation_failed'') else
    Inr (account\<lparr> ac_lifetime_reserved_nanodollars := ac_lifetime_reserved_nanodollars account - reserved \<rparr>)))"

definition setup_mark_uncertain ::
    "setup_env \<Rightarrow> model_db \<Rightarrow> SetupModelEffectAuthorityFacts \<Rightarrow> string \<Rightarrow> string option \<Rightarrow>
     model_error + (ObservedSetupModelUsageEffect \<times> model_db)" where
  "setup_mark_uncertain env db supplied digest_text response_id =
    andthen (require_model_call_transaction (en_session env)) (\<lambda>_.
    if \<not> SetupModelUsageSlotKey_valid (se_slot_key supplied)
    then Inl (InvalidValue ''SetupModelEffectAuthorityFacts'') else
    andthen (sha_checked digest_text) (\<lambda>digest.
    if \<not> opt_ok is_provider_response_identifier response_id
    then Inl (InvalidValue ''provider_response_id'') else
    andthen (authorize_setup_observe env supplied response_id digest) (\<lambda>authority.
    andthen (setup_require_authority (en_codec env) ''setup_observe''
        (jobj [(''effect'', SetupModelEffectAuthorityFacts_dump supplied),
               (''provider_response_id'', jopt jstr response_id),
               (''observation_digest'', jstr digest)]) authority) (\<lambda>_.
    andthen (setup_terminal_preflight env db (se_effect_id supplied)) (\<lambda>(_, s, _).
    andthen (setup_lock_terminal db s (se_effect_id supplied)) (\<lambda>row.
    andthen (setup_require_effect supplied s row) (\<lambda>_.
    if ef_state row = Uncertain then
      (if ef_uncertainty_digest row \<noteq> Some digest \<or> ef_provider_response_id row \<noteq> response_id
       then Inl (Conflict ''setup_model_uncertainty_conflict'')
       else andthen (observed_view s row digest True) (\<lambda>result. Inr (result, db)))
    else if ef_state row \<noteq> Dispatching then Inl (Conflict ''setup_model_uncertainty_conflict'') else
    let row' = uncertain_row row digest response_id (ae_evidence_id authority)
    in andthen (update_effect db row') (\<lambda>db'.
       andthen (observed_view s row' digest False) (\<lambda>result. Inr (result, db'))))))))))"

text \<open>The columns a setup completion writes; a failed one also carries its settlement facts.\<close>

definition setup_terminal_row ::
    "EffectRow \<Rightarrow> bool \<Rightarrow> string \<Rightarrow> ModelCallEvidence \<Rightarrow> ModelCallUsage \<Rightarrow> int \<Rightarrow> uuid \<Rightarrow> instant \<Rightarrow> instant \<Rightarrow>
     EffectRow" where
  "setup_terminal_row r usable response_id ev u cost authority settled_at terminal_at =
    (if usable then completed_row r response_id ev u cost authority settled_at
     else failed_row r response_id ev u cost authority settled_at terminal_at)"

definition setup_complete ::
    "setup_env \<Rightarrow> model_db \<Rightarrow> SetupModelEffectAuthorityFacts \<Rightarrow> string \<Rightarrow> string \<Rightarrow> ModelCallEvidence \<Rightarrow>
     ModelCallUsage \<Rightarrow> bool \<Rightarrow> model_error + (CompletedSetupModelUsageEffect \<times> model_db)" where
  "setup_complete env db supplied response_id snapshot ev u usable =
    andthen (require_model_call_transaction (en_session env)) (\<lambda>_.
    if \<not> SetupModelUsageSlotKey_valid (se_slot_key supplied)
    then Inl (InvalidValue ''SetupModelEffectAuthorityFacts'') else
    if \<not> is_provider_response_identifier response_id
    then Inl (InvalidValue ''provider_response_id'') else
    if \<not> ModelCallEvidence_valid ev then Inl (InvalidValue ''ModelCallEvidence'') else
    if \<not> ModelCallUsage_valid u then Inl (InvalidValue ''ModelCallUsage'') else
    let terminal_digest = env_hash env (jobj (terminal_facts ''completed'' response_id snapshot ev u @
                            [(''usable'', JBool usable)])) in
    andthen (authorize_setup_complete env supplied (Some ev) terminal_digest) (\<lambda>authority.
    andthen (setup_require_authority (en_codec env) ''setup_complete''
        (jobj [(''effect'', SetupModelEffectAuthorityFacts_dump supplied),
               (''response_evidence'', ModelCallEvidence_dump ev),
               (''terminal_digest'', jstr terminal_digest)]) authority) (\<lambda>_.
    andthen (require_setup_response env (se_effect_id supplied) ev) (\<lambda>_.
    andthen (setup_terminal_preflight env db (se_effect_id supplied)) (\<lambda>(_, s, profile).
    if snapshot \<noteq> model_snapshot (pf_spec profile) \<or>
       ev_byte_count ev > maximum_response_bytes (pf_spec profile)
    then Inl (Conflict ''setup_model_response_conflict'') else
    andthen (model_usage_cost (pf_spec profile) u) (\<lambda>cost.
    andthen (setup_lock_terminal db s (se_effect_id supplied)) (\<lambda>row.
    andthen (setup_require_effect supplied s row) (\<lambda>_.
    if ef_state row \<in> {Completed, Known_failed} then
      (if ef_state row \<noteq> (if usable then Completed else Known_failed)
       then Inl (Conflict ''setup_model_terminal_conflict'') else
       andthen (same_terminal row response_id ev u cost) (\<lambda>same.
       if \<not> same then Inl (Conflict ''setup_model_terminal_conflict'') else
       andthen (setup_completed row s True) (\<lambda>result. Inr (result, db))))
    else
    andthen (require_pending row) (\<lambda>_.
    if ef_provider_response_id row \<noteq> None \<and> ef_provider_response_id row \<noteq> Some response_id
    then Inl (Conflict ''setup_model_provider_response_conflict'') else
    andthen (setup_settle db row s cost) (\<lambda>account.
    let row' = setup_terminal_row row usable response_id ev u cost (ae_evidence_id authority)
                 (clock env 0) (clock env 1) in
    andthen (flush_terminal db account row') (\<lambda>db'.
    andthen (setup_completed row' s False) (\<lambda>result. Inr (result, db')))))))))))))"

definition setup_mark_known_no_effect ::
    "setup_env \<Rightarrow> model_db \<Rightarrow> SetupModelEffectAuthorityFacts \<Rightarrow> KnownNoEffectProof \<Rightarrow>
     model_error + (KnownNoEffectSetupModelUsageEffect \<times> model_db)" where
  "setup_mark_known_no_effect env db supplied p =
    andthen (require_model_call_transaction (en_session env)) (\<lambda>_.
    if \<not> SetupModelUsageSlotKey_valid (se_slot_key supplied)
    then Inl (InvalidValue ''SetupModelEffectAuthorityFacts'') else
    if \<not> KnownNoEffectProof_valid p then Inl (InvalidValue ''KnownNoEffectProof'') else
    let terminal_digest = model_retry_terminal_digest (en_codec env) (NoEffectTerminal p) in
    andthen (authorize_setup_complete env supplied None terminal_digest) (\<lambda>authority.
    andthen (setup_require_authority (en_codec env) ''setup_complete''
        (jobj [(''effect'', SetupModelEffectAuthorityFacts_dump supplied),
               (''response_evidence'', JNull),
               (''terminal_digest'', jstr terminal_digest)]) authority) (\<lambda>_.
    andthen (setup_terminal_preflight env db (se_effect_id supplied)) (\<lambda>(_, s, _).
    andthen (setup_lock_terminal db s (se_effect_id supplied)) (\<lambda>row.
    andthen (setup_require_effect supplied s row) (\<lambda>_.
    if ef_state row = Known_no_effect then
      (if ef_no_effect_proof_id row \<noteq> Some (np_proof_id p) \<or>
          ef_no_effect_proof_digest row \<noteq> Some (np_proof_digest p) \<or>
          ef_no_effect_observed_at row \<noteq> Some (np_observed_at p)
       then Inl (Conflict ''setup_model_terminal_conflict'')
       else Inr (\<lparr> ns_effect = setup_effect_view s row, ns_proof = p, ns_replayed = True \<rparr>, db))
    else
    andthen (require_pending row) (\<lambda>_.
    if ef_provider_response_id row \<noteq> None then Inl (Conflict ''setup_model_no_effect_conflict'') else
    andthen (setup_release db row s) (\<lambda>account.
    let row' = no_effect_row row p (ae_evidence_id authority) (clock env 0) in
    andthen (flush_terminal db account row') (\<lambda>db'.
    Inr (\<lparr> ns_effect = setup_effect_view s row', ns_proof = p, ns_replayed = False \<rparr>, db'))))))))))"

end
