(* ===== verification/Model_Usage_Ledger.thy ===== *)
theory Model_Usage_Ledger
  imports Model_Usage_Setup
begin

text \<open>
  The ledger invariant of the model-usage tables and the effect of every database statement on
  it. An effect is owned by a checker or a setup slot; \<open>owner_of\<close> abstracts from which. The
  invariant says that keys are unique, every owner names a stored valid profile of its project
  and an envelope with the same identity, every effect has the columns of its state, each
  account's two counters are the sums over the project's effects and stay below the current
  limit, and every run stays within the six ceilings of its profile.
\<close>

subsection \<open>Owners and weighted sums\<close>

record owner =
  ow_project :: uuid
  ow_profile :: "uuid \<times> int \<times> string"
  ow_envelope :: "uuid + uuid"

definition checker_owner :: "CheckerSlotRow \<Rightarrow> owner" where
  "checker_owner s = \<lparr> ow_project = sl_project_id s,
     ow_profile = (sl_profile_id s, sl_profile_version s, sl_profile_digest s),
     ow_envelope = Inl (sl_envelope_id s) \<rparr>"

definition setup_owner :: "SetupSlotRow \<Rightarrow> owner" where
  "setup_owner s = \<lparr> ow_project = st_project_id s,
     ow_profile = (st_profile_id s, st_profile_version s, st_profile_digest s),
     ow_envelope = Inr (st_envelope_id s) \<rparr>"

definition owner_of :: "model_db \<Rightarrow> EffectRow \<Rightarrow> owner option" where
  "owner_of db e =
    (case ef_checker_slot_id e of
       Some i \<Rightarrow> map_option checker_owner (row_get sl_id i (slots db))
     | None \<Rightarrow> (case ef_setup_slot_id e of
         Some i \<Rightarrow> map_option setup_owner (row_get st_id i (setup_slots db))
       | None \<Rightarrow> None))"

definition all_owners :: "model_db \<Rightarrow> owner list" where
  "all_owners db = map checker_owner (slots db) @ map setup_owner (setup_slots db)"

definition profile_named :: "model_db \<Rightarrow> uuid \<times> int \<times> string \<Rightarrow> ProfileRow option" where
  "profile_named db n = (case n of (i, v, d) \<Rightarrow> profile_exact db i v d)"

definition runs :: "model_db \<Rightarrow> ((uuid + uuid) \<times> (uuid \<times> int \<times> string)) list" where
  "runs db =
     map (\<lambda>e. (Inl (ce_id e), (ce_profile_id e, ce_profile_version e, ce_profile_digest e))) (envelopes db) @
     map (\<lambda>e. (Inr (sn_id e), (sn_profile_id e, sn_profile_version e, sn_profile_digest e))) (setup_envelopes db)"

text \<open>The sum of a weight over the effects whose owner satisfies a predicate.\<close>

definition wsum :: "model_db \<Rightarrow> (owner \<Rightarrow> bool) \<Rightarrow> (EffectRow \<Rightarrow> int) \<Rightarrow> int" where
  "wsum db P w = sum_list (map (\<lambda>e. if \<exists>ow. owner_of db e = Some ow \<and> P ow then w e else 0) (effects db))"

abbreviation in_project :: "uuid \<Rightarrow> owner \<Rightarrow> bool" where
  "in_project p \<equiv> \<lambda>ow. ow_project ow = p"

abbreviation in_run :: "(uuid + uuid) \<Rightarrow> owner \<Rightarrow> bool" where
  "in_run v \<equiv> \<lambda>ow. ow_envelope ow = v"

definition run_totals :: "model_db \<Rightarrow> (uuid + uuid) \<Rightarrow> ModelUsageEnvelopeTotals" where
  "run_totals db v =
   \<lparr> dispatches = wsum db (in_run v) (\<lambda>e. one_if (ef_state e \<noteq> Prepared)),
     pending_dispatches = wsum db (in_run v) (\<lambda>e. one_if (pending e)),
     total_reserved_nanodollars = wsum db (in_run v) pending_reserved,
     total_settled_nanodollars = wsum db (in_run v) settled_amount,
     request_bytes = wsum db (in_run v) (\<lambda>e. or_zero (ec_byte_count (ef_request e))),
     response_bytes = wsum db (in_run v) (\<lambda>e. or_zero (ec_byte_count (ef_response e))),
     input_tokens = wsum db (in_run v) (\<lambda>e. or_zero (ef_input_tokens e)),
     output_tokens = wsum db (in_run v) (\<lambda>e. or_zero (ef_output_tokens e)) \<rparr>"

subsection \<open>The invariant\<close>

definition keys_ok :: "model_db \<Rightarrow> bool" where
  "keys_ok db \<longleftrightarrow>
     distinct (row_keys pr_id (profiles db)) \<and> distinct (row_keys ac_project_id (accounts db)) \<and>
     distinct (row_keys cf_id (configurations db)) \<and> distinct (row_keys ce_id (envelopes db)) \<and>
     distinct (row_keys sl_id (slots db)) \<and> distinct (row_keys sn_id (setup_envelopes db)) \<and>
     distinct (row_keys st_id (setup_slots db)) \<and> distinct (row_keys ef_id (effects db)) \<and>
     distinct (row_keys ce_identity (envelopes db)) \<and>
     distinct (row_keys sn_compilation_attempt_id (setup_envelopes db))"

definition profiles_ok :: "codec \<Rightarrow> model_db \<Rightarrow> bool" where
  "profiles_ok cd db \<longleftrightarrow> (\<forall>p \<in> set (profiles db).
     ProjectModelProfile_valid cd (row_profile p) \<and>
     (\<exists>run. maximum_reservation_nanodollars (row_spec p) = Inr run))"

definition owners_ok :: "model_db \<Rightarrow> bool" where
  "owners_ok db \<longleftrightarrow> (\<forall>ow \<in> set (all_owners db).
     (\<exists>p. profile_named db (ow_profile ow) = Some p \<and> pr_project_id p = ow_project ow) \<and>
     (ow_envelope ow, ow_profile ow) \<in> set (runs db))"

definition custody_ok :: "model_db \<Rightarrow> bool" where
  "custody_ok db \<longleftrightarrow>
     (\<forall>s \<in> set (slots db). \<exists>e \<in> set (envelopes db).
        ce_id e = sl_envelope_id s \<and> envelope_predicates (slot_key s) e) \<and>
     (\<forall>s \<in> set (setup_slots db). \<exists>e \<in> set (setup_envelopes db).
        sn_id e = st_envelope_id s \<and> setup_envelope_predicates (setup_slot_key s) e)"

text \<open>The money, size and token columns an effect has in each state.\<close>

definition effect_shape :: "ProjectModelProfileSpec \<Rightarrow> EffectRow \<Rightarrow> bool" where
  "effect_shape p e \<longleftrightarrow>
    (case ef_state e of
       Prepared \<Rightarrow> ef_reserved_nanodollars e = None \<and> ec_byte_count (ef_request e) = None
     | _ \<Rightarrow> (\<exists>r. ef_reserved_nanodollars e = Some r \<and>
                 maximum_dispatch_reservation_nanodollars p = Inr r) \<and>
            (\<exists>n. ec_byte_count (ef_request e) = Some n \<and> 1 \<le> n \<and> n \<le> maximum_request_bytes p)) \<and>
    (if ef_state e \<in> {Completed, Known_failed}
     then (\<exists>c r. ef_settled_nanodollars e = Some c \<and> ef_reserved_nanodollars e = Some r \<and>
                 0 \<le> c \<and> c \<le> r) \<and>
          (\<exists>n. ec_byte_count (ef_response e) = Some n \<and> 1 \<le> n \<and> n \<le> maximum_response_bytes p) \<and>
          (\<exists>n. ef_input_tokens e = Some n \<and> 0 \<le> n \<and> n \<le> maximum_input_tokens p) \<and>
          (\<exists>n. ef_output_tokens e = Some n \<and> 0 \<le> n \<and> n \<le> maximum_output_tokens p)
     else ef_settled_nanodollars e = None \<and> ec_byte_count (ef_response e) = None \<and>
          ef_input_tokens e = None \<and> ef_output_tokens e = None)"

definition effect_ok :: "model_db \<Rightarrow> EffectRow \<Rightarrow> bool" where
  "effect_ok db e \<longleftrightarrow> (\<exists>ow p. owner_of db e = Some ow \<and> profile_named db (ow_profile ow) = Some p \<and>
     (ef_checker_slot_id e = None) \<noteq> (ef_setup_slot_id e = None) \<and> effect_shape (row_spec p) e \<and>
     (ef_state e \<noteq> Prepared \<longrightarrow> budget_account db (ow_project ow) \<noteq> None))"

definition account_fits :: "model_db \<Rightarrow> BudgetAccountRow \<Rightarrow> bool" where
  "account_fits db a \<longleftrightarrow> (\<exists>c. current_budget_configuration db a = Some c \<and>
     cf_project_id c = ac_project_id a \<and>
     ac_lifetime_reserved_nanodollars a = wsum db (in_project (ac_project_id a)) pending_reserved \<and>
     ac_lifetime_settled_nanodollars a = wsum db (in_project (ac_project_id a)) settled_amount \<and>
     ac_lifetime_reserved_nanodollars a + ac_lifetime_settled_nanodollars a
       \<le> cf_lifetime_limit_nanodollars c)"

definition within_run :: "ModelUsageEnvelopeTotals \<Rightarrow> ProjectModelProfileSpec \<Rightarrow> bool" where
  "within_run t p \<longleftrightarrow> (\<exists>run. maximum_reservation_nanodollars p = Inr run \<and>
     dispatches t \<le> maximum_calls p \<and>
     total_reserved_nanodollars t + total_settled_nanodollars t \<le> run \<and>
     request_bytes t \<le> maximum_total_request_bytes p \<and>
     response_bytes t + pending_dispatches t * maximum_response_bytes p \<le> maximum_total_response_bytes p \<and>
     input_tokens t + pending_dispatches t * maximum_input_tokens p \<le> maximum_total_input_tokens p \<and>
     output_tokens t + pending_dispatches t * maximum_output_tokens p \<le> maximum_total_output_tokens p)"

definition run_ok :: "model_db \<Rightarrow> (uuid + uuid) \<times> (uuid \<times> int \<times> string) \<Rightarrow> bool" where
  "run_ok db vn \<longleftrightarrow> (\<exists>p. profile_named db (snd vn) = Some p \<and>
     within_run (run_totals db (fst vn)) (row_spec p))"

definition configurations_ok :: "model_db \<Rightarrow> bool" where
  "configurations_ok db \<longleftrightarrow> (\<forall>c \<in> set (configurations db). configuration_check c \<and>
     is_nanodollars (cf_authorized_total_nanodollars c))"

definition ledger_ok :: "codec \<Rightarrow> model_db \<Rightarrow> bool" where
  "ledger_ok cd db \<longleftrightarrow>
     keys_ok db \<and> profiles_ok cd db \<and> owners_ok db \<and> custody_ok db \<and> configurations_ok db \<and>
     (\<forall>e \<in> set (effects db). effect_ok db e) \<and>
     (\<forall>a \<in> set (accounts db). account_fits db a) \<and>
     (\<forall>vn \<in> set (runs db). run_ok db vn)"

subsection \<open>Sums and look-ups in a changed database\<close>

named_theorems ledger_defs \<open>parts of the ledger invariant\<close>

lemmas [ledger_defs] = keys_ok_def profiles_ok_def owners_ok_def custody_ok_def configurations_ok_def

lemma ledger_okD:
  assumes "ledger_ok cd db"
  shows "keys_ok db" "profiles_ok cd db" "owners_ok db" "custody_ok db" "configurations_ok db"
    "\<And>e. e \<in> set (effects db) \<Longrightarrow> effect_ok db e"
    "\<And>a. a \<in> set (accounts db) \<Longrightarrow> account_fits db a"
    "\<And>vn. vn \<in> set (runs db) \<Longrightarrow> run_ok db vn"
  using assms by (auto simp: ledger_ok_def)

lemma find_append_Some: "find P xs = Some x \<Longrightarrow> find P (xs @ ys) = Some x"
  by (induction xs) (auto split: if_splits)

lemma owner_of_same:
  "slots db' = slots db \<Longrightarrow> setup_slots db' = setup_slots db \<Longrightarrow> owner_of db' = owner_of db"
  by (auto simp: owner_of_def fun_eq_iff split: option.splits)

lemma owner_of_columns:
  assumes "ef_checker_slot_id e' = ef_checker_slot_id e" "ef_setup_slot_id e' = ef_setup_slot_id e"
  shows "owner_of db e' = owner_of db e"
  unfolding owner_of_def assms ..

lemma owner_of_checker:
  "ef_checker_slot_id e = Some i \<Longrightarrow> owner_of db e = map_option checker_owner (row_get sl_id i (slots db))"
  by (simp add: owner_of_def)

lemma owner_of_setup:
  "ef_checker_slot_id e = None \<Longrightarrow> ef_setup_slot_id e = Some i \<Longrightarrow>
   owner_of db e = map_option setup_owner (row_get st_id i (setup_slots db))"
  by (simp add: owner_of_def)

lemma wsum_cong:
  assumes "effects db' = effects db" "\<And>e. e \<in> set (effects db) \<Longrightarrow> owner_of db' e = owner_of db e"
  shows "wsum db' P w = wsum db P w"
  unfolding wsum_def assms(1) by (rule sum_list_map_cong) (simp add: assms(2))

lemma wsum_append:
  assumes "effects db' = effects db @ [r]" "slots db' = slots db" "setup_slots db' = setup_slots db"
    and "w r = 0"
  shows "wsum db' P w = wsum db P w"
  unfolding wsum_def assms(1) owner_of_same[OF assms(2,3)] using assms(4) by auto

lemma wsum_update:
  assumes "distinct (row_keys ef_id (effects db))" "r \<in> set (effects db)"
    and "ef_id r' = ef_id r" "ef_checker_slot_id r' = ef_checker_slot_id r"
      "ef_setup_slot_id r' = ef_setup_slot_id r"
    and "effects db' = row_put ef_id r' (effects db)" "slots db' = slots db"
      "setup_slots db' = setup_slots db"
  shows "wsum db' P w = wsum db P w
           + (if \<exists>ow. owner_of db r = Some ow \<and> P ow then w r' - w r else 0)"
proof -
  note own = owner_of_same[OF assms(7,8)] and own' = owner_of_columns[OF assms(4,5)]
  show ?thesis
    unfolding wsum_def own assms(6)
    using sum_list_row_put[OF assms(1,2), of r'
        "\<lambda>e. if \<exists>ow. owner_of db e = Some ow \<and> P ow then w e else 0"] assms(3)
    by (cases "\<exists>ow. owner_of db r = Some ow \<and> P ow") (auto simp: own')
qed

lemma wsum_none:
  assumes "\<And>e ow. e \<in> set (effects db) \<Longrightarrow> owner_of db e = Some ow \<Longrightarrow> P ow \<Longrightarrow> w e = 0"
  shows "wsum db P w = 0"
proof -
  have "wsum db P w = sum_list (map (\<lambda>_. 0) (effects db))"
    unfolding wsum_def by (rule sum_list_map_cong) (use assms in auto)
  then show ?thesis by simp
qed

lemma wsum_filter:
  "wsum db P w = sum_list (map w (filter (\<lambda>e. \<exists>ow. owner_of db e = Some ow \<and> P ow) (effects db)))"
  unfolding wsum_def by (simp add: sum_list_map_filter')

lemma run_totals_filter:
  "run_totals db v = totals_of (filter (\<lambda>e. \<exists>ow. owner_of db e = Some ow \<and> ow_envelope ow = v) (effects db))"
  by (simp add: run_totals_def totals_of_def wsum_filter)

text \<open>The repository's aggregates are the sums over the run's effects.\<close>

lemma row_get_list_ex:
  "distinct (row_keys key t) \<Longrightarrow>
   list_ex (\<lambda>s. m = Some (key s) \<and> Q s) t \<longleftrightarrow> (\<exists>i s. m = Some i \<and> row_get key i t = Some s \<and> Q s)"
  by (auto simp: list_ex_iff row_get_eq_iff)

lemma envelope_totals_eq:
  assumes "keys_ok db"
  shows "envelope_totals db i = run_totals db (Inl i)"
proof -
  have d: "distinct (row_keys sl_id (slots db))" using assms by (simp add: keys_ok_def)
  have "(\<exists>j s. ef_checker_slot_id e = Some j \<and> row_get sl_id j (slots db) = Some s \<and> sl_envelope_id s = i)
      \<longleftrightarrow> (\<exists>ow. owner_of db e = Some ow \<and> ow_envelope ow = Inl i)" for e
    by (auto simp: owner_of_def checker_owner_def setup_owner_def split: option.splits)
  then show ?thesis
    by (simp add: envelope_totals_def envelope_effects_def run_totals_filter row_get_list_ex[OF d])
qed

lemma setup_envelope_totals_eq:
  assumes "keys_ok db" "\<And>e. e \<in> set (effects db) \<Longrightarrow> effect_ok db e"
  shows "setup_envelope_totals db i = run_totals db (Inr i)"
proof -
  have d: "distinct (row_keys st_id (setup_slots db))" using assms by (simp add: keys_ok_def)
  have "(\<exists>j s. ef_setup_slot_id e = Some j \<and> row_get st_id j (setup_slots db) = Some s \<and> st_envelope_id s = i)
      \<longleftrightarrow> (\<exists>ow. owner_of db e = Some ow \<and> ow_envelope ow = Inr i)" if "e \<in> set (effects db)" for e
  proof -
    have "(ef_checker_slot_id e = None) \<noteq> (ef_setup_slot_id e = None)"
      using assms(2)[OF that] by (auto simp: effect_ok_def)
    then show ?thesis
      by (auto simp: owner_of_def checker_owner_def setup_owner_def split: option.splits)
  qed
  then show ?thesis
    by (simp add: setup_envelope_totals_def setup_envelope_effects_def run_totals_filter
        row_get_list_ex[OF d] cong: filter_cong)
qed

lemma runs_functional:
  assumes "keys_ok db" "(v, n) \<in> set (runs db)" "(v, m) \<in> set (runs db)"
  shows "n = m"
  using assms by (auto simp: runs_def keys_ok_def dest: row_unique)

lemma owner_of_in_all: "owner_of db e = Some ow \<Longrightarrow> ow \<in> set (all_owners db)"
  by (auto simp: owner_of_def all_owners_def dest: row_get_SomeD split: option.splits)

lemma profile_named_in: "profile_named db n = Some p \<Longrightarrow> p \<in> set (profiles db)"
  by (auto simp: profile_named_def profile_exact_def split: prod.splits dest: find_SomeD)

lemma profile_named_identity:
  "profile_named db n = Some p \<Longrightarrow> n = (pr_id p, pr_profile_version p, pr_profile_digest p)"
  by (auto simp: profile_named_def profile_exact_def split: prod.splits dest: find_SomeD)

subsection \<open>Growing tables\<close>

definition grows :: "model_db \<Rightarrow> model_db \<Rightarrow> bool" where
  "grows db db' \<longleftrightarrow>
     (\<exists>xs. profiles db' = profiles db @ xs) \<and> (\<exists>xs. configurations db' = configurations db @ xs) \<and>
     (\<exists>xs. envelopes db' = envelopes db @ xs) \<and> (\<exists>xs. slots db' = slots db @ xs) \<and>
     (\<exists>xs. setup_envelopes db' = setup_envelopes db @ xs) \<and>
     (\<exists>xs. setup_slots db' = setup_slots db @ xs)"

lemma grows_refl [simp]: "grows db db"
  by (simp add: grows_def)

lemma owner_of_grows: "grows db db' \<Longrightarrow> owner_of db e = Some ow \<Longrightarrow> owner_of db' e = Some ow"
  by (auto simp: grows_def owner_of_def row_get_append split: option.splits)

lemma profile_named_grows: "grows db db' \<Longrightarrow> profile_named db n = Some p \<Longrightarrow> profile_named db' n = Some p"
  by (auto simp: grows_def profile_named_def profile_exact_def find_append_Some split: prod.splits)

lemma current_configuration_grows:
  "grows db db' \<Longrightarrow> current_budget_configuration db a = Some c \<Longrightarrow> current_budget_configuration db' a = Some c"
  by (auto simp: grows_def current_budget_configuration_def row_get_append)

lemma runs_grows: "grows db db' \<Longrightarrow> set (runs db) \<subseteq> set (runs db')"
  by (auto simp: grows_def runs_def)

lemma wsum_grows:
  assumes "grows db db'" "effects db' = effects db" "\<And>e. e \<in> set (effects db) \<Longrightarrow> effect_ok db e"
  shows "wsum db' P w = wsum db P w"
proof (rule wsum_cong[OF assms(2)])
  fix e assume "e \<in> set (effects db)"
  then obtain ow where "owner_of db e = Some ow" using assms(3) by (auto simp: effect_ok_def)
  then show "owner_of db' e = owner_of db e" using owner_of_grows[OF assms(1)] by simp
qed

text \<open>
  The frame of every INSERT below effects and accounts: old effects, accounts and runs keep
  their part of the invariant, so only the new rows have to be examined.
\<close>

lemma ledger_ok_grow:
  assumes ok: "ledger_ok cd db" and g: "grows db db'"
    and same: "effects db' = effects db" "accounts db' = accounts db"
    and parts: "keys_ok db'" "profiles_ok cd db'" "owners_ok db'" "custody_ok db'" "configurations_ok db'"
    and new_runs: "\<And>vn. vn \<in> set (runs db') \<Longrightarrow> vn \<notin> set (runs db) \<Longrightarrow> run_ok db' vn"
  shows "ledger_ok cd db'"
proof -
  note w = wsum_grows[OF g same(1) ledger_okD(6)[OF ok]]
  have tot: "run_totals db' v = run_totals db v" for v
    by (simp add: run_totals_def w)
  have acc: "budget_account db' = budget_account db"
    by (simp add: budget_account_def same(2) fun_eq_iff)
  have "effect_ok db' e" if e: "e \<in> set (effects db)" for e
    using ledger_okD(6)[OF ok e] owner_of_grows[OF g] profile_named_grows[OF g]
    unfolding effect_ok_def acc by blast
  moreover have "account_fits db' a" if a: "a \<in> set (accounts db)" for a
  proof -
    obtain c where "current_budget_configuration db a = Some c"
      using ledger_okD(7)[OF ok a] by (auto simp: account_fits_def)
    moreover from this have "current_budget_configuration db' a = Some c"
      by (rule current_configuration_grows[OF g])
    ultimately show ?thesis
      using ledger_okD(7)[OF ok a] by (simp add: account_fits_def w)
  qed
  moreover have "run_ok db' vn" if vn: "vn \<in> set (runs db')" for vn
  proof (cases "vn \<in> set (runs db)")
    case True
    then obtain p where "profile_named db (snd vn) = Some p"
        "within_run (run_totals db (fst vn)) (row_spec p)"
      using ledger_okD(8)[OF ok True] by (auto simp: run_ok_def)
    then show ?thesis
      using profile_named_grows[OF g] by (simp add: run_ok_def tot)
  next
    case False
    then show ?thesis using new_runs vn by blast
  qed
  ultimately show ?thesis
    using parts same by (simp add: ledger_ok_def)
qed

subsection \<open>Inserted profiles, configurations, envelopes and slots\<close>

lemma distinct_row_keys_snoc:
  "distinct (row_keys key t) \<Longrightarrow> \<not> list_ex (\<lambda>s. key r = key s) t \<Longrightarrow> distinct (row_keys key (t @ [r]))"
  by (auto simp: row_keys_def list_ex_iff)

lemma ledger_ok_insert_profile:
  assumes ok: "ledger_ok cd db" and ins: "insert_profile db r = Inr db'"
    and valid: "ProjectModelProfile_valid cd (row_profile r)"
      "maximum_reservation_nanodollars (row_spec r) = Inr run"
  shows "ledger_ok cd db'"
proof (rule ledger_ok_grow[OF ok])
  have db': "db' = db\<lparr>profiles := profiles db @ [r]\<rparr>"
    using ins by (auto simp: insert_profile_def outcome_inv)
  show "grows db db'" "effects db' = effects db" "accounts db' = accounts db"
    by (simp_all add: db' grows_def)
  show "keys_ok db'"
    using ledger_okD(1)[OF ok] ins_profile.distinct_after[OF ins] by (simp add: keys_ok_def db')
  show "profiles_ok cd db'"
    using ledger_okD(2)[OF ok] valid by (auto simp: profiles_ok_def db')
  show "owners_ok db'"
    using ledger_okD(3)[OF ok] profile_named_grows[OF \<open>grows db db'\<close>]
    unfolding owners_ok_def by (fastforce simp: db' all_owners_def runs_def)
  show "custody_ok db'" "configurations_ok db'"
    using ledger_okD(4,5)[OF ok] by (simp_all add: custody_ok_def configurations_ok_def db')
qed (use ins in \<open>auto simp: insert_profile_def outcome_inv runs_def\<close>)

lemma ledger_ok_insert_configuration:
  assumes ok: "ledger_ok cd db" and ins: "insert_configuration db r = Inr db'"
    and cap: "is_nanodollars (cf_authorized_total_nanodollars r)"
  shows "ledger_ok cd db'"
proof (rule ledger_ok_grow[OF ok])
  have db': "db' = db\<lparr>configurations := configurations db @ [r]\<rparr>" and chk: "configuration_check r"
    using ins by (auto simp: insert_configuration_def outcome_inv)
  show "grows db db'" "effects db' = effects db" "accounts db' = accounts db"
    by (simp_all add: db' grows_def)
  show "keys_ok db'"
    using ledger_okD(1)[OF ok] ins_configuration.distinct_after[OF ins] by (simp add: keys_ok_def db')
  show "profiles_ok cd db'" "custody_ok db'"
    using ledger_okD(2,4)[OF ok] by (simp_all add: profiles_ok_def custody_ok_def db')
  show "owners_ok db'"
    using ledger_okD(3)[OF ok] profile_named_grows[OF \<open>grows db db'\<close>]
    unfolding owners_ok_def by (fastforce simp: db' all_owners_def runs_def)
  show "configurations_ok db'"
    using ledger_okD(5)[OF ok] chk cap by (simp add: configurations_ok_def db')
qed (use ins in \<open>auto simp: insert_configuration_def outcome_inv runs_def\<close>)

lemma profile_reference_named:
  "profile_reference db i v d \<Longrightarrow> \<exists>p. profile_named db (i, v, d) = Some p"
  by (cases "profile_named db (i, v, d)")
     (auto simp: profile_named_def profile_exact_def find_None_iff profile_reference_def list_ex_iff)

lemma profile_valid:
  assumes "ledger_ok cd db" "profile_named db n = Some p"
  shows "ProjectModelProfileSpec_valid (row_spec p)"
    "\<exists>run. maximum_reservation_nanodollars (row_spec p) = Inr run"
  using ledger_okD(2)[OF assms(1)] profile_named_in[OF assms(2)]
  by (auto simp: profiles_ok_def ProjectModelProfile_valid_def ModelProfileProvisioningFacts_valid_def
      row_profile_def)

text \<open>A run with no effects is within every ceiling.\<close>

lemma within_run_empty:
  assumes "ProjectModelProfileSpec_valid p" "maximum_reservation_nanodollars p = Inr run"
    and "\<And>w. wsum db (in_run v) w = 0"
  shows "within_run (run_totals db v) p"
proof -
  have "0 < run" using assms(2) by (simp add: maximum_reservation_nanodollars_def Let_def split: if_splits)
  then show ?thesis
    using assms
    by (auto simp: within_run_def run_totals_def ProjectModelProfileSpec_valid_def spec_fields_valid_def
        between_def)
qed

lemma fresh_run_empty:
  assumes ok: "ledger_ok cd db" and v: "\<And>n. (v, n) \<notin> set (runs db)"
  shows "wsum db (in_run v) w = 0"
proof (rule wsum_none)
  fix e ow assume "e \<in> set (effects db)" "owner_of db e = Some ow" "ow_envelope ow = v"
  then have "(v, ow_profile ow) \<in> set (runs db)"
    using ledger_okD(3)[OF ok] owner_of_in_all by (auto simp: owners_ok_def)
  then show "w e = 0" using v by blast
qed

lemma run_ok_fresh:
  assumes ok: "ledger_ok cd db" and g: "grows db db'" and same: "effects db' = effects db"
    and v: "\<And>m. (v, m) \<notin> set (runs db)" and p: "profile_named db n = Some p"
  shows "run_ok db' (v, n)"
proof -
  have "wsum db' (in_run v) w = 0" for w
    using wsum_grows[OF g same ledger_okD(6)[OF ok]] fresh_run_empty[OF ok v] by simp
  then have "within_run (run_totals db' v) (row_spec p)"
    using profile_valid[OF ok p] within_run_empty by blast
  then show ?thesis
    using profile_named_grows[OF g p] by (simp add: run_ok_def)
qed

lemma ledger_ok_insert_envelope:
  assumes ok: "ledger_ok cd db" and ins: "insert_envelope db r = Inr db'"
  shows "ledger_ok cd db'"
proof (rule ledger_ok_grow[OF ok])
  let ?n = "(ce_profile_id r, ce_profile_version r, ce_profile_digest r)"
  have db': "db' = db\<lparr>envelopes := envelopes db @ [r]\<rparr>"
    and clash: "\<not> list_ex (envelope_clash r) (envelopes db)"
    and ref: "profile_reference db (ce_profile_id r) (ce_profile_version r) (ce_profile_digest r)"
    using ins by (auto simp: insert_envelope_def outcome_inv)
  show g: "grows db db'" and same: "effects db' = effects db" "accounts db' = accounts db"
    by (simp_all add: db' grows_def)
  have "distinct (row_keys ce_identity (envelopes db @ [r]))"
    using ledger_okD(1)[OF ok] clash
    by (intro distinct_row_keys_snoc) (auto simp: keys_ok_def envelope_clash_def list_ex_iff)
  then show "keys_ok db'"
    using ledger_okD(1)[OF ok] ins_envelope.distinct_after[OF ins] by (simp add: keys_ok_def db')
  show "profiles_ok cd db'" "configurations_ok db'"
    using ledger_okD(2,5)[OF ok] by (simp_all add: profiles_ok_def configurations_ok_def db')
  show "owners_ok db'"
    using ledger_okD(3)[OF ok] profile_named_grows[OF g]
    unfolding owners_ok_def by (fastforce simp: db' all_owners_def runs_def)
  show "custody_ok db'"
    using ledger_okD(4)[OF ok] by (fastforce simp: custody_ok_def db')
  fix vn assume "vn \<in> set (runs db')" "vn \<notin> set (runs db)"
  then have vn: "vn = (Inl (ce_id r), ?n)" by (auto simp: db' runs_def)
  have fresh: "(Inl (ce_id r), m) \<notin> set (runs db)" for m
    using clash by (auto simp: runs_def list_ex_iff envelope_clash_def)
  obtain p where "profile_named db ?n = Some p" using profile_reference_named[OF ref] by blast
  then show "run_ok db' vn"
    unfolding vn by (rule run_ok_fresh[OF ok g same(1) fresh])
qed

lemma ledger_ok_insert_setup_envelope:
  assumes ok: "ledger_ok cd db" and ins: "insert_setup_envelope db r = Inr db'"
  shows "ledger_ok cd db'"
proof (rule ledger_ok_grow[OF ok])
  let ?n = "(sn_profile_id r, sn_profile_version r, sn_profile_digest r)"
  have db': "db' = db\<lparr>setup_envelopes := setup_envelopes db @ [r]\<rparr>"
    and clash: "\<not> list_ex (setup_envelope_clash r) (setup_envelopes db)"
    and ref: "profile_reference db (sn_profile_id r) (sn_profile_version r) (sn_profile_digest r)"
    using ins by (auto simp: insert_setup_envelope_def outcome_inv)
  show g: "grows db db'" and same: "effects db' = effects db" "accounts db' = accounts db"
    by (simp_all add: db' grows_def)
  have "distinct (row_keys sn_compilation_attempt_id (setup_envelopes db @ [r]))"
    using ledger_okD(1)[OF ok] clash
    by (intro distinct_row_keys_snoc) (auto simp: keys_ok_def setup_envelope_clash_def list_ex_iff)
  then show "keys_ok db'"
    using ledger_okD(1)[OF ok] ins_setup_envelope.distinct_after[OF ins] by (simp add: keys_ok_def db')
  show "profiles_ok cd db'" "configurations_ok db'"
    using ledger_okD(2,5)[OF ok] by (simp_all add: profiles_ok_def configurations_ok_def db')
  show "owners_ok db'"
    using ledger_okD(3)[OF ok] profile_named_grows[OF g]
    unfolding owners_ok_def by (fastforce simp: db' all_owners_def runs_def)
  show "custody_ok db'"
    using ledger_okD(4)[OF ok] by (fastforce simp: custody_ok_def db')
  fix vn assume "vn \<in> set (runs db')" "vn \<notin> set (runs db)"
  then have vn: "vn = (Inr (sn_id r), ?n)" by (auto simp: db' runs_def)
  have fresh: "(Inr (sn_id r), m) \<notin> set (runs db)" for m
    using clash by (auto simp: runs_def list_ex_iff setup_envelope_clash_def)
  obtain p where "profile_named db ?n = Some p" using profile_reference_named[OF ref] by blast
  then show "run_ok db' vn"
    unfolding vn by (rule run_ok_fresh[OF ok g same(1) fresh])
qed

lemma ledger_ok_insert_slot:
  assumes ok: "ledger_ok cd db" and ins: "insert_slot db r = Inr db'"
    and env: "e \<in> set (envelopes db)" "ce_id e = sl_envelope_id r" "envelope_predicates (slot_key r) e"
    and p: "profile_named db (sl_profile_id r, sl_profile_version r, sl_profile_digest r) = Some p"
      "pr_project_id p = sl_project_id r"
  shows "ledger_ok cd db'"
proof (rule ledger_ok_grow[OF ok])
  have db': "db' = db\<lparr>slots := slots db @ [r]\<rparr>"
    using ins by (auto simp: insert_slot_def outcome_inv)
  show g: "grows db db'" and same: "effects db' = effects db" "accounts db' = accounts db"
    by (simp_all add: db' grows_def)
  show "keys_ok db'"
    using ledger_okD(1)[OF ok] ins_slot.distinct_after[OF ins] by (simp add: keys_ok_def db')
  show "profiles_ok cd db'" "configurations_ok db'"
    using ledger_okD(2,5)[OF ok] by (simp_all add: profiles_ok_def configurations_ok_def db')
  have "(Inl (sl_envelope_id r), (sl_profile_id r, sl_profile_version r, sl_profile_digest r)) \<in> set (runs db)"
    using env by (force simp: runs_def envelope_predicates_def slot_key_def)
  then have "owners_ok db' \<longleftrightarrow> owners_ok db"
    using p by (auto simp: owners_ok_def db' all_owners_def runs_def checker_owner_def profile_named_def
        profile_exact_def)
  then show "owners_ok db'" using ledger_okD(3)[OF ok] by simp
  show "custody_ok db'"
    using ledger_okD(4)[OF ok] env by (auto simp: custody_ok_def db')
qed (use ins in \<open>auto simp: insert_slot_def outcome_inv runs_def\<close>)

lemma ledger_ok_insert_setup_slot:
  assumes ok: "ledger_ok cd db" and ins: "insert_setup_slot db r = Inr db'"
    and env: "e \<in> set (setup_envelopes db)" "sn_id e = st_envelope_id r"
      "setup_envelope_predicates (setup_slot_key r) e"
    and p: "profile_named db (st_profile_id r, st_profile_version r, st_profile_digest r) = Some p"
      "pr_project_id p = st_project_id r"
  shows "ledger_ok cd db'"
proof (rule ledger_ok_grow[OF ok])
  have db': "db' = db\<lparr>setup_slots := setup_slots db @ [r]\<rparr>"
    using ins by (auto simp: insert_setup_slot_def outcome_inv)
  show g: "grows db db'" and same: "effects db' = effects db" "accounts db' = accounts db"
    by (simp_all add: db' grows_def)
  show "keys_ok db'"
    using ledger_okD(1)[OF ok] ins_setup_slot.distinct_after[OF ins] by (simp add: keys_ok_def db')
  show "profiles_ok cd db'" "configurations_ok db'"
    using ledger_okD(2,5)[OF ok] by (simp_all add: profiles_ok_def configurations_ok_def db')
  have "(Inr (st_envelope_id r), (st_profile_id r, st_profile_version r, st_profile_digest r)) \<in> set (runs db)"
    using env by (force simp: runs_def setup_envelope_predicates_def setup_slot_key_def)
  then have "owners_ok db' \<longleftrightarrow> owners_ok db"
    using p by (auto simp: owners_ok_def db' all_owners_def runs_def setup_owner_def profile_named_def
        profile_exact_def)
  then show "owners_ok db'" using ledger_okD(3)[OF ok] by simp
  show "custody_ok db'"
    using ledger_okD(4)[OF ok] env by (auto simp: custody_ok_def db')
qed (use ins in \<open>auto simp: insert_setup_slot_def outcome_inv runs_def\<close>)

subsection \<open>Inserted effects and accounts\<close>

lemma owner_profile:
  assumes ok: "ledger_ok cd db" and "owner_of db e = Some ow"
  shows "\<exists>p. profile_named db (ow_profile ow) = Some p \<and> pr_project_id p = ow_project ow"
  using ledger_okD(3)[OF ok] owner_of_in_all[OF assms(2)] by (auto simp: owners_ok_def)

lemma run_totals_append:
  assumes "effects db' = effects db @ [r]" "slots db' = slots db" "setup_slots db' = setup_slots db"
    and "ef_state r = Prepared" "ec_byte_count (ef_request r) = None" "ec_byte_count (ef_response r) = None"
      "ef_settled_nanodollars r = None" "ef_input_tokens r = None" "ef_output_tokens r = None"
  shows "run_totals db' v = run_totals db v"
  using assms
  by (simp add: run_totals_def wsum_append[OF assms(1-3)] one_if_def pending_def pending_reserved_def
      settled_amount_def or_zero_def)

lemma row_get_exists: "list_ex (\<lambda>s. key s = k) t \<Longrightarrow> \<exists>z. row_get key k t = Some z"
  by (induction t) (auto simp: row_get_Cons)

lemma referenced_owner:
  assumes "effect_references db r" "(ef_checker_slot_id r = None) \<noteq> (ef_setup_slot_id r = None)"
  shows "\<exists>ow. owner_of db r = Some ow"
proof (cases "ef_checker_slot_id r")
  case None
  then obtain i where "ef_setup_slot_id r = Some i" using assms(2) by auto
  with None assms(1) show ?thesis
    by (auto simp: owner_of_def effect_references_def opt_ok_def dest!: row_get_exists)
next
  case (Some i)
  with assms(1) show ?thesis
    by (auto simp: owner_of_def effect_references_def opt_ok_def dest!: row_get_exists)
qed

lemma ledger_ok_insert_effect:
  assumes ok: "ledger_ok cd db" and ins: "insert_effect db r = Inr db'"
    and r: "r = new_effect i cs ss n q par sha x auth at"
  shows "ledger_ok cd db'"
proof -
  have db': "db' = db\<lparr>effects := effects db @ [r]\<rparr>" and chk: "effect_check r"
    and refs: "effect_references db r"
    using ins by (auto simp: insert_effect_def outcome_inv)
  have exact: "(ef_checker_slot_id r = None) \<noteq> (ef_setup_slot_id r = None)"
    using chk by (simp add: effect_check_def)
  have own: "owner_of db' = owner_of db" by (rule owner_of_same) (simp_all add: db')
  have "\<exists>ow. owner_of db r = Some ow"
    using refs exact by (rule referenced_owner)
  then obtain ow p where ow: "owner_of db r = Some ow" "profile_named db (ow_profile ow) = Some p"
    using owner_profile[OF ok] by blast
  have prof: "profile_named db' = profile_named db"
    by (simp add: profile_named_def profile_exact_def fun_eq_iff db')
  have acc: "budget_account db' = budget_account db"
    by (simp add: budget_account_def fun_eq_iff db')
  have cur: "current_budget_configuration db' = current_budget_configuration db"
    by (simp add: current_budget_configuration_def fun_eq_iff db')
  have tabs: "effects db' = effects db @ [r]" "slots db' = slots db" "setup_slots db' = setup_slots db"
    by (simp_all add: db')
  have cols: "ef_state r = Prepared" "ec_byte_count (ef_request r) = None"
      "ec_byte_count (ef_response r) = None" "ef_settled_nanodollars r = None"
      "ef_input_tokens r = None" "ef_output_tokens r = None"
    by (simp_all add: r new_effect_def no_evidence_def)
  have weights: "pending_reserved r = 0" "settled_amount r = 0"
    using cols by (simp_all add: pending_reserved_def pending_def settled_amount_def or_zero_def)
  have "effect_ok db' r"
    using ow exact unfolding effect_ok_def own prof acc
    by (auto simp: r new_effect_def effect_shape_def no_evidence_def)
  moreover have "effect_ok db' e \<longleftrightarrow> effect_ok db e" for e
    by (simp add: effect_ok_def own prof acc)
  moreover have "account_fits db' a \<longleftrightarrow> account_fits db a" for a
    by (simp add: account_fits_def wsum_append[OF tabs] weights cur)
  moreover have "run_ok db' vn \<longleftrightarrow> run_ok db vn" for vn
    by (simp add: run_ok_def prof run_totals_append[OF tabs cols])
  moreover have "keys_ok db'"
    using ledger_okD(1)[OF ok] ins_effect.distinct_after[OF ins] by (simp add: keys_ok_def db')
  ultimately show ?thesis
    using ok by (simp add: ledger_ok_def db' profiles_ok_def owners_ok_def custody_ok_def
        configurations_ok_def all_owners_def runs_def profile_named_def profile_exact_def)
qed

text \<open>
  Changing only the account table: enough that effects beyond preparation keep an account and
  the changed account fits.
\<close>

lemma ledger_ok_accounts:
  assumes ok: "ledger_ok cd db" and db': "db' = db\<lparr>accounts := as\<rparr>"
    and keys: "distinct (row_keys ac_project_id as)"
    and kept: "\<And>p. budget_account db p \<noteq> None \<Longrightarrow> budget_account db' p \<noteq> None"
    and fits: "\<And>a. a \<in> set as \<Longrightarrow> account_fits db a"
  shows "ledger_ok cd db'"
proof -
  have own: "owner_of db' = owner_of db" by (rule owner_of_same) (simp_all add: db')
  have prof: "profile_named db' = profile_named db"
    by (simp add: profile_named_def profile_exact_def fun_eq_iff db')
  have cur: "current_budget_configuration db' = current_budget_configuration db"
    by (simp add: current_budget_configuration_def fun_eq_iff db')
  have w: "wsum db' P w = wsum db P w" for P w
    by (rule wsum_cong) (simp_all add: db' own[unfolded db'])
  have "effect_ok db' e" if "effect_ok db e" for e
    using that kept unfolding effect_ok_def own prof by blast
  moreover have "account_fits db' a \<longleftrightarrow> account_fits db a" for a
    by (simp add: account_fits_def w cur)
  moreover have "run_ok db' vn \<longleftrightarrow> run_ok db vn" for vn
    by (simp add: run_ok_def prof run_totals_def w)
  ultimately show ?thesis
    using ok keys fits by (simp add: ledger_ok_def db' keys_ok_def profiles_ok_def owners_ok_def
        custody_ok_def configurations_ok_def all_owners_def runs_def profile_named_def profile_exact_def)
qed

subsection \<open>Moving money\<close>

definition shift_totals :: "ModelUsageEnvelopeTotals \<Rightarrow> EffectRow \<Rightarrow> EffectRow \<Rightarrow> ModelUsageEnvelopeTotals" where
  "shift_totals t r r' =
   \<lparr> dispatches = dispatches t + (one_if (ef_state r' \<noteq> Prepared) - one_if (ef_state r \<noteq> Prepared)),
     pending_dispatches = pending_dispatches t + (one_if (pending r') - one_if (pending r)),
     total_reserved_nanodollars = total_reserved_nanodollars t + (pending_reserved r' - pending_reserved r),
     total_settled_nanodollars = total_settled_nanodollars t + (settled_amount r' - settled_amount r),
     request_bytes = request_bytes t
       + (or_zero (ec_byte_count (ef_request r')) - or_zero (ec_byte_count (ef_request r))),
     response_bytes = response_bytes t
       + (or_zero (ec_byte_count (ef_response r')) - or_zero (ec_byte_count (ef_response r))),
     input_tokens = input_tokens t + (or_zero (ef_input_tokens r') - or_zero (ef_input_tokens r)),
     output_tokens = output_tokens t + (or_zero (ef_output_tokens r') - or_zero (ef_output_tokens r)) \<rparr>"

lemma account_row_put:
  assumes "budget_account db q = Some a" "ac_project_id a' = ac_project_id a"
    "accounts db' = row_put ac_project_id a' (accounts db)"
  shows "budget_account db' p = (if p = q then Some a' else budget_account db p)"
  using assms by (auto simp: budget_account_def row_get_put dest: row_get_SomeD)

text \<open>
  One effect changes and its project's account changes by the same amounts.
\<close>

definition money_move ::
    "model_db \<Rightarrow> owner \<Rightarrow> EffectRow \<Rightarrow> EffectRow \<Rightarrow> BudgetAccountRow \<Rightarrow> BudgetAccountRow \<Rightarrow> model_db \<Rightarrow> bool" where
  "money_move db ow r r' a a' db' \<longleftrightarrow>
     r \<in> set (effects db) \<and> owner_of db r = Some ow \<and> ef_id r' = ef_id r \<and>
     ef_checker_slot_id r' = ef_checker_slot_id r \<and> ef_setup_slot_id r' = ef_setup_slot_id r \<and>
     budget_account db (ow_project ow) = Some a \<and> ac_project_id a' = ac_project_id a \<and>
     ac_current_configuration_id a' = ac_current_configuration_id a \<and>
     ac_lifetime_reserved_nanodollars a'
       = ac_lifetime_reserved_nanodollars a + (pending_reserved r' - pending_reserved r) \<and>
     ac_lifetime_settled_nanodollars a'
       = ac_lifetime_settled_nanodollars a + (settled_amount r' - settled_amount r) \<and>
     db' = db\<lparr>accounts := row_put ac_project_id a' (accounts db),
              effects := row_put ef_id r' (effects db)\<rparr>"

lemma money_moveD:
  assumes "money_move db ow r r' a a' db'"
  shows "r \<in> set (effects db)" "owner_of db r = Some ow" "owner_of db r' = Some ow"
    "budget_account db (ow_project ow) = Some a" "ac_project_id a = ow_project ow"
    "ac_project_id a' = ow_project ow" "a \<in> set (accounts db)"
    "current_budget_configuration db a' = current_budget_configuration db a"
    "ac_lifetime_reserved_nanodollars a'
       = ac_lifetime_reserved_nanodollars a + (pending_reserved r' - pending_reserved r)"
    "ac_lifetime_settled_nanodollars a'
       = ac_lifetime_settled_nanodollars a + (settled_amount r' - settled_amount r)"
  using assms owner_of_columns[of r' r db]
  by (auto simp: money_move_def budget_account_def current_budget_configuration_def dest: row_get_SomeD)

lemma money_move_frame:
  assumes "money_move db ow r r' a a' db'"
  shows "owner_of db' = owner_of db" "profile_named db' = profile_named db"
    "current_budget_configuration db' = current_budget_configuration db" "runs db' = runs db"
    "budget_account db' p = (if p = ow_project ow then Some a' else budget_account db p)"
    "e \<in> set (effects db') \<Longrightarrow> e = r' \<or> e \<in> set (effects db)"
    "x \<in> set (accounts db') \<Longrightarrow> x = a' \<or> x \<in> set (accounts db) \<and> ac_project_id x \<noteq> ow_project ow"
proof -
  have db': "db' = db\<lparr>accounts := row_put ac_project_id a' (accounts db),
                     effects := row_put ef_id r' (effects db)\<rparr>"
    using assms by (simp add: money_move_def)
  show "owner_of db' = owner_of db" by (rule owner_of_same) (simp_all add: db')
  show "profile_named db' = profile_named db" "runs db' = runs db"
    "current_budget_configuration db' = current_budget_configuration db"
    by (simp_all add: profile_named_def profile_exact_def current_budget_configuration_def
        runs_def fun_eq_iff db')
  show "budget_account db' p = (if p = ow_project ow then Some a' else budget_account db p)"
    using account_row_put[of db "ow_project ow" a a' db' p] assms by (simp add: money_move_def)
  show "e \<in> set (effects db') \<Longrightarrow> e = r' \<or> e \<in> set (effects db)"
    by (auto simp: db' dest: in_set_row_putD)
  show "x \<in> set (accounts db') \<Longrightarrow> x = a' \<or> x \<in> set (accounts db) \<and> ac_project_id x \<noteq> ow_project ow"
    using money_moveD(6)[OF assms] by (auto simp: db' dest: in_set_row_putD)
qed

lemma money_move_wsum:
  assumes "money_move db ow r r' a a' db'" "keys_ok db"
  shows "wsum db' P w = wsum db P w + (if P ow then w r' - w r else 0)"
proof -
  have "wsum db' P w = wsum db P w
      + (if \<exists>ow. owner_of db r = Some ow \<and> P ow then w r' - w r else 0)"
    by (rule wsum_update) (use assms in \<open>auto simp: money_move_def keys_ok_def\<close>)
  then show ?thesis using money_moveD(2)[OF assms(1)] by simp
qed

lemma money_move_account:
  assumes ok: "ledger_ok cd db" and m: "money_move db ow r r' a a' db'"
    and c: "current_budget_configuration db a = Some c"
      "ac_lifetime_reserved_nanodollars a' + ac_lifetime_settled_nanodollars a'
         \<le> cf_lifetime_limit_nanodollars c"
    and x: "x \<in> set (accounts db')"
  shows "account_fits db' x"
  using money_move_frame(7)[OF m x]
proof
  note w = money_move_wsum[OF m ledger_okD(1)[OF ok]]
  assume "x = a'"
  moreover have "account_fits db a" using ledger_okD(7)[OF ok] money_moveD(7)[OF m] .
  ultimately show ?thesis
    using c money_moveD(5,6,8-10)[OF m] by (simp add: account_fits_def w money_move_frame(3)[OF m])
next
  note w = money_move_wsum[OF m ledger_okD(1)[OF ok]]
  assume x: "x \<in> set (accounts db) \<and> ac_project_id x \<noteq> ow_project ow"
  then show ?thesis
    using ledger_okD(7)[OF ok, of x] by (auto simp: account_fits_def w money_move_frame(3)[OF m])
qed

lemma money_move_run:
  assumes ok: "ledger_ok cd db" and m: "money_move db ow r r' a a' db'"
    and p: "profile_named db (ow_profile ow) = Some p"
      "within_run (shift_totals (run_totals db (ow_envelope ow)) r r') (row_spec p)"
    and vn: "vn \<in> set (runs db')"
  shows "run_ok db' vn"
proof -
  note w = money_move_wsum[OF m ledger_okD(1)[OF ok]]
  have vn': "(fst vn, snd vn) \<in> set (runs db)" using vn money_move_frame(4)[OF m] by simp
  show ?thesis
  proof (cases "fst vn = ow_envelope ow")
    case True
    have "(ow_envelope ow, ow_profile ow) \<in> set (runs db)"
      using ledger_okD(3)[OF ok] owner_of_in_all[OF money_moveD(2)[OF m]] by (auto simp: owners_ok_def)
    then have "snd vn = ow_profile ow"
      using runs_functional[OF ledger_okD(1)[OF ok]] vn' True by metis
    moreover have "run_totals db' (fst vn) = shift_totals (run_totals db (ow_envelope ow)) r r'"
      unfolding run_totals_def w True by (simp add: shift_totals_def)
    ultimately show ?thesis
      using p by (simp add: run_ok_def money_move_frame(2)[OF m])
  next
    case False
    then have "run_totals db' (fst vn) = run_totals db (fst vn)"
      unfolding run_totals_def w by simp
    then show ?thesis
      using ledger_okD(8)[OF ok vn'] by (simp add: run_ok_def money_move_frame(2)[OF m])
  qed
qed

text \<open>
  A move keeps the invariant when the new columns fit the effect's state, the account stays below
  the limit and the shifted run totals stay within the profile.
\<close>

lemma ledger_ok_move:
  assumes ok: "ledger_ok cd db" and m: "money_move db ow r r' a a' db'"
    and p: "profile_named db (ow_profile ow) = Some p" "effect_shape (row_spec p) r'"
      "within_run (shift_totals (run_totals db (ow_envelope ow)) r r') (row_spec p)"
    and c: "current_budget_configuration db a = Some c"
      "ac_lifetime_reserved_nanodollars a' + ac_lifetime_settled_nanodollars a'
         \<le> cf_lifetime_limit_nanodollars c"
  shows "ledger_ok cd db'"
proof -
  note f = money_move_frame(1,2,5)[OF m]
  have db': "db' = db\<lparr>accounts := row_put ac_project_id a' (accounts db),
                     effects := row_put ef_id r' (effects db)\<rparr>"
    using m by (simp add: money_move_def)
  have "effect_ok db r" by (rule ledger_okD(6)[OF ok money_moveD(1)[OF m]])
  then have "effect_ok db' r'"
    using m p(1,2) money_moveD(3)[OF m] unfolding effect_ok_def f by (auto simp: money_move_def)
  moreover have "effect_ok db' e" if "effect_ok db e" for e
    using that unfolding effect_ok_def f by auto
  ultimately have "effect_ok db' e" if "e \<in> set (effects db')" for e
    using money_move_frame(6)[OF m that] ledger_okD(6)[OF ok] by blast
  moreover note money_move_account[OF ok m c] money_move_run[OF ok m p(1,3)]
  ultimately show ?thesis
    using ok by (simp add: ledger_ok_def db' keys_ok_def profiles_ok_def owners_ok_def custody_ok_def
        configurations_ok_def all_owners_def runs_def profile_named_def profile_exact_def)
qed

subsection \<open>Dispatch, settlement, release and observation\<close>

lemma prepared_shape:
  assumes "effect_shape p r" "ef_state r = Prepared"
  shows "ef_reserved_nanodollars r = None" "ec_byte_count (ef_request r) = None"
    "ef_settled_nanodollars r = None" "ec_byte_count (ef_response r) = None"
    "ef_input_tokens r = None" "ef_output_tokens r = None"
  using assms by (auto simp: effect_shape_def)

lemma pending_shape:
  assumes "effect_shape p r" "pending r"
  obtains R n where "ef_reserved_nanodollars r = Some R"
    "maximum_dispatch_reservation_nanodollars p = Inr R"
    "ec_byte_count (ef_request r) = Some n" "1 \<le> n" "n \<le> maximum_request_bytes p"
    "ef_settled_nanodollars r = None" "ec_byte_count (ef_response r) = None"
    "ef_input_tokens r = None" "ef_output_tokens r = None"
  using assms by (auto simp: effect_shape_def pending_def)

lemma update_account_eq: "update_account db a = Inr db' \<Longrightarrow> db' = db\<lparr>accounts := row_put ac_project_id a (accounts db)\<rparr>"
  by (auto simp: update_account_def outcome_inv)

lemma update_effect_eq: "update_effect db r = Inr db' \<Longrightarrow> db' = db\<lparr>effects := row_put ef_id r (effects db)\<rparr>"
  by (auto simp: update_effect_def outcome_inv)

lemma update_effect_check: "update_effect db r = Inr db' \<Longrightarrow> effect_check r"
  by (auto simp: update_effect_def outcome_inv)

lemmas weight_defs = pending_reserved_def settled_amount_def pending_def or_zero_def one_if_def

lemma account_current:
  assumes "ledger_ok cd db" "budget_account db q = Some a"
  obtains c where "current_budget_configuration db a = Some c" "cf_project_id c = q"
    "ac_lifetime_reserved_nanodollars a + ac_lifetime_settled_nanodollars a \<le> cf_lifetime_limit_nanodollars c"
proof -
  have "a \<in> set (accounts db)" "ac_project_id a = q"
    using assms(2) by (auto simp: budget_account_def dest: row_get_SomeD)
  then show ?thesis
    using that ledger_okD(7)[OF assms(1)] by (auto simp: account_fits_def)
qed

lemma ledger_ok_dispatch:
  assumes ok: "ledger_ok cd db" and r: "r \<in> set (effects db)" "owner_of db r = Some ow" "ef_state r = Prepared"
    and p: "profile_named db (ow_profile ow) = Some p"
      "maximum_dispatch_reservation_nanodollars (row_spec p) = Inr R"
      "maximum_reservation_nanodollars (row_spec p) = Inr run"
    and ev: "ModelCallEvidence_valid ev" "ev_byte_count ev \<le> maximum_request_bytes (row_spec p)"
    and env: "\<not> run_envelope_exceeded (run_totals db (ow_envelope ow)) (row_spec p) R run (ev_byte_count ev)"
    and a: "budget_account db (ow_project ow) = Some a" "current_budget_configuration db a = Some c"
      "\<not> ac_lifetime_reserved_nanodollars a + ac_lifetime_settled_nanodollars a + R
           > cf_lifetime_limit_nanodollars c"
    and a': "a' = a\<lparr>ac_lifetime_reserved_nanodollars := ac_lifetime_reserved_nanodollars a + R\<rparr>"
    and r': "r' = dispatched_row r ev c R x auth at"
    and upd: "update_account db a' = Inr db1" "update_effect db1 r' = Inr db'"
  shows "ledger_ok cd db' \<and> money_move db ow r r' a a' db'"
proof -
  have shape: "effect_shape (row_spec p) r"
    using ledger_okD(6)[OF ok r(1)] r(2) p(1) by (auto simp: effect_ok_def)
  note ps = prepared_shape[OF shape r(3)]
  have cols: "ef_state r' = Dispatching" "ef_reserved_nanodollars r' = Some R"
      "ec_byte_count (ef_request r') = Some (ev_byte_count ev)" "ef_settled_nanodollars r' = None"
      "ec_byte_count (ef_response r') = None" "ef_input_tokens r' = None" "ef_output_tokens r' = None"
    using ps by (simp_all add: r' dispatched_row_def evidence_columns_def)
  have m: "money_move db ow r r' a a' db'"
    using r a ps cols update_account_eq[OF upd(1)] update_effect_eq[OF upd(2)]
    by (simp add: money_move_def a' weight_defs) (simp add: r' dispatched_row_def)
  have "effect_shape (row_spec p) r'"
    using cols p ev by (simp add: effect_shape_def ModelCallEvidence_valid_def between_def)
  moreover have "within_run (shift_totals (run_totals db (ow_envelope ow)) r r') (row_spec p)"
    using env p(3) cols ps r(3)
    by (auto simp: within_run_def shift_totals_def run_envelope_exceeded_def weight_defs algebra_simps)
  ultimately show ?thesis
    using ledger_ok_move[OF ok m p(1) _ _ a(2)] a(3) m by (simp add: a')
qed

text \<open>
  Every exit of a pending effect returns its whole reservation and settles an amount between
  zero and that reservation, with response and token columns within one call's bounds.
\<close>

lemma ledger_ok_exit:
  assumes ok: "ledger_ok cd db" and r: "r \<in> set (effects db)" "owner_of db r = Some ow" "pending r"
    and p: "profile_named db (ow_profile ow) = Some p"
    and a: "budget_account db (ow_project ow) = Some a"
    and R: "ef_reserved_nanodollars r = Some R" "0 \<le> settled_amount r'" "settled_amount r' \<le> R"
    and a': "a' = a\<lparr>ac_lifetime_reserved_nanodollars := ac_lifetime_reserved_nanodollars a - R,
                    ac_lifetime_settled_nanodollars := ac_lifetime_settled_nanodollars a + settled_amount r'\<rparr>"
    and r': "ef_id r' = ef_id r" "ef_checker_slot_id r' = ef_checker_slot_id r"
      "ef_setup_slot_id r' = ef_setup_slot_id r" "ef_request r' = ef_request r"
      "ef_state r' \<in> {Completed, Known_failed, Known_no_effect}"
      "effect_shape (row_spec p) r'"
    and db': "flush_terminal db a' r' = Inr db'"
  shows "ledger_ok cd db' \<and> money_move db ow r r' a a' db'"
proof -
  have shape: "effect_shape (row_spec p) r"
    using ledger_okD(6)[OF ok r(1)] r(2) p(1) by (auto simp: effect_ok_def)
  from pending_shape[OF shape r(3)] obtain n where
    ps: "ec_byte_count (ef_request r) = Some n" "ef_settled_nanodollars r = None"
      "ec_byte_count (ef_response r) = None" "ef_input_tokens r = None" "ef_output_tokens r = None"
    by metis
  obtain c where c: "current_budget_configuration db a = Some c"
      "ac_lifetime_reserved_nanodollars a + ac_lifetime_settled_nanodollars a \<le> cf_lifetime_limit_nanodollars c"
    using account_current[OF ok a] by metis
  have np: "\<not> pending r'" "pending_reserved r' = 0" "ef_state r' \<noteq> Prepared" "ef_state r \<noteq> Prepared"
    using r'(5) r(3) by (auto simp: weight_defs)
  have pr: "pending_reserved r = R" "settled_amount r = 0"
    using r(3) R(1) ps by (simp_all add: pending_reserved_def settled_amount_def or_zero_def)
  have bounds: "or_zero (ec_byte_count (ef_response r')) \<le> maximum_response_bytes (row_spec p)"
      "or_zero (ef_input_tokens r') \<le> maximum_input_tokens (row_spec p)"
      "or_zero (ef_output_tokens r') \<le> maximum_output_tokens (row_spec p)"
    using r'(5,6) spec_validD(1,2,5)[OF profile_valid(1)[OF ok p]]
    by (auto simp: effect_shape_def or_zero_def split: if_splits)
  have m: "money_move db ow r r' a a' db'"
    using r a r' db' np pr
    by (auto simp: money_move_def a' flush_terminal_def outcome_inv dest!: update_account_eq update_effect_eq)
  have "run_ok db (ow_envelope ow, ow_profile ow)"
    using ledger_okD(3,8)[OF ok] owner_of_in_all[OF r(2)] by (auto simp: owners_ok_def)
  then have "within_run (run_totals db (ow_envelope ow)) (row_spec p)"
    using p by (simp add: run_ok_def)
  then have "within_run (shift_totals (run_totals db (ow_envelope ow)) r r') (row_spec p)"
    using np pr bounds ps r'(4) R(3) r(3)
    by (auto simp: within_run_def shift_totals_def one_if_def or_zero_def[of None] algebra_simps)
  then show ?thesis
    using ledger_ok_move[OF ok m p r'(6) _ c(1)] c(2) R m by (simp add: a')
qed

text \<open>An observation changes no amount: it is a move of zero.\<close>

lemma ledger_ok_observe:
  assumes ok: "ledger_ok cd db" and r: "r \<in> set (effects db)" "owner_of db r = Some ow" "ef_state r = Dispatching"
    and r': "r' = uncertain_row r d resp auth" and upd: "update_effect db r' = Inr db'"
  shows "ledger_ok cd db' \<and> (\<exists>a. money_move db ow r r' a a db')"
proof -
  obtain p where p: "profile_named db (ow_profile ow) = Some p" and shape: "effect_shape (row_spec p) r"
    and "budget_account db (ow_project ow) \<noteq> None"
    using ledger_okD(6)[OF ok r(1)] r(2,3) by (auto simp: effect_ok_def)
  then obtain a where a: "budget_account db (ow_project ow) = Some a" by blast
  obtain c where c: "current_budget_configuration db a = Some c"
      "ac_lifetime_reserved_nanodollars a + ac_lifetime_settled_nanodollars a \<le> cf_lifetime_limit_nanodollars c"
    using account_current[OF ok a] by metis
  have "row_put ac_project_id a (accounts db) = accounts db"
    using ledger_okD(1)[OF ok] a
    by (intro row_put_same) (auto simp: keys_ok_def budget_account_def dest: row_get_SomeD)
  then have m: "money_move db ow r r' a a db'"
    using r a update_effect_eq[OF upd]
    by (simp add: money_move_def r' uncertain_row_def weight_defs)
  have "run_ok db (ow_envelope ow, ow_profile ow)"
    using ledger_okD(3,8)[OF ok] owner_of_in_all[OF r(2)] by (auto simp: owners_ok_def)
  then have "within_run (shift_totals (run_totals db (ow_envelope ow)) r r') (row_spec p)"
    using p r(3) by (simp add: run_ok_def shift_totals_def r' uncertain_row_def weight_defs within_run_def)
  moreover have "effect_shape (row_spec p) r'"
    using shape r(3) by (simp add: effect_shape_def r' uncertain_row_def)
  ultimately show ?thesis
    using ledger_ok_move[OF ok m p _ _ c(1)] c(2) m by auto
qed

end
