(* ===== verification/Model_Usage_Steps.thy ===== *)
theory Model_Usage_Steps
  imports Model_Usage_Ledger
begin

text \<open>
  The model-usage component as a transition system. Its abstract contract is a budget ledger per
  project: a limit, an outstanding reserved amount and a settled amount, changed only by opening,
  adjusting the limit, reserving below it, settling at most what was reserved, and releasing.
  \<open>admissible\<close> collects what every operation of both services guarantees of the databases before
  and after: the invariant, a step of the abstract ledger of every project, forward evolution of
  every effect, and append-only profiles, configurations, envelopes and slots.
\<close>

subsection \<open>The abstract budget ledger\<close>

record ledger =
  ld_limit :: int
  ld_reserved :: int
  ld_settled :: int

definition abs_ledger :: "model_db \<Rightarrow> uuid \<Rightarrow> ledger option" where
  "abs_ledger db q =
     Option.bind (budget_account db q) (\<lambda>a.
     Option.bind (current_budget_configuration db a) (\<lambda>c.
     Some \<lparr> ld_limit = cf_lifetime_limit_nanodollars c,
            ld_reserved = ac_lifetime_reserved_nanodollars a,
            ld_settled = ac_lifetime_settled_nanodollars a \<rparr>))"

inductive ledger_act :: "ledger option \<Rightarrow> ledger option \<Rightarrow> bool" where
  act_idle: "ledger_act l l"
| act_open: "0 < n \<Longrightarrow> ledger_act None (Some \<lparr> ld_limit = n, ld_reserved = 0, ld_settled = 0 \<rparr>)"
| act_adjust: "ld_reserved l + ld_settled l \<le> n \<Longrightarrow> ledger_act (Some l) (Some (l\<lparr>ld_limit := n\<rparr>))"
| act_reserve: "0 < r \<Longrightarrow> ld_reserved l + ld_settled l + r \<le> ld_limit l \<Longrightarrow>
    ledger_act (Some l) (Some (l\<lparr>ld_reserved := ld_reserved l + r\<rparr>))"
| act_settle: "0 \<le> c \<Longrightarrow> c \<le> r \<Longrightarrow> r \<le> ld_reserved l \<Longrightarrow>
    ledger_act (Some l) (Some (l\<lparr>ld_reserved := ld_reserved l - r, ld_settled := ld_settled l + c\<rparr>))"

inductive_cases ledger_actE: "ledger_act l l'"

subsection \<open>Evolution of effects\<close>

inductive state_next :: "effect_state \<Rightarrow> effect_state \<Rightarrow> bool" where
  "state_next Prepared Dispatching"
| "state_next Dispatching Uncertain"
| "state_next s Completed" if "s = Dispatching \<or> s = Uncertain"
| "state_next s Known_failed" if "s = Dispatching \<or> s = Uncertain"
| "state_next s Known_no_effect" if "s = Dispatching \<or> s = Uncertain"

inductive_simps state_next_simps [simp]:
  "state_next Prepared s" "state_next Dispatching s" "state_next Uncertain s"
  "state_next Completed s" "state_next Known_failed s" "state_next Known_no_effect s"

definition evolves :: "EffectRow \<Rightarrow> EffectRow \<Rightarrow> bool" where
  "evolves e e' \<longleftrightarrow> e' = e \<or>
     (ef_id e' = ef_id e \<and> ef_checker_slot_id e' = ef_checker_slot_id e \<and>
      ef_setup_slot_id e' = ef_setup_slot_id e \<and> ef_attempt_number e' = ef_attempt_number e \<and>
      ef_internal_call_request_id e' = ef_internal_call_request_id e \<and>
      ef_parent_attempt_id e' = ef_parent_attempt_id e \<and>
      ef_request_sha256 e' = ef_request_sha256 e \<and> state_next (ef_state e) (ef_state e'))"

definition effects_evolve :: "model_db \<Rightarrow> model_db \<Rightarrow> bool" where
  "effects_evolve db db' \<longleftrightarrow> (\<forall>e \<in> set (effects db). \<exists>e' \<in> set (effects db'). evolves e e')"

definition admissible :: "codec \<Rightarrow> model_db \<Rightarrow> model_db \<Rightarrow> bool" where
  "admissible cd db db' \<longleftrightarrow>
     ledger_ok cd db' \<and> (\<forall>q. ledger_act (abs_ledger db q) (abs_ledger db' q)) \<and>
     effects_evolve db db' \<and> grows db db'"

text \<open>A quiet change appends rows and leaves every account as it is.\<close>

definition quiet :: "codec \<Rightarrow> model_db \<Rightarrow> model_db \<Rightarrow> bool" where
  "quiet cd db db' \<longleftrightarrow>
     ledger_ok cd db' \<and> abs_ledger db' = abs_ledger db \<and> grows db db' \<and>
     (\<exists>new. effects db' = effects db @ new)"

lemma quiet_refl: "ledger_ok cd db \<Longrightarrow> quiet cd db db"
  by (simp add: quiet_def)

lemma grows_trans: "grows a b \<Longrightarrow> grows b c \<Longrightarrow> grows a c"
  unfolding grows_def by (metis append.assoc)

lemma quiet_trans: "quiet cd a b \<Longrightarrow> quiet cd b c \<Longrightarrow> quiet cd a c"
  unfolding quiet_def using grows_trans by (metis append.assoc)

lemma quiet_admissible: "quiet cd db db' \<Longrightarrow> admissible cd db db'"
  by (auto simp: quiet_def admissible_def effects_evolve_def evolves_def intro: act_idle)

lemma abs_ledger_grows:
  assumes "ledger_ok cd db" "grows db db'" "accounts db' = accounts db"
  shows "abs_ledger db' = abs_ledger db"
proof
  fix q
  have acc: "budget_account db' q = budget_account db q"
    by (simp add: budget_account_def assms(3))
  show "abs_ledger db' q = abs_ledger db q"
  proof (cases "budget_account db q")
    case (Some a)
    then obtain c where "current_budget_configuration db a = Some c"
      using account_current[OF assms(1)] by metis
    then show ?thesis
      using current_configuration_grows[OF assms(2)] Some by (simp add: abs_ledger_def acc)
  qed (simp add: abs_ledger_def acc)
qed

lemma quiet_of_grows:
  assumes "ledger_ok cd db" "ledger_ok cd db'" "grows db db'" "accounts db' = accounts db"
    "effects db' = effects db @ new"
  shows "quiet cd db db'"
  using assms abs_ledger_grows[OF assms(1,3,4)] by (auto simp: quiet_def)

lemma admissible_of_move:
  assumes ok: "ledger_ok cd db" and ok': "ledger_ok cd db'" and m: "money_move db ow r r' a a' db'"
    and ev: "evolves r r'"
    and act: "\<And>c. current_budget_configuration db a = Some c \<Longrightarrow>
      ledger_act (Some \<lparr> ld_limit = cf_lifetime_limit_nanodollars c,
                         ld_reserved = ac_lifetime_reserved_nanodollars a,
                         ld_settled = ac_lifetime_settled_nanodollars a \<rparr>)
                 (Some \<lparr> ld_limit = cf_lifetime_limit_nanodollars c,
                         ld_reserved = ac_lifetime_reserved_nanodollars a',
                         ld_settled = ac_lifetime_settled_nanodollars a' \<rparr>)"
  shows "admissible cd db db'"
proof -
  note f = money_move_frame[OF m]
  obtain c where c: "current_budget_configuration db a = Some c"
    using account_current[OF ok money_moveD(4)[OF m]] by metis
  have "ledger_act (abs_ledger db q) (abs_ledger db' q)" for q
  proof (cases "q = ow_project ow")
    case True
    then show ?thesis
      using act[OF c] c money_moveD(4,8)[OF m] by (simp add: abs_ledger_def f)
  next
    case False
    then show ?thesis by (simp add: abs_ledger_def f act_idle)
  qed
  moreover have "effects_evolve db db'"
    unfolding effects_evolve_def
  proof
    fix e assume e: "e \<in> set (effects db)"
    show "\<exists>e' \<in> set (effects db'). evolves e e'"
    proof (cases "ef_id e = ef_id r'")
      case True
      then have "e = r"
        using e m ledger_okD(1)[OF ok] by (auto simp: money_move_def keys_ok_def dest: row_unique)
      moreover have "r' \<in> set (effects db')"
        using m by (auto simp: money_move_def row_put_def image_iff)
      ultimately show ?thesis using ev by blast
    next
      case False
      then have "e \<in> set (effects db')"
        using e m by (force simp: money_move_def row_put_def image_iff)
      then show ?thesis by (auto simp: evolves_def)
    qed
  qed
  moreover have "grows db db'" using m by (simp add: money_move_def grows_def)
  ultimately show ?thesis using ok' by (simp add: admissible_def)
qed

subsection \<open>Publication of profiles and budgets\<close>

lemma stored_model_profile_Inr [outcome_inv]:
  "stored_model_profile cd r = Inr q \<longleftrightarrow> ProjectModelProfile_valid cd (row_profile r) \<and> q = row_profile r"
  by (auto simp: stored_model_profile_def)

lemma row_profile_spec [simp]: "pf_spec (row_profile r) = row_spec r"
  by (simp add: row_profile_def)

text \<open>Writing a specification to the profile columns and reading it back is the identity.\<close>

lemma row_spec_profile_row [simp]: "row_spec (profile_row f i auth at) = pf_spec f"
  by (simp add: row_spec_def profile_row_def row_pricing_def Let_def)

lemma provision_profile_admissible:
  assumes ok: "ledger_ok (en_codec env) db" and op: "provision_profile env db facts = Inr (res, db')"
  shows "admissible (en_codec env) db db'"
proof (cases "profile_by_operation db (pf_operation_id facts)")
  case None
  let ?row = "\<lambda>auth::ModelActionEvidence. profile_row facts (new_id env 0) (ae_evidence_id auth) (clock env 0)"
  from op None obtain auth run where
    run: "maximum_reservation_nanodollars (pf_spec facts) = Inr run"
    and ins: "insert_profile db (?row auth) = Inr db'"
    and valid: "ProjectModelProfile_valid (en_codec env) (row_profile (?row auth))"
    by (auto simp: provision_profile_def outcome_inv)
  have "ledger_ok (en_codec env) db'"
    by (rule ledger_ok_insert_profile[OF ok ins valid]) (simp add: run)
  moreover have "grows db db'" "accounts db' = accounts db" "effects db' = effects db @ []"
    using ins by (auto simp: insert_profile_def outcome_inv grows_def)
  ultimately show ?thesis
    by (intro quiet_admissible quiet_of_grows[OF ok])
next
  case (Some p)
  then have "db' = db" using op by (auto simp: provision_profile_def outcome_inv)
  then show ?thesis by (simp add: quiet_admissible quiet_refl ok)
qed

text \<open>A project without an account has no effect beyond preparation.\<close>

lemma no_account_sums:
  assumes ok: "ledger_ok cd db" and none: "budget_account db q = None"
  shows "wsum db (in_project q) pending_reserved = 0" "wsum db (in_project q) settled_amount = 0"
proof -
  have "pending_reserved e = 0 \<and> settled_amount e = 0"
    if e: "e \<in> set (effects db)" "owner_of db e = Some ow" "ow_project ow = q" for e ow
  proof -
    obtain p where "effect_shape p e" "ef_state e = Prepared"
      using ledger_okD(6)[OF ok e(1)] e none by (auto simp: effect_ok_def)
    then show ?thesis by (auto simp: weight_defs dest: prepared_shape)
  qed
  then show "wsum db (in_project q) pending_reserved = 0" "wsum db (in_project q) settled_amount = 0"
    by (auto intro: wsum_none)
qed

lemma open_account_admissible:
  assumes ok: "ledger_ok cd db" and ins: "insert_configuration db c = Inr db1"
    and cap: "is_nanodollars (cf_authorized_total_nanodollars c)"
    and none: "budget_account db (cf_project_id c) = None"
    and a: "a = \<lparr> ac_project_id = cf_project_id c, ac_current_configuration_id = cf_id c,
                 ac_lifetime_reserved_nanodollars = 0, ac_lifetime_settled_nanodollars = 0 \<rparr>"
    and acc: "insert_account db1 a = Inr db'"
  shows "admissible cd db db'"
proof -
  have ok1: "ledger_ok cd db1" by (rule ledger_ok_insert_configuration[OF ok ins cap])
  have db1: "db1 = db\<lparr>configurations := configurations db @ [c]\<rparr>" and chk: "configuration_check c"
    using ins by (auto simp: insert_configuration_def outcome_inv)
  have db': "db' = db1\<lparr>accounts := accounts db1 @ [a]\<rparr>"
    using acc by (auto simp: insert_account_def outcome_inv)
  have none1: "budget_account db1 (cf_project_id c) = None"
    using none by (simp add: budget_account_def db1)
  have cur: "current_budget_configuration db1 a = Some c"
    using ins_configuration.get_new[OF ins] by (simp add: current_budget_configuration_def a)
  have fits: "account_fits db1 a"
    using no_account_sums[OF ok1 none1] cur chk by (simp add: account_fits_def a configuration_check_def)
  have look: "budget_account db' q = (if q = cf_project_id c then Some a else budget_account db q)" for q
    using none by (auto simp: budget_account_def db' db1 row_get_append row_get_Cons row_get_Nil a
        split: option.splits)
  have ok': "ledger_ok cd db'"
  proof (rule ledger_ok_accounts[OF ok1 db'])
    show "distinct (row_keys ac_project_id (accounts db1 @ [a]))"
      using ins_account.distinct_after[OF acc] ledger_okD(1)[OF ok1] by (simp add: db' keys_ok_def)
    show "budget_account db' q \<noteq> None" if "budget_account db1 q \<noteq> None" for q
    proof -
      have "budget_account db1 q = budget_account db q" by (simp add: budget_account_def db1)
      then show ?thesis using that by (simp add: look)
    qed
    show "account_fits db1 x" if "x \<in> set (accounts db1 @ [a])" for x
      using that fits ledger_okD(7)[OF ok1] by auto
  qed
  have g: "grows db db'" by (simp add: grows_def db' db1)
  have "ledger_act (abs_ledger db q) (abs_ledger db' q)" for q
  proof (cases "q = cf_project_id c")
    case True
    have "current_budget_configuration db' a = Some c"
      using cur by (simp add: current_budget_configuration_def db')
    then show ?thesis
      using True none chk by (auto simp: abs_ledger_def look a configuration_check_def intro: act_open)
  next
    case False
    have "abs_ledger db' q = abs_ledger db q"
      using abs_ledger_grows[OF ok, of db1] False look
      by (auto simp: abs_ledger_def db1 db' grows_def budget_account_def current_budget_configuration_def
          fun_eq_iff)
    then show ?thesis by (simp add: act_idle)
  qed
  then show ?thesis
    using ok' g by (auto simp: admissible_def effects_evolve_def evolves_def db' db1)
qed

lemma repoint_account_admissible:
  assumes ok: "ledger_ok cd db" and ins: "insert_configuration db c = Inr db1"
    and cap: "is_nanodollars (cf_authorized_total_nanodollars c)"
    and old: "budget_account db (cf_project_id c) = Some old"
    and room: "ac_lifetime_reserved_nanodollars old + ac_lifetime_settled_nanodollars old
                 \<le> cf_lifetime_limit_nanodollars c"
    and a: "a = old\<lparr>ac_current_configuration_id := cf_id c\<rparr>"
    and upd: "update_account db1 a = Inr db'"
  shows "admissible cd db db'"
proof -
  have ok1: "ledger_ok cd db1" by (rule ledger_ok_insert_configuration[OF ok ins cap])
  have db1: "db1 = db\<lparr>configurations := configurations db @ [c]\<rparr>"
    using ins by (auto simp: insert_configuration_def outcome_inv)
  note db' = update_account_eq[OF upd]
  have acc1: "budget_account db1 q = budget_account db q" for q by (simp add: budget_account_def db1)
  have old_in: "old \<in> set (accounts db1)" "ac_project_id old = cf_project_id c"
    using old by (auto simp: budget_account_def db1 dest: row_get_SomeD)
  have look: "budget_account db' q = (if q = cf_project_id c then Some a else budget_account db q)" for q
    using account_row_put[of db1 "cf_project_id c" old a db' q] old acc1 by (simp add: db' a)
  have cur: "current_budget_configuration db1 a = Some c"
    using ins_configuration.get_new[OF ins] by (simp add: current_budget_configuration_def a)
  have fits: "account_fits db1 a"
    using ledger_okD(7)[OF ok1 old_in(1)] cur old_in(2) room by (auto simp: account_fits_def a)
  have ok': "ledger_ok cd db'"
  proof (rule ledger_ok_accounts[OF ok1 db'])
    show "distinct (row_keys ac_project_id (row_put ac_project_id a (accounts db1)))"
      using ledger_okD(1)[OF ok1] by (simp add: keys_ok_def)
    show "budget_account db' q \<noteq> None" if "budget_account db1 q \<noteq> None" for q
      using that by (simp add: look acc1)
    show "account_fits db1 x" if "x \<in> set (row_put ac_project_id a (accounts db1))" for x
      using in_set_row_putD[OF that] fits ledger_okD(7)[OF ok1] by auto
  qed
  obtain k where k: "current_budget_configuration db old = Some k"
    using account_current[OF ok old] by metis
  have "ledger_act (abs_ledger db q) (abs_ledger db' q)" for q
  proof (cases "q = cf_project_id c")
    case True
    let ?l = "\<lparr> ld_limit = cf_lifetime_limit_nanodollars k,
                ld_reserved = ac_lifetime_reserved_nanodollars old,
                ld_settled = ac_lifetime_settled_nanodollars old \<rparr>"
    have "current_budget_configuration db' a = Some c"
      using cur by (simp add: current_budget_configuration_def db')
    moreover have "ledger_act (Some ?l) (Some (?l\<lparr>ld_limit := cf_lifetime_limit_nanodollars c\<rparr>))"
      by (rule act_adjust) (use room in simp)
    ultimately show ?thesis
      using True old k by (simp add: abs_ledger_def look a)
  next
    case False
    have "abs_ledger db' q = abs_ledger db q"
      using abs_ledger_grows[OF ok, of db1] False look
      by (auto simp: abs_ledger_def db1 db' grows_def budget_account_def current_budget_configuration_def
          fun_eq_iff)
    then show ?thesis by (simp add: act_idle)
  qed
  moreover have "grows db db'" by (simp add: grows_def db' db1)
  ultimately show ?thesis
    using ok' by (auto simp: admissible_def effects_evolve_def evolves_def db' db1)
qed

lemma configuration_row_columns [simp]:
  "cf_project_id (configuration_row f i auth at) = bs_project_id (bf_spec f)"
  "cf_authorized_total_nanodollars (configuration_row f i auth at) = bs_authorized_total_nanodollars (bf_spec f)"
  "cf_lifetime_limit_nanodollars (configuration_row f i auth at) = bs_lifetime_limit_nanodollars (bf_spec f)"
  "cf_configuration_version (configuration_row f i auth at) = bs_configuration_version (bf_spec f)"
  by (simp_all add: configuration_row_def)

lemma advance_budget_admissible:
  assumes ok: "ledger_ok (en_codec env) db" and op: "advance_budget env db facts auth = Inr (res, db')"
    and valid: "ModelBudgetProvisioningFacts_valid (en_codec env) facts"
  shows "admissible (en_codec env) db db'"
proof -
  let ?c = "configuration_row facts (new_id env 0) (ae_evidence_id auth) (clock env 0)"
  have cap: "is_nanodollars (cf_authorized_total_nanodollars ?c)"
    using valid by (simp add: ModelBudgetProvisioningFacts_valid_def ProjectModelBudgetConfigurationSpec_valid_def)
  show ?thesis
  proof (cases "budget_account db (bs_project_id (bf_spec facts))")
    case None
    with op obtain db1 where "insert_configuration db ?c = Inr db1"
      "insert_account db1 \<lparr> ac_project_id = cf_project_id ?c, ac_current_configuration_id = cf_id ?c,
         ac_lifetime_reserved_nanodollars = 0, ac_lifetime_settled_nanodollars = 0 \<rparr> = Inr db'"
      by (auto simp: advance_budget_def outcome_inv)
    then show ?thesis
      using open_account_admissible[OF ok _ cap _ refl] None by simp
  next
    case (Some old)
    with op obtain db1 where "insert_configuration db ?c = Inr db1"
      "update_account db1 (old\<lparr>ac_current_configuration_id := cf_id ?c\<rparr>) = Inr db'"
      "ac_lifetime_reserved_nanodollars old + ac_lifetime_settled_nanodollars old
         \<le> cf_lifetime_limit_nanodollars ?c"
      by (auto simp: advance_budget_def outcome_inv)
    then show ?thesis
      using repoint_account_admissible[OF ok _ cap _ _ refl] Some by simp
  qed
qed

lemma provision_budget_admissible:
  assumes ok: "ledger_ok (en_codec env) db" and op: "provision_budget env db facts = Inr (res, db')"
  shows "admissible (en_codec env) db db'"
proof (cases "budget_configuration_by_operation db (bf_operation_id facts)")
  case None
  then obtain auth where "advance_budget env db facts auth = Inr (res, db')"
      "ModelBudgetProvisioningFacts_valid (en_codec env) facts"
    using op by (auto simp: provision_budget_def outcome_inv)
  then show ?thesis by (rule advance_budget_admissible[OF ok])
next
  case (Some c)
  then have "db' = db" using op by (auto simp: provision_budget_def outcome_inv)
  then show ?thesis by (simp add: quiet_admissible quiet_refl ok)
qed

subsection \<open>Checker operations\<close>

lemma case_option_eq_Inr:
  "(case m of None \<Rightarrow> n | Some a \<Rightarrow> f a) = Inr y \<longleftrightarrow> m = None \<and> n = Inr y \<or> (\<exists>a. m = Some a \<and> f a = Inr y)"
  by (cases m) auto

lemma attempt_SomeD: "attempt db i = Some r \<Longrightarrow> r \<in> set (effects db) \<and> ef_id r = i"
  by (auto simp: attempt_def dest: row_get_SomeD)

lemma get_slot_SomeD: "get_slot db m = Some s \<Longrightarrow> s \<in> set (slots db) \<and> m = Some (sl_id s)"
  by (cases m) (auto simp: get_slot_def dest: row_get_SomeD)

lemma checker_owner_of:
  assumes "keys_ok db" "s \<in> set (slots db)" "ef_checker_slot_id r = Some (sl_id s)"
  shows "owner_of db r = Some (checker_owner s)"
  using assms by (simp add: owner_of_checker row_get_in keys_ok_def)

lemma envelope_SomeD: "envelope db k = Some e \<Longrightarrow> e \<in> set (envelopes db) \<and> envelope_predicates k e"
  by (auto simp: envelope_def dest: find_SomeD)

lemma slot_SomeD: "slot db k = Some s \<Longrightarrow> s \<in> set (slots db) \<and> slot_key s = k"
  by (auto simp: slot_def slot_predicates_def slot_key_def dest!: find_SomeD)

lemma envelope_row_predicates: "envelope_predicates k (envelope_row i t k)"
  by (simp add: envelope_predicates_def envelope_row_def)

lemma slot_key_row [simp]: "slot_key (slot_row i e t k sha) = k"
  by (simp add: slot_key_def slot_row_def)

lemma require_checker_envelope_quiet:
  assumes ok: "ledger_ok cd db" and op: "require_checker_envelope db i x k = Inr (e, db')"
  shows "quiet cd db db' \<and> e \<in> set (envelopes db') \<and> envelope_predicates k e"
proof (cases "envelope db k")
  case None
  then have e: "e = envelope_row i (ex_task_id x) k" and ins: "insert_envelope db e = Inr db'"
    using op by (auto simp: require_checker_envelope_def outcome_inv)
  have db': "db' = db\<lparr>envelopes := envelopes db @ [e]\<rparr>"
    using ins by (auto simp: insert_envelope_def outcome_inv)
  have "quiet cd db db'"
    by (rule quiet_of_grows[OF ok ledger_ok_insert_envelope[OF ok ins]]) (simp_all add: db' grows_def)
  then show ?thesis by (simp add: db' e envelope_row_predicates)
next
  case (Some row)
  then show ?thesis
    using op ok by (auto simp: require_checker_envelope_def outcome_inv quiet_refl dest: envelope_SomeD)
qed

lemma profile_for_slot_named:
  assumes "profile_for_slot env db k = Inr q"
  shows "\<exists>p. profile_named db (pk_profile_id k, pk_profile_version k, pk_profile_digest k) = Some p \<and>
             pr_project_id p = pk_project_id k \<and> q = row_profile p"
  using assms by (auto simp: profile_for_slot_def read_exact_def outcome_inv profile_named_def row_spec_def)


lemma slot_row_columns [simp]:
  "sl_envelope_id (slot_row i e t k sha) = e" "sl_project_id (slot_row i e t k sha) = pk_project_id k"
  "sl_profile_id (slot_row i e t k sha) = pk_profile_id k"
  "sl_profile_version (slot_row i e t k sha) = pk_profile_version k"
  "sl_profile_digest (slot_row i e t k sha) = pk_profile_digest k"
  by (simp_all add: slot_row_def)

lemma insert_effect_quiet:
  assumes ok: "ledger_ok cd db" and ins: "insert_effect db (new_effect i cs ss n q par sha x auth at) = Inr db'"
  shows "quiet cd db db'"
proof (rule quiet_of_grows[OF ok ledger_ok_insert_effect[OF ok ins refl]])
  show "effects db' = effects db @ [new_effect i cs ss n q par sha x auth at]"
      "accounts db' = accounts db" "grows db db'"
    using ins by (auto simp: insert_effect_def outcome_inv grows_def)
qed

lemma require_checker_slot_quiet:
  assumes ok: "ledger_ok cd db" and op: "require_checker_slot db i e x k sha = Inr (s, db')"
    and e: "e \<in> set (envelopes db)" "envelope_predicates k e"
    and p: "profile_named db (pk_profile_id k, pk_profile_version k, pk_profile_digest k) = Some p"
      "pr_project_id p = pk_project_id k"
  shows "quiet cd db db'"
proof (cases "slot db k")
  case None
  then have s: "s = slot_row i (ce_id e) (ex_task_id x) k sha" and ins: "insert_slot db s = Inr db'"
    using op by (auto simp: require_checker_slot_def outcome_inv)
  have "ledger_ok cd db'"
    by (rule ledger_ok_insert_slot[OF ok ins e(1), where p = p])
      (use e(2) p in \<open>simp_all add: s\<close>)
  moreover have "grows db db'" "accounts db' = accounts db" "effects db' = effects db @ []"
    using ins by (auto simp: insert_slot_def outcome_inv grows_def)
  ultimately show ?thesis by (rule quiet_of_grows[OF ok])
next
  case (Some r)
  then show ?thesis
    using op ok by (auto simp: require_checker_slot_def outcome_inv quiet_refl)
qed

lemma quiet_ok: "quiet cd db db' \<Longrightarrow> ledger_ok cd db'"
  by (simp add: quiet_def)

lemma quiet_profile_named: "quiet cd db db' \<Longrightarrow> profile_named db n = Some p \<Longrightarrow> profile_named db' n = Some p"
  by (auto simp: quiet_def intro: profile_named_grows)

lemma prepare_attempt_quiet:
  assumes ok: "ledger_ok (en_codec env) db" and op: "prepare_attempt env db x k sha_text = Inr (res, db')"
  shows "quiet (en_codec env) db db'"
proof -
  let ?cd = "en_codec env"
  from op obtain sha q e db1 s db2 and auth :: ModelActionEvidence where
    prof: "profile_for_slot env db k = Inr q"
    and env: "require_checker_envelope db (new_id env 0) x k = Inr (e, db1)"
    and slot: "require_checker_slot db1 (new_id env 1) e x k sha = Inr (s, db2)"
    and last: "db' = db2 \<or> insert_effect db2 (new_effect (new_id env 2) (Some (sl_id s)) None 1
         (new_id env 3) None sha (Some x) (ae_evidence_id auth) (clock env 0)) = Inr db'"
    unfolding prepare_attempt_def
    by (auto simp: outcome_inv case_option_eq_Inr simp del: One_nat_def) blast
  obtain p where p: "profile_named db (pk_profile_id k, pk_profile_version k, pk_profile_digest k) = Some p"
      "pr_project_id p = pk_project_id k"
    using profile_for_slot_named[OF prof] by blast
  have 1: "quiet ?cd db db1" "e \<in> set (envelopes db1)" "envelope_predicates k e"
    using require_checker_envelope_quiet[OF ok env] by simp_all
  have 2: "quiet ?cd db1 db2"
    using require_checker_slot_quiet[OF quiet_ok[OF 1(1)] slot 1(2,3)] quiet_profile_named[OF 1(1)] p by blast
  have "quiet ?cd db2 db'"
    using last insert_effect_quiet[OF quiet_ok[OF 2]] quiet_refl[OF quiet_ok[OF 2]] by blast
  then show ?thesis using 1(1) 2 quiet_trans by blast
qed

lemma prepare_recovery_child_cases:
  assumes op: "prepare_recovery_child env db k parent_id terminal_text sha_text = Inr (res, db')"
  obtains (replay) s latest where "slot db k = Some s" "latest_attempt db (sl_id s) = Some latest"
      "ef_id latest \<noteq> parent_id" "ef_attempt_number latest > 1" "ef_state latest = Prepared"
      "ef_parent_attempt_id latest = Some parent_id" "res = attempt_view s latest True" "db' = db"
  | (child) s parent terminal_digest sha child and auth :: ModelActionEvidence where
      "slot db k = Some s" "latest_attempt db (sl_id s) = Some parent"
      "ef_id parent = parent_id" "ef_checker_slot_id parent = Some (sl_id s)"
      "sha_arg terminal_text = Some terminal_digest" "sha_arg sha_text = Some sha"
      "sl_first_request_sha256 s = sha"
      "stored_retry_terminal_digest (en_codec env) parent = Inr (Some terminal_digest)"
      "child = new_effect (new_id env 0) (Some (sl_id s)) None (ef_attempt_number parent + 1)
                 (new_id env 1) (Some parent_id) sha None (ae_evidence_id auth) (clock env 0)"
      "insert_effect db child = Inr db'" "res = attempt_view s child False"
  using op unfolding prepare_recovery_child_def
  by (auto simp: outcome_inv sha_checked_def eligible_parent_def split: if_splits)

lemma prepare_recovery_child_quiet:
  assumes ok: "ledger_ok (en_codec env) db"
    and op: "prepare_recovery_child env db k parent_id terminal_text sha_text = Inr (res, db')"
  shows "quiet (en_codec env) db db'"
  using op
proof (cases rule: prepare_recovery_child_cases)
  case replay
  then show ?thesis using ok by (simp add: quiet_refl)
next
  case child
  then show ?thesis by (auto intro: insert_effect_quiet[OF ok])
qed

subsection \<open>The four moves of an effect, for either kind of owner\<close>

lemma dispatched_row_evolves: "ef_state r = Prepared \<Longrightarrow> evolves r (dispatched_row r ev c R x auth at)"
  by (simp add: evolves_def dispatched_row_def)

lemma dispatch_admissible:
  assumes ok: "ledger_ok cd db" and r: "r \<in> set (effects db)" "owner_of db r = Some ow" "ef_state r = Prepared"
    and p: "profile_named db (ow_profile ow) = Some p"
      "maximum_dispatch_reservation_nanodollars (row_spec p) = Inr R"
      "maximum_reservation_nanodollars (row_spec p) = Inr run"
    and ev: "ModelCallEvidence_valid ev" "ev_byte_count ev \<le> maximum_request_bytes (row_spec p)"
    and env: "\<not> run_envelope_exceeded (run_totals db (ow_envelope ow)) (row_spec p) R run (ev_byte_count ev)"
    and a: "budget_account db (ow_project ow) = Some a" "current_budget_configuration db a = Some c"
      "\<not> ac_lifetime_reserved_nanodollars a + ac_lifetime_settled_nanodollars a + R
           > cf_lifetime_limit_nanodollars c"
    and upd: "update_account db (a\<lparr>ac_lifetime_reserved_nanodollars :=
                                     ac_lifetime_reserved_nanodollars a + R\<rparr>) = Inr db1"
      "update_effect db1 (dispatched_row r ev c R x auth at) = Inr db'"
  shows "admissible cd db db'"
proof -
  let ?a' = "a\<lparr>ac_lifetime_reserved_nanodollars := ac_lifetime_reserved_nanodollars a + R\<rparr>"
  let ?r' = "dispatched_row r ev c R x auth at"
  have ok': "ledger_ok cd db'" and m: "money_move db ow r ?r' a ?a' db'"
    using ledger_ok_dispatch[OF ok r p ev env a refl refl upd] by simp_all
  show ?thesis
  proof (rule admissible_of_move[OF ok ok' m dispatched_row_evolves[OF r(3)]])
    fix k assume "current_budget_configuration db a = Some k"
    then have k: "k = c" using a(2) by simp
    let ?l = "\<lparr> ld_limit = cf_lifetime_limit_nanodollars c,
                ld_reserved = ac_lifetime_reserved_nanodollars a,
                ld_settled = ac_lifetime_settled_nanodollars a \<rparr>"
    have "ledger_act (Some ?l) (Some (?l\<lparr>ld_reserved := ld_reserved ?l + R\<rparr>))"
      by (rule act_reserve) (use a(3) dispatch_reservation_pos[OF p(2)] in simp_all)
    then show "ledger_act (Some \<lparr> ld_limit = cf_lifetime_limit_nanodollars k,
                 ld_reserved = ac_lifetime_reserved_nanodollars a,
                 ld_settled = ac_lifetime_settled_nanodollars a \<rparr>)
               (Some \<lparr> ld_limit = cf_lifetime_limit_nanodollars k,
                 ld_reserved = ac_lifetime_reserved_nanodollars ?a',
                 ld_settled = ac_lifetime_settled_nanodollars ?a' \<rparr>)"
      by (simp add: k)
  qed
qed

text \<open>
  Leaving the pending states: the whole reservation is returned and at most it is settled. The
  reservation is part of the account's outstanding amount, so the account never goes negative.
\<close>

lemma wsum_member_le:
  assumes "e \<in> set (effects db)" "owner_of db e = Some ow" "P ow"
    "\<And>x. x \<in> set (effects db) \<Longrightarrow> 0 \<le> w x"
  shows "w e \<le> wsum db P w"
proof -
  let ?f = "\<lambda>e. if \<exists>ow. owner_of db e = Some ow \<and> P ow then w e else 0"
  have "?f e \<le> sum_list (map ?f (effects db))"
    by (rule sum_list_member_le) (use assms in auto)
  then show ?thesis using assms(2,3) by (simp add: wsum_def)
qed

lemma pending_reserved_nonneg:
  assumes "ledger_ok cd db" "e \<in> set (effects db)"
  shows "0 \<le> pending_reserved e"
proof -
  obtain p where p: "effect_shape p e" using ledger_okD(6)[OF assms] by (auto simp: effect_ok_def)
  show ?thesis
  proof (cases "pending e")
    case True
    then obtain R where "ef_reserved_nanodollars e = Some R" "0 < R"
      using pending_shape[OF p True] dispatch_reservation_pos by metis
    then show ?thesis by (simp add: pending_reserved_def or_zero_def)
  qed (simp add: pending_reserved_def)
qed

lemma reserved_le_account:
  assumes ok: "ledger_ok cd db" and r: "r \<in> set (effects db)" "owner_of db r = Some ow" "pending r"
    and a: "budget_account db (ow_project ow) = Some a" and R: "ef_reserved_nanodollars r = Some R"
  shows "R \<le> ac_lifetime_reserved_nanodollars a"
proof -
  have a': "a \<in> set (accounts db)" "ac_project_id a = ow_project ow"
    using a by (auto simp: budget_account_def dest: row_get_SomeD)
  have "ac_lifetime_reserved_nanodollars a = wsum db (in_project (ow_project ow)) pending_reserved"
    using ledger_okD(7)[OF ok a'(1)] a'(2) by (auto simp: account_fits_def)
  moreover have "pending_reserved r = R"
    using r(3) R by (simp add: pending_reserved_def or_zero_def)
  ultimately show ?thesis
    using wsum_member_le[of r db ow "in_project (ow_project ow)" pending_reserved]
      r pending_reserved_nonneg[OF ok] by simp
qed

lemma exit_admissible:
  assumes ok: "ledger_ok cd db" and r: "r \<in> set (effects db)" "owner_of db r = Some ow" "pending r"
    and p: "profile_named db (ow_profile ow) = Some p"
    and a: "budget_account db (ow_project ow) = Some a"
    and R: "ef_reserved_nanodollars r = Some R" "0 \<le> settled_amount r'" "settled_amount r' \<le> R"
    and a': "a' = a\<lparr>ac_lifetime_reserved_nanodollars := ac_lifetime_reserved_nanodollars a - R,
                    ac_lifetime_settled_nanodollars := ac_lifetime_settled_nanodollars a + settled_amount r'\<rparr>"
    and r': "ef_id r' = ef_id r" "ef_checker_slot_id r' = ef_checker_slot_id r"
      "ef_setup_slot_id r' = ef_setup_slot_id r" "ef_request r' = ef_request r"
      "ef_state r' \<in> {Completed, Known_failed, Known_no_effect}" "effect_shape (row_spec p) r'"
    and ev: "evolves r r'" and db': "flush_terminal db a' r' = Inr db'"
  shows "admissible cd db db'"
proof -
  have ok': "ledger_ok cd db'" and m: "money_move db ow r r' a a' db'"
    using ledger_ok_exit[OF ok r p a R a' r' db'] by simp_all
  show ?thesis
  proof (rule admissible_of_move[OF ok ok' m ev])
    fix c
    let ?l = "\<lparr> ld_limit = cf_lifetime_limit_nanodollars c,
                ld_reserved = ac_lifetime_reserved_nanodollars a,
                ld_settled = ac_lifetime_settled_nanodollars a \<rparr>"
    have "ledger_act (Some ?l) (Some (?l\<lparr>ld_reserved := ld_reserved ?l - R,
                                         ld_settled := ld_settled ?l + settled_amount r'\<rparr>))"
      by (rule act_settle) (use R reserved_le_account[OF ok r a R(1)] in simp_all)
    then show "ledger_act (Some ?l)
               (Some \<lparr> ld_limit = cf_lifetime_limit_nanodollars c,
                 ld_reserved = ac_lifetime_reserved_nanodollars a',
                 ld_settled = ac_lifetime_settled_nanodollars a' \<rparr>)"
      by (simp add: a')
  qed
qed

lemma observe_admissible:
  assumes ok: "ledger_ok cd db" and r: "r \<in> set (effects db)" "owner_of db r = Some ow" "ef_state r = Dispatching"
    and upd: "update_effect db (uncertain_row r d resp auth) = Inr db'"
  shows "admissible cd db db'"
proof -
  obtain a where ok': "ledger_ok cd db'" and m: "money_move db ow r (uncertain_row r d resp auth) a a db'"
    using ledger_ok_observe[OF ok r refl upd] by blast
  have "evolves r (uncertain_row r d resp auth)"
    using r(3) by (simp add: evolves_def uncertain_row_def)
  then show ?thesis by (rule admissible_of_move[OF ok ok' m]) (rule act_idle)
qed

lemma settle_admissible:
  assumes ok: "ledger_ok cd db" and r: "r \<in> set (effects db)" "owner_of db r = Some ow" "pending r"
    and p: "profile_named db (ow_profile ow) = Some p"
    and a: "budget_account db (ow_project ow) = Some a" and R: "ef_reserved_nanodollars r = Some R"
    and cost: "model_usage_cost (row_spec p) u = Inr c"
    and ev: "ModelCallEvidence_valid ev" "ev_byte_count ev \<le> maximum_response_bytes (row_spec p)"
    and r': "r' = completed_row r rid ev u c auth at \<or> r' = failed_row r rid ev u c auth at at'"
    and db': "flush_terminal db (a\<lparr>ac_lifetime_reserved_nanodollars := ac_lifetime_reserved_nanodollars a - R,
                ac_lifetime_settled_nanodollars := ac_lifetime_settled_nanodollars a + c\<rparr>) r' = Inr db'"
  shows "admissible cd db db'"
proof (rule exit_admissible[OF ok r p a R _ _ refl])
  have shape: "effect_shape (row_spec p) r"
    using ledger_okD(6)[OF ok r(1)] r(2) p by (auto simp: effect_ok_def)
  then obtain n where Rp: "maximum_dispatch_reservation_nanodollars (row_spec p) = Inr R"
    and n: "ec_byte_count (ef_request r) = Some n" "1 \<le> n" "n \<le> maximum_request_bytes (row_spec p)"
    using pending_shape[OF _ r(3)] R by (metis option.inject)
  have c: "0 \<le> c" "c \<le> R"
    using model_usage_cost_bound[OF profile_valid(1)[OF ok p] Rp cost] by simp_all
  have cols: "settled_amount r' = c" "ef_settled_nanodollars r' = Some c" "ef_response r' = evidence_columns ev"
      "ef_input_tokens r' = Some (us_input_tokens u)" "ef_output_tokens r' = Some (us_output_tokens u)"
      "ef_reserved_nanodollars r' = ef_reserved_nanodollars r"
      "ef_state r' \<in> {Completed, Known_failed}"
    using r' by (auto simp: completed_row_def failed_row_def set_usage_def settled_amount_def or_zero_def)
  show same: "ef_id r' = ef_id r" "ef_checker_slot_id r' = ef_checker_slot_id r"
      "ef_setup_slot_id r' = ef_setup_slot_id r" "ef_request r' = ef_request r"
    using r' by (auto simp: completed_row_def failed_row_def set_usage_def)
  show "0 \<le> settled_amount r'" "settled_amount r' \<le> R"
    "ef_state r' \<in> {Completed, Known_failed, Known_no_effect}"
    using c cols by auto
  show "flush_terminal db (a\<lparr>ac_lifetime_reserved_nanodollars := ac_lifetime_reserved_nanodollars a - R,
      ac_lifetime_settled_nanodollars := ac_lifetime_settled_nanodollars a + settled_amount r'\<rparr>) r' = Inr db'"
    using db' by (simp add: cols)
  show "effect_shape (row_spec p) r'"
    using cols(7,2-6) same(4) c R Rp n model_usage_cost_tokens[OF cost] ev
    by (auto simp: effect_shape_def evidence_columns_def ModelCallEvidence_valid_def
        ModelCallUsage_valid_def between_def)
  show "evolves r r'"
    using r' r(3) by (auto simp: evolves_def completed_row_def failed_row_def set_usage_def pending_def)
qed

lemma release_admissible:
  assumes ok: "ledger_ok cd db" and r: "r \<in> set (effects db)" "owner_of db r = Some ow" "pending r"
    and a: "budget_account db (ow_project ow) = Some a" and R: "ef_reserved_nanodollars r = Some R"
    and db': "flush_terminal db (a\<lparr>ac_lifetime_reserved_nanodollars := ac_lifetime_reserved_nanodollars a - R\<rparr>)
                (no_effect_row r q auth at) = Inr db'"
  shows "admissible cd db db'"
proof -
  obtain p where p: "profile_named db (ow_profile ow) = Some p" and shape: "effect_shape (row_spec p) r"
    using ledger_okD(6)[OF ok r(1)] r(2) by (auto simp: effect_ok_def)
  have R0: "0 \<le> R" using pending_reserved_nonneg[OF ok r(1)] r(3) R by (simp add: pending_reserved_def or_zero_def)
  have "ef_settled_nanodollars r = None" using pending_shape[OF shape r(3)] by metis
  then have s0: "settled_amount (no_effect_row r q auth at) = 0"
    by (simp add: settled_amount_def no_effect_row_def or_zero_def)
  show ?thesis
  proof (rule exit_admissible[OF ok r p a R _ _ refl])
    show "effect_shape (row_spec p) (no_effect_row r q auth at)"
      using shape r(3) by (auto simp: effect_shape_def pending_def no_effect_row_def)
    show "evolves r (no_effect_row r q auth at)"
      using r(3) by (auto simp: evolves_def no_effect_row_def pending_def)
  qed (use s0 R0 db' in \<open>auto simp: no_effect_row_def\<close>)
qed

end
