(* ===== verification/Model_Usage_Checker_Steps.thy ===== *)
theory Model_Usage_Checker_Steps
  imports Model_Usage_Steps
begin

text \<open>
  Every state-changing operation of \<open>ModelCallService\<close> is admissible. For each operation a case
  rule lists its successful outcomes (a replay that leaves the database alone, or the fresh
  effect with everything that was checked on the way); the admissibility lemma follows from the
  case rule and the moves of \<open>Model_Usage_Steps\<close>.
\<close>

lemma if_eq_Inr_iff: "(if b then m else n) = Inr y \<longleftrightarrow> b \<and> m = Inr y \<or> \<not> b \<and> n = Inr y"
  by simp

subsection \<open>Dispatch\<close>

lemma slot_envelope_id:
  assumes "keys_ok db" "custody_ok db" "slot db k = Some s" "envelope db k = Some e"
  shows "sl_envelope_id s = ce_id e"
proof -
  have s: "s \<in> set (slots db)" "slot_key s = k" using slot_SomeD[OF assms(3)] by simp_all
  then obtain f where f: "f \<in> set (envelopes db)" "ce_id f = sl_envelope_id s" "envelope_predicates k f"
    using assms(2) by (auto simp: custody_ok_def)
  have "ce_identity e = ce_identity f"
    using envelope_SomeD[OF assms(4)] f(3) by (simp add: envelope_predicates_def ce_identity_def)
  then have "e = f"
    using envelope_SomeD[OF assms(4)] f(1) assms(1) by (auto simp: keys_ok_def dest: row_unique)
  then show ?thesis using f(2) by simp
qed

lemma profile_for_stored_slot_named:
  assumes "profile_for_stored_slot env db k = Inr q"
  shows "\<exists>p. profile_named db (pk_profile_id k, pk_profile_version k, pk_profile_digest k) = Some p \<and>
             q = row_profile p"
  using assms by (auto simp: profile_for_stored_slot_def outcome_inv profile_named_def)

lemma slot_profile_key:
  "slot_key s = k \<Longrightarrow>
   ow_profile (checker_owner s) = (pk_profile_id k, pk_profile_version k, pk_profile_digest k) \<and>
   ow_project (checker_owner s) = pk_project_id k"
  by (auto simp: slot_key_def checker_owner_def)

lemma reserve_dispatch_cases:
  assumes op: "reserve_dispatch env db x a ev = Inr (res, db')"
  obtains (replay) s row where "slot db (at_slot_key a) = Some s" "attempt db (at_attempt_id a) = Some row"
      "ef_state row \<noteq> Prepared" "evidence_of (ef_request row) = Inr ev"
      "dispatch_result row s True = Inr res" "db' = db"
  | (fresh) s row e p acc c R run db1 and auth :: ModelActionEvidence where
      "slot db (at_slot_key a) = Some s" "envelope db (at_slot_key a) = Some e"
      "attempt db (at_attempt_id a) = Some row" "ef_checker_slot_id row = Some (sl_id s)"
      "ef_state row = Prepared" "ModelCallEvidence_valid ev"
      "profile_named db (ow_profile (checker_owner s)) = Some p"
      "ev_byte_count ev \<le> maximum_request_bytes (row_spec p)"
      "maximum_dispatch_reservation_nanodollars (row_spec p) = Inr R"
      "maximum_reservation_nanodollars (row_spec p) = Inr run"
      "\<not> run_envelope_exceeded (envelope_totals db (ce_id e)) (row_spec p) R run (ev_byte_count ev)"
      "budget_account db (ow_project (checker_owner s)) = Some acc"
      "current_budget_configuration db acc = Some c"
      "\<not> ac_lifetime_reserved_nanodollars acc + ac_lifetime_settled_nanodollars acc + R
           > cf_lifetime_limit_nanodollars c"
      "update_account db (acc\<lparr>ac_lifetime_reserved_nanodollars :=
                                ac_lifetime_reserved_nanodollars acc + R\<rparr>) = Inr db1"
      "update_effect db1 (dispatched_row row ev c R (Some x) (ae_evidence_id auth) (clock env 0)) = Inr db'"
      "dispatch_result (dispatched_row row ev c R (Some x) (ae_evidence_id auth) (clock env 0)) s False = Inr res"
proof -
  from op obtain profile e s row and auth :: ModelActionEvidence where
    prof: "profile_for_stored_slot env db (at_slot_key a) = Inr profile"
    and look: "envelope db (at_slot_key a) = Some e" "slot db (at_slot_key a) = Some s"
      "attempt db (at_attempt_id a) = Some row" "ef_checker_slot_id row = Some (sl_id s)"
      "ModelCallEvidence_valid ev" "\<not> ev_byte_count ev > maximum_request_bytes (pf_spec profile)"
    and cases: "ef_state row \<noteq> Prepared \<and> evidence_of (ef_request row) = Inr ev \<and>
         dispatch_result row s True = Inr res \<and> db' = db \<or>
       ef_state row = Prepared \<and> (\<exists>R run acc c db1.
         maximum_dispatch_reservation_nanodollars (pf_spec profile) = Inr R \<and>
         maximum_reservation_nanodollars (pf_spec profile) = Inr run \<and>
         \<not> run_envelope_exceeded (envelope_totals db (ce_id e)) (pf_spec profile) R run (ev_byte_count ev) \<and>
         budget_account db (pk_project_id (at_slot_key a)) = Some acc \<and>
         current_budget_configuration db acc = Some c \<and>
         \<not> ac_lifetime_reserved_nanodollars acc + ac_lifetime_settled_nanodollars acc + R
              > cf_lifetime_limit_nanodollars c \<and>
         update_account db (acc\<lparr>ac_lifetime_reserved_nanodollars :=
              ac_lifetime_reserved_nanodollars acc + R\<rparr>) = Inr db1 \<and>
         update_effect db1 (dispatched_row row ev c R (Some x) (ae_evidence_id auth) (clock env 0)) = Inr db' \<and>
         dispatch_result (dispatched_row row ev c R (Some x) (ae_evidence_id auth) (clock env 0)) s False
           = Inr res)"
    unfolding reserve_dispatch_def
    by (auto simp: outcome_inv if_eq_Inr_iff simp del: not_less split del: if_split)
  obtain p where p: "profile_named db (ow_profile (checker_owner s)) = Some p" "profile = row_profile p"
    using profile_for_stored_slot_named[OF prof] slot_profile_key slot_SomeD[OF look(2)] by metis
  have proj: "ow_project (checker_owner s) = pk_project_id (at_slot_key a)"
    using slot_profile_key slot_SomeD[OF look(2)] by blast
  from cases show ?thesis
    by (elim disjE conjE exE) (use look p proj replay fresh in \<open>auto simp: not_less\<close>)
qed
lemma reserve_dispatch_admissible:
  assumes ok: "ledger_ok (en_codec env) db" and op: "reserve_dispatch env db x a ev = Inr (res, db')"
  shows "admissible (en_codec env) db db'"
  using op
proof (cases rule: reserve_dispatch_cases)
  case replay
  then show ?thesis by (simp add: ok quiet_admissible quiet_refl)
next
  case (fresh s row e p acc c R run db1 auth)
  have row: "row \<in> set (effects db)" using attempt_SomeD[OF fresh(3)] by simp
  have own: "owner_of db row = Some (checker_owner s)"
    using checker_owner_of[OF ledger_okD(1)[OF ok]] slot_SomeD[OF fresh(1)] fresh(4) by blast
  have "envelope_totals db (ce_id e) = run_totals db (ow_envelope (checker_owner s))"
    using envelope_totals_eq[OF ledger_okD(1)[OF ok]] slot_envelope_id[OF ledger_okD(1,4)[OF ok] fresh(1,2)]
    by (simp add: checker_owner_def)
  then show ?thesis
    using dispatch_admissible[OF ok row own fresh(5,7,9,10,6,8) _ fresh(12-16)] fresh(11) by simp
qed

subsection \<open>Recovery attachments\<close>

lemma ledger_ok_recoveries:
  assumes ok: "ledger_ok cd db" and db': "db' = db\<lparr>recoveries := rs\<rparr>"
  shows "quiet cd db db'"
proof (rule quiet_of_grows[OF ok ledger_ok_grow[OF ok]])
  show "keys_ok db'" "profiles_ok cd db'" "owners_ok db'" "custody_ok db'" "configurations_ok db'"
    using ledger_okD(1-5)[OF ok]
    by (simp_all add: db' ledger_defs all_owners_def runs_def profile_named_def profile_exact_def)
qed (simp_all add: db' grows_def runs_def)

lemma attach_once_quiet:
  assumes ok: "ledger_ok (en_codec env) db" and op: "attach_once env db x eff auth = Inr (b, db')"
  shows "quiet (en_codec env) db db'"
proof (cases "recovery db (ea_attempt_id eff) (ex_checker_run_id x) (ex_worker_lease_id x)
    (ex_worker_lease_generation x)")
  case None
  then show ?thesis
    using op by (auto simp: attach_once_def outcome_inv insert_recovery_def intro!: ledger_ok_recoveries[OF ok])
next
  case (Some r)
  then show ?thesis using op ok by (auto simp: attach_once_def quiet_refl)
qed

lemma attach_recovery_quiet:
  assumes ok: "ledger_ok (en_codec env) db" and op: "attach_recovery env db x eff = Inr (res, db')"
  shows "quiet (en_codec env) db db'"
  using op attach_once_quiet[OF ok] by (auto simp: attach_recovery_def outcome_inv)

lemma attach_completed_quiet:
  assumes ok: "ledger_ok (en_codec env) db" and op: "attach_completed env db x eff = Inr (res, db')"
  shows "quiet (en_codec env) db db'"
  using op attach_once_quiet[OF ok] by (auto simp: attach_completed_def outcome_inv)

subsection \<open>Terminal operations\<close>

lemma terminal_rows:
  assumes pre: "terminal_preflight env db i = Inr (row0, s, profile)" and lock: "lock_terminal db s i = Inr row"
    and keys: "keys_ok db"
  shows "row \<in> set (effects db)" "ef_id row = i" "owner_of db row = Some (checker_owner s)"
    "\<exists>p. profile_named db (ow_profile (checker_owner s)) = Some p \<and> profile = row_profile p"
proof -
  have s: "s \<in> set (slots db)"
    using pre by (auto simp: terminal_preflight_def outcome_inv dest: get_slot_SomeD)
  have row: "attempt db i = Some row" "ef_checker_slot_id row = Some (sl_id s)"
    using lock by (auto simp: lock_terminal_def outcome_inv)
  show "row \<in> set (effects db)" "ef_id row = i" using attempt_SomeD[OF row(1)] by simp_all
  show "owner_of db row = Some (checker_owner s)" by (rule checker_owner_of[OF keys s row(2)])
  show "\<exists>p. profile_named db (ow_profile (checker_owner s)) = Some p \<and> profile = row_profile p"
    using pre by (auto simp: terminal_preflight_def outcome_inv profile_named_def checker_owner_def)
qed

lemma mark_uncertain_cases:
  assumes op: "mark_uncertain env db eff digest_text response_id = Inr (res, db')"
  obtains (replay) row digest where "attempt db (ea_attempt_id eff) = Some row" "ef_state row = Uncertain"
      "sha_arg digest_text = Some digest" "ef_uncertainty_digest row = Some digest"
      "ef_provider_response_id row = response_id" "db' = db"
  | (fresh) row0 s profile row digest and auth :: ModelActionEvidence where
      "terminal_preflight env db (ea_attempt_id eff) = Inr (row0, s, profile)"
      "lock_terminal db s (ea_attempt_id eff) = Inr row" "ef_state row = Dispatching"
      "sha_arg digest_text = Some digest"
      "update_effect db (uncertain_row row digest response_id (ae_evidence_id auth)) = Inr db'"
  using op unfolding mark_uncertain_def
  by (auto simp: outcome_inv if_eq_Inr_iff sha_checked_def lock_terminal_def split del: if_split)

lemma mark_uncertain_admissible:
  assumes ok: "ledger_ok (en_codec env) db"
    and op: "mark_uncertain env db eff digest_text response_id = Inr (res, db')"
  shows "admissible (en_codec env) db db'"
  using op
proof (cases rule: mark_uncertain_cases)
  case replay
  then show ?thesis by (simp add: ok quiet_admissible quiet_refl)
next
  case fresh
  then show ?thesis
    using terminal_rows(1,3)[OF fresh(1,2) ledger_okD(1)[OF ok]] by (auto intro: observe_admissible[OF ok])
qed

lemma settlement_preflight_Inr:
  assumes "settlement_preflight env db status eff response_id snapshot ev u = Inr (auth, s, row, cost)"
  obtains row0 profile where "terminal_preflight env db (ea_attempt_id eff) = Inr (row0, s, profile)"
    "lock_terminal db s (ea_attempt_id eff) = Inr row" "ModelCallEvidence_valid ev"
    "ev_byte_count ev \<le> maximum_response_bytes (pf_spec profile)"
    "snapshot = model_snapshot (pf_spec profile)"
    "model_usage_cost (pf_spec profile) u = Inr cost" "eff = effect_view s row"
  using assms unfolding settlement_preflight_def
  by (auto simp: outcome_inv require_effect_def not_less)

lemma settle_Inr:
  "settle db r s cost = Inr acc' \<longleftrightarrow> (\<exists>a R. budget_account db (sl_project_id s) = Some a \<and>
     ef_reserved_nanodollars r = Some R \<and> R \<le> ac_lifetime_reserved_nanodollars a \<and>
     acc' = a\<lparr> ac_lifetime_reserved_nanodollars := ac_lifetime_reserved_nanodollars a - R,
               ac_lifetime_settled_nanodollars := ac_lifetime_settled_nanodollars a + cost \<rparr>)"
  by (auto simp: settle_def outcome_inv not_less)

lemma checker_settlement_admissible:
  assumes ok: "ledger_ok (en_codec env) db"
    and pre: "settlement_preflight env db status eff rid snapshot ev u = Inr (auth, s, row, cost)"
    and pend: "require_effect_pending row = Inr ()" and st: "settle db row s cost = Inr acc'"
    and r': "r' = completed_row row rid ev u cost i at \<or> r' = failed_row row rid ev u cost i at at'"
    and db': "flush_terminal db acc' r' = Inr db'"
  shows "admissible (en_codec env) db db'"
proof -
  obtain row0 profile where pre': "terminal_preflight env db (ea_attempt_id eff) = Inr (row0, s, profile)"
      "lock_terminal db s (ea_attempt_id eff) = Inr row" "ModelCallEvidence_valid ev"
      "ev_byte_count ev \<le> maximum_response_bytes (pf_spec profile)"
      "model_usage_cost (pf_spec profile) u = Inr cost"
    using pre by (elim settlement_preflight_Inr)
  note rows = terminal_rows[OF pre'(1,2) ledger_okD(1)[OF ok]]
  obtain p where p: "profile_named db (ow_profile (checker_owner s)) = Some p" "profile = row_profile p"
    using rows(4) by blast
  obtain a R where a: "budget_account db (ow_project (checker_owner s)) = Some a"
      "ef_reserved_nanodollars row = Some R"
      "acc' = a\<lparr> ac_lifetime_reserved_nanodollars := ac_lifetime_reserved_nanodollars a - R,
               ac_lifetime_settled_nanodollars := ac_lifetime_settled_nanodollars a + cost \<rparr>"
    using st by (auto simp: settle_Inr checker_owner_def)
  have "pending row" using pend by (auto simp: require_effect_pending_def outcome_inv)
  then show ?thesis
    using settle_admissible[OF ok rows(1,3) _ p(1) a(1,2), where u = u and c = cost] pre'(3-5) p(2) r' db' a(3)
    by auto
qed

lemma complete_cases:
  assumes op: "complete env db eff rid snapshot ev u = Inr (res, db')"
  obtains (replay) auth s row cost where
      "settlement_preflight env db ''completed'' eff rid snapshot ev u = Inr (auth, s, row, cost)"
      "ef_state row = Completed" "same_terminal row rid ev u cost = Inr True"
      "terminal_result row True = Inr res" "db' = db"
  | (fresh) auth s row cost acc' where
      "settlement_preflight env db ''completed'' eff rid snapshot ev u = Inr (auth, s, row, cost)"
      "require_effect_pending row = Inr ()" "settle db row s cost = Inr acc'"
      "flush_terminal db acc' (completed_row row rid ev u cost (ae_evidence_id auth) (clock env 0)) = Inr db'"
      "terminal_result (completed_row row rid ev u cost (ae_evidence_id auth) (clock env 0)) False = Inr res"
  using op unfolding complete_def
  by (auto simp: outcome_inv if_eq_Inr_iff split del: if_split)

lemma complete_admissible:
  assumes ok: "ledger_ok (en_codec env) db" and op: "complete env db eff rid snapshot ev u = Inr (res, db')"
  shows "admissible (en_codec env) db db'"
  using op
proof (cases rule: complete_cases)
  case replay
  then show ?thesis by (simp add: ok quiet_admissible quiet_refl)
next
  case fresh
  then show ?thesis by (auto intro: checker_settlement_admissible[OF ok])
qed

lemma complete_known_failure_cases:
  assumes op: "complete_known_failure env db eff rid snapshot ev u = Inr (res, db')"
  obtains (replay) auth s row cost where
      "settlement_preflight env db ''known_failed'' eff rid snapshot ev u = Inr (auth, s, row, cost)"
      "ef_state row = Known_failed" "same_terminal row rid ev u cost = Inr True"
      "terminal_result row True = Inr res" "db' = db"
  | (fresh) auth s row cost acc' where
      "settlement_preflight env db ''known_failed'' eff rid snapshot ev u = Inr (auth, s, row, cost)"
      "require_effect_pending row = Inr ()" "settle db row s cost = Inr acc'"
      "flush_terminal db acc' (failed_row row rid ev u cost (ae_evidence_id auth) (clock env 0) (clock env 1))
         = Inr db'"
      "terminal_result (failed_row row rid ev u cost (ae_evidence_id auth) (clock env 0) (clock env 1)) False
         = Inr res"
  using op unfolding complete_known_failure_def
  by (auto simp: outcome_inv if_eq_Inr_iff split del: if_split)

lemma complete_known_failure_admissible:
  assumes ok: "ledger_ok (en_codec env) db"
    and op: "complete_known_failure env db eff rid snapshot ev u = Inr (res, db')"
  shows "admissible (en_codec env) db db'"
  using op
proof (cases rule: complete_known_failure_cases)
  case replay
  then show ?thesis by (simp add: ok quiet_admissible quiet_refl)
next
  case fresh
  then show ?thesis by (auto intro: checker_settlement_admissible[OF ok])
qed

lemma release_Inr:
  "release db r s = Inr acc' \<longleftrightarrow> (\<exists>a R. budget_account db (sl_project_id s) = Some a \<and>
     ef_reserved_nanodollars r = Some R \<and> R \<le> ac_lifetime_reserved_nanodollars a \<and>
     acc' = a\<lparr> ac_lifetime_reserved_nanodollars := ac_lifetime_reserved_nanodollars a - R \<rparr>)"
  by (auto simp: release_def outcome_inv not_less)

lemma mark_known_no_effect_cases:
  assumes op: "mark_known_no_effect env db eff q = Inr (res, db')"
  obtains (replay) row s where "attempt db (ea_attempt_id eff) = Some row" "ef_state row = Known_no_effect"
      "ef_no_effect_proof_id row = Some (np_proof_id q)" "ef_no_effect_proof_digest row = Some (np_proof_digest q)"
      "ef_no_effect_observed_at row = Some (np_observed_at q)" "res = attempt_view s row True" "db' = db"
  | (fresh) row0 s profile row acc' and auth :: ModelActionEvidence where
      "terminal_preflight env db (ea_attempt_id eff) = Inr (row0, s, profile)"
      "lock_terminal db s (ea_attempt_id eff) = Inr row" "require_effect_pending row = Inr ()"
      "ef_provider_response_id row = None" "release db row s = Inr acc'"
      "flush_terminal db acc' (no_effect_row row q (ae_evidence_id auth) (clock env 0)) = Inr db'"
      "res = attempt_view s (no_effect_row row q (ae_evidence_id auth) (clock env 0)) False"
proof -
  from op obtain row0 s profile row and auth :: ModelActionEvidence where
    pre: "terminal_preflight env db (ea_attempt_id eff) = Inr (row0, s, profile)"
      "lock_terminal db s (ea_attempt_id eff) = Inr row"
    and cases: "ef_state row = Known_no_effect \<and> ef_no_effect_proof_id row = Some (np_proof_id q) \<and>
        ef_no_effect_proof_digest row = Some (np_proof_digest q) \<and>
        ef_no_effect_observed_at row = Some (np_observed_at q) \<and> res = attempt_view s row True \<and> db' = db \<or>
      (\<exists>acc'. require_effect_pending row = Inr () \<and> ef_provider_response_id row = None \<and>
        release db row s = Inr acc' \<and>
        flush_terminal db acc' (no_effect_row row q (ae_evidence_id auth) (clock env 0)) = Inr db' \<and>
        res = attempt_view s (no_effect_row row q (ae_evidence_id auth) (clock env 0)) False)"
    unfolding mark_known_no_effect_def
    by (auto simp: outcome_inv if_eq_Inr_iff split del: if_split)
  have "attempt db (ea_attempt_id eff) = Some row"
    using pre(2) by (auto simp: lock_terminal_def outcome_inv)
  with cases pre replay fresh show ?thesis by blast
qed

lemma mark_known_no_effect_admissible:
  assumes ok: "ledger_ok (en_codec env) db" and op: "mark_known_no_effect env db eff q = Inr (res, db')"
  shows "admissible (en_codec env) db db'"
  using op
proof (cases rule: mark_known_no_effect_cases)
  case replay
  then show ?thesis by (simp add: ok quiet_admissible quiet_refl)
next
  case (fresh row0 s profile row acc' auth)
  note rows = terminal_rows(1,3)[OF fresh(1,2) ledger_okD(1)[OF ok]]
  have "pending row" using fresh(3) by (auto simp: require_effect_pending_def outcome_inv)
  then show ?thesis
    using fresh(5,6) release_admissible[OF ok rows] by (auto simp: release_Inr checker_owner_def)
qed

end
