(* ===== verification/Model_Usage_Setup_Steps.thy ===== *)
theory Model_Usage_Setup_Steps
  imports Model_Usage_Checker_Steps
begin

text \<open>
  Every state-changing operation of \<open>SetupModelUsageService\<close> is admissible: the same moves of the
  shared ledger, with the effect found through its setup slot.
\<close>

subsection \<open>Look-ups\<close>

lemma setup_envelope_SomeD:
  "setup_envelope db k = Some e \<Longrightarrow> e \<in> set (setup_envelopes db) \<and> setup_envelope_predicates k e"
  by (auto simp: setup_envelope_def dest: find_SomeD)

lemma setup_slot_SomeD: "setup_slot db k = Some s \<Longrightarrow> s \<in> set (setup_slots db) \<and> setup_slot_predicates k s"
  by (auto simp: setup_slot_def dest!: find_SomeD)

lemma setup_owner_of:
  assumes "ledger_ok cd db" "r \<in> set (effects db)" "s \<in> set (setup_slots db)"
    "ef_setup_slot_id r = Some (st_id s)"
  shows "owner_of db r = Some (setup_owner s)"
proof -
  have "ef_checker_slot_id r = None"
    using ledger_okD(6)[OF assms(1,2)] assms(4) by (auto simp: effect_ok_def)
  then show ?thesis
    using assms(3,4) ledger_okD(1)[OF assms(1)] by (simp add: owner_of_setup row_get_in keys_ok_def)
qed
text \<open>
  The slot look-up compares only part of the key; the envelope look-up compares all of it, and an
  attempt has one envelope, so the two together determine the stored key.
\<close>

lemma setup_slot_envelope:
  assumes "keys_ok db" "custody_ok db" "setup_slot db k = Some s" "setup_envelope db k = Some e"
  shows "st_envelope_id s = sn_id e" "setup_slot_key s = k"
proof -
  have s: "s \<in> set (setup_slots db)" "setup_slot_predicates k s" using setup_slot_SomeD[OF assms(3)] by simp_all
  have e: "e \<in> set (setup_envelopes db)" "setup_envelope_predicates k e"
    using setup_envelope_SomeD[OF assms(4)] by simp_all
  obtain f where f: "f \<in> set (setup_envelopes db)" "sn_id f = st_envelope_id s"
      "setup_envelope_predicates (setup_slot_key s) f"
    using assms(2) s(1) by (auto simp: custody_ok_def)
  have "sn_compilation_attempt_id e = sn_compilation_attempt_id f"
    using e(2) f(3) s(2) by (simp add: setup_envelope_predicates_def setup_slot_predicates_def setup_slot_key_def)
  then have "e = f" using e(1) f(1) assms(1) by (auto simp: keys_ok_def dest: row_unique)
  with e f s show "st_envelope_id s = sn_id e" "setup_slot_key s = k"
    by (auto simp: setup_envelope_predicates_def setup_slot_predicates_def setup_slot_key_def)
qed

lemma setup_profile_named:
  assumes "setup_profile env db k own = Inr q"
  shows "\<exists>p. profile_named db (sk_profile_id k, sk_profile_version k, sk_profile_digest k) = Some p \<and>
             pr_project_id p = sk_project_id k \<and> q = row_profile p"
  using assms by (auto simp: setup_profile_def outcome_inv profile_named_def row_spec_def)

lemma setup_owner_key:
  "setup_slot_key s = k \<Longrightarrow>
   ow_profile (setup_owner s) = (sk_profile_id k, sk_profile_version k, sk_profile_digest k) \<and>
   ow_project (setup_owner s) = sk_project_id k"
  by (auto simp: setup_slot_key_def setup_owner_def)

subsection \<open>Preparation\<close>

lemma setup_envelope_row_predicates [simp]: "setup_envelope_predicates k (setup_envelope_row i k)"
  by (simp add: setup_envelope_predicates_def setup_envelope_row_def)

lemma setup_slot_row_columns [simp]:
  "setup_slot_key (setup_slot_row i e k sha) = k" "st_envelope_id (setup_slot_row i e k sha) = e"
  "st_profile_id (setup_slot_row i e k sha) = sk_profile_id k"
  "st_profile_version (setup_slot_row i e k sha) = sk_profile_version k"
  "st_profile_digest (setup_slot_row i e k sha) = sk_profile_digest k"
  "st_project_id (setup_slot_row i e k sha) = sk_project_id k"
  by (simp_all add: setup_slot_row_def setup_slot_key_def)

lemma require_setup_envelope_quiet:
  assumes ok: "ledger_ok cd db" and op: "require_setup_envelope db i k = Inr (e, db')"
  shows "quiet cd db db' \<and> e \<in> set (setup_envelopes db') \<and> setup_envelope_predicates k e"
proof (cases "setup_envelope db k")
  case None
  then have e: "e = setup_envelope_row i k" and ins: "insert_setup_envelope db e = Inr db'"
    using op by (auto simp: require_setup_envelope_def outcome_inv)
  have db': "db' = db\<lparr>setup_envelopes := setup_envelopes db @ [e]\<rparr>"
    using ins by (auto simp: insert_setup_envelope_def outcome_inv)
  have "quiet cd db db'"
    by (rule quiet_of_grows[OF ok ledger_ok_insert_setup_envelope[OF ok ins]]) (simp_all add: db' grows_def)
  then show ?thesis by (simp add: db' e)
next
  case (Some row)
  then show ?thesis
    using op ok by (auto simp: require_setup_envelope_def quiet_refl dest: setup_envelope_SomeD)
qed

lemma require_setup_slot_quiet:
  assumes ok: "ledger_ok cd db" and op: "require_setup_slot db i e k sha = Inr (s, db')"
    and e: "e \<in> set (setup_envelopes db)" "setup_envelope_predicates k e"
    and p: "profile_named db (sk_profile_id k, sk_profile_version k, sk_profile_digest k) = Some p"
      "pr_project_id p = sk_project_id k"
  shows "quiet cd db db'"
proof (cases "setup_slot db k")
  case None
  then have s: "s = setup_slot_row i (sn_id e) k sha" and ins: "insert_setup_slot db s = Inr db'"
    using op by (auto simp: require_setup_slot_def outcome_inv)
  have "ledger_ok cd db'"
    by (rule ledger_ok_insert_setup_slot[OF ok ins e(1), where p = p]) (use e(2) p in \<open>simp_all add: s\<close>)
  moreover have "grows db db'" "accounts db' = accounts db" "effects db' = effects db @ []"
    using ins by (auto simp: insert_setup_slot_def outcome_inv grows_def)
  ultimately show ?thesis by (rule quiet_of_grows[OF ok])
next
  case (Some r)
  then show ?thesis
    using op ok by (auto simp: require_setup_slot_def outcome_inv quiet_refl)
qed

lemma setup_prepare_quiet:
  assumes ok: "ledger_ok (en_codec env) db" and op: "setup_prepare env db k sha = Inr (res, db')"
  shows "quiet (en_codec env) db db'"
proof -
  let ?cd = "en_codec env"
  from op obtain own q e db1 s db2 and auth :: ModelActionEvidence where
    prof: "setup_profile env db k own = Inr q"
    and env: "require_setup_envelope db (new_id env 0) k = Inr (e, db1)"
    and slot: "require_setup_slot db1 (new_id env 1) e k sha = Inr (s, db2)"
    and last: "db' = db2 \<or> insert_effect db2 (new_effect (new_id env 2) None (Some (st_id s)) 1
         (new_id env 3) None sha None (ae_evidence_id auth) (clock env 0)) = Inr db'"
    unfolding setup_prepare_def
    by (auto simp: outcome_inv case_option_eq_Inr simp del: One_nat_def) blast
  obtain p where p: "profile_named db (sk_profile_id k, sk_profile_version k, sk_profile_digest k) = Some p"
      "pr_project_id p = sk_project_id k"
    using setup_profile_named[OF prof] by blast
  have 1: "quiet ?cd db db1" "e \<in> set (setup_envelopes db1)" "setup_envelope_predicates k e"
    using require_setup_envelope_quiet[OF ok env] by simp_all
  have 2: "quiet ?cd db1 db2"
    using require_setup_slot_quiet[OF quiet_ok[OF 1(1)] slot 1(2,3)] quiet_profile_named[OF 1(1)] p by blast
  have "quiet ?cd db2 db'"
    using last insert_effect_quiet[OF quiet_ok[OF 2]] quiet_refl[OF quiet_ok[OF 2]] by blast
  then show ?thesis using 1(1) 2 quiet_trans by blast
qed

subsection \<open>Dispatch\<close>

lemma setup_reserve_dispatch_cases:
  assumes op: "setup_reserve_dispatch env db q ev = Inr (res, db')"
  obtains (replay) e s row where "setup_envelope db (ps_slot_key q) = Some e"
      "setup_slot db (ps_slot_key q) = Some s" "attempt db (ps_effect_id q) = Some row"
      "ef_state row = Dispatching" "ec_content_sha256 (ef_request row) = Some (ev_content_sha256 ev)"
      "setup_dispatch_result e s row (ps_slot_key q) ev True = Inr res" "db' = db"
  | (fresh) e s row p acc c R run db1 and auth :: ModelActionEvidence where
      "setup_envelope db (ps_slot_key q) = Some e" "setup_slot db (ps_slot_key q) = Some s"
      "attempt db (ps_effect_id q) = Some row" "ef_setup_slot_id row = Some (st_id s)"
      "ef_state row = Prepared" "ModelCallEvidence_valid ev"
      "profile_named db (sk_profile_id (ps_slot_key q), sk_profile_version (ps_slot_key q),
         sk_profile_digest (ps_slot_key q)) = Some p"
      "ev_byte_count ev \<le> maximum_request_bytes (row_spec p)"
      "maximum_dispatch_reservation_nanodollars (row_spec p) = Inr R"
      "maximum_reservation_nanodollars (row_spec p) = Inr run"
      "\<not> run_envelope_exceeded (setup_envelope_totals db (sn_id e)) (row_spec p) R run (ev_byte_count ev)"
      "budget_account db (sk_project_id (ps_slot_key q)) = Some acc"
      "current_budget_configuration db acc = Some c"
      "\<not> ac_lifetime_reserved_nanodollars acc + ac_lifetime_settled_nanodollars acc + R
           > cf_lifetime_limit_nanodollars c"
      "update_account db (acc\<lparr>ac_lifetime_reserved_nanodollars :=
                                ac_lifetime_reserved_nanodollars acc + R\<rparr>) = Inr db1"
      "update_effect db1 (dispatched_row row ev c R (ef_dispatch_execution_facts row)
         (ae_evidence_id auth) (clock env 0)) = Inr db'"
proof -
  from op obtain profile own e s row and auth :: ModelActionEvidence where
    prof: "setup_profile env db (ps_slot_key q) own = Inr profile"
    and look: "setup_envelope db (ps_slot_key q) = Some e" "setup_slot db (ps_slot_key q) = Some s"
      "attempt db (ps_effect_id q) = Some row" "ef_setup_slot_id row = Some (st_id s)"
      "ModelCallEvidence_valid ev" "\<not> ev_byte_count ev > maximum_request_bytes (pf_spec profile)"
    and cases: "ef_state row = Dispatching \<and>
         ec_content_sha256 (ef_request row) = Some (ev_content_sha256 ev) \<and>
         setup_dispatch_result e s row (ps_slot_key q) ev True = Inr res \<and> db' = db \<or>
       ef_state row = Prepared \<and> (\<exists>R run acc c db1.
         maximum_dispatch_reservation_nanodollars (pf_spec profile) = Inr R \<and>
         maximum_reservation_nanodollars (pf_spec profile) = Inr run \<and>
         \<not> run_envelope_exceeded (setup_envelope_totals db (sn_id e)) (pf_spec profile) R run (ev_byte_count ev) \<and>
         budget_account db (sk_project_id (ps_slot_key q)) = Some acc \<and>
         current_budget_configuration db acc = Some c \<and>
         \<not> ac_lifetime_reserved_nanodollars acc + ac_lifetime_settled_nanodollars acc + R
              > cf_lifetime_limit_nanodollars c \<and>
         update_account db (acc\<lparr>ac_lifetime_reserved_nanodollars :=
              ac_lifetime_reserved_nanodollars acc + R\<rparr>) = Inr db1 \<and>
         update_effect db1 (dispatched_row row ev c R (ef_dispatch_execution_facts row)
           (ae_evidence_id auth) (clock env 0)) = Inr db')"
    unfolding setup_reserve_dispatch_def
    by (auto simp: outcome_inv if_eq_Inr_iff simp del: not_less split del: if_split)
  obtain p where p: "profile_named db (sk_profile_id (ps_slot_key q), sk_profile_version (ps_slot_key q),
         sk_profile_digest (ps_slot_key q)) = Some p" "profile = row_profile p"
    using setup_profile_named[OF prof] by blast
  from cases show ?thesis
    by (elim disjE conjE exE) (use look p replay fresh in \<open>auto simp: not_less\<close>)
qed

lemma setup_reserve_dispatch_admissible:
  assumes ok: "ledger_ok (en_codec env) db" and op: "setup_reserve_dispatch env db q ev = Inr (res, db')"
  shows "admissible (en_codec env) db db'"
  using op
proof (cases rule: setup_reserve_dispatch_cases)
  case replay
  then show ?thesis by (simp add: ok quiet_admissible quiet_refl)
next
  case (fresh e s row p acc c R run db1 auth)
  have row: "row \<in> set (effects db)" using attempt_SomeD[OF fresh(3)] by simp
  have own: "owner_of db row = Some (setup_owner s)"
    using setup_owner_of[OF ok row] setup_slot_SomeD[OF fresh(2)] fresh(4) by blast
  note key = setup_slot_envelope[OF ledger_okD(1,4)[OF ok] fresh(2,1)]
  have "setup_envelope_totals db (sn_id e) = run_totals db (ow_envelope (setup_owner s))"
    using setup_envelope_totals_eq[OF ledger_okD(1,6)[OF ok]] key(1) by (simp add: setup_owner_def)
  moreover have "profile_named db (ow_profile (setup_owner s)) = Some p"
      "budget_account db (ow_project (setup_owner s)) = Some acc"
    using setup_owner_key[OF key(2)] fresh(7,12) by simp_all
  ultimately show ?thesis
    using dispatch_admissible[OF ok row own fresh(5) _ fresh(9,10,6,8) _ _ fresh(13-16)] fresh(11) by simp
qed

subsection \<open>Terminal operations\<close>

lemma setup_terminal_rows:
  assumes pre: "setup_terminal_preflight env db i = Inr (row0, s, profile)"
    and lock: "setup_lock_terminal db s i = Inr row" and ok: "ledger_ok cd db"
  shows "row \<in> set (effects db)" "ef_id row = i" "owner_of db row = Some (setup_owner s)"
    "\<exists>p. profile_named db (ow_profile (setup_owner s)) = Some p \<and> profile = row_profile p"
proof -
  have s: "s \<in> set (setup_slots db)"
    using pre by (auto simp: setup_terminal_preflight_def outcome_inv dest: row_get_SomeD)
  have row: "attempt db i = Some row" "ef_setup_slot_id row = Some (st_id s)"
    using lock by (auto simp: setup_lock_terminal_def outcome_inv)
  show row': "row \<in> set (effects db)" "ef_id row = i" using attempt_SomeD[OF row(1)] by simp_all
  show "owner_of db row = Some (setup_owner s)" by (rule setup_owner_of[OF ok row'(1) s row(2)])
  have "setup_profile env db (setup_slot_key s) None = Inr profile"
    using pre by (auto simp: setup_terminal_preflight_def outcome_inv)
  then show "\<exists>p. profile_named db (ow_profile (setup_owner s)) = Some p \<and> profile = row_profile p"
    using setup_profile_named setup_owner_key[OF refl, of s] by metis
qed

lemma setup_mark_uncertain_cases:
  assumes op: "setup_mark_uncertain env db eff digest_text response_id = Inr (res, db')"
  obtains (replay) row digest where "attempt db (se_effect_id eff) = Some row" "ef_state row = Uncertain"
      "sha_arg digest_text = Some digest" "ef_uncertainty_digest row = Some digest"
      "ef_provider_response_id row = response_id" "db' = db"
  | (fresh) row0 s profile row digest and auth :: ModelActionEvidence where
      "setup_terminal_preflight env db (se_effect_id eff) = Inr (row0, s, profile)"
      "setup_lock_terminal db s (se_effect_id eff) = Inr row" "ef_state row = Dispatching"
      "sha_arg digest_text = Some digest"
      "update_effect db (uncertain_row row digest response_id (ae_evidence_id auth)) = Inr db'"
  using op unfolding setup_mark_uncertain_def
  by (auto simp: outcome_inv if_eq_Inr_iff sha_checked_def setup_lock_terminal_def split del: if_split)

lemma setup_mark_uncertain_admissible:
  assumes ok: "ledger_ok (en_codec env) db"
    and op: "setup_mark_uncertain env db eff digest_text response_id = Inr (res, db')"
  shows "admissible (en_codec env) db db'"
  using op
proof (cases rule: setup_mark_uncertain_cases)
  case replay
  then show ?thesis by (simp add: ok quiet_admissible quiet_refl)
next
  case fresh
  then show ?thesis
    using setup_terminal_rows(1,3)[OF fresh(1,2) ok] by (auto intro: observe_admissible[OF ok])
qed

lemma setup_complete_cases:
  assumes op: "setup_complete env db eff rid snapshot ev u usable = Inr (res, db')"
  obtains (replay) row s cost where "attempt db (se_effect_id eff) = Some row"
      "ef_state row = (if usable then Completed else Known_failed)"
      "same_terminal row rid ev u cost = Inr True" "setup_completed row s True = Inr res" "db' = db"
  | (fresh) row0 s profile row cost acc' and auth :: ModelActionEvidence where
      "setup_terminal_preflight env db (se_effect_id eff) = Inr (row0, s, profile)"
      "setup_lock_terminal db s (se_effect_id eff) = Inr row" "require_pending row = Inr ()"
      "ModelCallEvidence_valid ev" "ev_byte_count ev \<le> maximum_response_bytes (pf_spec profile)"
      "model_usage_cost (pf_spec profile) u = Inr cost" "setup_settle db row s cost = Inr acc'"
      "flush_terminal db acc' (setup_terminal_row row usable rid ev u cost (ae_evidence_id auth)
         (clock env 0) (clock env 1)) = Inr db'"
proof -
  from op obtain row0 s profile row cost and auth :: ModelActionEvidence where
    pre: "setup_terminal_preflight env db (se_effect_id eff) = Inr (row0, s, profile)"
      "setup_lock_terminal db s (se_effect_id eff) = Inr row" "ModelCallEvidence_valid ev"
      "\<not> ev_byte_count ev > maximum_response_bytes (pf_spec profile)"
      "model_usage_cost (pf_spec profile) u = Inr cost"
    and cases: "ef_state row = (if usable then Completed else Known_failed) \<and>
        same_terminal row rid ev u cost = Inr True \<and> setup_completed row s True = Inr res \<and> db' = db \<or>
      (\<exists>acc'. require_pending row = Inr () \<and> setup_settle db row s cost = Inr acc' \<and>
        flush_terminal db acc' (setup_terminal_row row usable rid ev u cost (ae_evidence_id auth)
          (clock env 0) (clock env 1)) = Inr db')"
    unfolding setup_complete_def
    by (auto simp: outcome_inv if_eq_Inr_iff simp del: not_less One_nat_def split del: if_split) blast+
  have "attempt db (se_effect_id eff) = Some row"
    using pre(2) by (auto simp: setup_lock_terminal_def outcome_inv)
  with cases show ?thesis
    by (elim disjE conjE exE) (use pre replay fresh in \<open>auto simp: not_less\<close>)
qed

lemma setup_settle_Inr:
  "setup_settle db r s cost = Inr acc' \<longleftrightarrow> (\<exists>a R. budget_account db (st_project_id s) = Some a \<and>
     ef_reserved_nanodollars r = Some R \<and> R \<le> ac_lifetime_reserved_nanodollars a \<and>
     acc' = a\<lparr> ac_lifetime_reserved_nanodollars := ac_lifetime_reserved_nanodollars a - R,
               ac_lifetime_settled_nanodollars := ac_lifetime_settled_nanodollars a + cost \<rparr>)"
  by (auto simp: setup_settle_def outcome_inv not_less)

lemma setup_complete_admissible:
  assumes ok: "ledger_ok (en_codec env) db"
    and op: "setup_complete env db eff rid snapshot ev u usable = Inr (res, db')"
  shows "admissible (en_codec env) db db'"
  using op
proof (cases rule: setup_complete_cases)
  case replay
  then show ?thesis by (simp add: ok quiet_admissible quiet_refl)
next
  case (fresh row0 s profile row cost acc' auth)
  note rows = setup_terminal_rows[OF fresh(1,2) ok]
  obtain p where p: "profile_named db (ow_profile (setup_owner s)) = Some p" "profile = row_profile p"
    using rows(4) by blast
  obtain a R where a: "budget_account db (ow_project (setup_owner s)) = Some a"
      "ef_reserved_nanodollars row = Some R"
      "acc' = a\<lparr> ac_lifetime_reserved_nanodollars := ac_lifetime_reserved_nanodollars a - R,
               ac_lifetime_settled_nanodollars := ac_lifetime_settled_nanodollars a + cost \<rparr>"
    using fresh(7) by (auto simp: setup_settle_Inr setup_owner_def)
  have pend: "pending row" using fresh(3) by (auto simp: require_pending_def outcome_inv)
  let ?auth = "ae_evidence_id auth" and ?at = "clock env 0" and ?at' = "clock env 1"
  have r': "setup_terminal_row row usable rid ev u cost ?auth ?at ?at' = completed_row row rid ev u cost ?auth ?at \<or>
      setup_terminal_row row usable rid ev u cost ?auth ?at ?at' = failed_row row rid ev u cost ?auth ?at ?at'"
    by (simp add: setup_terminal_row_def)
  have bounds: "model_usage_cost (row_spec p) u = Inr cost"
      "ev_byte_count ev \<le> maximum_response_bytes (row_spec p)"
    using fresh(5,6) p(2) by simp_all
  show ?thesis
    by (rule settle_admissible[OF ok rows(1,3) pend p(1) a(1,2) bounds(1) fresh(4) bounds(2) r'])
      (use fresh(8) a(3) in simp)
qed

lemma setup_release_Inr:
  "setup_release db r s = Inr acc' \<longleftrightarrow> (\<exists>a R. budget_account db (st_project_id s) = Some a \<and>
     ef_reserved_nanodollars r = Some R \<and> R \<le> ac_lifetime_reserved_nanodollars a \<and>
     acc' = a\<lparr> ac_lifetime_reserved_nanodollars := ac_lifetime_reserved_nanodollars a - R \<rparr>)"
  by (auto simp: setup_release_def outcome_inv not_less)

lemma setup_mark_known_no_effect_cases:
  assumes op: "setup_mark_known_no_effect env db eff q = Inr (res, db')"
  obtains (replay) "db' = db"
  | (fresh) row0 s profile row acc' and auth :: ModelActionEvidence where
      "setup_terminal_preflight env db (se_effect_id eff) = Inr (row0, s, profile)"
      "setup_lock_terminal db s (se_effect_id eff) = Inr row" "require_pending row = Inr ()"
      "ef_provider_response_id row = None" "setup_release db row s = Inr acc'"
      "flush_terminal db acc' (no_effect_row row q (ae_evidence_id auth) (clock env 0)) = Inr db'"
  using op unfolding setup_mark_known_no_effect_def
  by (auto simp: outcome_inv if_eq_Inr_iff split del: if_split)

lemma setup_mark_known_no_effect_admissible:
  assumes ok: "ledger_ok (en_codec env) db" and op: "setup_mark_known_no_effect env db eff q = Inr (res, db')"
  shows "admissible (en_codec env) db db'"
  using op
proof (cases rule: setup_mark_known_no_effect_cases)
  case replay
  then show ?thesis by (simp add: ok quiet_admissible quiet_refl)
next
  case (fresh row0 s profile row acc' auth)
  note rows = setup_terminal_rows(1,3)[OF fresh(1,2) ok]
  have "pending row" using fresh(3) by (auto simp: require_pending_def outcome_inv)
  then show ?thesis
    using fresh(5,6) release_admissible[OF ok rows] by (auto simp: setup_release_Inr setup_owner_def)
qed

end
