(* ===== verification/Model_Usage_Reachable.thy ===== *)
theory Model_Usage_Reachable
  imports Model_Usage_Setup_Steps
begin

text \<open>
  The model-usage component as a transition system: one rule per successful state-changing
  operation of the checker and the setup service, in any order and interleaving, with any
  identifiers, clocks and port decisions. A failed operation rolls back, so it is no step. The
  invariant interface of the prelude is instantiated with the empty database, this relation and
  \<open>ledger_ok\<close>.
\<close>

inductive model_step :: "codec \<Rightarrow> model_db \<Rightarrow> model_db \<Rightarrow> bool" for cd where
  step_provision_profile: "provision_profile env db facts = Inr (pr, db') \<Longrightarrow> en_codec env = cd \<Longrightarrow> model_step cd db db'"
| step_provision_budget: "provision_budget env db bfacts = Inr (bg, db') \<Longrightarrow> en_codec env = cd \<Longrightarrow> model_step cd db db'"
| step_prepare_attempt: "prepare_attempt env db x k sha = Inr (at, db') \<Longrightarrow> en_codec env = cd \<Longrightarrow> model_step cd db db'"
| step_prepare_recovery_child: "prepare_recovery_child env db k i terminal sha = Inr (at, db') \<Longrightarrow> en_codec env = cd \<Longrightarrow>
    model_step cd db db'"
| step_reserve_dispatch: "reserve_dispatch env db x a ev = Inr (dr, db') \<Longrightarrow> en_codec env = cd \<Longrightarrow> model_step cd db db'"
| step_attach_recovery: "attach_recovery env db x eff = Inr (ra, db') \<Longrightarrow> en_codec env = cd \<Longrightarrow> model_step cd db db'"
| step_attach_completed: "attach_completed env db x eff = Inr (tc, db') \<Longrightarrow> en_codec env = cd \<Longrightarrow> model_step cd db db'"
| step_mark_uncertain: "mark_uncertain env db eff digest rid' = Inr (dr, db') \<Longrightarrow> en_codec env = cd \<Longrightarrow> model_step cd db db'"
| step_complete: "complete env db eff rid snapshot ev u = Inr (tc, db') \<Longrightarrow> en_codec env = cd \<Longrightarrow> model_step cd db db'"
| step_complete_known_failure: "complete_known_failure env db eff rid snapshot ev u = Inr (tc, db') \<Longrightarrow> en_codec env = cd \<Longrightarrow>
    model_step cd db db'"
| step_mark_known_no_effect: "mark_known_no_effect env db eff proof' = Inr (at, db') \<Longrightarrow> en_codec env = cd \<Longrightarrow>
    model_step cd db db'"
| step_setup_prepare: "setup_prepare senv db sk sha = Inr (ps, db') \<Longrightarrow> en_codec senv = cd \<Longrightarrow> model_step cd db db'"
| step_setup_reserve_dispatch: "setup_reserve_dispatch senv db prep ev = Inr (sd, db') \<Longrightarrow> en_codec senv = cd \<Longrightarrow>
    model_step cd db db'"
| step_setup_mark_uncertain: "setup_mark_uncertain senv db seff digest rid' = Inr (obs, db') \<Longrightarrow> en_codec senv = cd \<Longrightarrow>
    model_step cd db db'"
| step_setup_complete: "setup_complete senv db seff rid snapshot ev u usable = Inr (cs, db') \<Longrightarrow> en_codec senv = cd \<Longrightarrow>
    model_step cd db db'"
| step_setup_mark_known_no_effect: "setup_mark_known_no_effect senv db seff proof' = Inr (ns, db') \<Longrightarrow>
    en_codec senv = cd \<Longrightarrow> model_step cd db db'"

lemmas operations_admissible =
  provision_profile_admissible provision_budget_admissible
  quiet_admissible[OF prepare_attempt_quiet] quiet_admissible[OF prepare_recovery_child_quiet]
  reserve_dispatch_admissible
  quiet_admissible[OF attach_recovery_quiet] quiet_admissible[OF attach_completed_quiet]
  mark_uncertain_admissible complete_admissible complete_known_failure_admissible
  mark_known_no_effect_admissible quiet_admissible[OF setup_prepare_quiet]
  setup_reserve_dispatch_admissible setup_mark_uncertain_admissible setup_complete_admissible
  setup_mark_known_no_effect_admissible

lemma model_step_admissible: "model_step cd db db' \<Longrightarrow> ledger_ok cd db \<Longrightarrow> admissible cd db db'"
  by (induction rule: model_step.induct) (auto intro: operations_admissible)

lemma ledger_ok_empty: "ledger_ok cd empty_db"
  by (simp add: ledger_ok_def empty_db_def ledger_defs all_owners_def runs_def row_keys_def)

interpretation ledger: inductive_invariant empty_db "model_step cd" "ledger_ok cd" for cd
  by unfold_locales (auto simp: ledger_ok_empty admissible_def dest: model_step_admissible)
end
