(* ===== verification/Model_Usage_Scenario.thy ===== *)
theory Model_Usage_Scenario
  imports Model_Usage_Reachable
begin

text \<open>
  One concrete history of the component, evaluated operation by operation: a project publishes
  a profile and a budget, prepares, dispatches and completes a checker call; on a second branch
  the dispatched call is proved to have had no effect and a recovery child is prepared. Every
  port agrees and the digest function is constant. The histories show that the hypotheses of the
  reachable-state properties are met by states with real content.
\<close>

subsection \<open>Environment and inputs\<close>

definition demo_id :: "int \<Rightarrow> uuid" where
  "demo_id n = word_of_int (0x70008000000000000000 + n)"

definition demo_digest :: string where
  "demo_digest = ''sha256:'' @ replicate 64 (CHR ''0'')"

definition demo_codec :: codec where
  "demo_codec = \<lparr> sha256_hex = (\<lambda>_. replicate 64 (CHR ''0'')), datetime_json = (\<lambda>_. ''2026-01-01T00:00:00Z'') \<rparr>"

lemma demo_hash: "json_digest (sha256_hex demo_codec) v = demo_digest"
  by (simp add: json_digest_def demo_codec_def demo_digest_def)

lemma demo_digest_ok: "is_sha256 demo_digest"
  by (simp add: is_sha256_def demo_digest_def is_lower_hex_def is_digit_char_def in_range_def list_all_iff)

lemma demo_digest_arg: "sha_arg demo_digest = Some demo_digest"
  by (rule sha_arg_complete[OF demo_digest_ok])

definition demo_authority :: "int \<Rightarrow> ModelActionEvidence" where
  "demo_authority n = \<lparr> ae_evidence_id = demo_id n, ae_facts_digest = demo_digest \<rparr>"

definition demo_env :: "int \<Rightarrow> checker_env" where
  "demo_env n =
   \<lparr> en_codec = demo_codec,
     en_session = \<lparr> has_transaction = True, transaction_is_active = True, in_nested_transaction = False \<rparr>,
     new_id = (\<lambda>k. demo_id (n + int k)), clock = (\<lambda>k. n + int k),
     authorize_profile = (\<lambda>_. Inr (demo_authority (n + 9))),
     authorize_budget = (\<lambda>_. Inr (demo_authority (n + 9))),
     authorize_prepare = (\<lambda>_ _ _. Inr (demo_authority (n + 9))),
     authorize_dispatch = (\<lambda>_ _ _. Inr (demo_authority (n + 9))),
     authorize_recover = (\<lambda>_ _. Inr (demo_authority (n + 9))),
     authorize_observe = (\<lambda>_ _ _. Inr (demo_authority (n + 9))),
     authorize_child = (\<lambda>_ _ _. Inr (demo_authority (n + 9))),
     authorize_complete = (\<lambda>_ _ _. Inr (demo_authority (n + 9))),
     require_current = (\<lambda>_ _. Inr ()), require_recovery_current = (\<lambda>_ _. Inr ()),
     require_request = (\<lambda>_ _. Inr ()), require_response = (\<lambda>_ _. Inr ()) \<rparr>"

definition demo_spec :: ProjectModelProfileSpec where
  "demo_spec =
   \<lparr> spec_project_id = demo_id 1, spec_profile_version = 1, provider = ''openai'', api = ''responses'',
     model_snapshot = ''gpt-5'', settings = \<lparr> reasoning_effort = ''low'', text_verbosity = ''low'' \<rparr>,
     maximum_request_bytes = 1000, maximum_output_bytes = 100, maximum_response_bytes = 5000,
     maximum_input_tokens = 100, maximum_output_tokens = 50, maximum_calls = 2,
     maximum_total_request_bytes = 2000, maximum_total_response_bytes = 10000,
     maximum_total_input_tokens = 200, maximum_total_output_tokens = 100,
     allowed_tools = [], maximum_tool_calls = 0, maximum_tool_output_bytes = 0, deadline_ms = 1000,
     pricing = \<lparr> pricing_policy_id = demo_id 2, pricing_policy_version = 1,
                 pricing_policy_digest = demo_digest, uncached_input_nanodollars_per_token = 10,
                 cached_input_nanodollars_per_token = 1, output_nanodollars_per_token = 20 \<rparr> \<rparr>"

definition demo_facts :: ModelProfileProvisioningFacts where
  "demo_facts = \<lparr> pf_operation_id = demo_id 3, pf_actor_profile_id = demo_id 4, pf_spec = demo_spec,
                  pf_profile_digest = demo_digest \<rparr>"

definition demo_profile_row :: ProfileRow where
  "demo_profile_row = profile_row demo_facts (demo_id 100) (demo_id 109) 100"

definition demo_db1 :: model_db where
  "demo_db1 = empty_db\<lparr>profiles := [demo_profile_row]\<rparr>"

lemmas value_checks = is_identifier_def is_provider_identifier_def is_provider_response_identifier_def
  is_nanodollars_def between_def is_lower_hex_def is_digit_char_def is_lower_char_def is_upper_char_def
  is_alnum_char_def in_range_def require_uuid7_def uuid_version_def uuid_rfc4122_def

lemma demo_spec_valid: "ProjectModelProfileSpec_valid demo_spec"
  by (simp add: ProjectModelProfileSpec_valid_def spec_fields_valid_def coherent_bounds_def demo_spec_def
      ModelGenerationSettings_valid_def ModelPricing_valid_def value_checks demo_digest_ok demo_id_def)

lemma demo_facts_valid: "ModelProfileProvisioningFacts_valid demo_codec demo_facts"
  by (simp add: ModelProfileProvisioningFacts_valid_def demo_facts_def demo_spec_valid demo_hash demo_digest_ok)

lemma demo_env_simps [simp]:
  "en_codec (demo_env n) = demo_codec" "new_id (demo_env n) k = demo_id (n + int k)"
  "clock (demo_env n) k = n + int k"
  "authorize_profile (demo_env n) f = Inr (demo_authority (n + 9))"
  "authorize_budget (demo_env n) bf = Inr (demo_authority (n + 9))"
  "authorize_prepare (demo_env n) x pk sha = Inr (demo_authority (n + 9))"
  "authorize_dispatch (demo_env n) x at ev = Inr (demo_authority (n + 9))"
  "authorize_recover (demo_env n) x eff = Inr (demo_authority (n + 9))"
  "authorize_observe (demo_env n) eff rid dg = Inr (demo_authority (n + 9))"
  "authorize_child (demo_env n) i j dg = Inr (demo_authority (n + 9))"
  "authorize_complete (demo_env n) eff ev' dg = Inr (demo_authority (n + 9))"
  "require_current (demo_env n) x pk = Inr ()" "require_recovery_current (demo_env n) pk i = Inr ()"
  "require_request (demo_env n) at ev = Inr ()" "require_response (demo_env n) i ev = Inr ()"
  "require_model_call_transaction (en_session (demo_env n)) = Inr ()"
  by (simp_all add: demo_env_def require_model_call_transaction_def)

lemma demo_authority_simps [simp]:
  "ae_evidence_id (demo_authority n) = demo_id n"
  "json_ok facts \<Longrightarrow> require_authority demo_codec action facts (demo_authority n) = Inr ()"
  by (simp_all add: demo_authority_def require_authority_def model_action_digest_def demo_hash)

lemma demo_reservations [simp]:
  "maximum_reservation_nanodollars demo_spec = Inr 4000"
  "maximum_dispatch_reservation_nanodollars demo_spec = Inr 2000"
  by (simp_all add: maximum_reservation_nanodollars_def maximum_dispatch_reservation_nanodollars_def
      demo_spec_def input_rate_def)

lemma demo_profile_value:
  "row_profile demo_profile_row = \<lparr> pf_operation_id = demo_id 3, pf_actor_profile_id = demo_id 4,
     pf_spec = demo_spec, pf_profile_digest = demo_digest, pm_profile_id = demo_id 100,
     pm_authorization_evidence_id = demo_id 109, pm_created_at = 100 \<rparr>"
  by (simp add: row_profile_def demo_profile_row_def) (simp add: profile_row_def demo_facts_def Let_def)

lemma demo_profile_ok: "stored_model_profile demo_codec demo_profile_row = Inr (row_profile demo_profile_row)"
  by (simp add: stored_model_profile_def ProjectModelProfile_valid_def ModelProfileProvisioningFacts_valid_def
     demo_profile_value demo_spec_valid demo_hash demo_digest_ok demo_id_def value_checks)

lemma demo_profile_insert: "insert_profile empty_db demo_profile_row = Inr demo_db1"
  by (simp add: insert_profile_def checked_def profile_check_def demo_profile_row_def profile_row_def Let_def
    demo_facts_def demo_spec_def value_checks demo_id_def demo_digest_ok int4_def int8_def empty_db_def demo_db1_def)

lemma demo_facts_simps [simp]:
  "pf_spec demo_facts = demo_spec" "pf_operation_id demo_facts = demo_id 3"
  "spec_project_id demo_spec = demo_id 1" "spec_profile_version demo_spec = 1"
  by (simp_all add: demo_facts_def demo_spec_def)

lemma demo_step1: "provision_profile (demo_env 100) empty_db demo_facts = Inr (row_profile demo_profile_row, demo_db1)"
  using demo_profile_insert demo_profile_ok
  by (simp add: provision_profile_def demo_facts_valid demo_profile_row_def[symmetric]
    profile_by_operation_def profile_by_version_def latest_profile_def empty_db_def)

definition demo_budget_facts :: ModelBudgetProvisioningFacts where
  "demo_budget_facts = \<lparr> bf_operation_id = demo_id 5, bf_actor_profile_id = demo_id 4,
     bf_spec = \<lparr> bs_project_id = demo_id 1, bs_configuration_version = 1,
                 bs_authorized_total_nanodollars = 10000,
                 bs_externally_reconciled_prior_spend_nanodollars = 1000,
                 bs_lifetime_limit_nanodollars = 9000 \<rparr>,
     bf_configuration_digest = demo_digest \<rparr>"

definition demo_configuration :: BudgetConfigurationRow where
  "demo_configuration = configuration_row demo_budget_facts (demo_id 200) (demo_id 209) 200"

definition demo_account :: BudgetAccountRow where
  "demo_account = \<lparr> ac_project_id = demo_id 1, ac_current_configuration_id = demo_id 200,
     ac_lifetime_reserved_nanodollars = 0, ac_lifetime_settled_nanodollars = 0 \<rparr>"

definition demo_db2 :: model_db where
  "demo_db2 = demo_db1\<lparr>configurations := [demo_configuration], accounts := [demo_account]\<rparr>"

lemma demo_budget_valid: "ModelBudgetProvisioningFacts_valid demo_codec demo_budget_facts"
  by (simp add: ModelBudgetProvisioningFacts_valid_def demo_budget_facts_def demo_hash demo_digest_ok
     ProjectModelBudgetConfigurationSpec_valid_def value_checks)

lemma demo_budget_result:
  "budget_result demo_codec demo_configuration demo_account = Inr (budget_value demo_configuration demo_account)"
  by (simp add: budget_result_def ProjectModelBudgetConfiguration_valid_def budget_value_def
    demo_configuration_def demo_account_def configuration_row_def demo_budget_facts_def demo_hash demo_digest_ok
    ModelBudgetProvisioningFacts_valid_def ProjectModelBudgetConfigurationSpec_valid_def value_checks demo_id_def)

lemma demo_configuration_insert:
  "insert_configuration demo_db1 demo_configuration = Inr (demo_db1\<lparr>configurations := [demo_configuration]\<rparr>)"
  by (simp add: insert_configuration_def checked_def configuration_check_def demo_configuration_def
    configuration_row_def demo_budget_facts_def value_checks demo_id_def demo_digest_ok int4_def int8_def
    demo_db1_def empty_db_def)

lemma demo_account_insert:
  "insert_account (demo_db1\<lparr>configurations := [demo_configuration]\<rparr>) demo_account = Inr demo_db2"
  by (simp add: insert_account_def checked_def account_ok_def account_check_def demo_account_def demo_configuration_def
    configuration_row_def demo_budget_facts_def value_checks demo_id_def demo_digest_ok int4_def int8_def
    demo_db1_def empty_db_def demo_db2_def)

lemma demo_budget_simps [simp]:
  "bf_operation_id demo_budget_facts = demo_id 5" "bs_project_id (bf_spec demo_budget_facts) = demo_id 1"
  "bs_configuration_version (bf_spec demo_budget_facts) = 1"
  "bs_lifetime_limit_nanodollars (bf_spec demo_budget_facts) = 9000"
  by (simp_all add: demo_budget_facts_def)

lemma demo_configuration_simps [simp]:
  "cf_id demo_configuration = demo_id 200" "cf_lifetime_limit_nanodollars demo_configuration = 9000"
  "cf_project_id demo_configuration = demo_id 1" "cf_configuration_version demo_configuration = 1"
  "cf_configuration_digest demo_configuration = demo_digest"
  by (simp_all add: demo_configuration_def configuration_row_def) (simp_all add: demo_budget_facts_def)

lemma demo_step2:
  "provision_budget (demo_env 200) demo_db1 demo_budget_facts
     = Inr (budget_value demo_configuration demo_account, demo_db2)"
proof -
  have look: "budget_configuration_by_operation demo_db1 i = None" "budget_account demo_db1 i = None"
    "budget_configuration_by_version demo_db1 i v = None" for i v
    by (simp_all add: budget_configuration_by_operation_def budget_account_def budget_configuration_by_version_def
      demo_db1_def empty_db_def row_get_Nil)
  show ?thesis
    using demo_configuration_insert demo_account_insert demo_budget_result
    by (simp add: provision_budget_def advance_budget_def demo_budget_valid look
      demo_configuration_def[symmetric] demo_account_def[symmetric])
qed

definition demo_execution :: ModelCallExecutionFacts where
  "demo_execution = \<lparr> ex_project_id = demo_id 1, ex_task_id = demo_id 11, ex_assignment_id = demo_id 12,
     ex_submission_id = demo_id 13, ex_submission_version = 1, ex_evaluation_request_id = demo_id 14,
     ex_evaluation_generation = 1, ex_checker_run_id = demo_id 15, ex_worker_lease_id = demo_id 16,
     ex_worker_lease_generation = 1, ex_worker_lease_expires_at = 1000 \<rparr>"

definition demo_key :: ModelPaidSlotKey where
  "demo_key = \<lparr> pk_project_id = demo_id 1, pk_assignment_id = demo_id 12, pk_submission_id = demo_id 13,
     pk_submission_version = 1, pk_requirement_id = ''grammar'', pk_registry_entry_digest = demo_digest,
     pk_configuration_sha256 = demo_digest, pk_profile_id = demo_id 100, pk_profile_version = 1,
     pk_profile_digest = demo_digest, pk_slot_index = 0 \<rparr>"

definition demo_envelope :: CheckerEnvelopeRow where
  "demo_envelope = envelope_row (demo_id 300) (demo_id 11) demo_key"

definition demo_slot :: CheckerSlotRow where
  "demo_slot = slot_row (demo_id 301) (demo_id 300) (demo_id 11) demo_key demo_digest"

definition demo_prepared :: EffectRow where
  "demo_prepared = new_effect (demo_id 302) (Some (demo_id 301)) None 1 (demo_id 303) None demo_digest
     (Some demo_execution) (demo_id 309) 300"

definition demo_db3 :: model_db where
  "demo_db3 = demo_db2\<lparr>envelopes := [demo_envelope], slots := [demo_slot], effects := [demo_prepared]\<rparr>"

lemma demo_key_simps [simp]:
  "pk_project_id demo_key = demo_id 1" "pk_profile_id demo_key = demo_id 100" "pk_profile_version demo_key = 1"
  "pk_profile_digest demo_key = demo_digest"
  by (simp_all add: demo_key_def)

lemma demo_profile_simps [simp]:
  "pr_id demo_profile_row = demo_id 100" "pr_profile_version demo_profile_row = 1"
  "pr_profile_digest demo_profile_row = demo_digest" "row_spec demo_profile_row = demo_spec"
  using row_spec_profile_row[of demo_facts "demo_id 100" "demo_id 109" 100]
  by (simp_all add: demo_profile_row_def) (simp_all add: profile_row_def demo_facts_def demo_spec_def Let_def)

lemma demo_key_valid: "ModelPaidSlotKey_valid demo_key"
  by (simp add: ModelPaidSlotKey_valid_def demo_key_def value_checks demo_digest_ok demo_id_def)

lemma demo_execution_valid:
  "ModelCallExecutionFacts_valid demo_execution" "require_execution_slot demo_execution demo_key = Inr ()"
  "ex_task_id demo_execution = demo_id 11"
  by (simp_all add: ModelCallExecutionFacts_valid_def demo_execution_def require_execution_slot_def demo_key_def)

lemma demo_profile_exact:
  "profiles db = [demo_profile_row] \<Longrightarrow> profile_exact db (demo_id 100) 1 demo_digest = Some demo_profile_row"
  by (simp add: profile_exact_def)

lemma demo_profile_for_slot:
  assumes "profiles db = [demo_profile_row]"
  shows "profile_for_slot (demo_env n) db demo_key = Inr (row_profile demo_profile_row)"
    "profile_for_stored_slot (demo_env n) db demo_key = Inr (row_profile demo_profile_row)"
  using demo_profile_exact[OF assms]
  by (simp_all add: profile_for_slot_def profile_for_stored_slot_def read_exact_def demo_profile_ok
    ModelProfileSelector_valid_def demo_digest_ok value_checks) (simp add: demo_id_def)

lemma demo_envelope_insert: "insert_envelope demo_db2 demo_envelope = Inr (demo_db2\<lparr>envelopes := [demo_envelope]\<rparr>)"
  by (simp add: insert_envelope_def checked_def envelope_check_def demo_envelope_def envelope_row_def demo_key_def
    value_checks demo_digest_ok demo_id_def int4_def profile_reference_def demo_db2_def demo_db1_def empty_db_def)
lemma demo_slot_insert:
  "insert_slot (demo_db2\<lparr>envelopes := [demo_envelope]\<rparr>) demo_slot
     = Inr (demo_db2\<lparr>envelopes := [demo_envelope], slots := [demo_slot]\<rparr>)"
  by (simp add: insert_slot_def checked_def slot_check_def demo_slot_def slot_row_def demo_key_def
    value_checks demo_digest_ok demo_id_def int4_def profile_reference_def demo_db2_def demo_db1_def empty_db_def
    demo_envelope_def envelope_row_def)
lemma demo_effect_insert:
  "insert_effect (demo_db2\<lparr>envelopes := [demo_envelope], slots := [demo_slot]\<rparr>) demo_prepared = Inr demo_db3"
  by (simp add: insert_effect_def checked_def effect_check_def demo_prepared_def new_effect_def
    value_checks demo_digest_ok demo_id_def int4_def opt_ok_def effect_references_def demo_db3_def demo_db2_def demo_db1_def empty_db_def
    demo_slot_def slot_row_def)
lemma demo_step3:
  "prepare_attempt (demo_env 300) demo_db2 demo_execution demo_key demo_digest
     = Inr (attempt_view demo_slot demo_prepared False, demo_db3)"
proof -
  have look: "envelope demo_db2 demo_key = None" "slot (demo_db2\<lparr>envelopes := [demo_envelope]\<rparr>) demo_key = None"
    "latest_attempt (demo_db2\<lparr>envelopes := [demo_envelope], slots := [demo_slot]\<rparr>) i = None"
    "profiles demo_db2 = [demo_profile_row]" for i
    by (simp_all add: envelope_def slot_def latest_attempt_def demo_db2_def demo_db1_def empty_db_def)
  have ids: "ce_id demo_envelope = demo_id 300" "sl_id demo_slot = demo_id 301"
    by (simp_all add: demo_envelope_def demo_slot_def envelope_row_def slot_row_def)
  show ?thesis
    using demo_envelope_insert demo_slot_insert demo_effect_insert
    by (simp add: prepare_attempt_def demo_execution_valid demo_key_valid sha_checked_def demo_digest_arg
      demo_profile_for_slot[OF look(4)] require_checker_envelope_def require_checker_slot_def look ids
      demo_envelope_def[symmetric] demo_slot_def[symmetric] demo_prepared_def[symmetric])
qed

definition demo_evidence :: "int \<Rightarrow> ModelCallEvidence" where
  "demo_evidence n = \<lparr> ev_binding_id = demo_id n, ev_content_id = demo_id (n + 1),
     ev_put_attempt_id = demo_id (n + 2), ev_verification_receipt_id = demo_id (n + 3),
     ev_content_sha256 = demo_digest, ev_byte_count = 800 \<rparr>"

definition demo_dispatched :: EffectRow where
  "demo_dispatched = dispatched_row demo_prepared (demo_evidence 20) demo_configuration 2000
     (Some demo_execution) (demo_id 409) 400"

definition demo_db4 :: model_db where
  "demo_db4 = demo_db3\<lparr>accounts := [demo_account\<lparr>ac_lifetime_reserved_nanodollars := 2000\<rparr>],
                       effects := [demo_dispatched]\<rparr>"

definition demo_reservation :: "bool \<Rightarrow> ModelDispatchReservation" where
  "demo_reservation replayed =
   \<lparr> dr_slot_id = demo_id 301, dr_attempt_id = demo_id 302, dr_attempt_number = 1,
     dr_internal_call_request_id = demo_id 303, dr_effect = effect_view demo_slot demo_dispatched,
     dr_request_sha256 = demo_digest, dr_request_evidence = demo_evidence 20,
     dr_budget_configuration_id = demo_id 200, dr_budget_configuration_version = 1,
     dr_budget_configuration_digest = demo_digest, dr_reserved_nanodollars = 2000,
     dr_state = Dispatching, dr_provider_response_id = None, dr_response_evidence = None,
     dr_replayed = replayed \<rparr>"

lemma demo_evidence_valid:
  "ModelCallEvidence_valid (demo_evidence n)" "ev_byte_count (demo_evidence n) = 800"
  "ev_content_sha256 (demo_evidence n) = demo_digest"
  "evidence_of (evidence_columns (demo_evidence n)) = Inr (demo_evidence n)"
  by (simp_all add: demo_evidence_def ModelCallEvidence_valid_def demo_digest_ok between_def
    evidence_of_def evidence_columns_def)

lemma demo_spec_simps [simp]:
  "maximum_request_bytes demo_spec = 1000" "maximum_response_bytes demo_spec = 5000"
  "maximum_input_tokens demo_spec = 100" "maximum_output_tokens demo_spec = 50" "maximum_calls demo_spec = 2"
  "maximum_total_request_bytes demo_spec = 2000" "maximum_total_response_bytes demo_spec = 10000"
  "maximum_total_input_tokens demo_spec = 200" "maximum_total_output_tokens demo_spec = 100"
  "model_snapshot demo_spec = ''gpt-5''"
  "uncached_input_nanodollars_per_token (pricing demo_spec) = 10"
  "cached_input_nanodollars_per_token (pricing demo_spec) = 1"
  "output_nanodollars_per_token (pricing demo_spec) = 20"
  by (simp_all add: demo_spec_def)

lemma demo_rows [simp]:
  "ce_id demo_envelope = demo_id 300" "sl_id demo_slot = demo_id 301" "sl_project_id demo_slot = demo_id 1"
  "sl_profile_id demo_slot = demo_id 100" "sl_profile_version demo_slot = 1" "sl_profile_digest demo_slot = demo_digest"
  "slot_key demo_slot = demo_key" "sl_first_request_sha256 demo_slot = demo_digest"
  "envelope_predicates demo_key demo_envelope" "slot_predicates demo_key demo_slot" "sl_envelope_id demo_slot = demo_id 300"
  by (simp_all add: demo_envelope_def demo_slot_def envelope_row_predicates)
    (simp_all add: envelope_row_def slot_row_def slot_predicates_def)

lemma demo_prepared_simps [simp]:
  "ef_id demo_prepared = demo_id 302" "ef_checker_slot_id demo_prepared = Some (demo_id 301)"
  "ef_setup_slot_id demo_prepared = None" "ef_state demo_prepared = Prepared" "ef_request_sha256 demo_prepared = demo_digest"
  "ef_attempt_number demo_prepared = 1" "ef_internal_call_request_id demo_prepared = demo_id 303"
  "ef_request demo_prepared = no_evidence" "ef_response demo_prepared = no_evidence"
  "ef_input_tokens demo_prepared = None" "ef_output_tokens demo_prepared = None" "ef_settled_nanodollars demo_prepared = None"
  "ef_reserved_nanodollars demo_prepared = None" "ef_provider_response_id demo_prepared = None"
  by (simp_all add: demo_prepared_def new_effect_def)

lemma demo_db_simps [simp]:
  "profiles demo_db3 = [demo_profile_row]" "accounts demo_db3 = [demo_account]"
  "configurations demo_db3 = [demo_configuration]" "envelopes demo_db3 = [demo_envelope]"
  "slots demo_db3 = [demo_slot]" "effects demo_db3 = [demo_prepared]" "setup_slots demo_db3 = []"
  "profiles demo_db4 = [demo_profile_row]"
  "accounts demo_db4 = [demo_account\<lparr>ac_lifetime_reserved_nanodollars := 2000\<rparr>]"
  "configurations demo_db4 = [demo_configuration]" "envelopes demo_db4 = [demo_envelope]"
  "slots demo_db4 = [demo_slot]" "effects demo_db4 = [demo_dispatched]" "setup_slots demo_db4 = []"
  by (simp_all add: demo_db4_def demo_db3_def demo_db2_def demo_db1_def empty_db_def)

lemma demo_dispatch_update:
  "update_account demo_db3 (demo_account\<lparr>ac_lifetime_reserved_nanodollars := 2000\<rparr>)
     = Inr (demo_db3\<lparr>accounts := [demo_account\<lparr>ac_lifetime_reserved_nanodollars := 2000\<rparr>]\<rparr>)"
  "update_effect (demo_db3\<lparr>accounts := [demo_account\<lparr>ac_lifetime_reserved_nanodollars := 2000\<rparr>]\<rparr>) demo_dispatched
     = Inr demo_db4"
proof -
  show "update_account demo_db3 (demo_account\<lparr>ac_lifetime_reserved_nanodollars := 2000\<rparr>)
     = Inr (demo_db3\<lparr>accounts := [demo_account\<lparr>ac_lifetime_reserved_nanodollars := 2000\<rparr>]\<rparr>)"
    by (simp add: update_account_def checked_def account_ok_def account_check_def demo_account_def int8_def
      between_def row_put_def)
  show "update_effect (demo_db3\<lparr>accounts := [demo_account\<lparr>ac_lifetime_reserved_nanodollars := 2000\<rparr>]\<rparr>) demo_dispatched
     = Inr demo_db4"
    by (simp add: update_effect_def checked_def effect_check_def demo_dispatched_def dispatched_row_def demo_digest_ok
      opt_ok_def effect_references_def row_put_def int4_def between_def demo_db4_def)
     (simp add: demo_id_def value_checks demo_prepared_def new_effect_def)
qed

lemma demo_step4:
  "reserve_dispatch (demo_env 400) demo_db3 demo_execution (attempt_view demo_slot demo_prepared False) (demo_evidence 20)
     = Inr (demo_reservation False, demo_db4)"
proof -
  have view: "at_slot_key (attempt_view demo_slot demo_prepared False) = demo_key"
      "at_slot_id (attempt_view demo_slot demo_prepared False) = demo_id 301"
      "at_attempt_id (attempt_view demo_slot demo_prepared False) = demo_id 302"
      "at_attempt_number (attempt_view demo_slot demo_prepared False) = 1"
      "at_internal_call_request_id (attempt_view demo_slot demo_prepared False) = demo_id 303"
      "at_request_sha256 (attempt_view demo_slot demo_prepared False) = demo_digest"
      "at_state (attempt_view demo_slot demo_prepared False) = Prepared"
    by (simp_all add: attempt_view_def)
  have valid: "PreparedModelCallAttempt_valid (attempt_view demo_slot demo_prepared False)"
    by (simp add: PreparedModelCallAttempt_valid_def AttachedModelCallAttempt_valid_def view demo_key_valid demo_digest_ok)
  have look: "envelope demo_db3 demo_key = Some demo_envelope" "slot demo_db3 demo_key = Some demo_slot"
      "attempt demo_db3 (demo_id 302) = Some demo_prepared" "budget_account demo_db3 (demo_id 1) = Some demo_account"
      "current_budget_configuration demo_db3 demo_account = Some demo_configuration"
    by (simp_all add: envelope_def slot_def attempt_def budget_account_def current_budget_configuration_def row_get_Cons
       demo_account_def)
  have run: "\<not> run_envelope_exceeded (envelope_totals demo_db3 (demo_id 300)) demo_spec 2000 4000 800"
    by (simp add: run_envelope_exceeded_def envelope_totals_def envelope_effects_def totals_of_def weight_defs no_evidence_def)
  have acc: "ac_lifetime_reserved_nanodollars demo_account = 0" "ac_lifetime_settled_nanodollars demo_account = 0"
    by (simp_all add: demo_account_def)
  have res: "dispatch_result demo_dispatched demo_slot False = Inr (demo_reservation False)"
    by (simp add: dispatch_result_def demo_dispatched_def dispatched_row_def demo_evidence_valid demo_reservation_def no_evidence_def)
  have row: "dispatched_row demo_prepared (demo_evidence 20) demo_configuration 2000
     (Some demo_execution) (demo_id 409) 400 = demo_dispatched" by (simp add: demo_dispatched_def)
  show ?thesis
    by (simp add: reserve_dispatch_def valid view demo_execution_valid demo_evidence_valid look acc run row res
      demo_profile_for_slot demo_dispatch_update)
qed

definition demo_usage :: ModelCallUsage where
  "demo_usage = \<lparr> us_input_tokens = 60, us_cached_input_tokens = 20, us_output_tokens = 30, us_reasoning_tokens = 10 \<rparr>"

definition demo_effect :: ModelCallEffectAuthorityFacts where
  "demo_effect = effect_view demo_slot demo_dispatched"

definition demo_completed :: EffectRow where
  "demo_completed = completed_row demo_dispatched ''resp-1'' (demo_evidence 30) demo_usage 1020 (demo_id 509) 500"

definition demo_db5 :: model_db where
  "demo_db5 = demo_db4\<lparr>accounts := [demo_account\<lparr>ac_lifetime_reserved_nanodollars := 0, ac_lifetime_settled_nanodollars := 1020\<rparr>],
                       effects := [demo_completed]\<rparr>"

definition demo_terminal :: "bool \<Rightarrow> TerminalModelCall" where
  "demo_terminal replayed =
   \<lparr> tc_slot_id = demo_id 301, tc_attempt_id = demo_id 302, tc_attempt_number = 1,
     tc_internal_call_request_id = demo_id 303, tc_provider_response_id = ''resp-1'',
     tc_request_evidence = demo_evidence 20, tc_response_evidence = demo_evidence 30, tc_usage = demo_usage,
     tc_settled_nanodollars = 1020, tc_completed_at = 500, tc_replayed = replayed \<rparr>"

lemma demo_dispatched_simps [simp]:
  "ef_id demo_dispatched = demo_id 302" "ef_checker_slot_id demo_dispatched = Some (demo_id 301)"
  "ef_setup_slot_id demo_dispatched = None" "ef_state demo_dispatched = Dispatching"
  "ef_request_sha256 demo_dispatched = demo_digest"
  "ef_attempt_number demo_dispatched = 1" "ef_internal_call_request_id demo_dispatched = demo_id 303"
  "ef_request demo_dispatched = evidence_columns (demo_evidence 20)" "ef_response demo_dispatched = no_evidence"
  "ef_reserved_nanodollars demo_dispatched = Some 2000" "ef_provider_response_id demo_dispatched = None"
  by (simp_all add: demo_dispatched_def dispatched_row_def)

lemma demo_usage_simps [simp]:
  "ModelCallUsage_valid demo_usage" "us_input_tokens demo_usage = 60" "us_cached_input_tokens demo_usage = 20"
  "us_output_tokens demo_usage = 30" "us_reasoning_tokens demo_usage = 10"
  "model_usage_cost demo_spec demo_usage = Inr 1020"
  by (simp_all add: ModelCallUsage_valid_def demo_usage_def model_usage_cost_def)

lemma demo_account_fields [simp]:
  "ac_project_id demo_account = demo_id 1" "ac_current_configuration_id demo_account = demo_id 200"
  "ac_lifetime_reserved_nanodollars demo_account = 0" "ac_lifetime_settled_nanodollars demo_account = 0"
  by (simp_all add: demo_account_def)

lemma demo_effect_simps [simp]:
  "ea_slot_key demo_effect = demo_key" "ea_attempt_id demo_effect = demo_id 302"
  "require_effect demo_effect demo_slot demo_dispatched = Inr ()"
  by (simp_all add: demo_effect_def effect_view_def require_effect_def)

lemma demo_terminal_preflight:
  assumes "profiles db = [demo_profile_row]" "envelopes db = [demo_envelope]" "slots db = [demo_slot]"
    "effects db = [row]" "ef_id row = demo_id 302" "ef_checker_slot_id row = Some (demo_id 301)"
  shows "terminal_preflight (demo_env n) db (demo_id 302) = Inr (row, demo_slot, row_profile demo_profile_row)"
    "lock_terminal db demo_slot (demo_id 302) = Inr row"
  using assms demo_profile_exact[OF assms(1)]
  by (simp_all add: terminal_preflight_def lock_terminal_def attempt_def get_slot_def row_get_Cons demo_profile_ok
     envelope_def slot_def)

lemma demo_response_id: "is_provider_response_identifier ''resp-1''"
  by (simp add: value_checks)

lemma demo_settle_update:
  "flush_terminal demo_db4 (demo_account\<lparr>ac_lifetime_reserved_nanodollars := 0, ac_lifetime_settled_nanodollars := 1020\<rparr>)
     demo_completed = Inr demo_db5"
  by (simp add: flush_terminal_def update_account_def checked_def account_ok_def account_check_def int8_def
      between_def row_put_def update_effect_def effect_check_def demo_completed_def completed_row_def set_usage_def demo_digest_ok
      opt_ok_def effect_references_def int4_def demo_db5_def)
     (simp add: demo_id_def value_checks demo_dispatched_def dispatched_row_def demo_prepared_def new_effect_def
       demo_slot_def slot_row_def demo_configuration_def)

lemma demo_terminal_result: "terminal_result demo_completed b = Inr (demo_terminal b)"
  by (simp add: terminal_result_def usage_of_def demo_completed_def completed_row_def set_usage_def demo_terminal_def
    demo_evidence_valid Let_def)
   (simp add: demo_usage_def ModelCallUsage_valid_def)

lemma demo_step5:
  "complete (demo_env 500) demo_db4 demo_effect ''resp-1'' ''gpt-5'' (demo_evidence 30) demo_usage
     = Inr (demo_terminal False, demo_db5)"
proof -
  have pre: "settlement_preflight (demo_env 500) demo_db4 ''completed'' demo_effect ''resp-1'' ''gpt-5''
      (demo_evidence 30) demo_usage = Inr (demo_authority 509, demo_slot, demo_dispatched, 1020)"
    by (simp add: settlement_preflight_def demo_key_valid demo_response_id demo_evidence_valid
       demo_terminal_preflight)
  have st: "settle demo_db4 demo_dispatched demo_slot 1020
      = Inr (demo_account\<lparr>ac_lifetime_reserved_nanodollars := 0, ac_lifetime_settled_nanodollars := 1020\<rparr>)"
    by (simp add: settle_def budget_account_def row_get_Cons)
  have row: "completed_row demo_dispatched ''resp-1'' (demo_evidence 30) demo_usage 1020 (demo_id 509) 500 = demo_completed"
    by (simp add: demo_completed_def)
  show ?thesis
    by (simp add: complete_def pre st row demo_settle_update demo_terminal_result require_effect_pending_def pending_def)
qed

definition demo_proof :: KnownNoEffectProof where
  "demo_proof = \<lparr> np_proof_id = demo_id 40, np_proof_digest = demo_digest, np_observed_at = 550 \<rparr>"

definition demo_no_effect :: EffectRow where
  "demo_no_effect = no_effect_row demo_dispatched demo_proof (demo_id 609) 600"

definition demo_db6 :: model_db where
  "demo_db6 = demo_db4\<lparr>accounts := [demo_account\<lparr>ac_lifetime_reserved_nanodollars := 0\<rparr>], effects := [demo_no_effect]\<rparr>"

definition demo_child :: EffectRow where
  "demo_child = new_effect (demo_id 700) (Some (demo_id 301)) None 2 (demo_id 701) (Some (demo_id 302)) demo_digest
     None (demo_id 709) 700"

definition demo_db7 :: model_db where
  "demo_db7 = demo_db6\<lparr>effects := [demo_no_effect, demo_child]\<rparr>"

lemma demo_no_effect_update:
  "flush_terminal demo_db4 (demo_account\<lparr>ac_lifetime_reserved_nanodollars := 0\<rparr>) demo_no_effect = Inr demo_db6"
  by (simp add: flush_terminal_def update_account_def checked_def account_ok_def account_check_def int8_def
      between_def row_put_def update_effect_def effect_check_def demo_no_effect_def no_effect_row_def demo_digest_ok
      opt_ok_def effect_references_def int4_def demo_db6_def)
     (simp add: demo_id_def value_checks demo_dispatched_def dispatched_row_def demo_prepared_def new_effect_def
       demo_slot_def slot_row_def demo_configuration_def)

lemma demo_step6:
  "mark_known_no_effect (demo_env 600) demo_db4 demo_effect demo_proof
     = Inr (attempt_view demo_slot demo_no_effect False, demo_db6)"
proof -
  have rel: "release demo_db4 demo_dispatched demo_slot = Inr (demo_account\<lparr>ac_lifetime_reserved_nanodollars := 0\<rparr>)"
    by (simp add: release_def budget_account_def row_get_Cons)
  have row: "no_effect_row demo_dispatched demo_proof (demo_id 609) 600 = demo_no_effect" by (simp add: demo_no_effect_def)
  show ?thesis
    by (simp add: mark_known_no_effect_def demo_key_valid KnownNoEffectProof_valid_def demo_terminal_preflight rel row
      demo_no_effect_update require_effect_pending_def pending_def)
     (simp add: demo_proof_def demo_digest_ok)
qed

lemma demo_no_effect_simps [simp]:
  "ef_id demo_no_effect = demo_id 302" "ef_checker_slot_id demo_no_effect = Some (demo_id 301)"
  "ef_setup_slot_id demo_no_effect = None" "ef_state demo_no_effect = Known_no_effect" "ef_attempt_number demo_no_effect = 1"
  "stored_retry_terminal_digest demo_codec demo_no_effect = Inr (Some demo_digest)"
  by (simp_all add: demo_no_effect_def no_effect_row_def demo_proof_def stored_retry_terminal_digest_def demo_hash)

lemma demo_child_insert: "insert_effect demo_db6 demo_child = Inr demo_db7"
  by (simp add: insert_effect_def checked_def effect_check_def demo_child_def new_effect_def demo_db7_def demo_db6_def
    opt_ok_def effect_references_def int4_def between_def demo_digest_ok)
   (simp add: demo_id_def value_checks effect_clash_def same_some_def demo_no_effect_def no_effect_row_def
      demo_dispatched_def dispatched_row_def demo_prepared_def new_effect_def)

lemma demo_step7:
  "prepare_recovery_child (demo_env 700) demo_db6 demo_key (demo_id 302) demo_digest demo_digest
     = Inr (attempt_view demo_slot demo_child False, demo_db7)"
proof -
  have look: "envelope demo_db6 demo_key = Some demo_envelope" "slot demo_db6 demo_key = Some demo_slot"
      "latest_attempt demo_db6 (demo_id 301) = Some demo_no_effect" "profiles demo_db6 = [demo_profile_row]"
    by (simp_all add: envelope_def slot_def latest_attempt_def demo_db6_def)
  show ?thesis
    using demo_child_insert
    by (simp add: prepare_recovery_child_def demo_key_valid sha_checked_def demo_digest_arg
      demo_profile_for_slot look eligible_parent_def demo_child_def[symmetric])
qed

definition demo_uncertain :: EffectRow where
  "demo_uncertain = uncertain_row demo_dispatched demo_digest (Some ''resp-1'') (demo_id 559)"

lemma demo_uncertain_step:
  "\<exists>res. mark_uncertain (demo_env 550) demo_db4 demo_effect demo_digest (Some ''resp-1'')
     = Inr (res, demo_db4\<lparr>effects := [demo_uncertain]\<rparr>)"
proof -
  have row: "uncertain_row demo_dispatched demo_digest (Some ''resp-1'') (demo_id 559) = demo_uncertain"
    by (simp add: demo_uncertain_def)
  have upd: "update_effect demo_db4 demo_uncertain = Inr (demo_db4\<lparr>effects := [demo_uncertain]\<rparr>)"
    by (simp add: update_effect_def checked_def effect_check_def effect_references_def row_put_def opt_ok_def
        int4_def between_def demo_uncertain_def uncertain_row_def demo_digest_ok)
      (simp add: demo_id_def value_checks demo_dispatched_def dispatched_row_def demo_prepared_def new_effect_def
        demo_slot_def slot_row_def demo_configuration_def)
  have res: "\<exists>r. dispatch_result demo_uncertain demo_slot False = Inr r"
    by (simp add: dispatch_result_def demo_uncertain_def uncertain_row_def demo_evidence_valid no_evidence_def)
      (simp add: demo_dispatched_def dispatched_row_def)
  show ?thesis
    using res
    by (auto simp: mark_uncertain_def demo_key_valid sha_checked_def demo_digest_arg demo_response_id opt_ok_def
        demo_terminal_preflight row upd)
qed

subsection \<open>The histories are runs of the transition system\<close>

lemma demo_steps:
  "model_step demo_codec empty_db demo_db1" "model_step demo_codec demo_db1 demo_db2"
  "model_step demo_codec demo_db2 demo_db3" "model_step demo_codec demo_db3 demo_db4"
  "model_step demo_codec demo_db4 demo_db5" "model_step demo_codec demo_db4 demo_db6"
  "model_step demo_codec demo_db6 demo_db7"
  by (rule step_provision_profile[OF demo_step1] step_provision_budget[OF demo_step2]
      step_prepare_attempt[OF demo_step3] step_reserve_dispatch[OF demo_step4]
      step_complete[OF demo_step5] step_mark_known_no_effect[OF demo_step6]
      step_prepare_recovery_child[OF demo_step7], simp)+

lemma demo_reach:
  "(model_step demo_codec)\<^sup>*\<^sup>* empty_db demo_db3" "(model_step demo_codec)\<^sup>*\<^sup>* empty_db demo_db4"
  "(model_step demo_codec)\<^sup>*\<^sup>* empty_db demo_db5" "(model_step demo_codec)\<^sup>*\<^sup>* empty_db demo_db6"
  "(model_step demo_codec)\<^sup>*\<^sup>* empty_db demo_db7"
  using demo_steps by (meson rtranclp.rtrancl_into_rtrancl rtranclp.rtrancl_refl)+

end
