(* ===== verification/Model_Usage_Replay.thy ===== *)
theory Model_Usage_Replay
  imports Model_Usage_Scenario
begin

text \<open>
  Repeating an operation. Every operation of the ledger is called again after a lost answer;
  with the same arguments and port decisions the second call finds what the first one stored,
  returns the same values marked as replayed and leaves the database alone. The lemmas say what
  the look-ups find after each kind of statement.
\<close>

subsection \<open>Look-ups after a statement\<close>

lemma find_append_None: "find P xs = None \<Longrightarrow> find P (xs @ ys) = find P ys"
  by (induction xs) (auto split: if_splits)

lemma flush_terminal_eq:
  "flush_terminal db a r = Inr db' \<Longrightarrow>
   db' = db\<lparr>accounts := row_put ac_project_id a (accounts db), effects := row_put ef_id r (effects db)\<rparr>"
  by (auto simp: flush_terminal_def outcome_inv dest!: update_account_eq update_effect_eq)

lemma attempt_after_put:
  assumes "effects db' = row_put ef_id r' (effects db)" "attempt db i = Some r" "ef_id r' = i"
  shows "attempt db' i = Some r'"
  using assms by (auto simp: attempt_def row_get_put)

lemma evidence_roundtrip: "ModelCallEvidence_valid ev \<Longrightarrow> evidence_of (evidence_columns ev) = Inr ev"
  by (cases ev) (simp add: evidence_of_def evidence_columns_def)

lemma usage_roundtrip: "ModelCallUsage_valid u \<Longrightarrow> usage_of (set_usage r u) = Inr (Some u)"
  by (cases u) (simp add: usage_of_def set_usage_def)

lemma usage_of_columns:
  assumes "ef_input_tokens r' = ef_input_tokens r" "ef_cached_input_tokens r' = ef_cached_input_tokens r"
    "ef_output_tokens r' = ef_output_tokens r" "ef_reasoning_tokens r' = ef_reasoning_tokens r"
  shows "usage_of r' = usage_of r"
  by (simp add: usage_of_def assms)

lemma terminal_result_replayed:
  "terminal_result r b = Inr t \<Longrightarrow> terminal_result r True = Inr (t\<lparr>tc_replayed := True\<rparr>)"
  by (auto simp: terminal_result_def outcome_inv)

lemma dispatch_result_replayed:
  "dispatch_result r s b = Inr t \<Longrightarrow> dispatch_result r s True = Inr (t\<lparr>dr_replayed := True\<rparr>)"
  by (auto simp: dispatch_result_def outcome_inv)

subsection \<open>Completion\<close>

lemma settlement_preflight_again:
  assumes pre: "settlement_preflight env db status eff rid snap ev u = Inr (auth, s, row, cost)"
    and db': "db' = db\<lparr>accounts := as, effects := row_put ef_id row' (effects db)\<rparr>"
    and row': "ef_id row' = ef_id row" "ef_checker_slot_id row' = ef_checker_slot_id row"
      "ef_internal_call_request_id row' = ef_internal_call_request_id row"
  shows "settlement_preflight env db' status eff rid snap ev u = Inr (auth, s, row', cost)"
proof -
  obtain row0 profile where
    tp: "terminal_preflight env db (ea_attempt_id eff) = Inr (row0, s, profile)"
    and lt: "lock_terminal db s (ea_attempt_id eff) = Inr row" and eff: "eff = effect_view s row"
    using pre by (elim settlement_preflight_Inr)
  have at: "attempt db (ea_attempt_id eff) = Some row" "row0 = row" "ef_checker_slot_id row = Some (sl_id s)"
    using tp lt by (auto simp: terminal_preflight_def lock_terminal_def outcome_inv)
  then have id: "ef_id row = ea_attempt_id eff" by (auto dest: attempt_SomeD)
  have at': "attempt db' (ea_attempt_id eff) = Some row'"
    by (rule attempt_after_put[OF _ at(1)]) (simp_all add: db' row' id)
  have look: "get_slot db' = get_slot db" "profile_exact db' = profile_exact db"
      "envelope db' = envelope db" "slot db' = slot db"
    by (simp_all add: fun_eq_iff get_slot_def profile_exact_def envelope_def slot_def db')
  have "terminal_preflight env db' (ea_attempt_id eff) = Inr (row', s, profile)"
    using tp at at' by (auto simp: terminal_preflight_def outcome_inv look row')
  moreover have "lock_terminal db' s (ea_attempt_id eff) = Inr row'"
    using lt at at' by (auto simp: lock_terminal_def outcome_inv look row')
  moreover have "require_effect eff s row' = Inr ()"
    by (simp add: require_effect_def eff effect_view_def row')
  ultimately show ?thesis
    using pre tp by (auto simp: settlement_preflight_def outcome_inv)
qed

text \<open>
  C9. Completing a call twice settles it once: when \<open>complete\<close> has succeeded, the same call on the
  resulting database succeeds again with the same terminal facts, marked as replayed, and changes
  nothing.
\<close>

theorem complete_is_idempotent:
  assumes "complete env db eff rid snap ev u = Inr (res, db')"
  shows "complete env db' eff rid snap ev u = Inr (res\<lparr>tc_replayed := True\<rparr>, db')"
  using assms
proof (cases rule: complete_cases)
  case (replay auth s row cost)
  then show ?thesis
    using terminal_result_replayed[OF replay(4)] by (simp add: complete_def)
next
  case (fresh auth s row cost acc')
  let ?row' = "completed_row row rid ev u cost (ae_evidence_id auth) (clock env 0)"
  have cols: "ef_id ?row' = ef_id row" "ef_checker_slot_id ?row' = ef_checker_slot_id row"
      "ef_internal_call_request_id ?row' = ef_internal_call_request_id row" "ef_state ?row' = Completed"
      "ef_provider_response_id ?row' = Some rid" "ef_response ?row' = evidence_columns ev"
      "ef_settled_nanodollars ?row' = Some cost"
    by (simp_all add: completed_row_def set_usage_def)
  have valid: "ModelCallEvidence_valid ev" "ModelCallUsage_valid u"
    using fresh(1) by (auto simp: settlement_preflight_def outcome_inv)
  have "usage_of ?row' = usage_of (set_usage row u)"
    by (rule usage_of_columns) (simp_all add: completed_row_def)
  then have same: "same_terminal ?row' rid ev u cost = Inr True"
    by (simp add: same_terminal_def cols evidence_roundtrip usage_roundtrip valid)
  have pre: "settlement_preflight env db' ''completed'' eff rid snap ev u = Inr (auth, s, ?row', cost)"
    by (rule settlement_preflight_again[OF fresh(1) flush_terminal_eq[OF fresh(4)] cols(1-3)])
  show ?thesis
    using terminal_result_replayed[OF fresh(5)] by (simp add: complete_def pre cols(4) same)
qed

theorem complete_is_idempotent_witness:
  "complete (demo_env 500) demo_db5 demo_effect ''resp-1'' ''gpt-5'' (demo_evidence 30) demo_usage
     = Inr (demo_terminal True, demo_db5)"
  using complete_is_idempotent[OF demo_step5] by (simp add: demo_terminal_def)

subsection \<open>Dispatch\<close>

lemma reserve_dispatch_guards:
  assumes "reserve_dispatch env db x a ev = Inr (res, db')"
  obtains profile e s row and auth :: ModelActionEvidence where
    "require_model_call_transaction (en_session env) = Inr ()" "ModelCallExecutionFacts_valid x"
    "PreparedModelCallAttempt_valid a" "ModelCallEvidence_valid ev"
    "require_execution_slot x (at_slot_key a) = Inr ()"
    "authorize_dispatch env x (a\<lparr>at_replayed := False\<rparr>) ev = Inr auth"
    "require_authority (en_codec env) ''dispatch''
        (jobj [(''execution'', ModelCallExecutionFacts_dump (en_codec env) x),
               (''attempt'', AttachedModelCallAttempt_dump (a\<lparr>at_replayed := False\<rparr>)),
               (''request_evidence'', ModelCallEvidence_dump ev)]) auth = Inr ()"
    "require_current env x (at_slot_key a) = Inr ()" "require_request env a ev = Inr ()"
    "profile_for_stored_slot env db (at_slot_key a) = Inr profile"
    "\<not> (ev_content_sha256 ev \<noteq> at_request_sha256 a \<or> ev_byte_count ev > maximum_request_bytes (pf_spec profile))"
    "envelope db (at_slot_key a) = Some e" "slot db (at_slot_key a) = Some s" "sl_id s = at_slot_id a"
    "attempt db (at_attempt_id a) = Some row" "ef_checker_slot_id row = Some (sl_id s)"
  using assms unfolding reserve_dispatch_def
  by (auto simp: outcome_inv simp del: not_less split del: if_split)

lemma reserve_dispatch_known:
  assumes "reserve_dispatch env db x a ev = Inr (res, db')"
    and tabs: "profiles db2 = profiles db" "envelopes db2 = envelopes db" "slots db2 = slots db"
    and row: "attempt db2 (at_attempt_id a) = Some row" "ef_state row \<noteq> Prepared"
      "evidence_of (ef_request row) = Inr ev"
    and slot: "slot db (at_slot_key a) = Some s" "ef_checker_slot_id row = Some (sl_id s)"
    and res: "dispatch_result row s True = Inr t"
  shows "reserve_dispatch env db2 x a ev = Inr (t, db2)"
proof -
  have look: "profile_exact db2 = profile_exact db" "envelope db2 = envelope db" "slot db2 = slot db"
    by (simp_all add: fun_eq_iff profile_exact_def envelope_def slot_def tabs)
  have prof: "profile_for_stored_slot env db2 = profile_for_stored_slot env db"
    by (simp add: fun_eq_iff profile_for_stored_slot_def look)
  show ?thesis
    using assms(1)
    by (rule reserve_dispatch_guards) (use row slot res in \<open>simp add: reserve_dispatch_def look prof\<close>)
qed

lemma dispatch_replays:
  assumes op: "reserve_dispatch env db x a ev = Inr (res, db')"
  shows "reserve_dispatch env db' x a ev = Inr (res\<lparr>dr_replayed := True\<rparr>, db')"
  using op
proof (cases rule: reserve_dispatch_cases)
  case (replay s row)
  have "ef_checker_slot_id row = Some (sl_id s)"
    using op replay(1,2) by (elim reserve_dispatch_guards) simp
  then show ?thesis
    using reserve_dispatch_known[OF op, where ?db2.0 = db] replay dispatch_result_replayed[OF replay(5)] by simp
next
  case (fresh s row e p acc c R run db1 auth)
  let ?row' = "dispatched_row row ev c R (Some x) (ae_evidence_id auth) (clock env 0)"
  have cols: "ef_id ?row' = ef_id row" "ef_checker_slot_id ?row' = Some (sl_id s)"
      "ef_state ?row' = Dispatching" "ef_request ?row' = evidence_columns ev"
    using fresh(4) by (simp_all add: dispatched_row_def)
  have db': "db' = db\<lparr>accounts := accounts db1, effects := row_put ef_id ?row' (effects db)\<rparr>"
    using update_account_eq[OF fresh(15)] update_effect_eq[OF fresh(16)] by simp
  have "attempt db' (at_attempt_id a) = Some ?row'"
    by (rule attempt_after_put[OF _ fresh(3)]) (use attempt_SomeD[OF fresh(3)] in \<open>simp_all add: db' cols\<close>)
  then show ?thesis
    using reserve_dispatch_known[OF op _ _ _ _ _ _ fresh(1) cols(2) dispatch_result_replayed[OF fresh(17)]]
    by (simp add: db' cols evidence_roundtrip fresh(6))
qed

subsection \<open>Preparation\<close>

lemma find_snoc: "find P xs = None \<Longrightarrow> P x \<Longrightarrow> find P (xs @ [x]) = Some x"
  by (simp add: find_append_None)

lemma slot_row_predicates: "slot_predicates k (slot_row i e t k sha)"
  by (simp add: slot_predicates_def slot_row_def)

lemma require_checker_envelope_again:
  assumes "require_checker_envelope db i x k = Inr (e, db')"
  shows "envelope db' k = Some e \<and> ce_task_id e = ex_task_id x \<and>
     profiles db' = profiles db \<and> slots db' = slots db \<and> effects db' = effects db"
proof (cases "envelope db k")
  case None
  then show ?thesis
    using assms
    by (auto simp: require_checker_envelope_def outcome_inv insert_envelope_def envelope_def find_append_None
        envelope_row_predicates) (simp add: envelope_row_def)
next
  case (Some r)
  then show ?thesis using assms by (auto simp: require_checker_envelope_def outcome_inv)
qed

lemma require_checker_slot_again:
  assumes "require_checker_slot db i e x k sha = Inr (s, db')"
  shows "slot db' k = Some s \<and> sl_task_id s = ex_task_id x \<and> sl_first_request_sha256 s = sha \<and>
     profiles db' = profiles db \<and> envelopes db' = envelopes db \<and> effects db' = effects db"
proof (cases "slot db k")
  case None
  then show ?thesis
    using assms
    by (auto simp: require_checker_slot_def outcome_inv insert_slot_def slot_def find_append_None
        slot_row_predicates) (simp_all add: slot_row_def)
next
  case (Some r)
  then show ?thesis using assms by (auto simp: require_checker_slot_def outcome_inv)
qed

lemma prepare_attempt_stored:
  assumes "prepare_attempt env db x k sha_text = Inr (res, db')"
  obtains e s row b where "envelope db' k = Some e" "ce_task_id e = ex_task_id x"
    "slot db' k = Some s" "sl_task_id s = ex_task_id x" "sha_arg sha_text = Some (sl_first_request_sha256 s)"
    "latest_attempt db' (sl_id s) = Some row" "res = attempt_view s row b" "profiles db' = profiles db"
proof -
  from assms obtain sha e db1 s db2 and auth :: ModelActionEvidence where
    sha: "sha_arg sha_text = Some sha"
    and env: "require_checker_envelope db (new_id env 0) x k = Inr (e, db1)"
    and slot: "require_checker_slot db1 (new_id env 1) e x k sha = Inr (s, db2)"
    and last: "(\<exists>row. latest_attempt db2 (sl_id s) = Some row \<and> res = attempt_view s row True \<and> db' = db2) \<or>
       latest_attempt db2 (sl_id s) = None \<and>
       (let row = new_effect (new_id env 2) (Some (sl_id s)) None 1 (new_id env 3) None sha (Some x)
              (ae_evidence_id auth) (clock env 0)
        in insert_effect db2 row = Inr db' \<and> res = attempt_view s row False)"
    unfolding prepare_attempt_def
    by (auto simp: outcome_inv case_option_eq_Inr sha_checked_def Let_def simp del: One_nat_def)
  note e = require_checker_envelope_again[OF env] and s = require_checker_slot_again[OF slot]
  have env2: "envelope db2 k = Some e" using e s by (simp add: envelope_def)
  from last show ?thesis
  proof
    assume "\<exists>row. latest_attempt db2 (sl_id s) = Some row \<and> res = attempt_view s row True \<and> db' = db2"
    then show ?thesis using that env2 e s sha by auto
  next
    assume "latest_attempt db2 (sl_id s) = None \<and>
       (let row = new_effect (new_id env 2) (Some (sl_id s)) None 1 (new_id env 3) None sha (Some x)
              (ae_evidence_id auth) (clock env 0)
        in insert_effect db2 row = Inr db' \<and> res = attempt_view s row False)"
    then show ?thesis
      using that[of e s _ False] env2 e s sha
      by (auto simp: Let_def insert_effect_def outcome_inv latest_attempt_def envelope_def slot_def new_effect_def)
  qed
qed

lemma prepare_replays:
  assumes op: "prepare_attempt env db x k sha_text = Inr (res, db')"
  shows "prepare_attempt env db' x k sha_text = Inr (res\<lparr>at_replayed := True\<rparr>, db')"
proof -
  obtain e s row b where st: "envelope db' k = Some e" "ce_task_id e = ex_task_id x"
    "slot db' k = Some s" "sl_task_id s = ex_task_id x" "sha_arg sha_text = Some (sl_first_request_sha256 s)"
    "latest_attempt db' (sl_id s) = Some row" "res = attempt_view s row b" "profiles db' = profiles db"
    by (rule prepare_attempt_stored[OF op])
  have prof: "profile_for_slot env db' = profile_for_slot env db"
    by (simp add: fun_eq_iff profile_for_slot_def read_exact_def profile_exact_def st(8))
  have view: "res\<lparr>at_replayed := True\<rparr> = attempt_view s row True" by (simp add: st(7) attempt_view_def)
  show ?thesis
    using op unfolding view
    by (auto simp: prepare_attempt_def outcome_inv sha_checked_def prof st(1-6) require_checker_envelope_def[of db']
        require_checker_slot_def[of db'])
qed

subsection \<open>Publication\<close>

lemma stored_facts_profile_row: "stored_profile_facts (row_profile (profile_row f i auth at)) = f"
  by (cases f) (simp add: stored_profile_facts_def row_profile_def, simp add: profile_row_def Let_def)

lemma profile_publication_replays:
  assumes "provision_profile env db facts = Inr (p, db')"
  shows "provision_profile env db' facts = Inr (p, db')"
proof (cases "profile_by_operation db (pf_operation_id facts)")
  case (Some row)
  then show ?thesis using assms by (auto simp: provision_profile_def outcome_inv)
next
  case None
  let ?row = "\<lambda>auth::ModelActionEvidence. profile_row facts (new_id env 0) (ae_evidence_id auth) (clock env 0)"
  from None assms obtain auth where
    ins: "insert_profile db (?row auth) = Inr db'" and val: "ProjectModelProfile_valid (en_codec env) (row_profile (?row auth))"
    and p: "p = row_profile (?row auth)"
    and g: "require_model_call_transaction (en_session env) = Inr ()"
      "ModelProfileProvisioningFacts_valid (en_codec env) facts"
      "authorize_profile env facts = Inr auth"
      "require_authority (en_codec env) ''profile'' (ModelProfileProvisioningFacts_dump facts) auth = Inr ()"
      "\<exists>run. maximum_reservation_nanodollars (pf_spec facts) = Inr run"
    by (auto simp: provision_profile_def outcome_inv)
  have "pr_operation_id (?row auth) = pf_operation_id facts" by (simp add: profile_row_def Let_def)
  then have "profile_by_operation db' (pf_operation_id facts) = Some (?row auth)"
    using None ins by (auto simp: profile_by_operation_def insert_profile_def outcome_inv find_append_None)
  then show ?thesis
    using g val by (auto simp: provision_profile_def outcome_inv p stored_model_profile_def stored_facts_profile_row)
qed

lemma stored_facts_budget_value: "stored_budget_facts (budget_value (configuration_row f i auth at) a) = f"
  by (cases f) (simp add: stored_budget_facts_def budget_value_def configuration_row_def)

lemma advance_budget_stored:
  assumes op: "advance_budget env db facts auth = Inr (b, db')"
    and none: "budget_configuration_by_operation db (bf_operation_id facts) = None"
  shows "\<exists>row a. budget_configuration_by_operation db' (bf_operation_id facts) = Some row \<and>
     budget_account db' (bs_project_id (bf_spec facts)) = Some a \<and>
     budget_result (en_codec env) row a = Inr b \<and> stored_budget_facts b = facts"
proof -
  let ?row = "configuration_row facts (new_id env 0) (ae_evidence_id auth) (clock env 0)"
  let ?q = "bs_project_id (bf_spec facts)"
  have proj: "ac_project_id old = ?q" if "budget_account db ?q = Some old" for old
    using that by (auto simp: budget_account_def dest: row_get_SomeD)
  obtain db1 a where ins: "insert_configuration db ?row = Inr db1"
    and res: "budget_result (en_codec env) ?row a = Inr b" and q: "ac_project_id a = ?q"
    and acc: "budget_account db ?q = None \<and> insert_account db1 a = Inr db' \<or>
      budget_account db ?q \<noteq> None \<and> update_account db1 a = Inr db'"
    using op proj
    by (cases "budget_account db ?q") (auto simp: advance_budget_def outcome_inv)
  have "budget_configuration_by_operation db1 (bf_operation_id facts) = Some ?row"
    using none ins
    by (auto simp: budget_configuration_by_operation_def insert_configuration_def outcome_inv find_append_None
        configuration_row_def)
  moreover have "budget_account db1 ?q = budget_account db ?q"
    using ins by (auto simp: budget_account_def insert_configuration_def outcome_inv)
  moreover have "stored_budget_facts b = facts"
    using res by (auto simp: budget_result_def stored_facts_budget_value outcome_inv)
  ultimately show ?thesis
    using acc res q
    by (auto simp: insert_account_def update_account_def outcome_inv budget_account_def row_get_append row_get_Cons
        row_get_put budget_configuration_by_operation_def)
qed

lemma budget_publication_replays:
  assumes op: "provision_budget env db facts = Inr (b, db')"
  shows "provision_budget env db' facts = Inr (b, db')"
proof (cases "budget_configuration_by_operation db (bf_operation_id facts)")
  case (Some row)
  then show ?thesis using op by (auto simp: provision_budget_def outcome_inv)
next
  case None
  then obtain auth where "advance_budget env db facts auth = Inr (b, db')"
    using op by (auto simp: provision_budget_def outcome_inv)
  from advance_budget_stored[OF this None] show ?thesis
    using op None by (auto simp: provision_budget_def outcome_inv)
qed

subsection \<open>Replays\<close>

text \<open>
  C20. Writing twice writes once. After a successful \<open>prepare_attempt\<close> the same call finds the envelope, the slot and the
  attempt it stored and returns that attempt as replayed, without inserting a row; after a successful
  \<open>reserve_dispatch\<close> the same call answers with the stored reservation, marked as replayed, and reserves nothing more.
  Under one operation id the second \<open>provision_profile\<close> returns the very profile of the first and the second
  \<open>provision_budget\<close> the same configuration with the same lifetime counters, and neither changes the database.
\<close>

theorem ledger_writes_are_idempotent:
  "(prepare_attempt env db x k sha_text = Inr (prepared, db1) \<longrightarrow>
      prepare_attempt env db1 x k sha_text = Inr (prepared\<lparr>at_replayed := True\<rparr>, db1)) \<and>
   (reserve_dispatch env db x a ev = Inr (reserved, db2) \<longrightarrow>
      reserve_dispatch env db2 x a ev = Inr (reserved\<lparr>dr_replayed := True\<rparr>, db2)) \<and>
   (provision_profile env db facts = Inr (p, db3) \<longrightarrow> provision_profile env db3 facts = Inr (p, db3)) \<and>
   (provision_budget env db terms = Inr (b, db4) \<longrightarrow> provision_budget env db4 terms = Inr (b, db4))"
  by (intro conjI impI)
    (erule prepare_replays dispatch_replays profile_publication_replays budget_publication_replays)+

theorem ledger_writes_are_idempotent_witness:
  "prepare_attempt (demo_env 300) demo_db3 demo_execution demo_key demo_digest
     = Inr (attempt_view demo_slot demo_prepared True, demo_db3) \<and>
   reserve_dispatch (demo_env 400) demo_db4 demo_execution (attempt_view demo_slot demo_prepared False)
     (demo_evidence 20) = Inr (demo_reservation True, demo_db4) \<and>
   provision_profile (demo_env 100) demo_db1 demo_facts = Inr (row_profile demo_profile_row, demo_db1) \<and>
   provision_budget (demo_env 200) demo_db2 demo_budget_facts = Inr (budget_value demo_configuration demo_account, demo_db2)"
  using conjunct1[OF ledger_writes_are_idempotent, rule_format, OF demo_step3]
    conjunct1[OF conjunct2[OF ledger_writes_are_idempotent], rule_format, OF demo_step4]
    conjunct1[OF conjunct2[OF conjunct2[OF ledger_writes_are_idempotent]], rule_format, OF demo_step1]
    conjunct2[OF conjunct2[OF conjunct2[OF ledger_writes_are_idempotent]], rule_format, OF demo_step2]
  by (simp add: attempt_view_def demo_reservation_def)

end
