(* ===== verification/Model_Usage_Attempts.thy ===== *)
theory Model_Usage_Attempts
  imports Model_Usage_Replay
begin

text \<open>
  Attempts of one paid slot are serial. Each operation changes the effect table in one of three
  ways, \<open>effect_step\<close>: not at all, one row moved forward, or one prepared row appended. A row is
  appended to a checker slot only when the slot has none or when its latest attempt is known to
  have failed or to have had no effect, so the attempts of a slot form a chain in which every
  attempt but the last is such a terminal.
\<close>

definition retryable :: "EffectRow \<Rightarrow> bool" where
  "retryable e \<longleftrightarrow> ef_state e \<in> {Known_failed, Known_no_effect}"

definition same_slot :: "EffectRow \<Rightarrow> EffectRow \<Rightarrow> bool" where
  "same_slot e f \<longleftrightarrow> same_some (ef_checker_slot_id e) (ef_checker_slot_id f)"

definition serial_ok :: "model_db \<Rightarrow> bool" where
  "serial_ok db \<longleftrightarrow> (\<forall>e \<in> set (effects db). \<forall>f \<in> set (effects db). same_slot e f \<longrightarrow>
     (ef_attempt_number e < ef_attempt_number f \<longrightarrow> retryable e) \<and>
     (ef_attempt_number e = ef_attempt_number f \<longrightarrow> e = f))"

inductive effect_step :: "EffectRow list \<Rightarrow> EffectRow list \<Rightarrow> bool" where
  unchanged: "effect_step es es"
| moved: "r \<in> set es \<Longrightarrow> ef_id r' = ef_id r \<Longrightarrow> evolves r r' \<Longrightarrow> effect_step es (row_put ef_id r' es)"
| added: "ef_state r = Prepared \<Longrightarrow> \<not> list_ex (effect_clash r) es \<Longrightarrow>
    (ef_setup_slot_id r \<noteq> None \<Longrightarrow> ef_attempt_number r = 1) \<Longrightarrow>
    (\<And>e. e \<in> set es \<Longrightarrow> same_slot e r \<Longrightarrow> ef_attempt_number e < ef_attempt_number r \<and> retryable e) \<Longrightarrow>
    effect_step es (es @ [r])"

lemma same_slot_commute: "same_slot e f \<longleftrightarrow> same_slot f e"
  unfolding same_slot_def same_some_def by metis

lemma evolves_frame:
  assumes "evolves r r'"
  shows "ef_id r' = ef_id r" "ef_attempt_number r' = ef_attempt_number r"
    "same_slot r' x \<longleftrightarrow> same_slot r x" "same_slot x r' \<longleftrightarrow> same_slot x r" "retryable r \<Longrightarrow> r' = r"
  using assms by (auto simp: evolves_def same_slot_def retryable_def)

text \<open>A setup slot owns at most one effect.\<close>

definition single_ok :: "model_db \<Rightarrow> bool" where
  "single_ok db \<longleftrightarrow> (\<forall>e \<in> set (effects db). ef_setup_slot_id e \<noteq> None \<longrightarrow> ef_attempt_number e = 1 \<and>
     (\<forall>f \<in> set (effects db). ef_setup_slot_id f = ef_setup_slot_id e \<longrightarrow> f = e))"

lemma evolves_setup: "evolves r r' \<Longrightarrow> ef_setup_slot_id r' = ef_setup_slot_id r"
  by (auto simp: evolves_def)

lemma single_ok_step:
  assumes ok: "single_ok db" and step: "effect_step (effects db) (effects db')"
  shows "single_ok db'"
  using step
proof cases
  case unchanged
  then show ?thesis using ok by (simp add: single_ok_def)
next
  case (moved r r')
  have old: "e = r' \<or> (e \<in> set (effects db) \<and> e \<noteq> r)" if "e \<in> set (effects db')" for e
    using in_set_row_putD[OF that[unfolded moved(1)]] moved(3) by auto
  show ?thesis
    using ok moved(2) evolves_setup[OF moved(4)] evolves_frame(2)[OF moved(4)] old
    unfolding single_ok_def by metis
next
  case (added r)
  have fresh: "ef_setup_slot_id e \<noteq> ef_setup_slot_id r" if "e \<in> set (effects db)" "ef_setup_slot_id r \<noteq> None" for e
  proof
    assume same: "ef_setup_slot_id e = ef_setup_slot_id r"
    then have "ef_attempt_number e = ef_attempt_number r"
      using ok that added(4) by (simp add: single_ok_def)
    then have "effect_clash r e" using same that(2) by (simp add: effect_clash_def same_some_def)
    then show False using added(3) that(1) by (auto simp: list_ex_iff)
  qed
  show ?thesis
    using ok added(1,4) fresh unfolding single_ok_def by (auto dest: sym)
qed

lemma serial_ok_step:
  assumes ok: "serial_ok db" and keys: "distinct (row_keys ef_id (effects db))"
    and step: "effect_step (effects db) (effects db')"
  shows "serial_ok db'"
  using step
proof cases
  case unchanged
  then show ?thesis using ok by (simp add: serial_ok_def)
next
  case (moved r r')
  note f = evolves_frame[OF moved(4)]
  have old: "e = r' \<or> (e \<in> set (effects db) \<and> e \<noteq> r)" if "e \<in> set (effects db')" for e
    using in_set_row_putD[OF that[unfolded moved(1)]] moved(3) by auto
  have chain: "(ef_attempt_number e < ef_attempt_number x \<longrightarrow> retryable e) \<and>
      (ef_attempt_number e = ef_attempt_number x \<longrightarrow> e = x)"
    if "e \<in> set (effects db)" "x \<in> set (effects db)" "same_slot e x" for e x
    using ok that by (auto simp: serial_ok_def)
  show ?thesis
    unfolding serial_ok_def
  proof (intro ballI impI)
    fix e x assume "e \<in> set (effects db')" "x \<in> set (effects db')" "same_slot e x"
    then show "(ef_attempt_number e < ef_attempt_number x \<longrightarrow> retryable e) \<and>
      (ef_attempt_number e = ef_attempt_number x \<longrightarrow> e = x)"
      using old[of e] old[of x] chain[of r x] chain[of e r] chain[of e x] moved(2) f by auto
  qed
next
  case (added r)
  then show ?thesis
    using ok unfolding serial_ok_def by (auto simp: same_slot_commute) (fastforce simp: same_slot_commute)+
qed

subsection \<open>Every operation is such a step\<close>

lemma moved_attempt:
  assumes "attempt db i = Some r" "evolves r r'" "effects db' = row_put ef_id r' (effects db)"
  shows "effect_step (effects db) (effects db')"
  unfolding assms(3)
  by (rule moved[of r]) (use attempt_SomeD[OF assms(1)] evolves_frame(1)[OF assms(2)] assms(2) in auto)

lemma terminal_rows_evolve:
  "pending r \<Longrightarrow> evolves r (completed_row r rid ev u c auth at)"
  "pending r \<Longrightarrow> evolves r (failed_row r rid ev u c auth at at')"
  "pending r \<Longrightarrow> evolves r (no_effect_row r q auth at)"
  "ef_state r = Dispatching \<Longrightarrow> evolves r (uncertain_row r d rid' auth)"
  by (auto simp: evolves_def completed_row_def failed_row_def no_effect_row_def uncertain_row_def set_usage_def
      pending_def)

lemma lock_terminal_attempt: "lock_terminal db s i = Inr row \<Longrightarrow> attempt db i = Some row"
  by (auto simp: lock_terminal_def outcome_inv)

lemma setup_lock_terminal_attempt: "setup_lock_terminal db s i = Inr row \<Longrightarrow> attempt db i = Some row"
  by (auto simp: setup_lock_terminal_def outcome_inv)

lemma pending_rows:
  "require_effect_pending row = Inr () \<Longrightarrow> pending row" "require_pending row = Inr () \<Longrightarrow> pending row"
  by (auto simp: require_effect_pending_def require_pending_def outcome_inv)

lemma flush_terminal_step:
  assumes "attempt db i = Some row" "evolves row row'" "flush_terminal db a row' = Inr db'"
  shows "effect_step (effects db) (effects db')"
  by (rule moved_attempt[OF assms(1,2)]) (simp add: flush_terminal_eq[OF assms(3)])
lemma settlement_attempt:
  "settlement_preflight env db status eff rid snap ev u = Inr (auth, s, row, cost) \<Longrightarrow>
   attempt db (ea_attempt_id eff) = Some row"
  by (elim settlement_preflight_Inr) (rule lock_terminal_attempt)

lemma provision_profile_effects: "provision_profile env db f = Inr (p, db') \<Longrightarrow> effects db' = effects db"
  by (auto simp: provision_profile_def outcome_inv case_option_eq_Inr insert_profile_def)

lemma provision_budget_effects:
  assumes "provision_budget env db f = Inr (b, db')"
  shows "effects db' = effects db"
proof (cases "budget_configuration_by_operation db (bf_operation_id f)")
  case (Some row)
  then show ?thesis using assms by (auto simp: provision_budget_def outcome_inv)
next
  case None
  then show ?thesis
    using assms
    by (cases "budget_account db (bs_project_id (bf_spec f))")
      (auto simp: provision_budget_def advance_budget_def outcome_inv insert_configuration_def insert_account_def
        update_account_def)
qed

lemma prepare_attempt_step:
  assumes "prepare_attempt env db x k sha_text = Inr (res, db')"
  shows "effect_step (effects db) (effects db')"
proof -
  from assms obtain sha e db1 s db2 and auth :: ModelActionEvidence where
    env: "require_checker_envelope db (new_id env 0) x k = Inr (e, db1)"
    and slot: "require_checker_slot db1 (new_id env 1) e x k sha = Inr (s, db2)"
    and last: "db' = db2 \<or> latest_attempt db2 (sl_id s) = None \<and>
       insert_effect db2 (new_effect (new_id env 2) (Some (sl_id s)) None 1 (new_id env 3) None sha (Some x)
          (ae_evidence_id auth) (clock env 0)) = Inr db'"
    unfolding prepare_attempt_def
    by (auto simp: outcome_inv case_option_eq_Inr simp del: One_nat_def) blast
  have same: "effects db2 = effects db"
    using require_checker_envelope_again[OF env] require_checker_slot_again[OF slot] by simp
  from last show ?thesis
  proof
    assume "db' = db2"
    then show ?thesis by (simp add: same unchanged)
  next
    assume new: "latest_attempt db2 (sl_id s) = None \<and>
       insert_effect db2 (new_effect (new_id env 2) (Some (sl_id s)) None 1 (new_id env 3) None sha (Some x)
          (ae_evidence_id auth) (clock env 0)) = Inr db'"
    then have "e \<in> set (effects db) \<Longrightarrow> ef_checker_slot_id e \<noteq> Some (sl_id s)" for e
      by (auto simp: latest_attempt_def same filter_empty_conv)
    then show ?thesis
      using new by (auto simp: insert_effect_def outcome_inv same same_slot_def same_some_def new_effect_def intro!: added)
  qed
qed

lemma prepare_recovery_child_step:
  assumes ok: "serial_ok db" and op: "prepare_recovery_child env db k i terminal sha_text = Inr (res, db')"
  shows "effect_step (effects db) (effects db')"
  using op
proof (cases rule: prepare_recovery_child_cases)
  case replay
  then show ?thesis by (simp add: unchanged)
next
  case (child s parent terminal_digest sha c auth)
  have db': "effects db' = effects db @ [c]" and clash: "\<not> list_ex (effect_clash c) (effects db)"
    using child(10) by (auto simp: insert_effect_def outcome_inv)
  have c: "ef_checker_slot_id c = Some (sl_id s)" "ef_state c = Prepared" "ef_setup_slot_id c = None"
      "ef_attempt_number c = ef_attempt_number parent + 1"
    by (simp_all add: child(9) new_effect_def)
  have parent: "parent \<in> set (effects db)" "retryable parent"
    and top: "\<And>e. e \<in> set (effects db) \<Longrightarrow> ef_checker_slot_id e = Some (sl_id s) \<Longrightarrow>
      ef_attempt_number e \<le> ef_attempt_number parent"
    using max_by_SomeD[OF child(2)[unfolded latest_attempt_def]] child(8)
    by (auto simp: stored_retry_terminal_digest_def retryable_def split: if_splits)
  show ?thesis
    unfolding db'
  proof (rule added[OF c(2) clash])
    show "ef_setup_slot_id c \<noteq> None \<Longrightarrow> ef_attempt_number c = 1" using c(3) by simp
  next
    fix e assume e: "e \<in> set (effects db)" "same_slot e c"
    then have slot: "ef_checker_slot_id e = Some (sl_id s)" by (simp add: same_slot_def same_some_def c)
    then have "same_slot e parent" by (simp add: same_slot_def same_some_def child(4))
    then have "retryable e"
      using ok e(1) parent top[OF e(1) slot] by (force simp: serial_ok_def)
    then show "ef_attempt_number e < ef_attempt_number c \<and> retryable e" using top[OF e(1) slot] c(4) by simp
  qed
qed

lemma reserve_dispatch_step:
  assumes "reserve_dispatch env db x a ev = Inr (res, db')"
  shows "effect_step (effects db) (effects db')"
  using assms
proof (cases rule: reserve_dispatch_cases)
  case (fresh s row e p acc c R run db1 auth)
  show ?thesis
    by (rule moved_attempt[OF fresh(3) dispatched_row_evolves[OF fresh(5)]])
      (use update_account_eq[OF fresh(15)] update_effect_eq[OF fresh(16)] in simp)
qed (simp add: unchanged)

lemma attach_effects:
  "attach_recovery env db x eff = Inr (ra, db') \<Longrightarrow> effects db' = effects db"
  "attach_completed env db x eff = Inr (tc, db') \<Longrightarrow> effects db' = effects db"
  by (auto simp: attach_recovery_def attach_completed_def attach_once_def outcome_inv case_option_eq_Inr
      insert_recovery_def)

lemma mark_uncertain_step:
  assumes "mark_uncertain env db eff d rid = Inr (res, db')"
  shows "effect_step (effects db) (effects db')"
  using assms
proof (cases rule: mark_uncertain_cases)
  case (fresh row0 s profile row digest auth)
  show ?thesis
    by (rule moved_attempt[OF lock_terminal_attempt[OF fresh(2)] terminal_rows_evolve(4)[OF fresh(3)]])
      (simp add: update_effect_eq[OF fresh(5)])
qed (simp add: unchanged)

lemma complete_step:
  assumes "complete env db eff rid snap ev u = Inr (res, db')"
  shows "effect_step (effects db) (effects db')"
  using assms
proof (cases rule: complete_cases)
  case (fresh auth s row cost acc')
  show ?thesis
    by (rule flush_terminal_step[OF settlement_attempt[OF fresh(1)] _ fresh(4)])
      (rule terminal_rows_evolve(1)[OF pending_rows(1)[OF fresh(2)]])
qed (simp add: unchanged)

lemma complete_known_failure_step:
  assumes "complete_known_failure env db eff rid snap ev u = Inr (res, db')"
  shows "effect_step (effects db) (effects db')"
  using assms
proof (cases rule: complete_known_failure_cases)
  case (fresh auth s row cost acc')
  show ?thesis
    by (rule flush_terminal_step[OF settlement_attempt[OF fresh(1)] _ fresh(4)])
      (rule terminal_rows_evolve(2)[OF pending_rows(1)[OF fresh(2)]])
qed (simp add: unchanged)

lemma mark_known_no_effect_step:
  assumes "mark_known_no_effect env db eff q = Inr (res, db')"
  shows "effect_step (effects db) (effects db')"
  using assms
proof (cases rule: mark_known_no_effect_cases)
  case (fresh row0 s profile row acc' auth)
  show ?thesis
    by (rule flush_terminal_step[OF lock_terminal_attempt[OF fresh(2)] _ fresh(6)])
      (rule terminal_rows_evolve(3)[OF pending_rows(1)[OF fresh(3)]])
qed (simp add: unchanged)

lemma require_setup_effects:
  "require_setup_envelope db i k = Inr (e, db') \<Longrightarrow> effects db' = effects db"
  "require_setup_slot db i e k sha = Inr (s, db') \<Longrightarrow> effects db' = effects db"
  by (auto simp: require_setup_envelope_def require_setup_slot_def case_option_eq_Inr outcome_inv
      insert_setup_envelope_def insert_setup_slot_def)

lemma setup_prepare_step:
  assumes "setup_prepare env db k sha = Inr (res, db')"
  shows "effect_step (effects db) (effects db')"
proof -
  from assms obtain e db1 s db2 and auth :: ModelActionEvidence where
    env: "require_setup_envelope db (new_id env 0) k = Inr (e, db1)"
    and slot: "require_setup_slot db1 (new_id env 1) e k sha = Inr (s, db2)"
    and last: "db' = db2 \<or> insert_effect db2 (new_effect (new_id env 2) None (Some (st_id s)) 1
         (new_id env 3) None sha None (ae_evidence_id auth) (clock env 0)) = Inr db'"
    unfolding setup_prepare_def
    by (auto simp: outcome_inv case_option_eq_Inr simp del: One_nat_def) blast
  have same: "effects db2 = effects db"
    using require_setup_effects(1)[OF env] require_setup_effects(2)[OF slot] by simp
  from last show ?thesis
    by (auto simp: same unchanged insert_effect_def outcome_inv same_slot_def same_some_def new_effect_def
        intro!: added)
qed

lemma setup_reserve_dispatch_step:
  assumes "setup_reserve_dispatch env db q ev = Inr (res, db')"
  shows "effect_step (effects db) (effects db')"
  using assms
proof (cases rule: setup_reserve_dispatch_cases)
  case (fresh e s row p acc c R run db1 auth)
  show ?thesis
    by (rule moved_attempt[OF fresh(3) dispatched_row_evolves[OF fresh(5)]])
      (use update_account_eq[OF fresh(15)] update_effect_eq[OF fresh(16)] in simp)
qed (simp add: unchanged)

lemma setup_mark_uncertain_step:
  assumes "setup_mark_uncertain env db eff d rid = Inr (res, db')"
  shows "effect_step (effects db) (effects db')"
  using assms
proof (cases rule: setup_mark_uncertain_cases)
  case (fresh row0 s profile row digest auth)
  show ?thesis
    by (rule moved_attempt[OF setup_lock_terminal_attempt[OF fresh(2)] terminal_rows_evolve(4)[OF fresh(3)]])
      (simp add: update_effect_eq[OF fresh(5)])
qed (simp add: unchanged)

lemma setup_complete_step:
  assumes "setup_complete env db eff rid snap ev u usable = Inr (res, db')"
  shows "effect_step (effects db) (effects db')"
  using assms
proof (cases rule: setup_complete_cases)
  case (fresh row0 s profile row cost acc' auth)
  note pend = pending_rows(2)[OF fresh(3)]
  show ?thesis
    by (rule flush_terminal_step[OF setup_lock_terminal_attempt[OF fresh(2)] _ fresh(8)])
      (simp add: setup_terminal_row_def terminal_rows_evolve(1,2)[OF pend])
qed (simp add: unchanged)

lemma setup_mark_known_no_effect_step:
  assumes "setup_mark_known_no_effect env db eff q = Inr (res, db')"
  shows "effect_step (effects db) (effects db')"
  using assms
proof (cases rule: setup_mark_known_no_effect_cases)
  case (fresh row0 s profile row acc' auth)
  show ?thesis
    by (rule flush_terminal_step[OF setup_lock_terminal_attempt[OF fresh(2)] _ fresh(6)])
      (rule terminal_rows_evolve(3)[OF pending_rows(2)[OF fresh(3)]])
qed (simp add: unchanged)

lemma model_step_effects: "model_step cd db db' \<Longrightarrow> serial_ok db \<Longrightarrow> effect_step (effects db) (effects db')"
  by (induction rule: model_step.induct)
    (auto simp: unchanged dest: provision_profile_effects provision_budget_effects attach_effects
      intro: prepare_attempt_step prepare_recovery_child_step reserve_dispatch_step mark_uncertain_step
        complete_step complete_known_failure_step mark_known_no_effect_step setup_prepare_step
        setup_reserve_dispatch_step setup_mark_uncertain_step setup_complete_step
        setup_mark_known_no_effect_step)

interpretation attempts: inductive_invariant empty_db "model_step cd" "\<lambda>db. ledger_ok cd db \<and> serial_ok db \<and> single_ok db" for cd
proof
  show "ledger_ok cd empty_db \<and> serial_ok empty_db \<and> single_ok empty_db"
    by (simp add: ledger_ok_empty serial_ok_def single_ok_def) (simp add: empty_db_def)
next
  fix s t assume a: "ledger_ok cd s \<and> serial_ok s \<and> single_ok s" "model_step cd s t"
  then have "distinct (row_keys ef_id (effects s))" using ledger_okD(1) by (auto simp: keys_ok_def)
  then show "ledger_ok cd t \<and> serial_ok t \<and> single_ok t"
    using a ledger.ok_step[of cd s t] serial_ok_step single_ok_step model_step_effects[of cd s t] by blast
qed

subsection \<open>One live attempt per slot\<close>

text \<open>
  C8. A paid slot never has two live attempts: in every reachable database, of two different
  attempts of one checker slot the one with the lower number is already known to have failed or
  to have had no effect. So no second provider call is prepared or dispatched while an earlier one
  may still be paid for, and a completed call is never tried again.
\<close>

theorem attempts_are_serial:
  assumes "(model_step cd)\<^sup>*\<^sup>* empty_db db" "e \<in> set (effects db)" "f \<in> set (effects db)" "e \<noteq> f"
    and "ef_checker_slot_id e = Some s" "ef_checker_slot_id f = Some s"
  shows "ef_attempt_number e < ef_attempt_number f \<and> ef_state e \<in> {Known_failed, Known_no_effect} \<or>
    ef_attempt_number f < ef_attempt_number e \<and> ef_state f \<in> {Known_failed, Known_no_effect}"
proof -
  have "serial_ok db" using attempts.reachable_ok[OF assms(1)] by simp
  moreover have "same_slot e f" "same_slot f e" using assms(5,6) by (simp_all add: same_slot_def same_some_def)
  ultimately show ?thesis
    using assms(2-4) unfolding serial_ok_def retryable_def by (meson linorder_neqE)
qed

theorem attempts_are_serial_witness:
  "ef_attempt_number demo_no_effect < ef_attempt_number demo_child \<and>
     ef_state demo_no_effect \<in> {Known_failed, Known_no_effect} \<or>
   ef_attempt_number demo_child < ef_attempt_number demo_no_effect \<and>
     ef_state demo_child \<in> {Known_failed, Known_no_effect}"
proof (rule attempts_are_serial[OF demo_reach(5)])
  have "ef_attempt_number demo_no_effect \<noteq> ef_attempt_number demo_child"
    by (simp add: demo_child_def new_effect_def)
  then show "demo_no_effect \<noteq> demo_child" by metis
qed (simp_all add: demo_db7_def demo_child_def new_effect_def)



end
