(* ===== verification/Model_Usage_Setup_Scenario.thy ===== *)
theory Model_Usage_Setup_Scenario
  imports Model_Usage_Scenario
begin

text \<open>
  The setup half of the concrete history: on the published profile and budget a setup call is
  prepared, dispatched and completed.
\<close>

definition demo_setup_env :: "int \<Rightarrow> setup_env" where
  "demo_setup_env n =
   \<lparr> en_codec = demo_codec,
     en_session = \<lparr> has_transaction = True, transaction_is_active = True, in_nested_transaction = False \<rparr>,
     new_id = (\<lambda>k. demo_id (n + int k)), clock = (\<lambda>k. n + int k),
     authorize_setup_prepare = (\<lambda>_ _. Inr (demo_authority (n + 9))),
     authorize_setup_dispatch = (\<lambda>_ _. Inr (demo_authority (n + 9))),
     authorize_setup_observe = (\<lambda>_ _ _. Inr (demo_authority (n + 9))),
     authorize_setup_complete = (\<lambda>_ _ _. Inr (demo_authority (n + 9))),
     require_setup_request = (\<lambda>_ _. Inr ()), require_setup_response = (\<lambda>_ _. Inr ()),
     require_setup_current = (\<lambda>_. Inr \<lparr> op_selector = selector (row_profile demo_profile_row),
       op_provider = ''openai'', op_api = ''responses'', op_model_snapshot = ''gpt-5'' \<rparr>) \<rparr>"

definition demo_setup_key :: SetupModelUsageSlotKey where
  "demo_setup_key = \<lparr> sk_compilation_attempt_id = demo_id 51, sk_project_id = demo_id 1, sk_guide_id = demo_id 52,
     sk_source_snapshot_id = demo_id 53, sk_setup_run_id = demo_id 54, sk_setup_generation = 1,
     sk_runtime_configuration_hash = demo_digest, sk_profile_id = demo_id 100, sk_profile_version = 1,
     sk_profile_digest = demo_digest, sk_phase = ''draft'', sk_call_index = 0 \<rparr>"

definition demo_setup_envelope :: SetupEnvelopeRow where
  "demo_setup_envelope = setup_envelope_row (demo_id 800) demo_setup_key"

definition demo_setup_slot :: SetupSlotRow where
  "demo_setup_slot = setup_slot_row (demo_id 801) (demo_id 800) demo_setup_key demo_digest"

definition demo_setup_prepared :: EffectRow where
  "demo_setup_prepared = new_effect (demo_id 802) None (Some (demo_id 801)) 1 (demo_id 803) None demo_digest None
     (demo_id 809) 800"

definition demo_db8 :: model_db where
  "demo_db8 = demo_db2\<lparr>setup_envelopes := [demo_setup_envelope], setup_slots := [demo_setup_slot],
                       effects := [demo_setup_prepared]\<rparr>"

definition demo_setup_dispatched :: EffectRow where
  "demo_setup_dispatched = dispatched_row demo_setup_prepared (demo_evidence 60) demo_configuration 2000 None
     (demo_id 909) 900"

definition demo_db9 :: model_db where
  "demo_db9 = demo_db8\<lparr>accounts := [demo_account\<lparr>ac_lifetime_reserved_nanodollars := 2000\<rparr>],
                       effects := [demo_setup_dispatched]\<rparr>"

lemma demo_setup_env_simps [simp]:
  "en_codec (demo_setup_env n) = demo_codec" "new_id (demo_setup_env n) k = demo_id (n + int k)"
  "clock (demo_setup_env n) k = n + int k"
  "authorize_setup_prepare (demo_setup_env n) key sha = Inr (demo_authority (n + 9))"
  "authorize_setup_dispatch (demo_setup_env n) ps ev = Inr (demo_authority (n + 9))"
  "require_setup_request (demo_setup_env n) ps ev = Inr ()"
  "require_setup_current (demo_setup_env n) key = Inr \<lparr> op_selector = selector (row_profile demo_profile_row),
       op_provider = ''openai'', op_api = ''responses'', op_model_snapshot = ''gpt-5'' \<rparr>"
  "require_model_call_transaction (en_session (demo_setup_env n)) = Inr ()"
  by (simp_all add: demo_setup_env_def require_model_call_transaction_def)

lemma demo_setup_authority [simp]:
  "json_ok facts \<Longrightarrow> setup_require_authority demo_codec action facts (demo_authority n) = Inr ()"
  by (simp add: demo_authority_def setup_require_authority_def model_action_digest_def demo_hash)

lemma demo_setup_key_simps [simp]:
  "sk_project_id demo_setup_key = demo_id 1" "sk_profile_id demo_setup_key = demo_id 100"
  "sk_profile_version demo_setup_key = 1" "sk_profile_digest demo_setup_key = demo_digest"
  "sk_call_index demo_setup_key = 0" "SetupModelUsageSlotKey_valid demo_setup_key"
  by (simp_all add: demo_setup_key_def SetupModelUsageSlotKey_valid_def demo_digest_ok value_checks demo_id_def)

lemma demo_setup_profile:
  assumes "profiles db = [demo_profile_row]"
  shows "setup_profile (demo_setup_env n) db demo_setup_key (Some \<lparr> op_selector = selector (row_profile demo_profile_row),
       op_provider = ''openai'', op_api = ''responses'', op_model_snapshot = ''gpt-5'' \<rparr>)
     = Inr (row_profile demo_profile_row)"
  using demo_profile_exact[OF assms]
  by (simp add: setup_profile_def demo_profile_ok) (simp add: demo_spec_def)

lemma demo_setup_rows [simp]:
  "sn_id demo_setup_envelope = demo_id 800" "st_id demo_setup_slot = demo_id 801"
  "st_envelope_id demo_setup_slot = demo_id 800" "st_request_sha256 demo_setup_slot = demo_digest"
  "setup_envelope_predicates demo_setup_key demo_setup_envelope" "setup_slot_predicates demo_setup_key demo_setup_slot"
  "setup_slot_key demo_setup_slot = demo_setup_key"
  by (simp_all add: demo_setup_envelope_def demo_setup_slot_def)
    (simp_all add: setup_envelope_row_def setup_slot_row_def setup_slot_predicates_def)

lemma demo_setup_insert:
  "insert_setup_envelope demo_db2 demo_setup_envelope = Inr (demo_db2\<lparr>setup_envelopes := [demo_setup_envelope]\<rparr>)"
  "insert_setup_slot (demo_db2\<lparr>setup_envelopes := [demo_setup_envelope]\<rparr>) demo_setup_slot
     = Inr (demo_db2\<lparr>setup_envelopes := [demo_setup_envelope], setup_slots := [demo_setup_slot]\<rparr>)"
  "insert_effect (demo_db2\<lparr>setup_envelopes := [demo_setup_envelope], setup_slots := [demo_setup_slot]\<rparr>)
     demo_setup_prepared = Inr demo_db8"
  by (simp_all add: insert_setup_envelope_def insert_setup_slot_def insert_effect_def checked_def
      setup_envelope_check_def setup_slot_check_def effect_check_def effect_references_def opt_ok_def
      profile_reference_def demo_db8_def demo_db2_def demo_db1_def empty_db_def int4_def int8_def between_def
      demo_setup_prepared_def new_effect_def demo_digest_ok)
    (simp_all add: demo_setup_envelope_def demo_setup_slot_def setup_envelope_row_def setup_slot_row_def
      demo_setup_key_def value_checks demo_id_def demo_digest_ok)

lemma demo_step8:
  "setup_prepare (demo_setup_env 800) demo_db2 demo_setup_key demo_digest
     = Inr (prepared_view demo_setup_envelope demo_setup_slot demo_setup_prepared demo_setup_key False, demo_db8)"
proof -
  have look: "setup_envelope demo_db2 demo_setup_key = None"
    "setup_slot (demo_db2\<lparr>setup_envelopes := [demo_setup_envelope]\<rparr>) demo_setup_key = None"
    "latest_setup_effect (demo_db2\<lparr>setup_envelopes := [demo_setup_envelope], setup_slots := [demo_setup_slot]\<rparr>) i = None"
    "profiles demo_db2 = [demo_profile_row]" for i
    by (simp_all add: setup_envelope_def setup_slot_def latest_setup_effect_def demo_db2_def demo_db1_def empty_db_def)
  show ?thesis
    using demo_setup_insert
    by (simp add: setup_prepare_def demo_setup_profile[OF look(4)] require_setup_envelope_def require_setup_slot_def look
      demo_setup_envelope_def[symmetric] demo_setup_slot_def[symmetric] demo_setup_prepared_def[symmetric])
qed

lemma demo_setup_effects [simp]:
  "ef_id demo_setup_prepared = demo_id 802" "ef_setup_slot_id demo_setup_prepared = Some (demo_id 801)"
  "ef_state demo_setup_prepared = Prepared" "ef_dispatch_execution_facts demo_setup_prepared = None"
  "ef_request demo_setup_prepared = no_evidence" "ef_response demo_setup_prepared = no_evidence"
  "ef_input_tokens demo_setup_prepared = None" "ef_output_tokens demo_setup_prepared = None"
  "ef_settled_nanodollars demo_setup_prepared = None" "ef_checker_slot_id demo_setup_prepared = None"
  "ef_attempt_number demo_setup_prepared = 1" "ef_internal_call_request_id demo_setup_prepared = demo_id 803"
  "ef_request_sha256 demo_setup_prepared = demo_digest"
  by (simp_all add: demo_setup_prepared_def new_effect_def)

lemma demo_setup_db [simp]:
  "profiles demo_db8 = [demo_profile_row]" "accounts demo_db8 = [demo_account]"
  "configurations demo_db8 = [demo_configuration]" "setup_envelopes demo_db8 = [demo_setup_envelope]"
  "setup_slots demo_db8 = [demo_setup_slot]" "effects demo_db8 = [demo_setup_prepared]" "slots demo_db8 = []"
  "setup_envelopes demo_db9 = [demo_setup_envelope]" "effects demo_db9 = [demo_setup_dispatched]"
  by (simp_all add: demo_db9_def demo_db8_def demo_db2_def demo_db1_def empty_db_def)

lemma demo_setup_update:
  "update_account demo_db8 (demo_account\<lparr>ac_lifetime_reserved_nanodollars := 2000\<rparr>)
     = Inr (demo_db8\<lparr>accounts := [demo_account\<lparr>ac_lifetime_reserved_nanodollars := 2000\<rparr>]\<rparr>)"
  "update_effect (demo_db8\<lparr>accounts := [demo_account\<lparr>ac_lifetime_reserved_nanodollars := 2000\<rparr>]\<rparr>)
     demo_setup_dispatched = Inr demo_db9"
  by (simp_all add: update_account_def update_effect_def checked_def account_ok_def account_check_def int8_def between_def
      row_put_def effect_check_def demo_setup_dispatched_def dispatched_row_def demo_digest_ok opt_ok_def
      effect_references_def int4_def demo_db9_def)
    (simp add: demo_setup_prepared_def new_effect_def demo_id_def value_checks)

lemma demo_step9:
  "\<exists>res. setup_reserve_dispatch (demo_setup_env 900) demo_db8
     (prepared_view demo_setup_envelope demo_setup_slot demo_setup_prepared demo_setup_key False) (demo_evidence 60)
     = Inr (res, demo_db9)"
proof -
  let ?p = "prepared_view demo_setup_envelope demo_setup_slot demo_setup_prepared demo_setup_key False"
  have view: "ps_slot_key ?p = demo_setup_key" "ps_envelope_id ?p = demo_id 800" "ps_slot_id ?p = demo_id 801"
      "ps_effect_id ?p = demo_id 802" "ps_request_sha256 ?p = demo_digest" "ps_attempt_number ?p = 1"
    by (simp_all add: prepared_view_def)
  have valid: "PreparedSetupModelUsageEffect_valid ?p"
    by (simp add: PreparedSetupModelUsageEffect_valid_def view demo_digest_ok)
  have look: "setup_envelope demo_db8 demo_setup_key = Some demo_setup_envelope"
      "setup_slot demo_db8 demo_setup_key = Some demo_setup_slot"
      "attempt demo_db8 (demo_id 802) = Some demo_setup_prepared"
      "budget_account demo_db8 (demo_id 1) = Some demo_account"
      "current_budget_configuration demo_db8 demo_account = Some demo_configuration"
    by (simp_all add: setup_envelope_def setup_slot_def attempt_def budget_account_def current_budget_configuration_def
        row_get_Cons)
  have run: "\<not> run_envelope_exceeded (setup_envelope_totals demo_db8 (demo_id 800)) demo_spec 2000 4000 800"
    by (simp add: run_envelope_exceeded_def setup_envelope_totals_def setup_envelope_effects_def totals_of_def weight_defs
        no_evidence_def)
  have res: "\<exists>r. setup_dispatch_result demo_setup_envelope demo_setup_slot demo_setup_dispatched demo_setup_key
      (demo_evidence 60) False = Inr r"
    by (simp add: setup_dispatch_result_def demo_setup_dispatched_def dispatched_row_def Let_def setup_exact_effect_def
        setup_effect_view_def)
  have row: "dispatched_row demo_setup_prepared (demo_evidence 60) demo_configuration 2000 None (demo_id 909) 900
      = demo_setup_dispatched"
    by (simp add: demo_setup_dispatched_def)
  show ?thesis
    using res
    by (auto simp: setup_reserve_dispatch_def valid view demo_evidence_valid look run row demo_setup_profile
        demo_setup_update)
qed

lemma demo_setup_reach:
  "(model_step demo_codec)\<^sup>*\<^sup>* empty_db demo_db8" "(model_step demo_codec)\<^sup>*\<^sup>* empty_db demo_db9"
proof -
  have s: "model_step demo_codec demo_db2 demo_db8" by (rule step_setup_prepare[OF demo_step8]) simp
  obtain res where "setup_reserve_dispatch (demo_setup_env 900) demo_db8
     (prepared_view demo_setup_envelope demo_setup_slot demo_setup_prepared demo_setup_key False) (demo_evidence 60)
     = Inr (res, demo_db9)" using demo_step9 by blast
  then have t: "model_step demo_codec demo_db8 demo_db9" by (rule step_setup_reserve_dispatch) simp
  show "(model_step demo_codec)\<^sup>*\<^sup>* empty_db demo_db8" "(model_step demo_codec)\<^sup>*\<^sup>* empty_db demo_db9"
    using demo_steps(1,2) s t by (meson rtranclp.rtrancl_into_rtrancl rtranclp.rtrancl_refl)+
qed

end
