(* ===== verification/Model_Usage_Properties.thy ===== *)
theory Model_Usage_Properties
  imports Model_Usage_Attempts Model_Usage_Setup_Scenario
begin

text \<open>
  The properties of the model-usage component: what holds in every state any history of
  operations can reach, what every single operation guarantees, and how operations answer when
  they are repeated. Each property with hypotheses is instantiated on the histories of
  \<open>Model_Usage_Scenario\<close>.
\<close>

subsection \<open>Reachable states\<close>

lemma settled_amount_nonneg:
  assumes "ledger_ok cd db" "e \<in> set (effects db)"
  shows "0 \<le> settled_amount e"
proof -
  obtain p where "effect_shape p e" using ledger_okD(6)[OF assms] by (auto simp: effect_ok_def)
  then show ?thesis by (auto simp: effect_shape_def settled_amount_def or_zero_def split: if_splits)
qed

lemma wsum_nonneg:
  assumes "\<And>e. e \<in> set (effects db) \<Longrightarrow> 0 \<le> w e"
  shows "0 \<le> wsum db P w"
  unfolding wsum_def by (rule sum_list_map_nonneg) (use assms in auto)

text \<open>
  C1. In every reachable database the two counters of a project's budget account are exactly the
  outstanding reservations and the settled amounts of the project's effects, both are
  non-negative, and together they never exceed the lifetime limit of the project's current
  budget configuration, which with the externally reconciled spend stays within the authorized
  total and within the 9e18 range of the amount columns.
\<close>

theorem budget_conservation:
  assumes "(model_step cd)\<^sup>*\<^sup>* empty_db db" "a \<in> set (accounts db)"
  shows "\<exists>c. current_budget_configuration db a = Some c \<and> cf_project_id c = ac_project_id a \<and>
     ac_lifetime_reserved_nanodollars a = wsum db (in_project (ac_project_id a)) pending_reserved \<and>
     ac_lifetime_settled_nanodollars a = wsum db (in_project (ac_project_id a)) settled_amount \<and>
     0 \<le> ac_lifetime_reserved_nanodollars a \<and> 0 \<le> ac_lifetime_settled_nanodollars a \<and>
     ac_lifetime_reserved_nanodollars a + ac_lifetime_settled_nanodollars a
       \<le> cf_lifetime_limit_nanodollars c \<and>
     cf_externally_reconciled_prior_spend_nanodollars c + cf_lifetime_limit_nanodollars c
       \<le> cf_authorized_total_nanodollars c \<and>
     cf_authorized_total_nanodollars c \<le> 9000000000000000000"
proof -
  have ok: "ledger_ok cd db" by (rule ledger.reachable_ok[OF assms(1)])
  obtain c where c: "current_budget_configuration db a = Some c" "cf_project_id c = ac_project_id a"
     "ac_lifetime_reserved_nanodollars a = wsum db (in_project (ac_project_id a)) pending_reserved"
     "ac_lifetime_settled_nanodollars a = wsum db (in_project (ac_project_id a)) settled_amount"
     "ac_lifetime_reserved_nanodollars a + ac_lifetime_settled_nanodollars a \<le> cf_lifetime_limit_nanodollars c"
    using ledger_okD(7)[OF ok assms(2)] by (auto simp: account_fits_def)
  have "c \<in> set (configurations db)"
    using c(1) by (auto simp: current_budget_configuration_def dest: row_get_SomeD)
  then have "configuration_check c" "is_nanodollars (cf_authorized_total_nanodollars c)"
    using ledger_okD(5)[OF ok] by (auto simp: configurations_ok_def)
  then show ?thesis
    using c wsum_nonneg[of db pending_reserved, OF pending_reserved_nonneg[OF ok]]
      wsum_nonneg[of db settled_amount, OF settled_amount_nonneg[OF ok]]
    by (auto simp: configuration_check_def is_nanodollars_def)
qed

theorem budget_conservation_witness:
  "\<exists>c. current_budget_configuration demo_db5 (demo_account\<lparr>ac_lifetime_settled_nanodollars := 1020\<rparr>) = Some c \<and>
     1020 = wsum demo_db5 (in_project (demo_id 1)) settled_amount \<and> 1020 \<le> cf_lifetime_limit_nanodollars c"
  using budget_conservation[OF demo_reach(3), of "demo_account\<lparr>ac_lifetime_settled_nanodollars := 1020\<rparr>"]
  by (auto simp: demo_db5_def demo_account_def)

lemma checker_run_ok:
  assumes "(model_step cd)\<^sup>*\<^sup>* empty_db db" "e \<in> set (envelopes db)"
  shows "\<exists>p. profile_exact db (ce_profile_id e) (ce_profile_version e) (ce_profile_digest e) = Some p \<and>
     within_run (envelope_totals db (ce_id e)) (row_spec p)"
proof -
  have ok: "ledger_ok cd db" by (rule ledger.reachable_ok[OF assms(1)])
  have "(Inl (ce_id e), (ce_profile_id e, ce_profile_version e, ce_profile_digest e)) \<in> set (runs db)"
    using assms(2) by (auto simp: runs_def)
  from ledger_okD(8)[OF ok this] show ?thesis
    by (auto simp: run_ok_def profile_named_def envelope_totals_eq[OF ledger_okD(1)[OF ok]])
qed

lemma setup_run_ok:
  assumes "(model_step cd)\<^sup>*\<^sup>* empty_db db" "e \<in> set (setup_envelopes db)"
  shows "\<exists>p. profile_exact db (sn_profile_id e) (sn_profile_version e) (sn_profile_digest e) = Some p \<and>
     within_run (setup_envelope_totals db (sn_id e)) (row_spec p)"
proof -
  have ok: "ledger_ok cd db" by (rule ledger.reachable_ok[OF assms(1)])
  have "(Inr (sn_id e), (sn_profile_id e, sn_profile_version e, sn_profile_digest e)) \<in> set (runs db)"
    using assms(2) by (auto simp: runs_def)
  from ledger_okD(8)[OF ok this] show ?thesis
    by (auto simp: run_ok_def profile_named_def setup_envelope_totals_eq[OF ledger_okD(1,6)[OF ok]])
qed

text \<open>
  C2. In every reachable database the calls of one checker run envelope stay within the six
  ceilings of the profile the envelope names: number of dispatches, money reserved plus settled,
  request bytes, and response bytes and input and output tokens even when every pending call uses
  its full allowance. The same ceilings (\<open>within_run\<close>) bind the setup calls of one compilation attempt. The
  totals are the ones the two dispatch guards themselves read.
\<close>

theorem runs_within_profile:
  assumes "(model_step cd)\<^sup>*\<^sup>* empty_db db"
  shows "(e \<in> set (envelopes db) \<longrightarrow>
      (\<exists>p run. profile_exact db (ce_profile_id e) (ce_profile_version e) (ce_profile_digest e) = Some p \<and>
       maximum_reservation_nanodollars (row_spec p) = Inr run \<and>
       dispatches (envelope_totals db (ce_id e)) \<le> maximum_calls (row_spec p) \<and>
       total_reserved_nanodollars (envelope_totals db (ce_id e))
         + total_settled_nanodollars (envelope_totals db (ce_id e)) \<le> run \<and>
       request_bytes (envelope_totals db (ce_id e)) \<le> maximum_total_request_bytes (row_spec p) \<and>
       response_bytes (envelope_totals db (ce_id e))
         + pending_dispatches (envelope_totals db (ce_id e)) * maximum_response_bytes (row_spec p)
         \<le> maximum_total_response_bytes (row_spec p) \<and>
       input_tokens (envelope_totals db (ce_id e))
         + pending_dispatches (envelope_totals db (ce_id e)) * maximum_input_tokens (row_spec p)
         \<le> maximum_total_input_tokens (row_spec p) \<and>
       output_tokens (envelope_totals db (ce_id e))
         + pending_dispatches (envelope_totals db (ce_id e)) * maximum_output_tokens (row_spec p)
         \<le> maximum_total_output_tokens (row_spec p))) \<and>
    (n \<in> set (setup_envelopes db) \<longrightarrow>
      (\<exists>p. profile_exact db (sn_profile_id n) (sn_profile_version n) (sn_profile_digest n) = Some p \<and>
       within_run (setup_envelope_totals db (sn_id n)) (row_spec p)))"
  using checker_run_ok[OF assms, of e] setup_run_ok[OF assms, of n] unfolding within_run_def by blast

theorem runs_within_profile_witness:
  "(\<exists>p run. profile_exact demo_db4 (demo_id 100) 1 demo_digest = Some p \<and>
      maximum_reservation_nanodollars (row_spec p) = Inr run \<and>
      total_reserved_nanodollars (envelope_totals demo_db4 (demo_id 300))
        + total_settled_nanodollars (envelope_totals demo_db4 (demo_id 300)) \<le> run) \<and>
   (\<exists>p. profile_exact demo_db9 (demo_id 100) 1 demo_digest = Some p \<and>
      within_run (setup_envelope_totals demo_db9 (demo_id 800)) (row_spec p))"
  using conjunct1[OF runs_within_profile[OF demo_reach(2), of demo_envelope]]
    conjunct2[OF runs_within_profile[OF demo_setup_reach(2), of _ demo_setup_envelope]]
  by (auto simp: demo_envelope_def envelope_row_def demo_setup_envelope_def setup_envelope_row_def)

subsection \<open>Steps\<close>

lemma step_admissible:
  assumes "(model_step cd)\<^sup>*\<^sup>* empty_db db" "model_step cd db db'"
  shows "admissible cd db db'"
  using model_step_admissible[OF assms(2)] ledger.reachable_ok[OF assms(1)] .

text \<open>
  C3. Refinement: seen through a project's limit, reserved and settled amounts, every operation of
  the checker and of the setup service is one action of the abstract budget ledger: nothing,
  opening with nothing spent, moving the limit no lower than what is reserved and settled,
  reserving a positive amount below the limit, or returning a reservation and settling at most
  that reservation.
\<close>

theorem ledger_refinement:
  assumes "(model_step cd)\<^sup>*\<^sup>* empty_db db" "model_step cd db db'"
  shows "ledger_act (abs_ledger db q) (abs_ledger db' q)"
  using step_admissible[OF assms] by (simp add: admissible_def)

theorem ledger_refinement_witness:
  "abs_ledger demo_db4 (demo_id 1) = Some \<lparr> ld_limit = 9000, ld_reserved = 2000, ld_settled = 0 \<rparr> \<and>
   abs_ledger demo_db5 (demo_id 1) = Some \<lparr> ld_limit = 9000, ld_reserved = 0, ld_settled = 1020 \<rparr> \<and>
   ledger_act (abs_ledger demo_db4 (demo_id 1)) (abs_ledger demo_db5 (demo_id 1))"
  using ledger_refinement[OF demo_reach(2) demo_steps(5), of "demo_id 1"]
  by (simp add: abs_ledger_def budget_account_def current_budget_configuration_def row_get_Cons demo_db5_def)

lemma steps_admissible:
  assumes "(model_step cd)\<^sup>*\<^sup>* empty_db db" "(model_step cd)\<^sup>*\<^sup>* db db'"
  shows "grows db db' \<and> (\<forall>e \<in> set (effects db). \<exists>e' \<in> set (effects db').
     ef_id e' = ef_id e \<and> (\<not> pending e \<longrightarrow> ef_state e \<noteq> Prepared \<longrightarrow> e' = e))"
  using assms(2,1)
proof (induction rule: rtranclp_induct)
  case base
  then show ?case by auto
next
  case (step db1 db2)
  have adm: "admissible cd db1 db2"
    using step_admissible[OF _ step(2)] step(1,4) by (meson rtranclp_trans)
  have one: "\<exists>e' \<in> set (effects db2). ef_id e' = ef_id e \<and> (\<not> pending e \<longrightarrow> ef_state e \<noteq> Prepared \<longrightarrow> e' = e)"
    if e: "e \<in> set (effects db1)" for e
  proof -
    obtain e' where "e' \<in> set (effects db2)" "evolves e e'"
      using adm e by (auto simp: admissible_def effects_evolve_def)
    then show ?thesis by (cases "ef_state e") (auto simp: evolves_def pending_def)
  qed
  show ?case
  proof (intro conjI ballI)
    show "grows db db2" using step.IH[OF step.prems] adm grows_trans by (auto simp: admissible_def)
  next
    fix e assume "e \<in> set (effects db)"
    then obtain e1 where "e1 \<in> set (effects db1)" "ef_id e1 = ef_id e"
        "\<not> pending e \<longrightarrow> ef_state e \<noteq> Prepared \<longrightarrow> e1 = e"
      using step.IH[OF step.prems] by blast
    then show "\<exists>e' \<in> set (effects db2). ef_id e' = ef_id e \<and> (\<not> pending e \<longrightarrow> ef_state e \<noteq> Prepared \<longrightarrow> e' = e)"
      using one[of e1] by (metis (full_types))
  qed
qed

text \<open>
  C4. A terminal effect is final: once an effect is completed, known failed or known to have had
  no effect, its row is still there unchanged after any further history, so it is settled or
  released once and its evidence, tokens and price are never rewritten.
\<close>

theorem terminal_effects_are_final:
  assumes "(model_step cd)\<^sup>*\<^sup>* empty_db db" "(model_step cd)\<^sup>*\<^sup>* db db'"
    and "e \<in> set (effects db)" "ef_state e \<in> {Completed, Known_failed, Known_no_effect}"
  shows "attempt db' (ef_id e) = Some e"
proof -
  have "\<not> pending e" "ef_state e \<noteq> Prepared" using assms(4) by (auto simp: pending_def)
  then have "e \<in> set (effects db')" using steps_admissible[OF assms(1,2)] assms(3) by blast
  moreover have "keys_ok db'"
    using ledger.reachable_ok[of cd db'] assms(1,2) ledger_okD(1) by (meson rtranclp_trans)
  ultimately show ?thesis by (simp add: attempt_def keys_ok_def row_get_in)
qed

theorem terminal_effects_are_final_witness: "attempt demo_db7 (demo_id 302) = Some demo_no_effect"
  using terminal_effects_are_final[OF demo_reach(4) r_into_rtranclp[of "model_step demo_codec", OF demo_steps(7)],
      of demo_no_effect]
  by (simp add: demo_db6_def)

text \<open>
  C17. Profiles, budget configurations, run envelopes and slots are append-only: any further
  history keeps every stored row and its position, so the profile, limits and prices an effect
  was dispatched under can be read back for ever.
\<close>

theorem custody_tables_append_only:
  assumes "(model_step cd)\<^sup>*\<^sup>* empty_db db" "(model_step cd)\<^sup>*\<^sup>* db db'"
  shows "\<exists>ps cs es ss ses sss. profiles db' = profiles db @ ps \<and> configurations db' = configurations db @ cs \<and>
     envelopes db' = envelopes db @ es \<and> slots db' = slots db @ ss \<and>
     setup_envelopes db' = setup_envelopes db @ ses \<and> setup_slots db' = setup_slots db @ sss"
  using steps_admissible[OF assms] by (auto simp: grows_def)

theorem custody_tables_append_only_witness:
  "\<exists>ps ss. profiles demo_db4 = demo_profile_row # ps \<and> slots demo_db4 = demo_slot # ss"
  using custody_tables_append_only[OF demo_reach(1) r_into_rtranclp[of "model_step demo_codec", OF demo_steps(4)]]
  by auto

text \<open>
  C13. The conservation guard of settlement and release never fires: in every reachable database a
  pending checker effect's reservation is covered by its project's account, so \<open>_settle\<close> and
  \<open>_release\<close> always produce the account with exactly that reservation returned.
\<close>

theorem settlement_never_fails:
  assumes "(model_step cd)\<^sup>*\<^sup>* empty_db db" "r \<in> set (effects db)" "pending r"
    and "s \<in> set (slots db)" "ef_checker_slot_id r = Some (sl_id s)"
  shows "\<exists>a R. budget_account db (sl_project_id s) = Some a \<and> ef_reserved_nanodollars r = Some R \<and>
     settle db r s cost = Inr (a\<lparr>ac_lifetime_reserved_nanodollars := ac_lifetime_reserved_nanodollars a - R,
                                ac_lifetime_settled_nanodollars := ac_lifetime_settled_nanodollars a + cost\<rparr>) \<and>
     release db r s = Inr (a\<lparr>ac_lifetime_reserved_nanodollars := ac_lifetime_reserved_nanodollars a - R\<rparr>)"
proof -
  have ok: "ledger_ok cd db" by (rule ledger.reachable_ok[OF assms(1)])
  have own: "owner_of db r = Some (checker_owner s)" by (rule checker_owner_of[OF ledger_okD(1)[OF ok] assms(4,5)])
  obtain p where shape: "effect_shape p r" and "budget_account db (ow_project (checker_owner s)) \<noteq> None"
    using ledger_okD(6)[OF ok assms(2)] own assms(3) by (auto simp: effect_ok_def pending_def)
  then obtain a where a: "budget_account db (ow_project (checker_owner s)) = Some a" by auto
  obtain R where R: "ef_reserved_nanodollars r = Some R" using pending_shape[OF shape assms(3)] by metis
  have "R \<le> ac_lifetime_reserved_nanodollars a" by (rule reserved_le_account[OF ok assms(2) own assms(3) a R])
  then show ?thesis using a R by (auto simp: settle_Inr release_Inr checker_owner_def)
qed

theorem settlement_never_fails_witness: "\<exists>a. settle demo_db4 demo_dispatched demo_slot 1020 = Inr a"
  using settlement_never_fails[OF demo_reach(2), of demo_dispatched demo_slot 1020]
  by (auto simp: pending_def)

text \<open>
  C16. A setup slot owns one effect: in every reachable database two effects of the same setup slot
  are the same effect, and it is attempt number one.
\<close>

theorem setup_slot_owns_one_effect:
  assumes "(model_step cd)\<^sup>*\<^sup>* empty_db db" "e \<in> set (effects db)" "f \<in> set (effects db)"
    and "ef_setup_slot_id e = Some s" "ef_setup_slot_id f = Some s"
  shows "f = e \<and> ef_attempt_number e = 1"
  using attempts.reachable_ok[OF assms(1)] assms(2-5) by (simp add: single_ok_def)

theorem setup_slot_owns_one_effect_witness:
  "\<exists>e. effects demo_db8 = [e] \<and> ef_setup_slot_id e = Some (demo_id 801) \<and> ef_attempt_number e = 1"
  using setup_slot_owns_one_effect[OF demo_setup_reach(1), of demo_setup_prepared demo_setup_prepared "demo_id 801"]
  by simp

subsection \<open>Single operations\<close>

text \<open>
  C15. A recovery child is created only behind its parent's known terminal: a fresh child extends the
  slot's latest attempt, which is the named parent, is known failed or known to have had no
  effect, and whose recomputed terminal digest is the supplied one; the child is prepared, one
  number higher, for the slot's original request, and is the only row written.
\<close>

theorem recovery_child_needs_terminal_parent:
  assumes "prepare_recovery_child env db k parent_id terminal_text sha_text = Inr (res, db')"
    and "\<not> at_replayed res"
  shows "\<exists>s parent digest child. slot db k = Some s \<and> latest_attempt db (sl_id s) = Some parent \<and>
     ef_id parent = parent_id \<and> ef_state parent \<in> {Known_failed, Known_no_effect} \<and>
     sha_arg terminal_text = Some digest \<and>
     stored_retry_terminal_digest (en_codec env) parent = Inr (Some digest) \<and>
     db' = db\<lparr>effects := effects db @ [child]\<rparr> \<and> ef_state child = Prepared \<and>
     ef_parent_attempt_id child = Some parent_id \<and> ef_checker_slot_id child = Some (sl_id s) \<and>
     ef_attempt_number child = ef_attempt_number parent + 1 \<and>
     ef_request_sha256 child = sl_first_request_sha256 s \<and> res = attempt_view s child False"
  using assms(1)
proof (cases rule: prepare_recovery_child_cases)
  case (replay s latest)
  then show ?thesis using assms(2) by (simp add: attempt_view_def)
next
  case (child s parent digest sha c auth)
  have "ef_state parent \<in> {Known_failed, Known_no_effect}"
    using child(8) by (auto simp: stored_retry_terminal_digest_def split: if_splits)
  moreover have "db' = db\<lparr>effects := effects db @ [c]\<rparr>"
    using child(10) by (auto simp: insert_effect_def outcome_inv)
  moreover have "ef_state c = Prepared" "ef_parent_attempt_id c = Some parent_id"
      "ef_checker_slot_id c = Some (sl_id s)" "ef_attempt_number c = ef_attempt_number parent + 1"
      "ef_request_sha256 c = sl_first_request_sha256 s"
    by (simp_all add: child(7,9) new_effect_def)
  ultimately show ?thesis using child(1-3,5,8,11) by blast
qed

theorem recovery_child_needs_terminal_parent_witness:
  "\<exists>parent. latest_attempt demo_db6 (demo_id 301) = Some parent \<and> ef_state parent \<in> {Known_failed, Known_no_effect}"
proof -
  have "slot demo_db6 demo_key = Some demo_slot" by (simp add: slot_def demo_db6_def)
  then show ?thesis
    using recovery_child_needs_terminal_parent[OF demo_step7] by (auto simp: attempt_view_def)
qed

text \<open>
  C14. An ambiguous dispatch keeps its money: marking a call uncertain changes no budget account and
  no other effect, and the effect itself stays pending with its whole reservation.
\<close>

theorem uncertainty_conserves_reservation:
  assumes "mark_uncertain env db eff digest_text response_id = Inr (res, db')"
  shows "accounts db' = accounts db \<and>
     (\<forall>i. i \<noteq> ea_attempt_id eff \<longrightarrow> attempt db' i = attempt db i) \<and>
     (\<exists>r r'. attempt db (ea_attempt_id eff) = Some r \<and> attempt db' (ea_attempt_id eff) = Some r' \<and>
       ef_state r' = Uncertain \<and> ef_reserved_nanodollars r' = ef_reserved_nanodollars r \<and>
       pending_reserved r' = pending_reserved r)"
  using assms
proof (cases rule: mark_uncertain_cases)
  case (replay row digest)
  then show ?thesis by auto
next
  case (fresh row0 s profile row digest auth)
  let ?r' = "uncertain_row row digest response_id (ae_evidence_id auth)"
  have at: "attempt db (ea_attempt_id eff) = Some row" by (rule lock_terminal_attempt[OF fresh(2)])
  have id: "ef_id ?r' = ea_attempt_id eff" using attempt_SomeD[OF at] by (simp add: uncertain_row_def)
  have db': "db' = db\<lparr>effects := row_put ef_id ?r' (effects db)\<rparr>" by (rule update_effect_eq[OF fresh(5)])
  have "attempt db' (ea_attempt_id eff) = Some ?r'"
    by (rule attempt_after_put[OF _ at id]) (simp add: db')
  moreover have "attempt db' i = attempt db i" if "i \<noteq> ea_attempt_id eff" for i
    using that id by (simp add: attempt_def db' row_get_put)
  ultimately show ?thesis
    using at fresh(3) db' by (auto simp: uncertain_row_def pending_def pending_reserved_def)
qed

theorem uncertainty_conserves_reservation_witness:
  "\<exists>db' r'. attempt db' (demo_id 302) = Some r' \<and> ef_state r' = Uncertain \<and>
     ef_reserved_nanodollars r' = Some 2000 \<and> accounts db' = accounts demo_db4"
proof -
  define db' where "db' = demo_db4\<lparr>effects := [demo_uncertain]\<rparr>"
  have at: "attempt demo_db4 (demo_id 302) = Some demo_dispatched"
    by (simp add: attempt_def row_get_Cons)
  obtain res where "mark_uncertain (demo_env 550) demo_db4 demo_effect demo_digest (Some ''resp-1'') = Inr (res, db')"
    unfolding db'_def using demo_uncertain_step by blast
  from uncertainty_conserves_reservation[OF this] obtain r'
    where "attempt db' (demo_id 302) = Some r'" "ef_state r' = Uncertain" "ef_reserved_nanodollars r' = Some 2000"
      "accounts db' = accounts demo_db4"
    by (auto simp: at)
  then show ?thesis by blast
qed
end
