(* ===== verification/Canonical_Json_Bytes.thy ===== *)
theory Canonical_Json_Bytes
  imports Canonical_Json
begin

text \<open>
  The canonical bytes of \<open>core/hashing.py\<close> identify the value they encode. \<open>canonical\<close> is the
  abstract specification, a value with every object's members in key order; the printed text of
  one value followed by a delimiter is never the printed text of another, so the encoding is
  injective up to member order, and so are the bytes that are hashed.
\<close>

subsection \<open>The value behind the text\<close>

primrec canonical :: "json \<Rightarrow> json" where
  "canonical JNull = JNull"
| "canonical (JBool b) = JBool b"
| "canonical (JInt n) = JInt n"
| "canonical (JFloat r) = JFloat r"
| "canonical (JStr s) = JStr s"
| "canonical (JArr xs) = JArr (map canonical xs)"
| "canonical (JObj kvs) = JObj (sort_key fst (map (map_prod id canonical) kvs))"

lemma sort_key_map_snd:
  "sort_key fst (map (map_prod id f) kvs) = map (map_prod id f) (sort_key fst kvs)"
proof -
  have ins: "insort_key fst (map_prod id f x) (map (map_prod id f) ys)
      = map (map_prod id f) (insort_key fst x ys)" for x ys
    by (induction ys) auto
  show ?thesis by (induction kvs) (simp_all only: list.map sort_key_simps ins)
qed

lemma dumps_obj:
  "dumps (JObj kvs) = code_points ''{'' @ join_comma (map (\<lambda>(k, v). member_text (k, dumps v)) (sort_key fst kvs)) @ code_points ''}''"
proof -
  have "member_text \<circ> map_prod id dumps = (\<lambda>(k, v). member_text (k, dumps v))" by auto
  then show ?thesis by (simp add: sort_key_map_snd)
qed

lemma canonical_obj: "canonical (JObj kvs) = JObj (map (map_prod id canonical) (sort_key fst kvs))"
  by (simp add: sort_key_map_snd)

lemma dumps_canonical: "dumps (canonical v) = dumps v"
proof (induction v)
  case (JArr xs)
  then show ?case by (simp cong: map_cong)
next
  case (JObj kvs)
  have sorted: "sort_key fst (map (map_prod id canonical) (sort_key fst kvs)) = map (map_prod id canonical) (sort_key fst kvs)"
    by (simp add: sort_key_map_snd sort_key_id_if_sorted)
  have "member_text (k, dumps (canonical v)) = member_text (k, dumps v)" if "(k, v) \<in> set kvs" for k v
    using JObj[OF that] by simp
  then show ?case
    unfolding canonical_obj dumps_obj sorted by (auto intro!: arg_cong[where f = join_comma])
qed simp_all

subsection \<open>Numbers\<close>

lemma digit_char: "n < 10 \<Longrightarrow> of_char (dec_digit n) = 48 + n"
  by (simp add: dec_digit_def)

lemma dec_digit_inj: "dec_digit m = dec_digit n \<Longrightarrow> m mod 10 = n mod 10"
  using digit_char[of "m mod 10"] digit_char[of "n mod 10"] by (simp add: dec_digit_def)

lemma dec_digit_digit: "is_digit_char (dec_digit n)"
  by (simp add: is_digit_char_def in_range_def dec_digit_def)

lemma nat_text_digits: "list_all is_digit_char (nat_text n)"
proof (induction n rule: nat_text.induct)
  case (1 n)
  then show ?case by (subst nat_text.simps) (simp add: dec_digit_digit)
qed

lemma nat_text_nonempty [simp]: "nat_text n \<noteq> []" "[] \<noteq> nat_text n"
  by (subst nat_text.simps, simp)+

lemma nat_text_inj: "nat_text m = nat_text n \<Longrightarrow> m = n"
proof (induction m arbitrary: n rule: nat_text.induct)
  case (1 m)
  have "m mod 10 = n mod 10"
    using "1.prems" by (subst (asm) (1 2) nat_text.simps) (auto split: if_splits dest: dec_digit_inj)
  moreover have "m div 10 = n div 10"
    using "1.prems" "1.IH"[of "n div 10"]
    by (subst (asm) (1 2) nat_text.simps) (auto split: if_splits)
  ultimately show ?case by (metis div_mult_mod_eq)
qed

lemma int_text_chars: "set (int_text i) \<subseteq> {c. is_digit_char c \<or> c = CHR ''-''}"
  using nat_text_digits by (auto simp: int_text_def list_all_iff split: if_splits)

lemma minus_not_digit: "\<not> is_digit_char (CHR ''-'')"
  by (simp add: is_digit_char_def in_range_def)

lemma int_text_inj: "int_text i = int_text j \<Longrightarrow> i = j"
proof -
  have hd: "nat_text n \<noteq> CHR ''-'' # t" for n t
    using nat_text_digits[of n] minus_not_digit by (auto simp: list_all_iff)
  assume eq: "int_text i = int_text j"
  show ?thesis
  proof (cases "i < 0 \<longleftrightarrow> j < 0")
    case True
    then have "nat \<bar>i\<bar> = nat \<bar>j\<bar>"
      using eq nat_text_inj[of "nat \<bar>i\<bar>" "nat \<bar>j\<bar>"] by (auto simp: int_text_def split: if_splits)
    with True show ?thesis by arith
  next
    case False
    then show ?thesis using eq hd hd[THEN not_sym] by (simp add: int_text_def split: if_splits)
  qed
qed

text \<open>What may follow a printed value inside a printed value: a comma or a closing bracket.\<close>

definition delimited :: "ustring \<Rightarrow> bool" where
  "delimited r \<longleftrightarrow> r = [] \<or> hd r \<in> {44, 93, 125}"

lemma delimited_simps [simp]:
  "delimited []" "delimited (44 # r)" "delimited (93 # r)" "delimited (125 # r)"
  by (simp_all add: delimited_def)

definition num_point :: "nat \<Rightarrow> bool" where
  "num_point n \<longleftrightarrow> n \<in> {43, 45, 46, 101} \<or> 48 \<le> n \<and> n \<le> 57"

lemma float_char_point: "is_float_char c \<Longrightarrow> num_point (of_char c)"
  by (auto simp: is_float_char_def num_point_def is_digit_char_def in_range_def)

lemma number_prefix:
  assumes "code_points s @ r = code_points t @ r'" "list_all is_float_char s" "list_all is_float_char t"
    "delimited r" "delimited r'"
  shows "s = t \<and> r = r'"
proof -
  have split: "takeWhile num_point (code_points x @ q) = code_points x" if "list_all is_float_char x" "delimited q" for x q
  proof -
    have "\<not> num_point (hd q)" if "q \<noteq> []" using that \<open>delimited q\<close> by (auto simp: delimited_def num_point_def)
    then show ?thesis
      using \<open>list_all is_float_char x\<close> by (cases q) (auto simp: takeWhile_append list_all_iff float_char_point)
  qed
  have "code_points s = code_points t" using assms(1) split[OF assms(2,4)] split[OF assms(3,5)] by simp
  then show ?thesis using assms(1) by simp
qed

lemma int_text_float_chars: "list_all is_float_char (int_text i)"
  using int_text_chars[of i] by (auto simp: list_all_iff is_float_char_def)

lemma int_not_float: "finite_float r \<Longrightarrow> int_text i \<noteq> r"
proof
  assume r: "finite_float r" "int_text i = r"
  then obtain c where "c \<in> set (int_text i)" "c \<in> set ''.e''" by (auto simp: finite_float_def list_ex_iff)
  then show False using int_text_chars[of i] by (auto simp: is_digit_char_def in_range_def)
qed

subsection \<open>Strings\<close>

lemma hex_text_inj: "hex_text n a = hex_text n b \<Longrightarrow> a < 16 ^ n \<Longrightarrow> b < 16 ^ n \<Longrightarrow> a = b"
proof (induction n arbitrary: a b)
  case (Suc n)
  have digit: "x mod 16 = y mod 16" if "hex_digit x = hex_digit y" for x y
  proof -
    have "distinct ''0123456789abcdef''" by simp
    then show ?thesis using that by (simp add: hex_digit_def nth_eq_iff_index_eq)
  qed
  have "a div 16 < 16 ^ n" "b div 16 < 16 ^ n" using Suc.prems by (auto simp: less_mult_imp_div_less)
  then have "a div 16 = b div 16" using Suc by simp
  moreover have "a mod 16 = b mod 16" using Suc.prems(1) by (intro digit) simp
  ultimately show ?case by (metis div_mult_mod_eq)
qed simp

text \<open>The two-character escapes: the code of the character and of the letter after the backslash.\<close>

definition short_escapes :: "(nat \<times> nat) list" where
  "short_escapes = [(34, 34), (92, 92), (10, 110), (13, 114), (9, 116), (12, 102), (8, 98)]"

lemma short_escapes_inj:
  "(a, p) \<in> set short_escapes \<Longrightarrow> (b, p) \<in> set short_escapes \<Longrightarrow> a = b"
  by (auto simp: short_escapes_def)

lemma short_escapes_code: "(a, p) \<in> set short_escapes \<Longrightarrow> p < 128 \<and> p \<noteq> 117"
  by (auto simp: short_escapes_def)

lemma escape_cases [case_names plain short hex]:
  obtains "escape_char c = [c]" "c \<noteq> 92" "c \<noteq> 34"
  | p where "(c, p) \<in> set short_escapes" "escape_char c = [92, p]"
  | "c < 32" "escape_char c = [92, 117] @ code_points (hex_text 4 c)"
proof (cases "c \<in> fst ` set short_escapes")
  case True
  then show ?thesis using that(2) by (auto simp: escape_char_def short_escapes_def)
next
  case False
  then show ?thesis using that(1,3) by (cases "c < 32") (auto simp: escape_char_def short_escapes_def)
qed

lemma escape_hd: "\<exists>x y. escape_char c = x # y \<and> x \<noteq> 34"
  by (cases c rule: escape_cases) auto

lemma escape_prefix:
  assumes eq: "escape_char c @ r = escape_char d @ r'"
  shows "c = d \<and> r = r'"
proof (cases c rule: escape_cases)
  case plain
  with eq show ?thesis by (cases d rule: escape_cases) auto
next
  case c: (short p)
  then show ?thesis
  proof (cases d rule: escape_cases)
    case (short q)
    then show ?thesis using eq c short_escapes_inj by auto
  qed (use c eq short_escapes_code[OF c(1)] in auto)
next
  case c: hex
  then show ?thesis
  proof (cases d rule: escape_cases)
    case hex
    then have "hex_text 4 c = hex_text 4 d \<and> r = r'" using eq c by (simp add: append_eq_append_conv)
    then show ?thesis using c(1) hex(1) hex_text_inj[of 4 c d] by simp
  next
    case (short p)
    with c eq show ?thesis using short_escapes_code[OF short(1)] by auto
  qed (use c eq in auto)
qed

lemma quote_prefix: "quote_text s @ r = quote_text t @ r' \<Longrightarrow> s = t \<and> r = r'"
proof -
  have "concat (map escape_char s) @ 34 # r = concat (map escape_char t) @ 34 # r'
      \<Longrightarrow> s = t \<and> r = r'"
  proof (induction s arbitrary: t)
    case Nil
    show ?case
    proof (cases t)
      case (Cons d t')
      then show ?thesis using Nil escape_hd[of d] by auto
    qed (use Nil in simp)
  next
    case (Cons c s)
    show ?case
    proof (cases t)
      case Nil
      then show ?thesis using Cons.prems escape_hd[of c] by auto
    next
      case t: (Cons d t')
      have "c = d \<and> concat (map escape_char s) @ 34 # r = concat (map escape_char t') @ 34 # r'"
        using Cons.prems by (intro escape_prefix) (simp add: t)
      then show ?thesis using Cons.IH t by blast
    qed
  qed
  then show "quote_text s @ r = quote_text t @ r' \<Longrightarrow> s = t \<and> r = r'" by (simp add: quote_text_def)
qed

subsection \<open>Values\<close>

definition floats_ok :: "json \<Rightarrow> bool" where
  "floats_ok v \<longleftrightarrow> list_all float_ok (subvalues v)"

lemma floats_ok_simps [simp]:
  "floats_ok (JFloat r) \<longleftrightarrow> finite_float r"
  "floats_ok (JArr xs) \<longleftrightarrow> (\<forall>x \<in> set xs. floats_ok x)"
  "floats_ok (JObj kvs) \<longleftrightarrow> (\<forall>kv \<in> set kvs. floats_ok (snd kv))"
  by (auto simp: floats_ok_def float_ok_def list_all_iff)

text \<open>The constructor of a value, up to the kind of number, can be read off the first character of its text.\<close>

definition kind_of_point :: "nat \<Rightarrow> nat" where
  "kind_of_point c = (if c = 110 then 0 else if c = 116 \<or> c = 102 then 1 else if c = 45 \<or> 48 \<le> c \<and> c \<le> 57 then 2
     else if c = 34 then 3 else if c = 91 then 4 else if c = 123 then 5 else 6)"

primrec kind :: "json \<Rightarrow> nat" where
  "kind JNull = 0" | "kind (JBool b) = 1" | "kind (JInt n) = 2" | "kind (JFloat r) = 2" | "kind (JStr s) = 3"
| "kind (JArr xs) = 4" | "kind (JObj kvs) = 5"

lemma number_kind: "is_digit_char c \<or> c = CHR ''-'' \<Longrightarrow> kind_of_point (of_char c) = 2"
  by (auto simp: kind_of_point_def is_digit_char_def in_range_def)

lemma code_points_Nil: "code_points s = [] \<longleftrightarrow> s = []"
  by (simp add: code_points_def)

lemma dumps_nonempty: "floats_ok v \<Longrightarrow> dumps v \<noteq> []"
  by (cases v) (auto simp: int_text_def quote_text_def finite_float_def code_points_Nil)

lemma dumps_kind:
  assumes "floats_ok v"
  shows "kind_of_point (hd (dumps v)) = kind v"
proof (cases v)
  case (JInt n)
  have "int_text n \<noteq> []" by (simp add: int_text_def)
  then obtain c t where head: "int_text n = c # t" by (cases "int_text n") auto
  then have "is_digit_char c \<or> c = CHR ''-''" using int_text_chars[of n] by auto
  then show ?thesis using number_kind head by (simp add: JInt)
next
  case (JFloat r)
  then obtain c t where head: "r = c # t" "is_digit_char c \<or> c = CHR ''-''"
    using assms by (cases r) (auto simp: finite_float_def)
  then show ?thesis using number_kind[OF head(2)] by (simp add: JFloat)
qed (auto simp: kind_of_point_def quote_text_def)

lemma dumps_not_delimiter:
  assumes "floats_ok v"
  shows "hd (dumps v) \<notin> {44, 93, 125}"
proof
  assume "hd (dumps v) \<in> {44, 93, 125}"
  then have "kind v = 6" unfolding dumps_kind[OF assms, symmetric] by (auto simp: kind_of_point_def)
  then show False by (cases v) simp_all
qed

lemma dumps_same_kind:
  assumes "dumps v @ r = dumps w @ r'" "floats_ok v" "floats_ok w"
  shows "kind v = kind w"
  using assms dumps_nonempty dumps_kind by (metis hd_append2)

lemma join_comma_Cons: "join_comma (s # ss) = s @ (if ss = [] then [] else 44 # join_comma ss)"
  by (cases ss) simp_all

lemma join_prefix:
  assumes "\<And>x y q q'. x \<in> set xs \<Longrightarrow> y \<in> set ys \<Longrightarrow> f x @ q = f y @ q' \<Longrightarrow> delimited q \<Longrightarrow> delimited q' \<Longrightarrow> g x = g y \<and> q = q'"
    and "\<And>x. x \<in> set xs \<union> set ys \<Longrightarrow> f x \<noteq> [] \<and> hd (f x) \<notin> {44, 93, 125}" and e: "e \<in> {93, 125}"
    and "join_comma (map f xs) @ e # r = join_comma (map f ys) @ e # r'"
  shows "map g xs = map g ys \<and> r = r'"
  using assms(1,2,4)
proof (induction xs arbitrary: ys)
  case Nil
  show ?case
  proof (cases ys)
    case (Cons y ys')
    then show ?thesis using Nil(2)[of y] Nil(3) e by (cases "f y") (auto simp: join_comma_Cons)
  qed (use Nil in simp)
next
  case (Cons x xs)
  show ?case
  proof (cases ys)
    case Nil
    then show ?thesis using Cons.prems(2)[of x] Cons.prems(3) e by (cases "f x") (auto simp: join_comma_Cons)
  next
    case ys: (Cons y ys')
    let ?rest = "\<lambda>zs r. (if zs = [] then [] else 44 # join_comma (map f zs)) @ e # r"
    have "f x @ ?rest xs r = f y @ ?rest ys' r'" using Cons.prems(3) by (simp add: ys join_comma_Cons)
    moreover have "delimited (?rest zs q)" for zs q using e by (cases zs) auto
    ultimately have "g x = g y \<and> ?rest xs r = ?rest ys' r'" by (intro Cons.prems(1)) (simp_all add: ys)
    then have *: "g x = g y" "?rest xs r = ?rest ys' r'" by blast+
    have "map g xs = map g ys' \<and> r = r'"
    proof (cases "xs = [] \<or> ys' = []")
      case True
      then show ?thesis using *(2) e by (auto split: if_splits)
    next
      case False
      show ?thesis
        by (rule Cons.IH) (use False *(2) Cons.prems(1,2) ys in auto)
    qed
    then show ?thesis using * ys by simp
  qed
qed

lemma member_prefix:
  assumes "member_text (k, dumps v) @ q = member_text (k', dumps v') @ q'" "delimited q" "delimited q'"
    and IH: "\<And>q q'. dumps v @ q = dumps v' @ q' \<Longrightarrow> delimited q \<Longrightarrow> delimited q' \<Longrightarrow> canonical v = canonical v' \<and> q = q'"
  shows "map_prod id canonical (k, v) = map_prod id canonical (k', v') \<and> q = q'"
proof -
  have "quote_text k @ 58 # dumps v @ q = quote_text k' @ 58 # dumps v' @ q'"
    using assms(1) by (simp add: member_text_def)
  from quote_prefix[OF this] have "k = k'" "dumps v @ q = dumps v' @ q'" by auto
  then show ?thesis using IH[OF _ assms(2,3)] by simp
qed

lemma number_dumps_prefix:
  assumes "dumps v @ r = dumps w @ r'" "kind v = 2" "floats_ok v" "floats_ok w" "delimited r" "delimited r'"
  shows "v = w \<and> r = r'"
proof -
  have number: "\<exists>t. dumps x = code_points t \<and> list_all is_float_char t \<and> (x = JFloat t \<and> finite_float t \<or> (\<exists>i. x = JInt i \<and> t = int_text i))"
    if "kind x = 2" "floats_ok x" for x
    using that int_text_float_chars by (cases x) (auto simp: finite_float_def)
  have w: "kind w = 2" using dumps_same_kind[OF assms(1,3,4)] assms(2) by simp
  obtain s t where s: "dumps v = code_points s" "list_all is_float_char s"
      "v = JFloat s \<and> finite_float s \<or> (\<exists>i. v = JInt i \<and> s = int_text i)"
    and t: "dumps w = code_points t" "list_all is_float_char t"
      "w = JFloat t \<and> finite_float t \<or> (\<exists>i. w = JInt i \<and> t = int_text i)"
    using number[OF assms(2,3)] number[OF w assms(4)] by blast
  have "s = t" "r = r'" using number_prefix[OF _ s(2) t(2) assms(5,6)] assms(1) s(1) t(1) by simp_all
  then show ?thesis using s(3) t(3) int_not_float int_text_inj by blast
qed

lemma dumps_prefix:
  "dumps v @ r = dumps w @ r' \<Longrightarrow> floats_ok v \<Longrightarrow> floats_ok w \<Longrightarrow> delimited r \<Longrightarrow> delimited r' \<Longrightarrow>
   canonical v = canonical w \<and> r = r'"
proof (induction v arbitrary: w r r')
  case JNull
  then show ?case using dumps_same_kind[OF JNull(1-3)] by (cases w) simp_all
next
  case (JBool b)
  then show ?case using dumps_same_kind[OF JBool(1-3)] by (cases w) (auto split: if_splits)
next
  case (JInt n)
  from number_dumps_prefix[OF JInt(1) _ JInt(2-5)] show ?case by simp
next
  case (JFloat t)
  from number_dumps_prefix[OF JFloat(1) _ JFloat(2-5)] show ?case by simp
next
  case (JStr s)
  then obtain t where w: "w = JStr t" using dumps_same_kind[OF JStr(1-3)] by (cases w) simp_all
  then show ?case using quote_prefix[of s r t r'] JStr by simp
next
  case (JArr xs)
  then obtain ys where w: "w = JArr ys" using dumps_same_kind[OF JArr.prems(1-3)] by (cases w) simp_all
  have "map canonical xs = map canonical ys \<and> r = r'"
  proof (rule join_prefix[where f = dumps and e = 93])
    fix x y q q'
    assume x: "x \<in> set xs" "y \<in> set ys" and eq: "dumps x @ q = dumps y @ q'" and d: "delimited q" "delimited q'"
    have ok: "floats_ok x" "floats_ok y" using x JArr.prems(2,3) unfolding w by auto
    show "canonical x = canonical y \<and> q = q'" by (rule JArr.IH[OF x(1) eq ok d])
  next
    show "join_comma (map dumps xs) @ 93 # r = join_comma (map dumps ys) @ 93 # r'"
      using JArr.prems(1) by (simp add: w)
    show "\<And>x. x \<in> set xs \<union> set ys \<Longrightarrow> dumps x \<noteq> [] \<and> hd (dumps x) \<notin> {44, 93, 125}"
      using JArr.prems(2,3) dumps_nonempty dumps_not_delimiter unfolding w by auto
  qed simp
  then show ?case by (simp add: w)
next
  case (JObj kvs)
  then obtain mem where w: "w = JObj mem" using dumps_same_kind[OF JObj.prems(1-3)] by (cases w) simp_all
  let ?f = "\<lambda>(k, v). member_text (k, dumps v)"
  have "map (map_prod id canonical) (sort_key fst kvs) = map (map_prod id canonical) (sort_key fst mem) \<and> r = r'"
  proof (rule join_prefix[where f = ?f and e = 125])
    fix x y q q'
    assume x: "x \<in> set (sort_key fst kvs)" "y \<in> set (sort_key fst mem)" and eq: "?f x @ q = ?f y @ q'"
      and d: "delimited q" "delimited q'"
    obtain k v k' v' where xy: "x = (k, v)" "y = (k', v')" by (cases x; cases y)
    have ok: "floats_ok v" "floats_ok v'" using x JObj.prems(2,3) unfolding w xy by auto
    have "canonical v = canonical v' \<and> q = q'" if "dumps v @ q = dumps v' @ q'" "delimited q" "delimited q'" for q q'
      by (rule JObj.IH[of x v, OF _ _ that(1) ok that(2,3)]) (use x in \<open>simp_all add: xy\<close>)
    from member_prefix[OF _ d this] show "map_prod id canonical x = map_prod id canonical y \<and> q = q'"
      using eq by (simp add: xy)
  next
    show "join_comma (map ?f (sort_key fst kvs)) @ 125 # r = join_comma (map ?f (sort_key fst mem)) @ 125 # r'"
      using JObj.prems(1) by (simp add: w dumps_obj del: dumps.simps)
  qed (auto simp: member_text_def quote_text_def)
  then show ?case by (simp only: w canonical_obj)
qed

subsection \<open>Bytes\<close>

lemma ascii_scalar: "c < 128 \<Longrightarrow> scalar_value c"
  by (simp add: scalar_value_def)

lemma escape_scalar: "list_all scalar_value (escape_char c) \<longleftrightarrow> scalar_value c"
  by (simp add: escape_char_def ascii_scalar)

lemma quote_scalar: "list_all scalar_value (quote_text s) \<longleftrightarrow> list_all scalar_value s"
  by (induction s) (auto simp: quote_text_def escape_scalar ascii_scalar)

lemma join_scalar: "list_all scalar_value (join_comma ss) \<longleftrightarrow> list_all (list_all scalar_value) ss"
  by (induction ss rule: join_comma.induct) (auto simp: ascii_scalar)

lemma member_scalar: "list_all scalar_value (member_text (k, t)) \<longleftrightarrow> list_all scalar_value k \<and> list_all scalar_value t"
  by (auto simp: member_text_def quote_scalar ascii_scalar)

lemma dumps_scalar: "list_all scalar_value (dumps v) \<longleftrightarrow> list_all text_ok (subvalues v)"
proof (induction v)
  case (JArr xs)
  have "list_all scalar_value (dumps (JArr xs)) \<longleftrightarrow> (\<forall>x \<in> set xs. list_all scalar_value (dumps x))"
    by (auto simp: join_scalar ascii_scalar list_all_iff[of "list_all scalar_value"])
  also have "\<dots> \<longleftrightarrow> (\<forall>x \<in> set xs. list_all text_ok (subvalues x))" using JArr by blast
  also have "\<dots> \<longleftrightarrow> list_all text_ok (subvalues (JArr xs))"
    by (auto simp: text_ok_def[of "JArr xs"] list_all_iff[of text_ok])
  finally show ?case .
next
  case (JObj kvs)
  have "list_all scalar_value (dumps (JObj kvs)) \<longleftrightarrow>
      (\<forall>(k, v) \<in> set kvs. list_all scalar_value k \<and> list_all scalar_value (dumps v))"
    unfolding dumps_obj by (auto simp: join_scalar ascii_scalar list_all_iff[of "list_all scalar_value"] member_scalar)
  also have "\<dots> \<longleftrightarrow> (\<forall>(k, v) \<in> set kvs. list_all scalar_value k \<and> list_all text_ok (subvalues v))"
    using JObj by fastforce
  also have "\<dots> \<longleftrightarrow> list_all text_ok (subvalues (JObj kvs))"
    by (auto simp: text_ok_def[of "JObj kvs"] list_all_iff[of text_ok] list_all_iff[of "\<lambda>kv. list_all scalar_value (fst kv)"])
  finally show ?case .
qed (auto simp: text_ok_def quote_scalar ascii_scalar)

lemma leaf_ok_canonical:
  "list_all (\<lambda>x. float_ok x \<and> int_ok x) (subvalues (canonical v)) \<longleftrightarrow> list_all (\<lambda>x. float_ok x \<and> int_ok x) (subvalues v)"
proof (induction v)
  case (JArr xs)
  then show ?case by (auto simp: float_ok_def[of "JArr _"] int_ok_def[of "JArr _"] list_all_iff)
next
  case (JObj kvs)
  then show ?case by (fastforce simp: float_ok_def[of "JObj _"] int_ok_def[of "JObj _"] list_all_iff)
qed simp_all

lemma canonical_bytes_cases:
  "canonical_json_bytes v = Inr b \<longleftrightarrow>
     list_all (\<lambda>x. float_ok x \<and> int_ok x \<and> text_ok x) (subvalues v) \<and> b = utf8_bytes (dumps v)"
proof -
  have "list_all (\<lambda>x. float_ok x \<and> int_ok x \<and> text_ok x) (subvalues v) \<longleftrightarrow>
      list_all (\<lambda>x. float_ok x \<and> int_ok x) (subvalues v) \<and> list_all scalar_value (dumps v)"
    unfolding dumps_scalar by (auto simp: list_all_iff)
  then show ?thesis by (auto simp: canonical_json_bytes_def encode_utf8_def)
qed

lemma canonical_bytes_canonical: "canonical_json_bytes (canonical v) = canonical_json_bytes v"
  by (simp only: canonical_json_bytes_def leaf_ok_canonical dumps_canonical)

lemma canonical_bytes_identical:
  assumes "json_ok v" "json_ok w" "utf8_bytes (dumps v) = utf8_bytes (dumps w)"
  shows "canonical v = canonical w"
proof -
  have ok: "floats_ok v" "floats_ok w" "list_all scalar_value (dumps v)" "list_all scalar_value (dumps w)"
    using assms(1,2) unfolding dumps_scalar by (auto simp: json_ok_def floats_ok_def list_all_iff)
  have "dumps v = dumps w" using encode_utf8_inj[of "dumps v" _ "dumps w"] ok(3,4) assms(3) by (simp add: encode_utf8_def)
  then show ?thesis using dumps_prefix[of v "[]" w "[]"] ok(1,2) by simp
qed

lemma canonical_bytes_injective:
  assumes "canonical_json_bytes v = Inr b" "canonical_json_bytes w = Inr b"
  shows "canonical v = canonical w"
  by (rule canonical_bytes_identical) (use assms in \<open>auto simp: canonical_bytes_cases json_ok_def list_all_iff\<close>)

definition hashable :: "json \<Rightarrow> bool" where
  "hashable v \<longleftrightarrow> list_all (\<lambda>x. float_ok x \<and> int_ok x \<and> text_ok x) (subvalues v)"

lemma hashable_simps [simp]:
  "hashable JNull" "hashable (JBool b)" "hashable (JInt i) \<longleftrightarrow> length (nat_text (nat \<bar>i\<bar>)) \<le> 4300"
  "hashable (JStr s) \<longleftrightarrow> list_all scalar_value s" "hashable (JArr xs) \<longleftrightarrow> list_all hashable xs"
  "hashable (JObj kvs) \<longleftrightarrow> list_all (\<lambda>(k, v). list_all scalar_value k \<and> hashable v) kvs"
proof -
  show "hashable (JArr xs) \<longleftrightarrow> list_all hashable xs"
    unfolding list_all_iff[of hashable] hashable_def
    by (auto simp: float_ok_def[of "JArr _"] int_ok_def[of "JArr _"] text_ok_def[of "JArr _"] list_all_iff)
  show "hashable (JObj kvs) \<longleftrightarrow> list_all (\<lambda>(k, v). list_all scalar_value k \<and> hashable v) kvs"
    unfolding list_all_iff[of "\<lambda>(k, v). list_all scalar_value k \<and> hashable v"] hashable_def
    by (fastforce simp: float_ok_def[of "JObj _"] int_ok_def[of "JObj _"] text_ok_def[of "JObj _"] list_all_iff)
qed (simp_all add: hashable_def float_ok_def int_ok_def text_ok_def)

lemma hashable_bytes: "hashable v \<Longrightarrow> canonical_json_bytes v = Inr (utf8_bytes (dumps v))"
  by (simp add: canonical_bytes_cases hashable_def)

lemma json_digest_hash:
  "hashable v \<Longrightarrow> canonical_json_hash sha v = Inr (json_digest sha v)"
  by (simp add: canonical_json_hash_def json_digest_def hashable_bytes)

text \<open>
  C10. The hashed bytes identify the hashed value. A JSON value whose object keys are strings has canonical bytes exactly
  when its floats are finite, its integers have at most 4300 digits and its strings and keys contain no surrogates; the
  call raises for every other value. Two values have the same bytes exactly when they have bytes and are the same value up
  to the order of object members, at every depth. So member order never changes a digest, and two other values can only
  share one through a collision of SHA-256 itself.
\<close>

theorem canonical_bytes_identify_value:
  "((\<exists>b. canonical_json_bytes v = Inr b \<and> canonical_json_bytes w = Inr b) \<longleftrightarrow>
      canonical v = canonical w \<and> (\<exists>b. canonical_json_bytes v = Inr b)) \<and>
   ((\<exists>b. canonical_json_bytes v = Inr b) \<longleftrightarrow>
      list_all (\<lambda>x. float_ok x \<and> int_ok x \<and> text_ok x) (subvalues v))"
  using canonical_bytes_injective[of v _ w] canonical_bytes_canonical[of v] canonical_bytes_canonical[of w]
  by (auto simp: canonical_bytes_cases[of v])

end
