(* ===== verification/Model_Usage_Terms.thy ===== *)
theory Model_Usage_Terms
  imports Model_Usage_Replay Canonical_Json_Bytes
begin

text \<open>
  Properties of the terms under which model calls are made: what an authorization evidence binds,
  what a usage can cost, what a published profile and a published budget configuration leave
  behind, and which raw digest arguments are accepted.
\<close>

subsection \<open>Authority\<close>

lemma canonical_action:
  "canonical (jobj [(''action'', jstr a), (''facts'', f)]) = canonical (jobj [(''action'', jstr a'), (''facts'', f')])
   \<longleftrightarrow> a = a' \<and> canonical f = canonical f'"
proof -
  have "\<not> code_points ''facts'' \<le> code_points ''action''" "code_points ''action'' \<le> code_points ''facts''"
    by (simp_all add: less_le_not_le)
  then show ?thesis by (simp add: jobj_def jstr_def del: code_points_simps)
qed

text \<open>
  C11. One authorization evidence cannot serve two actions. If the same evidence passes
  \<open>_require_authority\<close> for two action names and two sets of facts, then the names are equal and
  the facts are the same value up to member order, unless the two canonical payloads are a
  collision of SHA-256.
\<close>

theorem authority_binds_action:
  assumes "require_authority cd a f ev = Inr ()" "require_authority cd a' f' ev = Inr ()"
    and "let p = utf8_bytes (dumps (jobj [(''action'', jstr a), (''facts'', f)]));
             q = utf8_bytes (dumps (jobj [(''action'', jstr a'), (''facts'', f')]))
         in sha256_hex cd p = sha256_hex cd q \<longrightarrow> p = q"
  shows "a = a' \<and> canonical f = canonical f'"
proof -
  let ?p = "\<lambda>a f. jobj [(''action'', jstr a), (''facts'', f)]"
  have ok: "json_ok (?p a f)" "json_ok (?p a' f')" using assms(1,2) by (simp_all add: require_authority_def split: if_splits)
  have "sha256_hex cd (utf8_bytes (dumps (?p a f))) = sha256_hex cd (utf8_bytes (dumps (?p a' f')))"
    using assms(1,2) by (simp add: require_authority_def model_action_digest_def json_digest_def split: if_splits)
  with assms(3) have "utf8_bytes (dumps (?p a f)) = utf8_bytes (dumps (?p a' f'))" unfolding Let_def by blast
  from canonical_bytes_identical[OF ok this] show ?thesis by (simp only: canonical_action)
qed

theorem authority_binds_action_witness:
  "canonical (jobj [(''b'', JNull), (''a'', JInt 1)]) = canonical (jobj [(''a'', JInt 1), (''b'', JNull)])"
proof -
  let ?f = "jobj [(''b'', JNull), (''a'', JInt 1)]" and ?g = "jobj [(''a'', JInt 1), (''b'', JNull)]"
  define cd where "cd = \<lparr> sha256_hex = map (\<lambda>b. char_of (unat b)), datetime_json = (\<lambda>_. []) \<rparr>"
  define ev where "ev = \<lparr> ae_evidence_id = demo_id 1, ae_facts_digest = model_action_digest cd ''observe'' ?f \<rparr>"
  have same: "dumps (jobj [(''action'', jstr ''observe''), (''facts'', ?f)]) = dumps (jobj [(''action'', jstr ''observe''), (''facts'', ?g)])"
    by code_simp
  then have "require_authority cd ''observe'' ?f ev = Inr ()" "require_authority cd ''observe'' ?g ev = Inr ()"
    unfolding require_authority_def ev_def model_action_digest_def json_digest_def by simp_all
  from authority_binds_action[OF this] same show ?thesis unfolding Let_def by simp
qed

subsection \<open>Prices\<close>

text \<open>
  C12. Pricing under a valid profile whose run maximum is admitted: the reservation of one dispatch
  exists and is at most the run maximum; a usage has a price exactly when it is a valid usage within
  the profile's per-call token limits, so the price never overflows for such a usage; and every
  price lies between zero and the dispatch reservation, so settling a call never exceeds what was
  reserved for it.
\<close>

theorem usage_price_bounded:
  assumes "ProjectModelProfileSpec_valid p" "maximum_reservation_nanodollars p = Inr run"
  shows "\<exists>r. maximum_dispatch_reservation_nanodollars p = Inr r \<and> 0 < r \<and> r \<le> run \<and>
     ((\<exists>c. model_usage_cost p u = Inr c) \<longleftrightarrow> ModelCallUsage_valid u \<and>
        us_input_tokens u \<le> maximum_input_tokens p \<and> us_output_tokens u \<le> maximum_output_tokens p) \<and>
     (\<forall>c. model_usage_cost p u = Inr c \<longrightarrow> 0 \<le> c \<and> c \<le> r)"
proof -
  obtain r where r: "maximum_dispatch_reservation_nanodollars p = Inr r" "0 < r" "r \<le> run"
    using dispatch_reservation_total[OF assms] by blast
  show ?thesis
    using r model_usage_cost_bound[OF assms(1) r(1)] model_usage_cost_total[OF assms] model_usage_cost_tokens[of p u]
    by blast
qed

theorem usage_price_bounded_witness:
  "\<exists>r c. maximum_dispatch_reservation_nanodollars demo_spec = Inr r \<and> model_usage_cost demo_spec demo_usage = Inr c \<and> c \<le> r"
proof -
  obtain run where "maximum_reservation_nanodollars demo_spec = Inr run" by (simp add: demo_reservations)
  from usage_price_bounded[OF demo_spec_valid this, of demo_usage] show ?thesis
    by (metis demo_usage_simps(6))
qed

subsection \<open>Published profiles\<close>

lemma provision_profile_row:
  assumes "provision_profile env db facts = Inr (p, db')"
  obtains row where "row \<in> set (profiles db')" "p = row_profile row" "ProjectModelProfile_valid (en_codec env) p"
    "pf_spec p = pf_spec facts" "require_model_call_transaction (en_session env) = Inr ()"
proof (cases "profile_by_operation db (pf_operation_id facts)")
  case (Some row)
  then have "row \<in> set (profiles db')" "p = row_profile row" "ProjectModelProfile_valid (en_codec env) p"
      "stored_profile_facts p = facts" "require_model_call_transaction (en_session env) = Inr ()"
    using assms by (auto simp: provision_profile_def outcome_inv stored_model_profile_def profile_by_operation_def
        dest: find_SomeD)
  moreover from this(4) have "pf_spec p = pf_spec facts" by (auto simp: stored_profile_facts_def)
  ultimately show ?thesis using that by blast
next
  case None
  let ?row = "\<lambda>auth::ModelActionEvidence. profile_row facts (new_id env 0) (ae_evidence_id auth) (clock env 0)"
  from None assms obtain auth where
    "insert_profile db (?row auth) = Inr db'" "ProjectModelProfile_valid (en_codec env) (row_profile (?row auth))"
    "p = row_profile (?row auth)" "require_model_call_transaction (en_session env) = Inr ()"
    by (auto simp: provision_profile_def outcome_inv stored_model_profile_def)
  moreover from this(1) have "?row auth \<in> set (profiles db')" by (auto simp: insert_profile_def outcome_inv)
  moreover have "pf_spec (row_profile (?row auth)) = pf_spec facts"
    using stored_facts_profile_row[of facts "new_id env 0" "ae_evidence_id auth" "clock env 0"]
    by (auto simp: stored_profile_facts_def)
  ultimately show ?thesis using that by blast
qed

text \<open>
  C19. Publish then read: once \<open>provision_profile\<close> has returned a profile in a reachable database,
  both \<open>ModelCallService.read_exact\<close> and \<open>ModelProfileReader.read_exact\<close> return that same profile for
  its selector (identifier, version and digest) and its project.
\<close>

theorem published_profile_is_readable:
  assumes op: "provision_profile env db facts = Inr (p, db')" and reach: "(model_step (en_codec env))\<^sup>*\<^sup>* empty_db db"
  shows "read_exact env db' (selector p) (spec_project_id (pf_spec facts)) = Inr p \<and>
     reader_read_exact (en_codec env) (en_session env) db' (selector p) (spec_project_id (pf_spec facts)) = Inr p"
  using op
proof (rule provision_profile_row)
  fix row assume row: "row \<in> set (profiles db')" "p = row_profile row" "ProjectModelProfile_valid (en_codec env) p"
    "pf_spec p = pf_spec facts" and tx: "require_model_call_transaction (en_session env) = Inr ()"
  have "(model_step (en_codec env))\<^sup>*\<^sup>* empty_db db'"
    using reach model_step.step_provision_profile[OF op refl] by (rule rtranclp.rtrancl_into_rtrancl)
  then have keys: "distinct (row_keys pr_id (profiles db'))"
    using ledger_okD(1)[OF ledger.reachable_ok] by (auto simp: keys_ok_def)
  have spec: "spec_project_id (pf_spec facts) = pr_project_id row" "spec_profile_version (pf_spec p) = pr_profile_version row"
    unfolding row(4)[symmetric] by (simp_all add: row(2) row_profile_def row_spec_def)
  have sel: "ms_profile_id (selector p) = pr_id row" "ms_profile_version (selector p) = pr_profile_version row"
    "ms_profile_digest (selector p) = pr_profile_digest row"
    by (simp_all add: selector_def spec(2)) (simp_all add: row(2) row_profile_def)
  have valid: "ModelProfileSelector_valid (selector p)"
    using row(3) unfolding ModelProfileSelector_valid_def ProjectModelProfile_valid_def
      ModelProfileProvisioningFacts_valid_def ProjectModelProfileSpec_valid_def spec_fields_valid_def
    by (elim conjE) (simp only: selector_def ModelProfileSelector.simps simp_thms)
  have "profile_exact db' (pr_id row) (pr_profile_version row) (pr_profile_digest row) = Some row"
    unfolding profile_exact_def by (rule find_keyed[OF row(1) _ keys]) auto
  moreover have "find (\<lambda>q. pr_id q = pr_id row \<and> pr_profile_version q = pr_profile_version row \<and>
      pr_profile_digest q = pr_profile_digest row \<and> pr_project_id q = pr_project_id row) (profiles db') = Some row"
    by (rule find_keyed[OF row(1) _ keys]) auto
  moreover have "stored_model_profile (en_codec env) row = Inr p"
    using row(3) by (simp add: stored_model_profile_def row(2)[symmetric])
  moreover have "\<not> (\<not> has_transaction (en_session env) \<or> \<not> transaction_is_active (en_session env) \<or>
      in_nested_transaction (en_session env))"
    using tx by (auto simp: require_model_call_transaction_def split: if_splits)
  ultimately show ?thesis
    using valid tx spec(1) by (simp add: read_exact_def reader_read_exact_def sel row(4))
qed

theorem published_profile_is_readable_witness:
  "read_exact (demo_env 100) demo_db1 (selector (row_profile demo_profile_row)) (demo_id 1) = Inr (row_profile demo_profile_row)"
  using published_profile_is_readable[OF demo_step1] by simp

subsection \<open>Published budgets\<close>

lemma advance_budget_guards:
  assumes "advance_budget env db facts auth = Inr (b, db')"
    and "budget_account db (bs_project_id (bf_spec facts)) = Some old"
  shows "ac_lifetime_reserved_nanodollars old + ac_lifetime_settled_nanodollars old
       \<le> bs_lifetime_limit_nanodollars (bf_spec facts)"
    "current_budget_configuration db old = Some d \<Longrightarrow>
       bs_configuration_version (bf_spec facts) = cf_configuration_version d + 1 \<and>
       cf_authorized_total_nanodollars d \<le> bs_authorized_total_nanodollars (bf_spec facts) \<and>
       cf_externally_reconciled_prior_spend_nanodollars d
         \<le> bs_externally_reconciled_prior_spend_nanodollars (bf_spec facts)"
  using assms by (auto simp: advance_budget_def outcome_inv not_less)

lemma advance_budget_repoints:
  assumes adv: "advance_budget env db facts auth = Inr (b, db')"
    and Some: "budget_account db (bs_project_id (bf_spec facts)) = Some old"
    and c: "c = configuration_row facts (new_id env 0) (ae_evidence_id auth) (clock env 0)"
    and a: "a = old\<lparr>ac_current_configuration_id := cf_id c\<rparr>"
  shows "current_budget_configuration db' a = Some c \<and> effects db' = effects db \<and>
     (\<forall>q. budget_account db' q = (if q = bs_project_id (bf_spec facts) then Some a else budget_account db q))"
proof -
  from adv Some obtain db1 where ins: "insert_configuration db c = Inr db1" "update_account db1 a = Inr db'"
    by (auto simp: advance_budget_def outcome_inv a c)
  have old: "ac_project_id a = bs_project_id (bf_spec facts)"
    using Some by (auto simp: a budget_account_def dest: row_get_SomeD)
  have acc: "accounts db1 = accounts db" using ins(1) by (auto simp: insert_configuration_def outcome_inv)
  have "current_budget_configuration db' a = Some c"
    using ins_configuration.get_new[OF ins(1)] ins(2)
    by (auto simp: current_budget_configuration_def update_account_def outcome_inv a)
  moreover have "budget_account db' q = (if q = bs_project_id (bf_spec facts) then Some a else budget_account db q)" for q
    using ins(2) old acc Some by (auto simp: budget_account_def update_account_def outcome_inv row_get_put)
  moreover have "effects db' = effects db"
    using ins by (auto simp: insert_configuration_def update_account_def outcome_inv)
  ultimately show ?thesis by blast
qed

lemma advance_budget_opens:
  assumes adv: "advance_budget env db facts auth = Inr (b, db')"
    and None: "budget_account db (bs_project_id (bf_spec facts)) = None"
    and c: "c = configuration_row facts (new_id env 0) (ae_evidence_id auth) (clock env 0)"
    and a: "a = \<lparr> ac_project_id = bs_project_id (bf_spec facts), ac_current_configuration_id = cf_id c,
                  ac_lifetime_reserved_nanodollars = 0, ac_lifetime_settled_nanodollars = 0 \<rparr>"
  shows "current_budget_configuration db' a = Some c \<and> effects db' = effects db \<and>
     bs_configuration_version (bf_spec facts) = 1 \<and> 0 \<le> bs_lifetime_limit_nanodollars (bf_spec facts) \<and>
     (\<forall>q. budget_account db' q = (if q = bs_project_id (bf_spec facts) then Some a else budget_account db q))"
proof -
  from adv None obtain db1 where ins: "insert_configuration db c = Inr db1" "insert_account db1 a = Inr db'"
    and v: "bs_configuration_version (bf_spec facts) = 1" "0 \<le> bs_lifetime_limit_nanodollars (bf_spec facts)"
    by (auto simp: advance_budget_def outcome_inv a c)
  have "current_budget_configuration db' a = Some c"
    using ins_configuration.get_new[OF ins(1)] ins(2)
    by (auto simp: a current_budget_configuration_def insert_account_def outcome_inv)
  moreover have "budget_account db' q = (if q = bs_project_id (bf_spec facts) then Some a else budget_account db q)" for q
    using ins_account.get_new[OF ins(2)] ins_account.get_other[OF ins(2), of q] ins(1)
    by (auto simp: a budget_account_def insert_configuration_def outcome_inv)
  moreover have "effects db' = effects db"
    using ins by (auto simp: insert_configuration_def insert_account_def outcome_inv)
  ultimately show ?thesis using v by blast
qed

text \<open>
  C18. Advancing a project's budget never touches what was spent: when \<open>provision_budget\<close> of a new
  operation returns, the account points at a configuration with the requested version and limit,
  its lifetime reserved and settled counters are the ones it had (zero for a new account, whose
  version is one), every other project's account is unchanged, and no model call changes. The
  version is one above the current one, the authorized total and the reconciled prior spend did not
  shrink, and the new limit covers what is already reserved and settled.
\<close>

theorem budget_advance_keeps_usage:
  assumes "provision_budget env db facts = Inr (b, db')"
    and "budget_configuration_by_operation db (bf_operation_id facts) = None"
  shows "\<exists>a c. budget_account db' (bs_project_id (bf_spec facts)) = Some a \<and>
     current_budget_configuration db' a = Some c \<and>
     cf_configuration_version c = bs_configuration_version (bf_spec facts) \<and>
     cf_lifetime_limit_nanodollars c = bs_lifetime_limit_nanodollars (bf_spec facts) \<and>
     ac_lifetime_reserved_nanodollars a + ac_lifetime_settled_nanodollars a \<le> cf_lifetime_limit_nanodollars c \<and>
     effects db' = effects db \<and>
     (\<forall>q. q \<noteq> bs_project_id (bf_spec facts) \<longrightarrow> budget_account db' q = budget_account db q) \<and>
     (case budget_account db (bs_project_id (bf_spec facts)) of
        None \<Rightarrow> ac_lifetime_reserved_nanodollars a = 0 \<and> ac_lifetime_settled_nanodollars a = 0 \<and>
          cf_configuration_version c = 1
      | Some old \<Rightarrow>
          ac_lifetime_reserved_nanodollars a = ac_lifetime_reserved_nanodollars old \<and>
          ac_lifetime_settled_nanodollars a = ac_lifetime_settled_nanodollars old \<and>
          (\<forall>d. current_budget_configuration db old = Some d \<longrightarrow>
             cf_configuration_version c = cf_configuration_version d + 1 \<and>
             cf_authorized_total_nanodollars d \<le> cf_authorized_total_nanodollars c \<and>
             cf_externally_reconciled_prior_spend_nanodollars d
               \<le> cf_externally_reconciled_prior_spend_nanodollars c))"
proof -
  let ?q = "bs_project_id (bf_spec facts)"
  obtain auth where adv: "advance_budget env db facts auth = Inr (b, db')"
    using assms by (auto simp: provision_budget_def outcome_inv)
  let ?c = "configuration_row facts (new_id env 0) (ae_evidence_id auth) (clock env 0)"
  show ?thesis
  proof (cases "budget_account db ?q")
    case None
    let ?a = "\<lparr> ac_project_id = ?q, ac_current_configuration_id = cf_id ?c,
                ac_lifetime_reserved_nanodollars = 0, ac_lifetime_settled_nanodollars = 0 \<rparr>"
    from advance_budget_opens[OF adv None refl refl] show ?thesis
      by (intro exI[of _ ?a] exI[of _ ?c]) (simp add: None configuration_row_def)
  next
    case (Some old)
    let ?a = "old\<lparr>ac_current_configuration_id := cf_id ?c\<rparr>"
    from advance_budget_repoints[OF adv Some refl refl] advance_budget_guards[OF adv Some] show ?thesis
      by (intro exI[of _ ?a] exI[of _ ?c]) (simp add: Some configuration_row_def)
  qed
qed

theorem budget_advance_keeps_usage_witness:
  "\<exists>a. budget_account demo_db2 (demo_id 1) = Some a \<and> ac_lifetime_settled_nanodollars a = 0"
  using budget_advance_keeps_usage[OF demo_step2] by (auto simp: budget_configuration_by_operation_def demo_db1_def
    empty_db_def budget_account_def row_get_def)

subsection \<open>Raw digest arguments\<close>

text \<open>
  The check of a raw digest argument is wider than the digest format. \<open>_sha\<close> accepts every
  lowercase SHA-256 identifier, as it should, but it also returns text that is not one: its test is
  Python's \<open>int(text, 16)\<close>, which allows a sign, so a plus followed by 63 hexadecimal digits passes
  as the 64 digits of a digest.
\<close>

lemma sha_argument_accepts_non_digest:
  "\<exists>s. sha_arg s = Some s \<and> \<not> is_sha256 s"
proof -
  let ?s = "''sha256:+'' @ replicate 63 (CHR ''a'')"
  have "sha_arg ?s = Some ?s" by code_simp
  moreover have "\<not> is_sha256 ?s" by code_simp
  ultimately show ?thesis by blast
qed

end
