(* ===== verification/Outbox_Values.thy ===== *)
theory Outbox_Values
  imports Instants
begin

text \<open>
  The values of \<open>modules/outbox/api.py\<close>: claims, options, causes, outcomes and receipts of a delivery,
  the append input with its payload admission rules, and the phase facts of
  \<open>authorization/api/outbox_dispatch.py\<close>. Every class is a record with the class's fields and its
  validators are the predicate \<open><name>_valid\<close>. Instants are UTC, so the rejection of naive datetimes
  has no counterpart.
\<close>

datatype outbox_error =
    DeliveryUnavailable
  | DeliveryPersistenceError string
  | OutboxInputError
  | OutboxIdempotencyConflict
  | OutboxPersistenceError
  | OutboxIntegrityError string
  | OutboxValueError string

subsection \<open>Constrained strings\<close>

definition is_token_char :: "char \<Rightarrow> bool" where
  "is_token_char c \<longleftrightarrow> is_alnum_char c \<or> c \<in> set ''._:-''"

text \<open>\<open>^[A-Za-z][A-Za-z0-9._:-]{0,127}$\<close>\<close>

definition is_event_type :: "string \<Rightarrow> bool" where
  "is_event_type s \<longleftrightarrow> s \<noteq> [] \<and> length s \<le> 128 \<and> (is_lower_char (hd s) \<or> is_upper_char (hd s)) \<and>
     list_all is_token_char (tl s)"

text \<open>\<open>^[A-Za-z0-9._:-]{1,n}$\<close>\<close>

definition is_token :: "nat \<Rightarrow> string \<Rightarrow> bool" where
  "is_token n s \<longleftrightarrow> s \<noteq> [] \<and> length s \<le> n \<and> list_all is_token_char s"

text \<open>\<open>^[a-z][a-z0-9_]{0,n-1}$\<close>\<close>

definition is_snake :: "nat \<Rightarrow> string \<Rightarrow> bool" where
  "is_snake n s \<longleftrightarrow> s \<noteq> [] \<and> length s \<le> n \<and> is_lower_char (hd s) \<and>
     list_all (\<lambda>c. is_lower_char c \<or> is_digit_char c \<or> c = CHR ''_'') (tl s)"

text \<open>\<open>^[A-Z][A-Z0-9_]{0,79}$\<close>\<close>

definition is_error_code :: "string \<Rightarrow> bool" where
  "is_error_code s \<longleftrightarrow> s \<noteq> [] \<and> length s \<le> 80 \<and> is_upper_char (hd s) \<and>
     list_all (\<lambda>c. is_upper_char c \<or> is_digit_char c \<or> c = CHR ''_'') (tl s)"

subsection \<open>Claims and options\<close>

record OutboxClaim =
  oc_event_id :: uuid
  oc_project_id :: uuid
  oc_payload_digest :: string
  oc_claim_generation :: int
  oc_claim_owner :: string
  oc_claimed_at :: instant
  oc_claim_expires_at :: instant

definition OutboxClaim_valid :: "OutboxClaim \<Rightarrow> bool" where
  "OutboxClaim_valid c \<longleftrightarrow>
     is_sha256 (oc_payload_digest c) \<and>
     1 \<le> oc_claim_generation c \<and> oc_claim_generation c \<le> 2147483647 \<and>
     is_token 120 (oc_claim_owner c) \<and>
     0 < oc_claim_expires_at c - oc_claimed_at c \<and>
     oc_claim_expires_at c - oc_claimed_at c \<le> timedelta_seconds 3600"

datatype HandlerOutcome = Acknowledge | Retry | Reject

datatype FinalizationCause = CauseAcknowledge | CauseRetry | CauseReject | CauseExpired | CauseUnknown

text \<open>\<open>FinalizationCause(result.value)\<close>\<close>

fun cause_of_outcome :: "HandlerOutcome \<Rightarrow> FinalizationCause" where
  "cause_of_outcome Acknowledge = CauseAcknowledge"
| "cause_of_outcome Retry = CauseRetry"
| "cause_of_outcome Reject = CauseReject"

record DeliveryOptions =
  lease_seconds :: int
  handler_timeout_seconds :: int
  max_attempts :: int
  retry_base_seconds :: int
  retry_cap_seconds :: int

definition DeliveryOptions_valid :: "DeliveryOptions \<Rightarrow> bool" where
  "DeliveryOptions_valid p \<longleftrightarrow>
     1 \<le> lease_seconds p \<and> lease_seconds p \<le> 3600 \<and>
     1 \<le> handler_timeout_seconds p \<and> handler_timeout_seconds p \<le> 3600 \<and>
     1 \<le> max_attempts p \<and> max_attempts p \<le> 100 \<and>
     1 \<le> retry_base_seconds p \<and> retry_base_seconds p \<le> 3600 \<and>
     1 \<le> retry_cap_seconds p \<and> retry_cap_seconds p \<le> 86400 \<and>
     handler_timeout_seconds p < lease_seconds p \<and> retry_base_seconds p \<le> retry_cap_seconds p"

definition default_delivery_options :: DeliveryOptions where
  "default_delivery_options = \<lparr> lease_seconds = 300, handler_timeout_seconds = 240, max_attempts = 5,
     retry_base_seconds = 5, retry_cap_seconds = 300 \<rparr>"

subsection \<open>Outcomes and receipts\<close>

text \<open>
  The object that \<open>_outcome\<close> builds. The column \<open>outcome_json\<close> and the field of the same name hold its
  canonical text; the model keeps the object, and \<open>outcome_dump\<close> is the JSON value behind the text.
\<close>

datatype delivery_state = Pending | Claimed | Retryable | Acknowledged | Dead_letter | Cancelled

fun delivery_text :: "delivery_state \<Rightarrow> string" where
  "delivery_text Pending = ''pending''"
| "delivery_text Claimed = ''claimed''"
| "delivery_text Retryable = ''retryable''"
| "delivery_text Acknowledged = ''acknowledged''"
| "delivery_text Dead_letter = ''dead_letter''"
| "delivery_text Cancelled = ''cancelled''"

record DeliveryOutcome =
  do_delivery_state :: delivery_state
  do_error_code :: "string option"
  do_next_attempt_at :: "instant option"
  do_finalized_at :: "instant option"
  do_receipt_completed_at :: instant
  do_invocation_unknown :: bool
  do_invoked_at :: "instant option"

definition iso_or_null :: "instant option \<Rightarrow> json" where
  "iso_or_null m = (case m of None \<Rightarrow> JNull | Some t \<Rightarrow> jstr (isoformat t))"

definition outcome_dump :: "DeliveryOutcome \<Rightarrow> json" where
  "outcome_dump d = jobj
     [(''delivery_state'', jstr (delivery_text (do_delivery_state d))),
      (''error_code'', (case do_error_code d of None \<Rightarrow> JNull | Some s \<Rightarrow> jstr s)),
      (''next_attempt_at'', iso_or_null (do_next_attempt_at d)),
      (''finalized_at'', iso_or_null (do_finalized_at d)),
      (''receipt_completed_at'', jstr (isoformat (do_receipt_completed_at d))),
      (''invocation_unknown'', JBool (do_invocation_unknown d)),
      (''invoked_at'', iso_or_null (do_invoked_at d))]"

record DeliveryReceipt =
  re_claim :: OutboxClaim
  re_outcome :: DeliveryOutcome
  re_outcome_digest :: string

record OutboxEventEnvelope =
  en_claim :: OutboxClaim
  en_event_type :: string
  en_event_version :: int
  en_aggregate_type :: string
  en_aggregate_id :: uuid
  en_correlation_id :: string
  en_causation_event_id :: "uuid option"
  en_idempotency_key :: string
  en_occurred_at :: instant
  en_payload_json :: ustring

record CommittedInvocationObservation =
  ci_claim :: OutboxClaim
  ci_observed_at :: instant

record DrainObservation =
  dr_project_id :: uuid
  dr_observed_at :: instant
  dr_pending :: nat
  dr_claimed :: nat
  dr_retryable :: nat
  dr_invoked :: nat
  dr_unresolved :: nat
  dr_unsupported :: nat
  dr_dead_letter :: nat

record DeliveryCandidate =
  dc_event_id :: uuid
  dc_project_id :: uuid

record DeliveryCandidatePage =
  cp_items :: "DeliveryCandidate list"
  cp_next_after :: "uuid option"

end
