(* ===== verification/Texts.thy ===== *)
theory Texts
  imports Canonical_Json_Bytes
begin

text \<open>
  The string operations that several components use: \<open>str.split\<close> and \<open>str.join\<close> for a one-character
  separator, substring tests, and the length of the UTF-8 encoding. Splitting and joining are the same for a
  \<open>string\<close> and for a list of Unicode code points, so both are polymorphic in the type of characters.
\<close>

fun split_text :: "'a \<Rightarrow> 'a list \<Rightarrow> 'a list list" where
  "split_text d [] = [[]]"
| "split_text d (c # s) = (if c = d then [] # split_text d s
     else case split_text d s of [] \<Rightarrow> [[c]] | p # ps \<Rightarrow> (c # p) # ps)"

fun contains_text :: "string \<Rightarrow> string \<Rightarrow> bool" where
  "contains_text n [] \<longleftrightarrow> n = []"
| "contains_text n (c # s) \<longleftrightarrow> take (length n) (c # s) = n \<or> contains_text n s"

definition ends_with :: "string \<Rightarrow> string \<Rightarrow> bool" where
  "ends_with e s \<longleftrightarrow> length e \<le> length s \<and> drop (length s - length e) s = e"

primrec join_text :: "'a \<Rightarrow> 'a list list \<Rightarrow> 'a list" where
  "join_text d [] = []"
| "join_text d (p # ps) = (if ps = [] then p else p @ d # join_text d ps)"

lemma split_text_nonempty [simp]: "split_text d s \<noteq> []"
  by (induction s) (auto split: list.splits)

lemma split_text_Cons:
  "split_text d (c # s) = (if c = d then [] # split_text d s else (c # hd (split_text d s)) # tl (split_text d s))"
  by (cases "split_text d s") simp_all

lemma join_split: "join_text d (split_text d s) = s"
proof (induction s)
  case (Cons c s)
  then show ?case
    by (cases "split_text d s") (auto split: if_splits)
qed simp

lemma split_text_parts: "p \<in> set (split_text d s) \<Longrightarrow> d \<notin> set p"
proof (induction s arbitrary: p)
  case (Cons c s)
  then show ?case
    by (cases "split_text d s") (auto split: if_splits)
qed simp

lemma split_plain: "d \<notin> set p \<Longrightarrow> split_text d p = [p]"
  by (induction p) auto

lemma split_append_sep: "d \<notin> set p \<Longrightarrow> split_text d (p @ d # s) = p # split_text d s"
  by (induction p) auto

lemma split_join: "ps \<noteq> [] \<Longrightarrow> (\<And>p. p \<in> set ps \<Longrightarrow> d \<notin> set p) \<Longrightarrow> split_text d (join_text d ps) = ps"
  by (induction ps) (auto simp: split_plain split_append_sep)

lemma join_take_drop:
  "0 < n \<Longrightarrow> n < length ps \<Longrightarrow> join_text d ps = join_text d (take n ps) @ d # join_text d (drop n ps)"
proof (induction ps arbitrary: n)
  case (Cons p ps)
  show ?case
  proof (cases "n = 1")
    case True
    then show ?thesis using Cons.prems by auto
  next
    case False
    then have "0 < n - 1" "n - 1 < length ps" "ps \<noteq> []" using Cons.prems by auto
    moreover obtain m where "n = Suc m" using Cons.prems by (cases n) auto
    ultimately show ?thesis using Cons.IH[of "n - 1"] by auto
  qed
qed simp

subsection \<open>UTF-8 length\<close>

definition utf8_length :: "ustring \<Rightarrow> nat" where
  "utf8_length s = length (utf8_bytes s)"

lemma utf8_length_simps [simp]:
  "utf8_length (a @ b) = utf8_length a + utf8_length b" "utf8_length [] = 0"
  by (simp_all add: utf8_length_def)

lemma utf8_length_ascii: "list_all (\<lambda>c. c < 128) s \<Longrightarrow> utf8_length s = length s"
  by (simp add: utf8_length_def ascii_bytes_length)

lemma utf8_length_Cons: "utf8_length (c # s) = utf8_length [c] + utf8_length s"
  using utf8_length_simps(1)[of "[c]" s] by simp

lemma utf8_length_pos: "1 \<le> utf8_length [c]"
  by (simp add: utf8_length_def utf8_octets_def)

end
