(* ===== verification/Outbox_Payload.thy ===== *)
theory Outbox_Payload
  imports Outbox_Values Texts
begin

text \<open>
  Admission of event payloads, the second half of \<open>modules/outbox/api.py\<close>: the sensitive-key test, the
  recursive structure and size check \<open>_encoding_budget\<close>, and the append input. A rejected payload is
  \<open>None\<close>: the boundary replaces every error raised inside by the one \<open>OutboxInputError\<close>, so which of the
  checks failed is not observable.
\<close>

subsection \<open>Sensitive keys\<close>

definition secret_keys :: "string list" where
  "secret_keys = [''access_token'', ''artifact_bytes'', ''authorization'', ''bearer_token'', ''cookie'',
     ''credentials'', ''id_token'', ''jwks'', ''password'', ''raw_callback'', ''raw_provider_response'',
     ''refresh_token'', ''request_body'', ''response_body'', ''secret'', ''signed_url'']"

definition secret_key_parts :: "string list" where
  "secret_key_parts = [''credential'', ''credentials'', ''password'', ''secret'', ''token'']"

definition compact_secret_lexemes :: "string list" where
  "compact_secret_lexemes = [''credential'', ''jwt'', ''passphrase'', ''password'', ''secret'', ''token'']"

definition compact_key_lexemes :: "string list" where
  "compact_key_lexemes = [''accesskey'', ''apikey'', ''encryptionkey'', ''keymaterial'', ''privatekey'',
     ''providerkey'', ''secretkey'', ''signingkey'']"

definition key_qualifiers :: "string list" where
  "key_qualifiers = [''access'', ''api'', ''encryption'', ''private'', ''provider'', ''secret'', ''signing'']"

definition key_descriptors :: "string list" where
  "key_descriptors = [''data'', ''material'', ''payload'', ''value'']"

text \<open>A part \<open>key\<close> that follows a qualifier or precedes a descriptor.\<close>

fun key_compound :: "string list \<Rightarrow> bool" where
  "key_compound (p # q # ps) \<longleftrightarrow>
     (q = ''key'' \<and> p \<in> set key_qualifiers) \<or> (p = ''key'' \<and> q \<in> set key_descriptors) \<or> key_compound (q # ps)"
| "key_compound ps \<longleftrightarrow> False"

text \<open>
  \<open>str.casefold\<close> is \<open>py_lower\<close> on ASCII; a key with any other character is refused by \<open>_KEY\<close> in any case.
\<close>

definition is_sensitive_key :: "string \<Rightarrow> bool" where
  "is_sensitive_key v \<longleftrightarrow>
     (let normalized = map (\<lambda>c. if c = CHR ''-'' then CHR ''_'' else c) (py_lower v);
          parts = split_text (CHR ''_'') normalized
      in normalized \<in> set secret_keys \<or>
         list_ex (\<lambda>p. p \<in> set secret_key_parts) parts \<or>
         normalized = ''key'' \<or> ends_with ''_key'' normalized \<or>
         key_compound parts \<or>
         list_ex (\<lambda>l. contains_text l normalized) compact_secret_lexemes \<or>
         list_ex (\<lambda>l. contains_text l normalized) compact_key_lexemes)"

subsection \<open>Structure and size\<close>

text \<open>
  A key with a character outside ASCII is refused by \<open>_KEY\<close>, or earlier; the tests are made on the text of an ASCII key.
\<close>

definition payload_key_ok :: "ustring \<Rightarrow> bool" where
  "payload_key_ok k \<longleftrightarrow> list_all (\<lambda>c. c < 128) k \<and> \<not> is_sensitive_key (map char_of k) \<and>
     utf8_length k \<le> 128 \<and> is_snake 128 (map char_of k)"

text \<open>\<open>_encoding_budget(value, depth, nodes)\<close>: the size bound of the value and the new node count.\<close>

fun encoding_budget :: "json \<Rightarrow> nat \<Rightarrow> nat \<Rightarrow> (nat \<times> nat) option"
  and budget_members :: "(ustring \<times> json) list \<Rightarrow> nat \<Rightarrow> nat \<Rightarrow> (nat \<times> nat) option"
  and budget_items :: "json list \<Rightarrow> nat \<Rightarrow> nat \<Rightarrow> (nat \<times> nat) option" where
  "encoding_budget v depth nodes =
     (let nodes' = nodes + 1 in
      if nodes' > 4096 then None else
      (case v of
         JObj kvs \<Rightarrow>
           if depth > 16 \<or> length kvs > 1024 then None
           else map_option (\<lambda>(b, n). (2 + (length kvs - 1) + b, n)) (budget_members kvs depth nodes')
       | JArr xs \<Rightarrow>
           if depth > 16 \<or> length xs > 1024 then None
           else map_option (\<lambda>(b, n). (2 + (length xs - 1) + b, n)) (budget_items xs depth nodes')
       | JStr s \<Rightarrow>
           (case encode_utf8 s of None \<Rightarrow> None
            | Some encoded \<Rightarrow> if length encoded > 16384 then None else Some (6 * length encoded + 2, nodes'))
       | JNull \<Rightarrow> Some (4, nodes')
       | JBool _ \<Rightarrow> Some (5, nodes')
       | JInt i \<Rightarrow>
           if \<bar>i\<bar> > 10 ^ 38 - 1 then None else Some (length (int_text i), nodes')
       | JFloat _ \<Rightarrow> None))"
| "budget_members [] depth nodes = Some (0, nodes)"
| "budget_members ((k, v) # kvs) depth nodes =
     (if \<not> payload_key_ok k then None else
      case encoding_budget v (depth + 1) nodes of None \<Rightarrow> None
      | Some (b, n) \<Rightarrow>
          map_option (\<lambda>(bs, n'). (6 * utf8_length k + 3 + b + bs, n')) (budget_members kvs depth n))"
| "budget_items [] depth nodes = Some (0, nodes)"
| "budget_items (x # xs) depth nodes =
     (case encoding_budget x (depth + 1) nodes of None \<Rightarrow> None
      | Some (b, n) \<Rightarrow> map_option (\<lambda>(bs, n'). (b + bs, n')) (budget_items xs depth n))"

declare encoding_budget.simps [simp del]

definition validate_outbox_payload :: "json \<Rightarrow> bool" where
  "validate_outbox_payload v \<longleftrightarrow>
     (case v of
        JObj _ \<Rightarrow> (case encoding_budget v 1 0 of None \<Rightarrow> False | Some (b, _) \<Rightarrow> b \<le> 262144)
      | _ \<Rightarrow> False)"

subsection \<open>The append input\<close>

record OutboxAppendInput =
  ai_event_type :: string
  ai_event_version :: int
  ai_aggregate_type :: string
  ai_aggregate_id :: uuid
  ai_project_id :: uuid
  ai_correlation_id :: string
  ai_causation_event_id :: "uuid option"
  ai_idempotency_key :: string
  ai_payload :: json
  ai_not_before_at :: "instant option"

definition OutboxAppendInput_valid :: "OutboxAppendInput \<Rightarrow> bool" where
  "OutboxAppendInput_valid a \<longleftrightarrow>
     is_event_type (ai_event_type a) \<and> 1 \<le> ai_event_version a \<and> ai_event_version a \<le> 32767 \<and>
     is_snake 64 (ai_aggregate_type a) \<and> is_token 200 (ai_correlation_id a) \<and>
     is_token 200 (ai_idempotency_key a) \<and> validate_outbox_payload (ai_payload a)"

datatype OutboxAppendDisposition = Created | Replayed

record OutboxAppendResult =
  ar_event_id :: uuid
  ar_disposition :: OutboxAppendDisposition
  ar_payload_digest :: string
  ar_occurred_at :: instant

subsection \<open>What admission guarantees\<close>

primrec json_nodes :: "json \<Rightarrow> nat" where
  "json_nodes JNull = 1"
| "json_nodes (JBool b) = 1"
| "json_nodes (JInt n) = 1"
| "json_nodes (JFloat r) = 1"
| "json_nodes (JStr s) = 1"
| "json_nodes (JArr xs) = 1 + sum_list (map json_nodes xs)"
| "json_nodes (JObj kvs) = 1 + sum_list (map (\<lambda>kv. snd kv) (map (map_prod id json_nodes) kvs))"

primrec json_keys :: "json \<Rightarrow> ustring list" where
  "json_keys JNull = []"
| "json_keys (JBool b) = []"
| "json_keys (JInt n) = []"
| "json_keys (JFloat r) = []"
| "json_keys (JStr s) = []"
| "json_keys (JArr xs) = concat (map json_keys xs)"
| "json_keys (JObj kvs) = concat (map (\<lambda>kv. fst kv # snd kv) (map (map_prod id json_keys) kvs))"

lemma hex_text_ascii: "list_all (\<lambda>c. of_char c < (128::nat)) (hex_text n v)"
proof (induction n v rule: hex_text.induct)
  case (2 n v)
  have "\<forall>c \<in> set ''0123456789abcdef''. of_char c < (128::nat)" by simp
  moreover have "hex_digit v \<in> set ''0123456789abcdef''"
    unfolding hex_digit_def by (rule nth_mem) simp
  ultimately have "of_char (hex_digit v) < (128::nat)" by blast
  with 2 show ?case by simp
qed simp

lemma escape_length: "utf8_length (escape_char c) \<le> 6 * utf8_length [c]"
proof (cases c rule: escape_cases)
  case plain
  then show ?thesis by simp
next
  case (short p)
  then have "utf8_length (escape_char c) = 2"
    using short_escapes_code[OF short(1)] by (subst utf8_length_ascii) simp_all
  then show ?thesis using utf8_length_pos[of c] by simp
next
  case hex
  then have "utf8_length (escape_char c) = 6"
    using hex_text_ascii[of 4 c] by (subst utf8_length_ascii) (auto simp: list_all_iff)
  then show ?thesis using utf8_length_pos[of c] by simp
qed

lemma ascii_one: "c < 128 \<Longrightarrow> utf8_length (c # s) = 1 + utf8_length s"
  using utf8_length_Cons[of c s] by (simp add: utf8_length_ascii)

lemma quote_length: "utf8_length (quote_text s) \<le> 6 * utf8_length s + 2"
proof -
  have "utf8_length (concat (map escape_char s)) \<le> 6 * utf8_length s"
  proof (induction s)
    case (Cons c s)
    then show ?case using escape_length[of c] utf8_length_Cons[of c s] by simp
  qed simp
  then show ?thesis by (simp add: quote_text_def ascii_one)
qed

lemma int_text_length: "utf8_length (code_points (int_text i)) = length (int_text i)"
proof -
  have "of_char c < (128::nat)" if "is_digit_char c \<or> c = CHR ''-''" for c
    using that by (auto simp: is_digit_char_def in_range_def)
  then have "list_all (\<lambda>c. c < 128) (code_points (int_text i))"
    using int_text_chars[of i] by (auto simp: list_all_iff)
  then show ?thesis by (simp add: utf8_length_ascii)
qed

lemma nat_text_length: "n < 10 ^ Suc k \<Longrightarrow> length (nat_text n) \<le> Suc k"
proof (induction k arbitrary: n)
  case 0
  then show ?case by (subst nat_text.simps) simp
next
  case (Suc k)
  show ?case
  proof (cases "n < 10")
    case True
    then show ?thesis by (subst nat_text.simps) simp
  next
    case False
    have "n div 10 < 10 ^ Suc k" using Suc.prems by (simp add: less_mult_imp_div_less)
    from Suc.IH[OF this] False show ?thesis by (subst nat_text.simps) simp
  qed
qed

lemma bounded_int_text: "\<bar>i\<bar> \<le> 10 ^ 38 - 1 \<Longrightarrow> length (nat_text (nat \<bar>i\<bar>)) \<le> 4300"
  using nat_text_length[of "nat \<bar>i\<bar>" 37] by (simp add: nat_less_iff)

lemma join_length: "utf8_length (join_comma ss) = sum_list (map utf8_length ss) + (length ss - 1)"
  by (induction ss rule: join_comma.induct) (simp_all add: ascii_one)

lemma member_length: "utf8_length (member_text (k, t)) \<le> 6 * utf8_length k + 3 + utf8_length t"
  using quote_length[of k] by (simp add: member_text_def ascii_one)

lemma dumps_obj_length:
  "utf8_length (dumps (JObj kvs))
     = 2 + (length kvs - 1) + sum_list (map (\<lambda>(k, v). utf8_length (member_text (k, dumps v))) kvs)"
proof -
  let ?f = "\<lambda>kv. case kv of (k, v) \<Rightarrow> utf8_length (member_text (k, dumps v))"
  have "mset (map ?f (sort_key fst kvs)) = mset (map ?f kvs)" by simp
  then have "sum_list (map ?f (sort_key fst kvs)) = sum_list (map ?f kvs)" by (metis sum_mset_sum_list)
  moreover have "map utf8_length (map (\<lambda>(k, v). member_text (k, dumps v)) xs) = map ?f xs" for xs by auto
  ultimately show ?thesis
    unfolding dumps_obj by (simp only: utf8_length_simps(1) join_length length_map length_sort)
      (simp add: ascii_one)
qed


text \<open>What the budget of a value says about the value.\<close>

definition budgeted :: "json \<Rightarrow> nat \<Rightarrow> nat \<Rightarrow> nat \<Rightarrow> bool" where
  "budgeted v n b n' \<longleftrightarrow> utf8_length (dumps v) \<le> b \<and> n' = n + json_nodes v \<and> n' \<le> 4096 \<and>
     list_all payload_key_ok (json_keys v) \<and> hashable v"

lemma budget_scalar:
  "encoding_budget JNull d n = Some (b, n') \<Longrightarrow> budgeted JNull n b n'"
  "encoding_budget (JBool x) d n = Some (b, n') \<Longrightarrow> budgeted (JBool x) n b n'"
  "encoding_budget (JInt i) d n = Some (b, n') \<Longrightarrow> budgeted (JInt i) n b n'"
  "encoding_budget (JStr s) d n = Some (b, n') \<Longrightarrow> budgeted (JStr s) n b n'"
  "encoding_budget (JFloat r) d n = Some (b, n') \<Longrightarrow> budgeted (JFloat r) n b n'"
  using quote_length[of s] bounded_int_text[of i]
  by (auto simp: budgeted_def encoding_budget.simps Let_def int_text_length ascii_one encode_utf8_def utf8_length_def[symmetric] split: if_splits)

lemma payload_key_scalar: "payload_key_ok k \<Longrightarrow> list_all scalar_value k"
  by (auto simp: payload_key_ok_def list_all_iff ascii_scalar)

lemma budget_bounds:
  "encoding_budget v d n = Some (b, n') \<Longrightarrow> budgeted v n b n'"
  "budget_members kvs d n = Some (b, n') \<Longrightarrow> n \<le> 4096 \<Longrightarrow>
     sum_list (map (\<lambda>(k, v). utf8_length (member_text (k, dumps v))) kvs) \<le> b \<and>
     n' = n + sum_list (map (json_nodes \<circ> snd) kvs) \<and> n' \<le> 4096 \<and>
     list_all (\<lambda>(k, v). payload_key_ok k \<and> list_all payload_key_ok (json_keys v) \<and> hashable v) kvs"
  "budget_items xs d n = Some (b, n') \<Longrightarrow> n \<le> 4096 \<Longrightarrow>
     sum_list (map (utf8_length \<circ> dumps) xs) \<le> b \<and> n' = n + sum_list (map json_nodes xs) \<and> n' \<le> 4096 \<and>
     list_all (\<lambda>v. list_all payload_key_ok (json_keys v) \<and> hashable v) xs"
proof (induction v d n and kvs d n and xs d n arbitrary: b n' and b n' and b n'
    rule: encoding_budget_budget_members_budget_items.induct)
  case (1 v d n)
  show ?case
  proof (cases v)
    case (JArr xs)
    with "1.prems" obtain b' where "budget_items xs d (n + 1) = Some (b', n')" "n + 1 \<le> 4096"
        "b = 2 + (length xs - 1) + b'" "\<not> (16 < d \<or> 1024 < length xs)"
      by (subst (asm) encoding_budget.simps) (auto simp: Let_def split: if_splits)
    moreover from this JArr have "sum_list (map (utf8_length \<circ> dumps) xs) \<le> b' \<and>
        n' = n + 1 + sum_list (map json_nodes xs) \<and> n' \<le> 4096 \<and>
        list_all (\<lambda>v. list_all payload_key_ok (json_keys v) \<and> hashable v) xs"
      by (intro "1.IH"(1)) auto
    ultimately show ?thesis by (auto simp: JArr budgeted_def join_length ascii_one list_all_iff)
  next
    case (JObj kvs)
    with "1.prems" obtain b' where "budget_members kvs d (n + 1) = Some (b', n')" "n + 1 \<le> 4096"
        "b = 2 + (length kvs - 1) + b'" "\<not> (16 < d \<or> 1024 < length kvs)"
      by (subst (asm) encoding_budget.simps) (auto simp: Let_def split: if_splits)
    moreover from this JObj have "sum_list (map (\<lambda>(k, v). utf8_length (member_text (k, dumps v))) kvs) \<le> b' \<and>
        n' = n + 1 + sum_list (map (json_nodes \<circ> snd) kvs) \<and> n' \<le> 4096 \<and>
        list_all (\<lambda>(k, v). payload_key_ok k \<and> list_all payload_key_ok (json_keys v) \<and> hashable v) kvs"
      by (intro "1.IH"(2)) auto
    moreover have "map (snd \<circ> map_prod id json_nodes) kvs = map (json_nodes \<circ> snd) kvs" by auto
    moreover have "list_all (\<lambda>(k, v). list_all scalar_value k \<and> hashable v) kvs"
      using calculation(5) payload_key_scalar by (fastforce simp: list_all_iff)
    ultimately show ?thesis
      by (auto simp: JObj budgeted_def dumps_obj_length list_all_iff simp del: dumps.simps)
  qed (use "1.prems" in \<open>auto dest!: budget_scalar\<close>)
next
  case (3 k v kvs d n)
  then obtain b1 n1 b2 where *: "payload_key_ok k" "encoding_budget v (d + 1) n = Some (b1, n1)"
      "budget_members kvs d n1 = Some (b2, n')" "b = 6 * utf8_length k + 3 + b1 + b2"
    by (auto split: if_splits option.splits)
  from "3.IH"(1)[OF _ *(2)] *(1) "3.IH"(2)[OF _ *(2) refl *(3)] show ?case
    using member_length[of k "dumps v"] by (simp add: * budgeted_def)
next
  case (5 x xs d n)
  then obtain b1 n1 b2 where *: "encoding_budget x (d + 1) n = Some (b1, n1)"
      "budget_items xs d n1 = Some (b2, n')" "b = b1 + b2"
    by (auto split: option.splits)
  from "5.IH"(1)[OF *(1)] "5.IH"(2)[OF *(1) refl *(2)] show ?case by (simp add: * budgeted_def)
qed simp_all

lemma validated_payload:
  assumes "validate_outbox_payload v"
  obtains b n where "budgeted v 0 b n" "b \<le> 262144"
  using assms budget_bounds(1)[of v 1 0] that
  by (auto simp: validate_outbox_payload_def split: json.splits option.splits)

lemma validated_payload_hash: "validate_outbox_payload v \<Longrightarrow> canonical_json_hash sha v = Inr (json_digest sha v)"
  by (elim validated_payload) (simp add: budgeted_def json_digest_hash)

lemma payload_key_text: "payload_key_ok k \<Longrightarrow> \<exists>s. k = code_points s \<and> \<not> is_sensitive_key s \<and> is_snake 128 s"
proof (intro exI conjI)
  assume ok: "payload_key_ok k"
  then have "c mod 256 = c" if "c \<in> set k" for c using that by (auto simp: payload_key_ok_def list_all_iff)
  then show "k = code_points (map char_of k)" by (simp add: code_points_def comp_def map_idI)
qed (simp_all add: payload_key_ok_def)

lemma payload_key_code_points:
  assumes "list_all (\<lambda>c. of_char c < (128::nat)) s"
  shows "payload_key_ok (code_points s) \<longleftrightarrow> \<not> is_sensitive_key s \<and> length s \<le> 128 \<and> is_snake 128 s"
proof -
  have "map char_of (code_points s) = s" by (simp add: code_points_def comp_def)
  moreover have "list_all (\<lambda>c. c < 128) (code_points s)" using assms by (auto simp: list_all_iff)
  ultimately show ?thesis by (simp add: payload_key_ok_def utf8_length_ascii)
qed

text \<open>
  C38. An admitted payload can be encoded, is bounded and carries no secret-bearing field. If
  \<open>validate_outbox_payload\<close> accepts a value, then its canonical UTF-8 bytes, which are hashed and handed to a
  handler, exist and are at most 262144; the value has at most 4096 nodes; and no object inside it, at any
  depth, has a key that the sensitive-key test rejects or that is not a short lowercase identifier. This holds for
  every payload of strings of any characters, integers, floats, booleans, nulls, lists and string-keyed
  objects; the size estimate is computed without encoding the value.
\<close>

theorem admitted_payload_is_bounded:
  assumes "validate_outbox_payload v"
  shows "(\<exists>bs. canonical_json_bytes v = Inr bs \<and> length bs \<le> 262144) \<and> json_nodes v \<le> 4096 \<and>
     list_all (\<lambda>k. \<exists>s. k = code_points s \<and> \<not> is_sensitive_key s \<and> is_snake 128 s) (json_keys v)"
proof -
  obtain b n where "budgeted v 0 b n" "b \<le> 262144" using assms by (rule validated_payload)
  then show ?thesis
    using payload_key_text by (auto simp: budgeted_def hashable_bytes utf8_length_def list_all_iff)
qed

theorem admitted_payload_is_bounded_witness:
  "json_nodes (JObj [(code_points ''task_id'', JStr [233, 20013, 128512]), (code_points ''history'', JArr [JInt 1, JNull])]) \<le> 4096"
proof -
  have len: "utf8_length (code_points ''task_id'') = 7" "utf8_length (code_points ''history'') = 7"
    by (simp_all add: ascii_one)
  have "\<not> is_sensitive_key ''task_id''" "\<not> is_sensitive_key ''history''" by code_simp+
  then have keys: "payload_key_ok (code_points ''task_id'')" "payload_key_ok (code_points ''history'')"
    by (simp_all add: payload_key_code_points is_snake_def is_lower_char_def is_digit_char_def in_range_def del: code_points_simps)
  have "encode_utf8 [233, 20013, 128512] = Some (utf8_bytes [233, 20013, 128512])" by (simp add: encode_utf8_def scalar_value_def)
  moreover have "length (utf8_bytes [233, 20013, 128512]) = 9" by (simp add: utf8_octets_def)
  ultimately have "validate_outbox_payload (JObj [(code_points ''task_id'', JStr [233, 20013, 128512]), (code_points ''history'', JArr [JInt 1, JNull])])"
    using keys len
    by (simp add: validate_outbox_payload_def encoding_budget.simps int_text_def nat_text.simps del: code_points_simps utf8_bytes_simps)
  from admitted_payload_is_bounded[OF this] show ?thesis by blast
qed

end
