(* ===== verification/Outbox_Rows.thy ===== *)
theory Outbox_Rows
  imports Outbox_Payload
begin

text \<open>
  The two tables of \<open>modules/outbox/models.py\<close> with their CHECK, UNIQUE and key constraints, and the
  database functions that guard them: \<open>guard_outbox_event\<close>, \<open>guard_outbox_delivery_attempt\<close>,
  \<open>outbox_delivery_outcome_valid\<close> and the deferred \<open>check_outbox_delivery_projection\<close>, in the form the
  migrations \<open>0044\<close> and \<open>0046\<close> leave them in. A CHECK passes unless it is false, so a comparison with a
  null column holds (\<open>nn\<close>). Not modelled: the foreign keys into other modules and the trigger that
  compares a decision identifier with the audit trail.
\<close>

subsection \<open>Rows\<close>

record OutboxEvent =
  ev_event_id :: uuid
  ev_event_type :: string
  ev_event_version :: int
  ev_producer :: string
  ev_aggregate_type :: string
  ev_aggregate_id :: uuid
  ev_project_id :: uuid
  ev_correlation_id :: string
  ev_causation_event_id :: "uuid option"
  ev_idempotency_key :: string
  ev_payload :: json
  ev_payload_digest :: string
  ev_occurred_at :: instant
  ev_not_before_at :: "instant option"
  ev_delivery_state :: delivery_state
  ev_attempt_count :: int
  ev_next_attempt_at :: "instant option"
  ev_claim_owner :: "string option"
  ev_claim_generation :: int
  ev_claimed_at :: "instant option"
  ev_claim_expires_at :: "instant option"
  ev_last_attempt_at :: "instant option"
  ev_last_error_code :: "string option"
  ev_finalized_at :: "instant option"
  ev_archived_at :: "instant option"

datatype attempt_stage = Stage_claimed | Stage_invoked | Stage_completed

record OutboxDeliveryAttempt =
  da_event_id :: uuid
  da_claim_generation :: int
  da_project_id :: uuid
  da_payload_digest :: string
  da_claim_owner :: string
  da_claimed_at :: instant
  da_claim_expires_at :: instant
  da_stage :: attempt_stage
  da_invoked_at :: "instant option"
  da_outcome :: "DeliveryOutcome option"
  da_outcome_digest :: "string option"
  da_claim_decision_event_id :: uuid
  da_invoke_decision_event_id :: "uuid option"
  da_finalize_decision_event_id :: "uuid option"

record outbox_db =
  ob_events :: "OutboxEvent list"
  ob_attempts :: "OutboxDeliveryAttempt list"

definition empty_outbox :: outbox_db where
  "empty_outbox = \<lparr> ob_events = [], ob_attempts = [] \<rparr>"

definition attempt_key :: "OutboxDeliveryAttempt \<Rightarrow> uuid \<times> int" where
  "attempt_key a = (da_event_id a, da_claim_generation a)"

subsection \<open>CHECK constraints\<close>

text \<open>A comparison of nullable columns is not false.\<close>

definition nn :: "('a \<Rightarrow> 'b \<Rightarrow> bool) \<Rightarrow> 'a option \<Rightarrow> 'b option \<Rightarrow> bool" where
  "nn R a b \<longleftrightarrow> (case a of None \<Rightarrow> True | Some x \<Rightarrow> (case b of None \<Rightarrow> True | Some y \<Rightarrow> R x y))"

lemma nn_simps [simp]: "nn R None b" "nn R a None" "nn R (Some x) (Some y) \<longleftrightarrow> R x y"
  by (simp_all add: nn_def split: option.splits)

definition event_envelope_check :: "(json \<Rightarrow> nat) \<Rightarrow> OutboxEvent \<Rightarrow> bool" where
  "event_envelope_check octets e \<longleftrightarrow>
     require_uuid7 (ev_event_id e) \<and> is_event_type (ev_event_type e) \<and>
     1 \<le> ev_event_version e \<and> ev_event_version e \<le> 32767 \<and> ev_producer e = ''workstream'' \<and>
     is_snake 64 (ev_aggregate_type e) \<and> is_token 200 (ev_correlation_id e) \<and>
     is_token 200 (ev_idempotency_key e) \<and> is_sha256 (ev_payload_digest e) \<and>
     (case ev_payload e of JObj _ \<Rightarrow> True | _ \<Rightarrow> False) \<and> octets (ev_payload e) \<le> 262144"

definition event_times_check :: "OutboxEvent \<Rightarrow> bool" where
  "event_times_check e \<longleftrightarrow>
     (ev_not_before_at e = None \<or>
       nn (\<ge>) (ev_next_attempt_at e) (ev_not_before_at e) \<and> nn (\<ge>) (ev_claimed_at e) (ev_not_before_at e)) \<and>
     nn (\<ge>) (ev_next_attempt_at e) (Some (ev_occurred_at e)) \<and>
     nn (\<ge>) (ev_claimed_at e) (Some (ev_occurred_at e)) \<and>
     nn (\<ge>) (ev_last_attempt_at e) (Some (ev_occurred_at e)) \<and>
     nn (>) (ev_claim_expires_at e) (ev_claimed_at e) \<and>
     nn (\<ge>) (ev_finalized_at e) (Some (ev_occurred_at e)) \<and>
     nn (\<ge>) (ev_finalized_at e) (ev_last_attempt_at e) \<and>
     nn (\<ge>) (ev_archived_at e) (ev_finalized_at e)"

fun event_shape_check :: "OutboxEvent \<Rightarrow> bool" where
  "event_shape_check e \<longleftrightarrow>
     0 \<le> ev_attempt_count e \<and> 0 \<le> ev_claim_generation e \<and> ev_attempt_count e = ev_claim_generation e \<and>
     pred_option (is_token 120) (ev_claim_owner e) \<and> pred_option is_error_code (ev_last_error_code e) \<and>
     (case ev_delivery_state e of
        Pending \<Rightarrow>
          ev_attempt_count e = 0 \<and> ev_next_attempt_at e \<noteq> None \<and> ev_claim_owner e = None \<and>
          ev_claimed_at e = None \<and> ev_claim_expires_at e = None \<and> ev_last_attempt_at e = None \<and>
          ev_last_error_code e = None \<and> ev_finalized_at e = None \<and> ev_archived_at e = None
      | Claimed \<Rightarrow>
          ev_attempt_count e > 0 \<and> ev_next_attempt_at e = None \<and> ev_claim_owner e \<noteq> None \<and>
          ev_claimed_at e \<noteq> None \<and> ev_claim_expires_at e \<noteq> None \<and>
          nn (=) (ev_last_attempt_at e) (ev_claimed_at e) \<and>
          ev_finalized_at e = None \<and> ev_archived_at e = None
      | Retryable \<Rightarrow>
          ev_attempt_count e > 0 \<and> ev_next_attempt_at e \<noteq> None \<and> ev_claim_owner e = None \<and>
          ev_claimed_at e = None \<and> ev_claim_expires_at e = None \<and> ev_last_attempt_at e \<noteq> None \<and>
          ev_last_error_code e \<noteq> None \<and> ev_finalized_at e = None \<and> ev_archived_at e = None
      | Acknowledged \<Rightarrow>
          ev_attempt_count e > 0 \<and> ev_next_attempt_at e = None \<and> ev_claim_owner e = None \<and>
          ev_claimed_at e = None \<and> ev_claim_expires_at e = None \<and> ev_last_attempt_at e \<noteq> None \<and>
          ev_finalized_at e \<noteq> None
      | Dead_letter \<Rightarrow>
          ev_attempt_count e > 0 \<and> ev_next_attempt_at e = None \<and> ev_claim_owner e = None \<and>
          ev_claimed_at e = None \<and> ev_claim_expires_at e = None \<and> ev_last_attempt_at e \<noteq> None \<and>
          ev_last_error_code e \<noteq> None \<and> ev_finalized_at e \<noteq> None
      | Cancelled \<Rightarrow>
          ev_next_attempt_at e = None \<and> ev_claim_owner e = None \<and> ev_claimed_at e = None \<and>
          ev_claim_expires_at e = None \<and> ev_finalized_at e \<noteq> None \<and> ev_attempt_count e = 0 \<and>
          ev_last_attempt_at e = None \<and> ev_last_error_code e = None)"

declare event_shape_check.simps [simp del]

definition event_check :: "(json \<Rightarrow> nat) \<Rightarrow> OutboxEvent \<Rightarrow> bool" where
  "event_check octets e \<longleftrightarrow> event_envelope_check octets e \<and> event_times_check e \<and> event_shape_check e"

definition attempt_phase_check :: "OutboxDeliveryAttempt \<Rightarrow> bool" where
  "attempt_phase_check a \<longleftrightarrow>
     (case da_stage a of
        Stage_claimed \<Rightarrow> da_invoke_decision_event_id a = None \<and> da_finalize_decision_event_id a = None
      | Stage_invoked \<Rightarrow> da_invoke_decision_event_id a \<noteq> None \<and> da_finalize_decision_event_id a = None
      | Stage_completed \<Rightarrow> da_finalize_decision_event_id a \<noteq> None \<and>
          (da_invoked_at a = None \<longleftrightarrow> da_invoke_decision_event_id a = None))"

definition invoked_in_lease :: "OutboxDeliveryAttempt \<Rightarrow> bool" where
  "invoked_in_lease a \<longleftrightarrow>
     pred_option (\<lambda>t. da_claimed_at a \<le> t \<and> t < da_claim_expires_at a) (da_invoked_at a)"

definition attempt_shape_check :: "OutboxDeliveryAttempt \<Rightarrow> bool" where
  "attempt_shape_check a \<longleftrightarrow>
     1 \<le> da_claim_generation a \<and> da_claim_generation a \<le> 2147483647 \<and>
     is_token 120 (da_claim_owner a) \<and> is_sha256 (da_payload_digest a) \<and>
     da_claim_expires_at a > da_claimed_at a \<and>
     da_claim_expires_at a \<le> da_claimed_at a + timedelta_seconds 3600 \<and>
     (case da_stage a of
        Stage_claimed \<Rightarrow> da_invoked_at a = None \<and> da_outcome a = None \<and> da_outcome_digest a = None
      | Stage_invoked \<Rightarrow> da_invoked_at a \<noteq> None \<and> invoked_in_lease a \<and> da_outcome a = None \<and>
          da_outcome_digest a = None
      | Stage_completed \<Rightarrow> da_outcome a \<noteq> None \<and> da_outcome_digest a \<noteq> None \<and> invoked_in_lease a)"

subsection \<open>Guards of the event table\<close>

text \<open>The INSERT branch of \<open>guard_outbox_event\<close>: the delivery columns always start out pending.\<close>

definition guard_event_insert :: "instant \<Rightarrow> OutboxEvent \<Rightarrow> OutboxEvent" where
  "guard_event_insert event_time e =
     e\<lparr> ev_producer := ''workstream'', ev_occurred_at := event_time, ev_delivery_state := Pending,
        ev_attempt_count := 0,
        ev_next_attempt_at := Some (case ev_not_before_at e of None \<Rightarrow> event_time | Some t \<Rightarrow> max event_time t),
        ev_claim_owner := None, ev_claim_generation := 0, ev_claimed_at := None, ev_claim_expires_at := None,
        ev_last_attempt_at := None, ev_last_error_code := None, ev_finalized_at := None,
        ev_archived_at := None \<rparr>"

text \<open>The immutable columns, and the columns that no transition out of \<open>old\<close> may touch.\<close>

definition event_identity where
  "event_identity e =
     ((ev_event_id e, ev_event_type e, ev_event_version e, ev_producer e, ev_aggregate_type e),
      (ev_aggregate_id e, ev_project_id e, ev_correlation_id e, ev_causation_event_id e),
      (ev_idempotency_key e, ev_payload e, ev_payload_digest e, ev_occurred_at e, ev_not_before_at e))"

definition event_delivery where
  "event_delivery e =
     ((ev_delivery_state e, ev_attempt_count e, ev_next_attempt_at e, ev_claim_owner e, ev_claim_generation e),
      (ev_claimed_at e, ev_claim_expires_at e, ev_last_attempt_at e, ev_last_error_code e, ev_finalized_at e,
       ev_archived_at e))"

definition same_counters :: "OutboxEvent \<Rightarrow> OutboxEvent \<Rightarrow> bool" where
  "same_counters old new \<longleftrightarrow> ev_attempt_count new = ev_attempt_count old \<and>
     ev_claim_generation new = ev_claim_generation old \<and> ev_last_attempt_at new = ev_last_attempt_at old"

definition open_state :: "delivery_state \<Rightarrow> bool" where
  "open_state st \<longleftrightarrow> st = Pending \<or> st = Retryable"

definition guard_event_transition :: "OutboxEvent \<Rightarrow> OutboxEvent \<Rightarrow> bool" where
  "guard_event_transition old new \<longleftrightarrow>
     (if open_state (ev_delivery_state old) \<and> ev_delivery_state new = Claimed then
        ev_attempt_count new = ev_attempt_count old + 1 \<and> ev_claim_generation new = ev_claim_generation old + 1 \<and>
        ev_last_error_code new = ev_last_error_code old
      else if ev_delivery_state old = Claimed \<and>
              ev_delivery_state new \<in> {Retryable, Acknowledged, Dead_letter, Cancelled} then
        same_counters old new
      else if ev_delivery_state old = Dead_letter \<and> ev_delivery_state new = Retryable \<and>
              ev_archived_at old = None then
        same_counters old new \<and> ev_last_error_code new = ev_last_error_code old
      else if open_state (ev_delivery_state old) \<and> ev_delivery_state new = Cancelled then
        same_counters old new \<and> ev_last_error_code new = ev_last_error_code old
      else if open_state (ev_delivery_state old) \<and> ev_delivery_state new = ev_delivery_state old then
        event_delivery (new\<lparr>ev_next_attempt_at := ev_next_attempt_at old\<rparr>) = event_delivery old
      else if ev_delivery_state old \<in> {Acknowledged, Dead_letter, Cancelled} \<and>
              ev_delivery_state new = ev_delivery_state old then
        event_delivery (new\<lparr>ev_archived_at := ev_archived_at old\<rparr>) = event_delivery old \<and>
        \<not> (ev_archived_at old \<noteq> None \<and> ev_archived_at new \<noteq> ev_archived_at old) \<and>
        \<not> (ev_archived_at old = None \<and> ev_archived_at new = None)
      else False)"

text \<open>The UPDATE branch of \<open>guard_outbox_event\<close>.\<close>

definition guard_event_update :: "OutboxEvent \<Rightarrow> OutboxEvent \<Rightarrow> bool" where
  "guard_event_update old new \<longleftrightarrow>
     event_identity new = event_identity old \<and>
     \<not> (ev_attempt_count new < ev_attempt_count old \<or> ev_claim_generation new < ev_claim_generation old \<or>
        ev_attempt_count new \<noteq> ev_claim_generation new) \<and>
     \<not> (ev_archived_at old \<noteq> None \<and> event_delivery new \<noteq> event_delivery old) \<and>
     guard_event_transition old new"

subsection \<open>Guards of the attempt table\<close>

definition guard_attempt_current :: "instant \<Rightarrow> OutboxDeliveryAttempt \<Rightarrow> bool" where
  "guard_attempt_current now new \<longleftrightarrow>
     \<not> (da_stage new = Stage_invoked \<and>
        (\<not> nn (\<le>) (da_invoked_at new) (Some now) \<or> da_claim_expires_at new \<le> now)) \<and>
     \<not> (da_stage new = Stage_completed \<and>
        \<not> nn (\<le>) (map_option do_receipt_completed_at (da_outcome new)) (Some now))"

definition guard_attempt_insert :: "instant \<Rightarrow> OutboxDeliveryAttempt \<Rightarrow> bool" where
  "guard_attempt_insert now new \<longleftrightarrow>
     da_stage new = Stage_claimed \<and> da_claimed_at new \<le> now \<and> now < da_claim_expires_at new \<and>
     guard_attempt_current now new"

definition attempt_lease where
  "attempt_lease a = (da_event_id a, da_claim_generation a, da_project_id a, da_payload_digest a,
     da_claim_owner a, da_claimed_at a, da_claim_expires_at a)"

definition guard_attempt_update :: "instant \<Rightarrow> OutboxDeliveryAttempt \<Rightarrow> OutboxDeliveryAttempt \<Rightarrow> bool" where
  "guard_attempt_update now old new \<longleftrightarrow>
     attempt_lease new = attempt_lease old \<and> da_stage old \<noteq> Stage_completed \<and>
     (da_stage old = Stage_claimed \<and> da_stage new \<in> {Stage_invoked, Stage_completed} \<or>
      da_stage old = Stage_invoked \<and> da_stage new = Stage_completed) \<and>
     \<not> (da_stage old = Stage_claimed \<and> da_stage new = Stage_completed \<and> da_invoked_at new \<noteq> None) \<and>
     \<not> (da_stage old = Stage_invoked \<and> da_invoked_at new \<noteq> da_invoked_at old) \<and>
     guard_attempt_current now new"

text \<open>
  \<open>outbox_delivery_outcome_valid\<close>. The tests of the key set, the types and the canonical text of the
  stored JSON hold by the representation of an outcome; the others are the function's own.
\<close>

definition outcome_kind_valid :: "DeliveryOutcome \<Rightarrow> instant option \<Rightarrow> bool" where
  "outcome_kind_valid d invoked \<longleftrightarrow>
     (let completed = do_receipt_completed_at d; retry_time = do_next_attempt_at d;
          final_time = do_finalized_at d; code = do_error_code d; st = do_delivery_state d;
          retries = (case retry_time of None \<Rightarrow> False | Some r \<Rightarrow> r > completed)
      in if do_invocation_unknown d then
           invoked \<noteq> None \<and> code = Some ''INVOKE_OUTCOME_UNKNOWN'' \<and>
           (st = Dead_letter \<and> retry_time = None \<and> final_time = Some completed \<or>
            st = Retryable \<and> retries \<and> final_time = None)
         else case st of
           Acknowledged \<Rightarrow> invoked \<noteq> None \<and> code = None \<and> retry_time = None \<and> final_time = Some completed
         | Retryable \<Rightarrow> final_time = None \<and> retries \<and>
             (invoked = None \<and> code = Some ''LEASE_EXPIRED_BEFORE_INVOKE'' \<or>
              invoked \<noteq> None \<and> code = Some ''RETRY_REQUESTED'')
         | Dead_letter \<Rightarrow> retry_time = None \<and> final_time = Some completed \<and>
             (code = Some ''ATTEMPTS_EXHAUSTED'' \<or> invoked \<noteq> None \<and> code = Some ''HANDLER_REJECTED'')
         | _ \<Rightarrow> False)"

definition outbox_delivery_outcome_valid ::
    "(octets \<Rightarrow> string) \<Rightarrow> DeliveryOutcome \<Rightarrow> string option \<Rightarrow> instant \<Rightarrow> instant \<Rightarrow> instant option \<Rightarrow> bool" where
  "outbox_delivery_outcome_valid sha d digest claimed expires invoked \<longleftrightarrow>
     (let completed = do_receipt_completed_at d in
      nn (=) digest (Some (json_digest sha (outcome_dump d))) \<and>
      \<not> completed < claimed \<and> nn (\<le>) invoked (Some completed) \<and> do_invoked_at d = invoked \<and>
      \<not> (invoked = None \<and> (completed < expires \<or>
           \<not> pred_option (\<lambda>c. c \<in> set [''LEASE_EXPIRED_BEFORE_INVOKE'', ''ATTEMPTS_EXHAUSTED'']) (do_error_code d))) \<and>
      \<not> (invoked \<noteq> None \<and> \<not> do_invocation_unknown d \<and> completed \<ge> expires) \<and>
      nn (\<le>) (do_next_attempt_at d) (Some (completed + timedelta_seconds 86400)) \<and>
      outcome_kind_valid d invoked)"

definition attempt_check :: "(octets \<Rightarrow> string) \<Rightarrow> OutboxDeliveryAttempt \<Rightarrow> bool" where
  "attempt_check sha a \<longleftrightarrow> attempt_phase_check a \<and> attempt_shape_check a \<and>
     pred_option (\<lambda>d. outbox_delivery_outcome_valid sha d (da_outcome_digest a) (da_claimed_at a)
        (da_claim_expires_at a) (da_invoked_at a)) (da_outcome a)"

subsection \<open>The deferred custody check\<close>

definition event_attempts :: "outbox_db \<Rightarrow> uuid \<Rightarrow> OutboxDeliveryAttempt list" where
  "event_attempts db i = filter (\<lambda>a. da_event_id a = i) (ob_attempts db)"

text \<open>The event types whose unknown outcome may be retried, as migration \<open>0046\<close> lists them.\<close>

definition unknown_retry_registered :: "string \<Rightarrow> int \<Rightarrow> bool" where
  "unknown_retry_registered t v \<longleftrightarrow>
     t \<in> set [''TaskRevisionExpiryRequested'', ''TaskRevisionExpired''] \<and> v = 1"

definition unknown_retry :: "OutboxDeliveryAttempt \<Rightarrow> bool" where
  "unknown_retry a \<longleftrightarrow>
     (case da_outcome a of None \<Rightarrow> False
      | Some d \<Rightarrow> do_invocation_unknown d \<and> do_delivery_state d = Retryable)"

definition attempt_misfits :: "OutboxEvent \<Rightarrow> OutboxDeliveryAttempt \<Rightarrow> bool" where
  "attempt_misfits e x \<longleftrightarrow>
     da_claim_generation x > ev_claim_generation e \<or> da_project_id x \<noteq> ev_project_id e \<or>
     da_payload_digest x \<noteq> ev_payload_digest e \<or> da_claimed_at x < ev_occurred_at e \<or>
     da_claim_generation x < ev_claim_generation e \<and> da_stage x \<noteq> Stage_completed"

definition current_custody_matches :: "OutboxEvent \<Rightarrow> OutboxDeliveryAttempt \<Rightarrow> bool" where
  "current_custody_matches e a \<longleftrightarrow>
     (if ev_delivery_state e = Claimed then
        da_stage a \<in> {Stage_claimed, Stage_invoked} \<and>
        ev_claim_owner e = Some (da_claim_owner a) \<and> ev_claimed_at e = Some (da_claimed_at a) \<and>
        ev_claim_expires_at e = Some (da_claim_expires_at a) \<and> ev_last_attempt_at e = Some (da_claimed_at a)
      else
        da_stage a = Stage_completed \<and> ev_last_attempt_at e = Some (da_claimed_at a) \<and>
        (case da_outcome a of None \<Rightarrow> False
         | Some d \<Rightarrow> ev_delivery_state e = do_delivery_state d \<and> ev_last_error_code e = do_error_code d \<and>
             ev_next_attempt_at e = do_next_attempt_at d \<and> ev_finalized_at e = do_finalized_at d))"

definition delivery_projection_ok :: "outbox_db \<Rightarrow> OutboxEvent \<Rightarrow> bool" where
  "delivery_projection_ok db e \<longleftrightarrow>
     (let xs = event_attempts db (ev_event_id e) in
      int (length xs) = ev_claim_generation e \<and> \<not> list_ex (attempt_misfits e) xs \<and>
      \<not> list_ex (\<lambda>x. unknown_retry x \<and> \<not> unknown_retry_registered (ev_event_type e) (ev_event_version e)) xs \<and>
      (ev_claim_generation e = 0 \<or>
       (case find (\<lambda>x. da_claim_generation x = ev_claim_generation e) xs of
          None \<Rightarrow> False
        | Some a \<Rightarrow> current_custody_matches e a)))"

definition check_outbox_delivery_projection :: "outbox_db \<Rightarrow> uuid \<Rightarrow> bool" where
  "check_outbox_delivery_projection db i \<longleftrightarrow>
     (case row_get ev_event_id i (ob_events db) of None \<Rightarrow> False | Some e \<Rightarrow> delivery_projection_ok db e)"

subsection \<open>Statements\<close>

definition require_row :: "bool \<Rightarrow> string \<Rightarrow> 'a \<Rightarrow> outbox_error + 'a" where
  "require_row ok what x = (if ok then Inr x else Inl (OutboxIntegrityError what))"

lemma require_row_Inr [outcome_inv]: "require_row ok w x = Inr y \<longleftrightarrow> ok \<and> x = y"
  by (simp add: require_row_def)

definition update_event :: "(json \<Rightarrow> nat) \<Rightarrow> outbox_db \<Rightarrow> OutboxEvent \<Rightarrow> outbox_error + outbox_db" where
  "update_event octets db e =
     need (row_get ev_event_id (ev_event_id e) (ob_events db)) (OutboxIntegrityError ''outbox_events'') (\<lambda>old.
     require_row (guard_event_update old e \<and> event_check octets e) ''outbox_events''
       (db\<lparr>ob_events := row_put ev_event_id e (ob_events db)\<rparr>))"

text \<open>Two attempts may not share a key or a decision.\<close>

definition attempt_clash :: "OutboxDeliveryAttempt \<Rightarrow> OutboxDeliveryAttempt \<Rightarrow> bool" where
  "attempt_clash a b \<longleftrightarrow> attempt_key a = attempt_key b \<or>
     da_claim_decision_event_id a = da_claim_decision_event_id b \<or>
     (da_invoke_decision_event_id a \<noteq> None \<and> da_invoke_decision_event_id a = da_invoke_decision_event_id b) \<or>
     (da_finalize_decision_event_id a \<noteq> None \<and> da_finalize_decision_event_id a = da_finalize_decision_event_id b)"

definition insert_attempt ::
    "(octets \<Rightarrow> string) \<Rightarrow> instant \<Rightarrow> outbox_db \<Rightarrow> OutboxDeliveryAttempt \<Rightarrow> outbox_error + outbox_db" where
  "insert_attempt sha now db a =
     require_row (guard_attempt_insert now a \<and> attempt_check sha a \<and> \<not> list_ex (attempt_clash a) (ob_attempts db) \<and>
         row_get ev_event_id (da_event_id a) (ob_events db) \<noteq> None)
       ''outbox_delivery_attempts'' (db\<lparr>ob_attempts := ob_attempts db @ [a]\<rparr>)"

definition update_attempt ::
    "(octets \<Rightarrow> string) \<Rightarrow> instant \<Rightarrow> outbox_db \<Rightarrow> OutboxDeliveryAttempt \<Rightarrow> outbox_error + outbox_db" where
  "update_attempt sha now db a =
     need (row_get attempt_key (attempt_key a) (ob_attempts db)) (OutboxIntegrityError ''outbox_delivery_attempts'')
       (\<lambda>old.
     require_row (guard_attempt_update now old a \<and> attempt_check sha a \<and>
         \<not> list_ex (\<lambda>b. attempt_key b \<noteq> attempt_key a \<and> attempt_clash a b) (ob_attempts db))
       ''outbox_delivery_attempts'' (db\<lparr>ob_attempts := row_put attempt_key a (ob_attempts db)\<rparr>))"

text \<open>COMMIT runs the deferred check for every touched event.\<close>

definition commit_event :: "outbox_db \<Rightarrow> uuid \<Rightarrow> outbox_error + outbox_db" where
  "commit_event db i =
     require_row (check_outbox_delivery_projection db i) ''check_outbox_delivery_projection'' db"

end
