(* ===== verification/Outbox_Delivery.thy ===== *)
theory Outbox_Delivery
  imports Outbox_Rows
begin

text \<open>
  The claim, invoke and finalize engine of \<open>modules/outbox/delivery.py\<close> with the registry of
  \<open>modules/outbox/registry.py\<close> and the row readers of \<open>delivery_repository.py\<close>. Every method reads one
  snapshot and then writes in one short transaction; the two parts are separate functions of the
  database they see, because other transactions may commit in between. The environment supplies what
  is outside: successive readings of the database clock, fresh identifiers, the digest function, and
  the dispatch authorization port.
\<close>

subsection \<open>Authority\<close>

datatype OutboxDispatchPhase = Phase_claim | Phase_invoke | Phase_finalize

record OutboxDispatchFacts =
  df_phase :: OutboxDispatchPhase
  df_claim :: OutboxClaim
  df_outcome_digest :: "string option"

definition OutboxDispatchFacts_valid :: "OutboxDispatchFacts \<Rightarrow> bool" where
  "OutboxDispatchFacts_valid f \<longleftrightarrow>
     (let c = df_claim f in
      is_sha256 (oc_payload_digest c) \<and> 1 \<le> oc_claim_generation c \<and> oc_claim_generation c \<le> 2147483647 \<and>
      is_token 120 (oc_claim_owner c) \<and>
      (if df_phase f = Phase_finalize
       then (case df_outcome_digest f of None \<Rightarrow> False | Some d \<Rightarrow> is_sha256 d)
       else df_outcome_digest f = None) \<and>
      oc_claimed_at c < oc_claim_expires_at c)"

record AuthorizationDecision =
  ad_decision_id :: uuid
  ad_allow :: bool
  ad_action_id :: string
  ad_permission_id :: string

record outbox_env =
  ox_sha :: "octets \<Rightarrow> string"
  ox_octets :: "json \<Rightarrow> nat"
  ox_clock :: "nat \<Rightarrow> instant"
  ox_new_id :: uuid
  ox_prepare :: "OutboxDispatchFacts \<Rightarrow> bool"
  ox_consume :: "OutboxDispatchFacts \<Rightarrow> AuthorizationDecision option"

definition dispatch_facts ::
    "OutboxClaim \<Rightarrow> OutboxDispatchPhase \<Rightarrow> string option \<Rightarrow> outbox_error + OutboxDispatchFacts" where
  "dispatch_facts c phase digest =
     (let f = \<lparr> df_phase = phase, df_claim = c, df_outcome_digest = digest \<rparr>
      in if OutboxDispatchFacts_valid f then Inr f else Inl (OutboxValueError ''outbox dispatch facts are invalid''))"

text \<open>\<open>_authority\<close>: a boundary error of the port while preparing is concealed.\<close>

definition prepare_authority :: "outbox_env \<Rightarrow> OutboxDispatchFacts \<Rightarrow> outbox_error + unit" where
  "prepare_authority env f = (if ox_prepare env f then Inr () else Inl DeliveryUnavailable)"

text \<open>\<open>_allow(await prepared.consume(facts))\<close>\<close>

definition allow_decision :: "outbox_env \<Rightarrow> OutboxDispatchFacts \<Rightarrow> outbox_error + uuid" where
  "allow_decision env f =
     need (ox_consume env f) DeliveryUnavailable (\<lambda>d.
     if \<not> ad_allow d \<or> ad_action_id d \<noteq> ''outbox.dispatch'' \<or> ad_permission_id d \<noteq> ''outbox.dispatch''
     then Inl DeliveryUnavailable else Inr (ad_decision_id d))"

subsection \<open>Registry and options\<close>

record HandlerRegistry =
  hr_keys :: "(string \<times> int) list"
  hr_replay_safe :: "(string \<times> int) list"

definition HandlerRegistry_new ::
    "(string \<times> int) list \<Rightarrow> (string \<times> int) list \<Rightarrow> outbox_error + HandlerRegistry" where
  "HandlerRegistry_new entries replay_safe =
     (if \<not> list_all (\<lambda>(t, v). is_event_type t \<and> 1 \<le> v \<and> v \<le> 32767) entries \<or> \<not> distinct entries
      then Inl (OutboxValueError ''outbox registration is invalid'')
      else if \<not> list_all (\<lambda>k. k \<in> set entries) replay_safe
      then Inl (OutboxValueError ''replay-safe handlers must be explicitly registered'')
      else Inr \<lparr> hr_keys = entries, hr_replay_safe = replay_safe \<rparr>)"

definition registered :: "HandlerRegistry \<Rightarrow> string \<Rightarrow> int \<Rightarrow> bool" where
  "registered r t v \<longleftrightarrow> (t, v) \<in> set (hr_keys r)"

definition can_retry_unknown :: "HandlerRegistry \<Rightarrow> string \<Rightarrow> int \<Rightarrow> bool" where
  "can_retry_unknown r t v \<longleftrightarrow> (t, v) \<in> set (hr_replay_safe r)"

record OutboxDelivery =
  od_registry :: HandlerRegistry
  od_options :: DeliveryOptions
  od_event_options :: "((string \<times> int) \<times> DeliveryOptions) list"

definition OutboxDelivery_new ::
    "HandlerRegistry \<Rightarrow> DeliveryOptions \<Rightarrow> ((string \<times> int) \<times> DeliveryOptions) list \<Rightarrow>
     outbox_error + OutboxDelivery" where
  "OutboxDelivery_new r options overrides =
     (if \<not> DeliveryOptions_valid options then Inl (OutboxValueError ''DeliveryOptions'')
      else if \<not> list_all (\<lambda>(k, p). k \<in> set (hr_keys r) \<and> DeliveryOptions_valid p) overrides
      then Inl (OutboxValueError ''outbox event delivery options are invalid'')
      else Inr \<lparr> od_registry = r, od_options = options, od_event_options = overrides \<rparr>)"

definition options_for :: "OutboxDelivery \<Rightarrow> string \<Rightarrow> int \<Rightarrow> DeliveryOptions" where
  "options_for cfg t v = (case map_of (od_event_options cfg) (t, v) of None \<Rightarrow> od_options cfg | Some p \<Rightarrow> p)"

subsection \<open>Row readers\<close>

definition outbox_event :: "outbox_db \<Rightarrow> uuid \<Rightarrow> uuid \<Rightarrow> OutboxEvent option" where
  "outbox_event db i project = find (\<lambda>e. ev_event_id e = i \<and> ev_project_id e = project) (ob_events db)"

definition outbox_attempt :: "outbox_db \<Rightarrow> OutboxClaim \<Rightarrow> OutboxDeliveryAttempt option" where
  "outbox_attempt db c =
     find (\<lambda>a. da_event_id a = oc_event_id c \<and> da_claim_generation a = oc_claim_generation c \<and>
               da_project_id a = oc_project_id c) (ob_attempts db)"

definition claim_from_attempt :: "OutboxDeliveryAttempt \<Rightarrow> OutboxClaim" where
  "claim_from_attempt a =
   \<lparr> oc_event_id = da_event_id a, oc_project_id = da_project_id a, oc_payload_digest = da_payload_digest a,
     oc_claim_generation = da_claim_generation a, oc_claim_owner = da_claim_owner a,
     oc_claimed_at = da_claimed_at a, oc_claim_expires_at = da_claim_expires_at a \<rparr>"

definition matches_event :: "OutboxEvent \<Rightarrow> OutboxClaim \<Rightarrow> bool" where
  "matches_event e c \<longleftrightarrow>
     ev_delivery_state e = Claimed \<and> ev_event_id e = oc_event_id c \<and> ev_project_id e = oc_project_id c \<and>
     ev_payload_digest e = oc_payload_digest c \<and> ev_claim_generation e = oc_claim_generation c \<and>
     ev_claim_owner e = Some (oc_claim_owner c) \<and> ev_claimed_at e = Some (oc_claimed_at c) \<and>
     ev_claim_expires_at e = Some (oc_claim_expires_at c)"

definition checked_claim :: "OutboxClaim \<Rightarrow> outbox_error + OutboxClaim" where
  "checked_claim c = (if OutboxClaim_valid c then Inr c else Inl DeliveryUnavailable)"

subsection \<open>Outcomes\<close>

text \<open>The bounded exponential backoff of a retried delivery, in seconds.\<close>

definition retry_delay :: "DeliveryOptions \<Rightarrow> int \<Rightarrow> int" where
  "retry_delay p generation =
     min (retry_cap_seconds p) (retry_base_seconds p * 2 ^ nat (min (generation - 1) 30))"

text \<open>The state, error code and next attempt of a disposition, once its facts are known to be consistent.\<close>

definition outcome_disposition ::
    "OutboxClaim \<Rightarrow> bool \<Rightarrow> bool \<Rightarrow> FinalizationCause \<Rightarrow> instant \<Rightarrow> DeliveryOptions \<Rightarrow> bool \<Rightarrow>
     delivery_state \<times> string option \<times> instant option" where
  "outcome_disposition c invoked unknown cause now options retry_unknown =
     (let retry = now + timedelta_seconds (retry_delay options (oc_claim_generation c)) in
      if unknown then
        (if retry_unknown \<and> oc_claim_generation c < max_attempts options
         then (Retryable, Some ''INVOKE_OUTCOME_UNKNOWN'', Some retry)
         else (Dead_letter, Some ''INVOKE_OUTCOME_UNKNOWN'', None))
      else if cause = CauseAcknowledge then (Acknowledged, None, None)
      else if cause = CauseRetry \<or> cause = CauseExpired then
        (if oc_claim_generation c \<ge> max_attempts options
         then (Dead_letter, Some ''ATTEMPTS_EXHAUSTED'', None)
         else (Retryable, Some (if invoked then ''RETRY_REQUESTED'' else ''LEASE_EXPIRED_BEFORE_INVOKE''), Some retry))
      else (Dead_letter, Some ''HANDLER_REJECTED'', None))"

definition delivery_outcome ::
    "OutboxClaim \<Rightarrow> instant option \<Rightarrow> FinalizationCause \<Rightarrow> instant \<Rightarrow> DeliveryOptions \<Rightarrow> bool \<Rightarrow>
     outbox_error + DeliveryOutcome" where
  "delivery_outcome c invoked_at cause now options retry_unknown =
     (let expired = (now \<ge> oc_claim_expires_at c) in
      if invoked_at = None \<and> (cause \<noteq> CauseExpired \<or> \<not> expired) \<or> cause = CauseExpired \<and> \<not> expired
      then Inl DeliveryUnavailable else
      let unknown = (invoked_at \<noteq> None \<and> (expired \<or> cause = CauseUnknown));
          (st, code, next) = outcome_disposition c (invoked_at \<noteq> None) unknown cause now options retry_unknown
      in Inr \<lparr> do_delivery_state = st, do_error_code = code, do_next_attempt_at = next,
               do_finalized_at = (if st = Retryable then None else Some now),
               do_receipt_completed_at = now, do_invocation_unknown = unknown,
               do_invoked_at = invoked_at \<rparr>)"

definition receipt_of :: "outbox_env \<Rightarrow> OutboxClaim \<Rightarrow> DeliveryOutcome \<Rightarrow> DeliveryReceipt" where
  "receipt_of env c d =
   \<lparr> re_claim = c, re_outcome = d, re_outcome_digest = json_digest (ox_sha env) (outcome_dump d) \<rparr>"

subsection \<open>Claim\<close>

text \<open>The unlocked read of \<open>claim\<close>: an eligible registered event proposes its next generation.\<close>

definition claim_propose ::
    "OutboxDelivery \<Rightarrow> outbox_env \<Rightarrow> outbox_db \<Rightarrow> uuid \<Rightarrow> uuid \<Rightarrow> string \<Rightarrow> outbox_error + OutboxClaim option" where
  "claim_propose cfg env db i project owner =
     (case outbox_event db i project of
        None \<Rightarrow> Inr None
      | Some e \<Rightarrow>
        let now = ox_clock env 0; options = options_for cfg (ev_event_type e) (ev_event_version e) in
        if \<not> registered (od_registry cfg) (ev_event_type e) (ev_event_version e) \<or>
           \<not> open_state (ev_delivery_state e)
        then Inr None else
        need (ev_next_attempt_at e) (OutboxValueError ''next_attempt_at'') (\<lambda>due.
        if due > now \<or> ev_claim_generation e \<ge> max_attempts options then Inr None else
        let c = \<lparr> oc_event_id = ev_event_id e, oc_project_id = project,
                  oc_payload_digest = ev_payload_digest e, oc_claim_generation = ev_claim_generation e + 1,
                  oc_claim_owner = owner, oc_claimed_at = now,
                  oc_claim_expires_at = now + timedelta_seconds (lease_seconds options) \<rparr>
        in if OutboxClaim_valid c then Inr (Some c) else Inl (OutboxValueError ''OutboxClaim'')))"

definition claimed_event :: "OutboxEvent \<Rightarrow> OutboxClaim \<Rightarrow> OutboxEvent" where
  "claimed_event e c =
     e\<lparr> ev_delivery_state := Claimed, ev_attempt_count := oc_claim_generation c,
        ev_claim_generation := oc_claim_generation c, ev_claim_owner := Some (oc_claim_owner c),
        ev_claimed_at := Some (oc_claimed_at c), ev_claim_expires_at := Some (oc_claim_expires_at c),
        ev_last_attempt_at := Some (oc_claimed_at c), ev_next_attempt_at := None \<rparr>"

definition claimed_attempt :: "OutboxClaim \<Rightarrow> uuid \<Rightarrow> OutboxDeliveryAttempt" where
  "claimed_attempt c decision =
   \<lparr> da_event_id = oc_event_id c, da_claim_generation = oc_claim_generation c, da_project_id = oc_project_id c,
     da_payload_digest = oc_payload_digest c, da_claim_owner = oc_claim_owner c,
     da_claimed_at = oc_claimed_at c, da_claim_expires_at = oc_claim_expires_at c, da_stage = Stage_claimed,
     da_invoked_at = None, da_outcome = None, da_outcome_digest = None,
     da_claim_decision_event_id = decision, da_invoke_decision_event_id = None,
     da_finalize_decision_event_id = None \<rparr>"

text \<open>The transaction of \<open>claim\<close>: every fact of the proposal is compared again under the event lock.\<close>

definition claim_commit ::
    "outbox_env \<Rightarrow> outbox_db \<Rightarrow> OutboxClaim \<Rightarrow> outbox_error + (OutboxClaim option \<times> outbox_db)" where
  "claim_commit env db c =
     andthen (dispatch_facts c Phase_claim None) (\<lambda>facts.
     andthen (prepare_authority env facts) (\<lambda>_.
     case outbox_event db (oc_event_id c) (oc_project_id c) of
       None \<Rightarrow> Inr (None, db)
     | Some e \<Rightarrow>
       if \<not> open_state (ev_delivery_state e) \<or> ev_claim_generation e + 1 \<noteq> oc_claim_generation c \<or>
          ev_payload_digest e \<noteq> oc_payload_digest c
       then Inr (None, db) else
       need (ev_next_attempt_at e) (OutboxValueError ''next_attempt_at'') (\<lambda>due.
       if due > ox_clock env 1 \<or> oc_claim_expires_at c \<le> ox_clock env 1 then Inr (None, db) else
       andthen (allow_decision env facts) (\<lambda>decision.
       if ox_clock env 2 \<ge> oc_claim_expires_at c then Inl DeliveryUnavailable else
       andthen (update_event (ox_octets env) db (claimed_event e c)) (\<lambda>db1.
       andthen (insert_attempt (ox_sha env) (ox_clock env 3) db1 (claimed_attempt c decision)) (\<lambda>db2.
       andthen (commit_event db2 (oc_event_id c)) (\<lambda>db3. Inr (Some c, db3))))))))"

subsection \<open>Invoke\<close>

definition envelope_of :: "OutboxEvent \<Rightarrow> OutboxClaim \<Rightarrow> OutboxEventEnvelope" where
  "envelope_of e c =
   \<lparr> en_claim = c, en_event_type = ev_event_type e, en_event_version = ev_event_version e,
     en_aggregate_type = ev_aggregate_type e, en_aggregate_id = ev_aggregate_id e,
     en_correlation_id = ev_correlation_id e, en_causation_event_id = ev_causation_event_id e,
     en_idempotency_key = ev_idempotency_key e, en_occurred_at = ev_occurred_at e,
     en_payload_json = dumps (ev_payload e) \<rparr>"

definition invoked_attempt :: "OutboxDeliveryAttempt \<Rightarrow> instant \<Rightarrow> uuid \<Rightarrow> OutboxDeliveryAttempt" where
  "invoked_attempt a now decision =
     a\<lparr> da_stage := Stage_invoked, da_invoked_at := Some now, da_invoke_decision_event_id := Some decision \<rparr>"

definition begin_invocation ::
    "OutboxDelivery \<Rightarrow> outbox_env \<Rightarrow> outbox_db \<Rightarrow> OutboxClaim \<Rightarrow>
     outbox_error + (OutboxEventEnvelope option \<times> outbox_db)" where
  "begin_invocation cfg env db claim =
     andthen (checked_claim claim) (\<lambda>c.
     andthen (dispatch_facts c Phase_invoke None) (\<lambda>facts.
     andthen (prepare_authority env facts) (\<lambda>_.
     case (outbox_event db (oc_event_id c) (oc_project_id c), outbox_attempt db c) of
       (Some e, Some a) \<Rightarrow>
         if \<not> matches_event e c \<or> claim_from_attempt a \<noteq> c \<or> da_stage a \<noteq> Stage_claimed \<or>
            ox_clock env 0 \<ge> oc_claim_expires_at c \<or>
            \<not> registered (od_registry cfg) (ev_event_type e) (ev_event_version e)
         then Inr (None, db) else
         if json_digest (ox_sha env) (ev_payload e) \<noteq> oc_payload_digest c
         then Inl DeliveryUnavailable else
         andthen (allow_decision env facts) (\<lambda>decision.
         if ox_clock env 1 \<ge> oc_claim_expires_at c then Inl DeliveryUnavailable else
         andthen (update_attempt (ox_sha env) (ox_clock env 2) db (invoked_attempt a (ox_clock env 1) decision)) (\<lambda>db1.
         andthen (commit_event db1 (oc_event_id c)) (\<lambda>db2. Inr (Some (envelope_of e c), db2))))
     | _ \<Rightarrow> Inr (None, db))))"

text \<open>
  The disposition \<open>invoke\<close> derives from the handler: an exception, a timeout, a cancellation or a value
  that is no \<open>HandlerOutcome\<close> (here \<open>None\<close>) leaves the cause unknown.
\<close>

definition invoke_cause :: "HandlerOutcome option \<Rightarrow> FinalizationCause" where
  "invoke_cause result = (case result of None \<Rightarrow> CauseUnknown | Some h \<Rightarrow> cause_of_outcome h)"

subsection \<open>Finalize\<close>

text \<open>\<open>_receipt(claim, attempt)\<close> of a completed attempt; a missing outcome fails its validation.\<close>

definition stored_receipt :: "OutboxClaim \<Rightarrow> OutboxDeliveryAttempt \<Rightarrow> outbox_error + DeliveryReceipt" where
  "stored_receipt c a =
     need (da_outcome a) (OutboxValueError ''DeliveryReceipt'') (\<lambda>d.
     need (da_outcome_digest a) (OutboxValueError ''DeliveryReceipt'') (\<lambda>digest.
     Inr \<lparr> re_claim = c, re_outcome = d, re_outcome_digest = digest \<rparr>))"

text \<open>
  The unlocked read of \<open>finalize\<close>: the proposed receipt, with the facts of the snapshot that a replay
  compares again (\<open>invoked_at\<close>, the event's options and whether its unknown outcome may be retried).
\<close>

definition finalize_propose ::
    "OutboxDelivery \<Rightarrow> outbox_env \<Rightarrow> outbox_db \<Rightarrow> OutboxClaim \<Rightarrow> FinalizationCause \<Rightarrow>
     outbox_error + (DeliveryReceipt \<times> instant option \<times> DeliveryOptions \<times> bool)" where
  "finalize_propose cfg env db claim cause =
     andthen (checked_claim claim) (\<lambda>c.
     need (outbox_event db (oc_event_id c) (oc_project_id c)) DeliveryUnavailable (\<lambda>e.
     need (outbox_attempt db c) DeliveryUnavailable (\<lambda>a.
     if claim_from_attempt a \<noteq> c then Inl DeliveryUnavailable else
     let options = options_for cfg (ev_event_type e) (ev_event_version e);
         retry_unknown = can_retry_unknown (od_registry cfg) (ev_event_type e) (ev_event_version e)
     in andthen (if da_stage a = Stage_completed
          then need (da_outcome a) (OutboxValueError ''outcome_json'') (\<lambda>d. Inr (do_receipt_completed_at d))
          else Inr (ox_clock env 0)) (\<lambda>now.
     andthen (delivery_outcome c (da_invoked_at a) cause now options retry_unknown) (\<lambda>d.
     Inr (receipt_of env c d, da_invoked_at a, options, retry_unknown))))))"

definition finalized_event :: "OutboxEvent \<Rightarrow> DeliveryOutcome \<Rightarrow> OutboxEvent" where
  "finalized_event e d =
     e\<lparr> ev_delivery_state := do_delivery_state d, ev_last_error_code := do_error_code d,
        ev_next_attempt_at := do_next_attempt_at d, ev_finalized_at := do_finalized_at d,
        ev_claim_owner := None, ev_claimed_at := None, ev_claim_expires_at := None \<rparr>"

definition completed_attempt :: "OutboxDeliveryAttempt \<Rightarrow> DeliveryReceipt \<Rightarrow> uuid \<Rightarrow> OutboxDeliveryAttempt" where
  "completed_attempt a receipt decision =
     a\<lparr> da_finalize_decision_event_id := Some decision, da_stage := Stage_completed,
        da_outcome := Some (re_outcome receipt), da_outcome_digest := Some (re_outcome_digest receipt) \<rparr>"

text \<open>
  The transaction \<open>_finalize\<close>. \<open>Inl stored\<close> as the returned value is the raised
  \<open>_CompletedDuringFinalization\<close> that carries the receipt of a concurrent completion.
\<close>

definition finalize_commit ::
    "OutboxDelivery \<Rightarrow> outbox_env \<Rightarrow> outbox_db \<Rightarrow> DeliveryReceipt \<Rightarrow> FinalizationCause \<Rightarrow>
     outbox_error + ((DeliveryReceipt + DeliveryReceipt) \<times> outbox_db)" where
  "finalize_commit cfg env db receipt cause =
     andthen (checked_claim (re_claim receipt)) (\<lambda>c.
     andthen (dispatch_facts c Phase_finalize (Some (re_outcome_digest receipt))) (\<lambda>facts.
     andthen (prepare_authority env facts) (\<lambda>_.
     need (outbox_event db (oc_event_id c) (oc_project_id c)) DeliveryUnavailable (\<lambda>e.
     need (outbox_attempt db c) DeliveryUnavailable (\<lambda>a.
     if claim_from_attempt a \<noteq> c then Inl DeliveryUnavailable else
     if da_stage a = Stage_completed then
       andthen (stored_receipt c a) (\<lambda>stored.
       if stored \<noteq> receipt then Inr (Inl stored, db) else
       andthen (allow_decision env facts) (\<lambda>_. Inr (Inr stored, db)))
     else if ev_claim_generation e \<noteq> oc_claim_generation c \<or> \<not> matches_event e c
     then Inl DeliveryUnavailable else
     let d = re_outcome receipt; completed = do_receipt_completed_at d; now = ox_clock env 0;
         options = options_for cfg (ev_event_type e) (ev_event_version e) in
     andthen (delivery_outcome c (da_invoked_at a) cause completed options
         (can_retry_unknown (od_registry cfg) (ev_event_type e) (ev_event_version e))) (\<lambda>expected.
     if completed > now \<or> expected \<noteq> d \<or>
        json_digest (ox_sha env) (outcome_dump expected) \<noteq> re_outcome_digest receipt \<or>
        completed < oc_claim_expires_at c \<and> oc_claim_expires_at c \<le> now
     then Inl DeliveryUnavailable else
     andthen (allow_decision env facts) (\<lambda>decision.
     if completed < oc_claim_expires_at c \<and> oc_claim_expires_at c \<le> ox_clock env 1
     then Inl DeliveryUnavailable else
     andthen (update_event (ox_octets env) db (finalized_event e d)) (\<lambda>db1.
     andthen (update_attempt (ox_sha env) (ox_clock env 2) db1 (completed_attempt a receipt decision)) (\<lambda>db2.
     andthen (commit_event db2 (oc_event_id c)) (\<lambda>db3. Inr (Inr receipt, db3)))))))))))"

text \<open>
  \<open>finalize\<close> over the three snapshots it may see: its own read, its transaction, and the second
  transaction after a concurrent completion.
\<close>

definition finalize ::
    "OutboxDelivery \<Rightarrow> outbox_env \<times> outbox_db \<Rightarrow> outbox_env \<times> outbox_db \<Rightarrow> outbox_env \<times> outbox_db \<Rightarrow> OutboxClaim \<Rightarrow>
     FinalizationCause \<Rightarrow> outbox_error + (DeliveryReceipt \<times> outbox_db)" where
  "finalize cfg s1 s2 s3 c cause =
     andthen (finalize_propose cfg (fst s1) (snd s1) c cause) (\<lambda>(proposed, invoked_at, options, retry_unknown).
     andthen (finalize_commit cfg (fst s2) (snd s2) proposed cause) (\<lambda>(r, db').
     case r of
       Inr receipt \<Rightarrow> Inr (receipt, db')
     | Inl stored \<Rightarrow>
       andthen (delivery_outcome c invoked_at cause (do_receipt_completed_at (re_outcome stored)) options
           retry_unknown) (\<lambda>expected.
       if expected \<noteq> re_outcome stored then Inl DeliveryUnavailable else
       andthen (finalize_commit cfg (fst s3) (snd s3) stored cause) (\<lambda>(r', db'').
       case r' of Inr receipt \<Rightarrow> Inr (receipt, db'') | Inl _ \<Rightarrow> Inl DeliveryUnavailable))))"

text \<open>The unlocked read of \<open>recover\<close>: the lease of an expired claim.\<close>

definition recover_claim :: "outbox_env \<Rightarrow> outbox_db \<Rightarrow> uuid \<Rightarrow> uuid \<Rightarrow> outbox_error + OutboxClaim option" where
  "recover_claim env db i project =
     (case outbox_event db i project of
        None \<Rightarrow> Inr None
      | Some e \<Rightarrow>
        if ev_delivery_state e \<noteq> Claimed then Inr None else
        need (ev_claim_expires_at e) (OutboxValueError ''claim_expires_at'') (\<lambda>expires.
        if expires > ox_clock env 0 then Inr None else
        need (ev_claim_owner e) (OutboxValueError ''claim_owner'') (\<lambda>owner.
        need (ev_claimed_at e) (OutboxValueError ''claimed_at'') (\<lambda>claimed.
        let c = \<lparr> oc_event_id = ev_event_id e, oc_project_id = ev_project_id e,
                  oc_payload_digest = ev_payload_digest e, oc_claim_generation = ev_claim_generation e,
                  oc_claim_owner = owner, oc_claimed_at = claimed, oc_claim_expires_at = expires \<rparr>
        in if OutboxClaim_valid c then Inr (Some c) else Inl (OutboxValueError ''OutboxClaim'')))))"

definition recover ::
    "OutboxDelivery \<Rightarrow> (nat \<Rightarrow> outbox_env) \<Rightarrow> outbox_db \<Rightarrow> uuid \<Rightarrow> uuid \<Rightarrow>
     outbox_error + (DeliveryReceipt option \<times> outbox_db)" where
  "recover cfg envs db i project =
     andthen (recover_claim (envs 0) db i project) (\<lambda>m.
     case m of None \<Rightarrow> Inr (None, db)
     | Some c \<Rightarrow> andthen (finalize cfg (envs 1, db) (envs 2, db) (envs 3, db) c CauseExpired)
         (\<lambda>(receipt, db'). Inr (Some receipt, db')))"

text \<open>
  \<open>invoke\<close> and \<open>deliver\<close> when no other transaction commits in between: the database is threaded from one
  phase to the next, each phase with its own readings of the environment. \<open>handler\<close> is the registered
  handler's disposition of the envelope, which is outside the outbox.
\<close>

definition invoke ::
    "OutboxDelivery \<Rightarrow> (nat \<Rightarrow> outbox_env) \<Rightarrow> (OutboxEventEnvelope \<Rightarrow> HandlerOutcome option) \<Rightarrow> outbox_db \<Rightarrow>
     OutboxClaim \<Rightarrow> outbox_error + (DeliveryReceipt option \<times> outbox_db)" where
  "invoke cfg envs handler db c =
     andthen (begin_invocation cfg (envs 0) db c) (\<lambda>(m, db1).
     case m of None \<Rightarrow> Inr (None, db1)
     | Some envelope \<Rightarrow>
         andthen (finalize cfg (envs 1, db1) (envs 2, db1) (envs 3, db1) c (invoke_cause (handler envelope)))
           (\<lambda>(receipt, db2). Inr (Some receipt, db2)))"

definition deliver ::
    "OutboxDelivery \<Rightarrow> (nat \<Rightarrow> outbox_env) \<Rightarrow> (OutboxEventEnvelope \<Rightarrow> HandlerOutcome option) \<Rightarrow> outbox_db \<Rightarrow>
     uuid \<Rightarrow> uuid \<Rightarrow> string \<Rightarrow> outbox_error + (DeliveryReceipt option \<times> outbox_db)" where
  "deliver cfg envs handler db i project owner =
     andthen (recover cfg envs db i project) (\<lambda>(recovered, db0).
     if recovered \<noteq> None then Inr (recovered, db0) else
     andthen (claim_propose cfg (envs 4) db0 i project owner) (\<lambda>proposal.
     case proposal of None \<Rightarrow> Inr (None, db0)
     | Some c \<Rightarrow>
         andthen (claim_commit (envs 5) db0 c) (\<lambda>(committed, db1).
         case committed of None \<Rightarrow> Inr (None, db1)
         | Some c' \<Rightarrow> invoke cfg (\<lambda>n. envs (n + 6)) handler db1 c')))"

end
