(* ===== verification/Outbox_Append.thy ===== *)
theory Outbox_Append
  imports Outbox_Delivery
begin

text \<open>
  Appending events, \<open>modules/outbox/service.py\<close> and \<open>repository.py\<close>: the reservation of an idempotency key
  by INSERT ON CONFLICT DO NOTHING, the comparison of every immutable caller fact on replay, and the
  look-up that requires an event to exist. The insert passes through the INSERT branch of
  \<open>guard_outbox_event\<close>; the deferred custody check of the caller's COMMIT follows an insert.
\<close>

text \<open>
  Equality of decoded payloads is Python's: objects are compared without order, and \<open>True\<close> equals \<open>1\<close>.
\<close>

primrec py_numbers :: "json \<Rightarrow> json" where
  "py_numbers JNull = JNull"
| "py_numbers (JBool b) = JInt (if b then 1 else 0)"
| "py_numbers (JInt n) = JInt n"
| "py_numbers (JFloat r) = JFloat r"
| "py_numbers (JStr s) = JStr s"
| "py_numbers (JArr xs) = JArr (map py_numbers xs)"
| "py_numbers (JObj kvs) = JObj (map (map_prod id py_numbers) kvs)"

definition py_equal :: "json \<Rightarrow> json \<Rightarrow> bool" where
  "py_equal a b \<longleftrightarrow> canonical (py_numbers a) = canonical (py_numbers b)"

definition event_matches :: "OutboxEvent \<Rightarrow> OutboxAppendInput \<Rightarrow> string \<Rightarrow> bool" where
  "event_matches r v digest \<longleftrightarrow>
     ev_event_type r = ai_event_type v \<and> ev_event_version r = ai_event_version v \<and>
     ev_producer r = ''workstream'' \<and> ev_aggregate_type r = ai_aggregate_type v \<and>
     ev_aggregate_id r = ai_aggregate_id v \<and> ev_project_id r = ai_project_id v \<and>
     ev_correlation_id r = ai_correlation_id v \<and> ev_causation_event_id r = ai_causation_event_id v \<and>
     ev_idempotency_key r = ai_idempotency_key v \<and> ev_payload_digest r = digest \<and>
     py_equal (ev_payload r) (ai_payload v) \<and> ev_not_before_at r = ai_not_before_at v"

text \<open>The inserted values; the delivery columns are whatever the guard makes of them.\<close>

definition event_row :: "OutboxAppendInput \<Rightarrow> uuid \<Rightarrow> string \<Rightarrow> instant \<Rightarrow> OutboxEvent" where
  "event_row v i digest at =
   guard_event_insert at
   \<lparr> ev_event_id = i, ev_event_type = ai_event_type v, ev_event_version = ai_event_version v,
     ev_producer = ''workstream'', ev_aggregate_type = ai_aggregate_type v,
     ev_aggregate_id = ai_aggregate_id v, ev_project_id = ai_project_id v,
     ev_correlation_id = ai_correlation_id v, ev_causation_event_id = ai_causation_event_id v,
     ev_idempotency_key = ai_idempotency_key v, ev_payload = ai_payload v, ev_payload_digest = digest,
     ev_occurred_at = at, ev_not_before_at = ai_not_before_at v, ev_delivery_state = Pending,
     ev_attempt_count = 0, ev_next_attempt_at = Some at, ev_claim_owner = None, ev_claim_generation = 0,
     ev_claimed_at = None, ev_claim_expires_at = None, ev_last_attempt_at = None,
     ev_last_error_code = None, ev_finalized_at = None, ev_archived_at = None \<rparr>"

record OutboxReservation =
  rv_created :: bool
  rv_records :: "OutboxEvent list"

text \<open>A conflict on the idempotency key inserts nothing; any other violation is a database error.\<close>

definition reserve ::
    "outbox_env \<Rightarrow> outbox_db \<Rightarrow> OutboxAppendInput \<Rightarrow> string \<Rightarrow> outbox_error + (OutboxReservation \<times> outbox_db)" where
  "reserve env db v digest =
     (let e = event_row v (ox_new_id env) digest (ox_clock env 0);
          same_key = (\<lambda>x. ev_idempotency_key x = ai_idempotency_key v) in
      andthen
        (if list_ex same_key (ob_events db) then Inr (False, db)
         else if row_get ev_event_id (ev_event_id e) (ob_events db) \<noteq> None \<or> \<not> event_check (ox_octets env) e
         then Inl OutboxPersistenceError
         else Inr (True, db\<lparr>ob_events := ob_events db @ [e]\<rparr>)) (\<lambda>(created, db').
      Inr (\<lparr> rv_created = created,
             rv_records = sort_key ev_event_id (filter same_key (ob_events db')) \<rparr>, db')))"

definition outbox_append ::
    "outbox_env \<Rightarrow> outbox_db \<Rightarrow> OutboxAppendInput \<Rightarrow> outbox_error + (OutboxAppendResult \<times> outbox_db)" where
  "outbox_append env db v =
     (if \<not> OutboxAppendInput_valid v then Inl OutboxInputError else
      let digest = json_digest (ox_sha env) (ai_payload v) in
      andthen (reserve env db v digest) (\<lambda>(reservation, db').
      case rv_records reservation of
        [record] \<Rightarrow>
          if \<not> event_matches record v digest then Inl OutboxIdempotencyConflict else
          andthen (if rv_created reservation then commit_event db' (ev_event_id record) else Inr db') (\<lambda>db''.
          Inr (\<lparr> ar_event_id = ev_event_id record,
                 ar_disposition = (if rv_created reservation then Created else Replayed),
                 ar_payload_digest = ev_payload_digest record,
                 ar_occurred_at = ev_occurred_at record \<rparr>, db''))
      | _ \<Rightarrow> Inl OutboxIdempotencyConflict))"

definition event_read_exact :: "outbox_db \<Rightarrow> uuid option \<Rightarrow> OutboxAppendInput \<Rightarrow> OutboxEvent option" where
  "event_read_exact db i v =
     find (\<lambda>e. ev_project_id e = ai_project_id v \<and> ev_aggregate_type e = ai_aggregate_type v \<and>
               ev_aggregate_id e = ai_aggregate_id v \<and> ev_idempotency_key e = ai_idempotency_key v \<and>
               pred_option (\<lambda>j. ev_event_id e = j) i) (ob_events db)"

definition require_existing ::
    "outbox_env \<Rightarrow> outbox_db \<Rightarrow> uuid option \<Rightarrow> OutboxAppendInput \<Rightarrow> outbox_error + uuid" where
  "require_existing env db i v =
     (if \<not> OutboxAppendInput_valid v then Inl OutboxInputError else
      case event_read_exact db i v of
        None \<Rightarrow> Inl OutboxIdempotencyConflict
      | Some r \<Rightarrow>
          if event_matches r v (json_digest (ox_sha env) (ai_payload v))
          then Inr (ev_event_id r) else Inl OutboxIdempotencyConflict)"

end
