(* ===== verification/Outbox_Custody.thy ===== *)
theory Outbox_Custody
  imports Outbox_Append
begin

text \<open>
  The outbox as a transition system and its custody invariant. The steps are the committed
  transactions of append, claim, invoke and finalize, in any interleaving; \<open>outbox_ok\<close> is the invariant
  they keep: keys and decisions are unique, every attempt belongs to an event, every attempt passes its
  CHECK constraints, and every event's delivery columns are the projection of its attempts.
\<close>

subsection \<open>The invariant\<close>

definition events_ok :: "outbox_db \<Rightarrow> bool" where
  "events_ok db \<longleftrightarrow> distinct (row_keys ev_event_id (ob_events db)) \<and>
     distinct (map ev_idempotency_key (ob_events db)) \<and>
     (\<forall>e \<in> set (ob_events db). event_times_check e \<and> event_shape_check e \<and> delivery_projection_ok db e)"

definition attempts_ok :: "(octets \<Rightarrow> string) \<Rightarrow> outbox_db \<Rightarrow> bool" where
  "attempts_ok sha db \<longleftrightarrow> distinct (row_keys attempt_key (ob_attempts db)) \<and>
     (\<forall>a \<in> set (ob_attempts db). \<forall>b \<in> set (ob_attempts db). attempt_key a \<noteq> attempt_key b \<longrightarrow> \<not> attempt_clash a b) \<and>
     (\<forall>a \<in> set (ob_attempts db). attempt_check sha a \<and>
        (\<exists>e \<in> set (ob_events db). ev_event_id e = da_event_id a))"

definition outbox_ok :: "(octets \<Rightarrow> string) \<Rightarrow> outbox_db \<Rightarrow> bool" where
  "outbox_ok sha db \<longleftrightarrow> events_ok db \<and> attempts_ok sha db"

subsection \<open>Steps\<close>

text \<open>
  An earlier committed snapshot: events are never removed and keep their identity columns.
\<close>

definition snapshot :: "outbox_db \<Rightarrow> outbox_db \<Rightarrow> bool" where
  "snapshot db0 db \<longleftrightarrow>
     (\<forall>e0 \<in> set (ob_events db0). \<exists>e \<in> set (ob_events db). event_identity e = event_identity e0)"

inductive outbox_step :: "(octets \<Rightarrow> string) \<Rightarrow> OutboxDelivery \<Rightarrow> outbox_db \<Rightarrow> outbox_db \<Rightarrow> bool" for sha cfg where
  step_append: "outbox_append env db v = Inr (res, db') \<Longrightarrow> ox_sha env = sha \<Longrightarrow> outbox_step sha cfg db db'"
| step_claim: "claim_propose cfg env0 db0 i p owner = Inr (Some c) \<Longrightarrow> snapshot db0 db \<Longrightarrow>
    claim_commit env db c = Inr (Some c', db') \<Longrightarrow> ox_sha env = sha \<Longrightarrow> outbox_step sha cfg db db'"
| step_invoke: "begin_invocation cfg env db c = Inr (Some envelope, db') \<Longrightarrow> ox_sha env = sha \<Longrightarrow>
    outbox_step sha cfg db db'"
| step_finalize: "finalize_commit cfg env db receipt cause = Inr (Inr receipt', db') \<Longrightarrow> ox_sha env = sha \<Longrightarrow>
    outbox_step sha cfg db db'"

subsection \<open>What a successful transaction did\<close>

lemma update_event_Inr:
  "update_event octets db e = Inr db' \<longleftrightarrow>
     (\<exists>old. row_get ev_event_id (ev_event_id e) (ob_events db) = Some old \<and> guard_event_update old e \<and>
        event_check octets e \<and> db' = db\<lparr>ob_events := row_put ev_event_id e (ob_events db)\<rparr>)"
  by (auto simp: update_event_def outcome_inv)

lemma insert_attempt_Inr:
  "insert_attempt sha now db a = Inr db' \<longleftrightarrow>
     guard_attempt_insert now a \<and> attempt_check sha a \<and> \<not> list_ex (attempt_clash a) (ob_attempts db) \<and>
     row_get ev_event_id (da_event_id a) (ob_events db) \<noteq> None \<and> db' = db\<lparr>ob_attempts := ob_attempts db @ [a]\<rparr>"
  by (auto simp: insert_attempt_def outcome_inv)

lemma update_attempt_Inr:
  "update_attempt sha now db a = Inr db' \<longleftrightarrow>
     (\<exists>old. row_get attempt_key (attempt_key a) (ob_attempts db) = Some old \<and> guard_attempt_update now old a \<and>
        attempt_check sha a \<and> \<not> list_ex (\<lambda>b. attempt_key b \<noteq> attempt_key a \<and> attempt_clash a b) (ob_attempts db) \<and>
        db' = db\<lparr>ob_attempts := row_put attempt_key a (ob_attempts db)\<rparr>)"
  by (auto simp: update_attempt_def outcome_inv)

lemma commit_event_Inr:
  "commit_event db i = Inr db' \<longleftrightarrow> check_outbox_delivery_projection db i \<and> db' = db"
  by (auto simp: commit_event_def outcome_inv)

lemma if_eq_Inr_both: "(if b then x else y) = Inr r \<longleftrightarrow> b \<and> x = Inr r \<or> \<not> b \<and> y = Inr r"
  by simp

lemma claim_commit_cases:
  assumes "claim_commit env db c = Inr (Some c', db')"
  obtains e decision due db1 db2 where "c' = c" "outbox_event db (oc_event_id c) (oc_project_id c) = Some e"
    "open_state (ev_delivery_state e)" "oc_claim_generation c = ev_claim_generation e + 1"
    "oc_payload_digest c = ev_payload_digest e" "ev_next_attempt_at e = Some due" "due \<le> ox_clock env 1"
    "update_event (ox_octets env) db (claimed_event e c) = Inr db1"
    "insert_attempt (ox_sha env) (ox_clock env 3) db1 (claimed_attempt c decision) = Inr db2"
    "check_outbox_delivery_projection db2 (oc_event_id c)" "db' = db2"
  using assms
  by (auto simp: claim_commit_def outcome_inv if_eq_Inr_both commit_event_Inr split: option.splits)

lemma begin_invocation_cases:
  assumes "begin_invocation cfg env db c = Inr (Some envelope, db')"
  obtains e a decision where "outbox_event db (oc_event_id c) (oc_project_id c) = Some e" "outbox_attempt db c = Some a"
    "matches_event e c" "claim_from_attempt a = c" "da_stage a = Stage_claimed"
    "ox_clock env 1 < oc_claim_expires_at c" "envelope = envelope_of e c"
    "json_digest (ox_sha env) (ev_payload e) = oc_payload_digest c"
    "update_attempt (ox_sha env) (ox_clock env 2) db (invoked_attempt a (ox_clock env 1) decision) = Inr db'"
    "check_outbox_delivery_projection db' (oc_event_id c)"
  using assms
  by (cases "outbox_event db (oc_event_id c) (oc_project_id c)"; cases "outbox_attempt db c")
    (auto simp: begin_invocation_def outcome_inv if_eq_Inr_both commit_event_Inr checked_claim_def not_le)

lemma finalize_commit_cases:
  assumes "finalize_commit cfg env db receipt cause = Inr (Inr receipt', db')"
  obtains (replay) e a where "outbox_event db (oc_event_id (re_claim receipt)) (oc_project_id (re_claim receipt)) = Some e"
      "outbox_attempt db (re_claim receipt) = Some a" "claim_from_attempt a = re_claim receipt"
      "da_stage a = Stage_completed" "stored_receipt (re_claim receipt) a = Inr receipt" "receipt' = receipt" "db' = db"
  | (fresh) e a decision db1 where "outbox_event db (oc_event_id (re_claim receipt)) (oc_project_id (re_claim receipt)) = Some e"
      "outbox_attempt db (re_claim receipt) = Some a" "claim_from_attempt a = re_claim receipt"
      "da_stage a \<noteq> Stage_completed" "matches_event e (re_claim receipt)"
      "delivery_outcome (re_claim receipt) (da_invoked_at a) cause (do_receipt_completed_at (re_outcome receipt))
         (options_for cfg (ev_event_type e) (ev_event_version e))
         (can_retry_unknown (od_registry cfg) (ev_event_type e) (ev_event_version e)) = Inr (re_outcome receipt)"
      "json_digest (ox_sha env) (outcome_dump (re_outcome receipt)) = re_outcome_digest receipt"
      "update_event (ox_octets env) db (finalized_event e (re_outcome receipt)) = Inr db1"
      "update_attempt (ox_sha env) (ox_clock env 2) db1 (completed_attempt a receipt decision) = Inr db'"
      "check_outbox_delivery_projection db' (oc_event_id (re_claim receipt))" "receipt' = receipt"
  using assms
  by (auto simp: finalize_commit_def outcome_inv if_eq_Inr_both commit_event_Inr checked_claim_def)

lemma outbox_append_cases:
  assumes "outbox_append env db v = Inr (res, db')"
  obtains (replay) r where "db' = db" "filter (\<lambda>x. ev_idempotency_key x = ai_idempotency_key v) (ob_events db) = [r]"
      "event_matches r v (json_digest (ox_sha env) (ai_payload v))"
      "res = \<lparr> ar_event_id = ev_event_id r, ar_disposition = Replayed, ar_payload_digest = ev_payload_digest r,
              ar_occurred_at = ev_occurred_at r \<rparr>"
  | (created) e where "e = event_row v (ox_new_id env) (json_digest (ox_sha env) (ai_payload v)) (ox_clock env 0)"
      "db' = db\<lparr>ob_events := ob_events db @ [e]\<rparr>" "\<not> list_ex (\<lambda>x. ev_idempotency_key x = ai_idempotency_key v) (ob_events db)"
      "row_get ev_event_id (ev_event_id e) (ob_events db) = None" "event_check (ox_octets env) e"
      "check_outbox_delivery_projection db' (ev_event_id e)"
      "res = \<lparr> ar_event_id = ev_event_id e, ar_disposition = Created, ar_payload_digest = ev_payload_digest e,
              ar_occurred_at = ev_occurred_at e \<rparr>"
proof -
  let ?same = "\<lambda>x. ev_idempotency_key x = ai_idempotency_key v"
  let ?digest = "json_digest (ox_sha env) (ai_payload v)"
  have one: "sort_key ev_event_id xs = [r] \<Longrightarrow> xs = [r]" for xs and r :: OutboxEvent
    by (cases xs; cases "tl xs") (auto dest: arg_cong[where f = length])
  show ?thesis
  proof (cases "list_ex ?same (ob_events db)")
    case True
    with assms show ?thesis
      by (auto simp: outbox_append_def reserve_def outcome_inv Let_def split: list.splits dest!: one intro!: replay)
  next
    case False
    let ?e = "event_row v (ox_new_id env) ?digest (ox_clock env 0)"
    have key: "ev_idempotency_key ?e = ai_idempotency_key v"
      by (simp add: event_row_def guard_event_insert_def)
    have "filter ?same (ob_events db @ [?e]) = [?e]"
      using False key by (simp add: list_ex_iff filter_empty_conv)
    with assms False show ?thesis
      by (auto simp: outbox_append_def reserve_def outcome_inv Let_def commit_event_Inr split: if_splits intro!: created)
  qed
qed

subsection \<open>The invariant is kept\<close>

lemma outbox_event_Some:
  "outbox_event db i p = Some e \<Longrightarrow> e \<in> set (ob_events db) \<and> ev_event_id e = i \<and> ev_project_id e = p"
  by (auto simp: outbox_event_def dest: find_SomeD)

lemma outbox_attempt_Some:
  "outbox_attempt db c = Some a \<Longrightarrow> a \<in> set (ob_attempts db) \<and> da_event_id a = oc_event_id c \<and>
     da_claim_generation a = oc_claim_generation c \<and> da_project_id a = oc_project_id c"
  by (auto simp: outbox_attempt_def dest: find_SomeD)

lemma identity_columns:
  assumes "event_identity e' = event_identity e"
  shows "ev_event_id e' = ev_event_id e" "ev_idempotency_key e' = ev_idempotency_key e"
    "ev_event_type e' = ev_event_type e" "ev_event_version e' = ev_event_version e"
    "ev_project_id e' = ev_project_id e" "ev_payload e' = ev_payload e"
    "ev_payload_digest e' = ev_payload_digest e" "ev_occurred_at e' = ev_occurred_at e"
  using assms by (auto simp: event_identity_def)

lemma event_attempts_append:
  "event_attempts (db\<lparr>ob_attempts := ob_attempts db0 @ [a]\<rparr>) i
     = event_attempts db0 i @ (if da_event_id a = i then [a] else [])"
  by (simp add: event_attempts_def)

lemma event_attempts_put:
  "event_attempts (db\<lparr>ob_attempts := row_put attempt_key a (ob_attempts db0)\<rparr>) i = row_put attempt_key a (event_attempts db0 i)"
  unfolding event_attempts_def row_put_def attempt_key_def
  by (simp add: filter_map comp_def) (rule map_cong[OF filter_cong[OF refl]], auto)

lemma projection_frame:
  "event_attempts db' (ev_event_id e) = event_attempts db (ev_event_id e) \<Longrightarrow>
   delivery_projection_ok db' e = delivery_projection_ok db e"
  by (simp add: delivery_projection_ok_def)

lemma events_ok_touch:
  assumes ok: "events_ok db" and old: "old \<in> set (ob_events db)" "event_identity e' = event_identity old"
    and events: "ob_events db' = row_put ev_event_id e' (ob_events db)"
    and checks: "event_times_check e'" "event_shape_check e'" "check_outbox_delivery_projection db' (ev_event_id e')"
    and frame: "\<And>j. j \<noteq> ev_event_id e' \<Longrightarrow> event_attempts db' j = event_attempts db j"
  shows "events_ok db'"
proof -
  have keys: "distinct (row_keys ev_event_id (ob_events db))" using ok by (simp add: events_ok_def)
  have id: "ev_event_id old = ev_event_id e'" using identity_columns[OF old(2)] by simp
  have "ev_idempotency_key (if ev_event_id x = ev_event_id e' then e' else x) = ev_idempotency_key x"
    if "x \<in> set (ob_events db)" for x
    using row_unique[OF keys that old(1)] id identity_columns(2)[OF old(2)] by presburger
  then have "map ev_idempotency_key (ob_events db') = map ev_idempotency_key (ob_events db)"
    by (simp add: events row_put_def)
  moreover have "row_get ev_event_id (ev_event_id e') (ob_events db') = Some e'"
    using row_get_in[OF keys old(1)] id by (simp add: events row_get_put)
  then have "delivery_projection_ok db' e'" using checks(3) by (simp add: check_outbox_delivery_projection_def)
  moreover have "delivery_projection_ok db' e" if "e \<in> set (ob_events db)" "ev_event_id e \<noteq> ev_event_id e'" for e
    using ok that projection_frame[OF frame[OF that(2)]] by (simp add: events_ok_def)
  ultimately show ?thesis
    using ok checks keys unfolding events_ok_def events by (auto dest!: in_set_row_putD)
qed

lemma attempt_clash_commute: "attempt_clash a b \<longleftrightarrow> attempt_clash b a"
  unfolding attempt_clash_def by metis

lemma attempts_ok_insert:
  assumes "attempts_ok sha db" "insert_attempt sha now db a = Inr db'"
  shows "attempts_ok sha db'"
proof -
  have db': "db' = db\<lparr>ob_attempts := ob_attempts db @ [a]\<rparr>" "attempt_check sha a"
      "row_get ev_event_id (da_event_id a) (ob_events db) \<noteq> None"
    using assms(2) by (auto simp: insert_attempt_Inr)
  have no: "\<not> attempt_clash a b" "\<not> attempt_clash b a" if "b \<in> set (ob_attempts db)" for b
    using assms(2) that by (auto simp: insert_attempt_Inr list_ex_iff attempt_clash_commute[of b a])
  then have "attempt_key a \<notin> set (row_keys attempt_key (ob_attempts db))"
    by (auto simp: row_keys_def attempt_clash_def)
  then show ?thesis
    using assms(1) db'(2,3) no by (auto simp: attempts_ok_def db'(1) dest!: row_get_SomeD)
qed

lemma attempts_ok_update:
  assumes "attempts_ok sha db" "update_attempt sha now db a = Inr db'"
  shows "attempts_ok sha db'"
proof -
  obtain old where old: "row_get attempt_key (attempt_key a) (ob_attempts db) = Some old"
      "db' = db\<lparr>ob_attempts := row_put attempt_key a (ob_attempts db)\<rparr>" "attempt_check sha a"
    and no: "\<And>b. b \<in> set (ob_attempts db) \<Longrightarrow> attempt_key b \<noteq> attempt_key a \<Longrightarrow> \<not> attempt_clash a b"
    using assms(2) by (auto simp: update_attempt_Inr list_ex_iff)
  have "da_event_id old = da_event_id a" "old \<in> set (ob_attempts db)"
    using row_get_SomeD[OF old(1)] by (auto simp: attempt_key_def)
  then have parent: "\<exists>e \<in> set (ob_events db). ev_event_id e = da_event_id a"
    using assms(1) unfolding attempts_ok_def by metis
  have "\<not> attempt_clash x y" if "x \<in> set (ob_attempts db')" "y \<in> set (ob_attempts db')"
      "attempt_key x \<noteq> attempt_key y" for x y
    using in_set_row_putD[of x attempt_key a "ob_attempts db"] in_set_row_putD[of y attempt_key a "ob_attempts db"]
      that no assms(1) attempt_clash_commute[of x y] by (auto simp: old(2) attempts_ok_def)
  moreover have "attempt_check sha x \<and> (\<exists>e \<in> set (ob_events db). ev_event_id e = da_event_id x)"
    if "x \<in> set (ob_attempts db')" for x
    using in_set_row_putD[of x attempt_key a "ob_attempts db"] that assms(1) old(3) parent
    by (auto simp: old(2) attempts_ok_def)
  ultimately show ?thesis
    using assms(1) unfolding attempts_ok_def by (simp add: old(2))
qed

lemma attempts_ok_events:
  assumes "attempts_ok sha db" "ob_attempts db' = ob_attempts db"
    and "set (row_keys ev_event_id (ob_events db)) \<subseteq> set (row_keys ev_event_id (ob_events db'))"
  shows "attempts_ok sha db'"
proof -
  have "\<exists>e' \<in> set (ob_events db'). ev_event_id e' = ev_event_id e" if "e \<in> set (ob_events db)" for e
    using that assms(3) by (fastforce simp: row_keys_def)
  then show ?thesis using assms(1,2) by (fastforce simp: attempts_ok_def)
qed

lemma event_check_parts: "event_check octets e \<Longrightarrow> event_times_check e \<and> event_shape_check e"
  by (simp add: event_check_def)

lemma claim_keeps_ok:
  assumes ok: "outbox_ok sha db" and op: "claim_commit env db c = Inr (Some c', db')" and sha: "ox_sha env = sha"
  shows "outbox_ok sha db'"
  using op
proof (rule claim_commit_cases)
  fix e decision due db1 db2
  assume e: "outbox_event db (oc_event_id c) (oc_project_id c) = Some e"
    and upd: "update_event (ox_octets env) db (claimed_event e c) = Inr db1"
    and ins: "insert_attempt (ox_sha env) (ox_clock env 3) db1 (claimed_attempt c decision) = Inr db2"
    and chk: "check_outbox_delivery_projection db2 (oc_event_id c)" and db': "db' = db2"
  let ?e = "claimed_event e c" and ?a = "claimed_attempt c decision"
  have e_in: "e \<in> set (ob_events db)" "ev_event_id e = oc_event_id c" using outbox_event_Some[OF e] by auto
  have id: "event_identity ?e = event_identity e" "ev_event_id ?e = oc_event_id c"
    using e_in by (simp_all add: claimed_event_def event_identity_def)
  have db1: "db1 = db\<lparr>ob_events := row_put ev_event_id ?e (ob_events db)\<rparr>" "event_check (ox_octets env) ?e"
    using upd by (auto simp: update_event_Inr)
  have db2: "db2 = db1\<lparr>ob_attempts := ob_attempts db1 @ [?a]\<rparr>" using ins by (simp add: insert_attempt_Inr)
  have "attempts_ok sha db1"
  proof (rule attempts_ok_events)
    show "attempts_ok sha db" using ok by (simp add: outbox_ok_def)
  qed (simp_all add: db1)
  then have "attempts_ok sha db2" using attempts_ok_insert ins sha by blast
  moreover have "events_ok db2"
  proof (rule events_ok_touch[OF _ e_in(1) id(1)])
    show "events_ok db" using ok by (simp add: outbox_ok_def)
    show "event_attempts db2 j = event_attempts db j" if "j \<noteq> ev_event_id ?e" for j
      using that id(2) by (simp add: db2 db1 event_attempts_def claimed_attempt_def)
  qed (use event_check_parts[OF db1(2)] chk id in \<open>simp_all add: db2 db1\<close>)
  ultimately show ?thesis by (simp add: outbox_ok_def db')
qed

lemma attempt_put_frame:
  assumes "j \<noteq> da_event_id a"
  shows "row_put attempt_key a (event_attempts db j) = event_attempts db j"
  unfolding row_put_def using assms by (intro map_idI) (auto simp: event_attempts_def attempt_key_def)

lemma invoke_keeps_ok:
  assumes ok: "outbox_ok sha db" and op: "begin_invocation cfg env db c = Inr (Some envelope, db')"
    and sha: "ox_sha env = sha"
  shows "outbox_ok sha db'"
  using op
proof (rule begin_invocation_cases)
  fix e a decision
  assume e: "outbox_event db (oc_event_id c) (oc_project_id c) = Some e" and a: "claim_from_attempt a = c"
    and upd: "update_attempt (ox_sha env) (ox_clock env 2) db (invoked_attempt a (ox_clock env 1) decision) = Inr db'"
    and chk: "check_outbox_delivery_projection db' (oc_event_id c)"
  let ?a = "invoked_attempt a (ox_clock env 1) decision"
  have e_in: "e \<in> set (ob_events db)" "ev_event_id e = oc_event_id c" using outbox_event_Some[OF e] by auto
  have evs: "events_ok db" "distinct (row_keys ev_event_id (ob_events db))" "event_times_check e" "event_shape_check e"
    using ok e_in by (auto simp: outbox_ok_def events_ok_def)
  have id: "da_event_id ?a = oc_event_id c" using a by (auto simp: claim_from_attempt_def invoked_attempt_def)
  have db': "db' = db\<lparr>ob_attempts := row_put attempt_key ?a (ob_attempts db)\<rparr>" using upd by (auto simp: update_attempt_Inr)
  have frame: "event_attempts db' j = event_attempts db j" if "j \<noteq> ev_event_id e" for j
    using attempt_put_frame[of j ?a db] that id e_in(2) by (simp add: db' event_attempts_put)
  have "events_ok db'"
    by (rule events_ok_touch[OF evs(1) e_in(1) refl _ evs(3,4) _ frame])
      (use chk e_in row_put_same[OF evs(2) e_in(1)] in \<open>simp_all add: db'\<close>)
  then show ?thesis using attempts_ok_update[OF _ upd] ok sha by (simp add: outbox_ok_def)
qed

lemma finalize_keeps_ok:
  assumes ok: "outbox_ok sha db" and op: "finalize_commit cfg env db receipt cause = Inr (Inr receipt', db')"
    and sha: "ox_sha env = sha"
  shows "outbox_ok sha db'"
  using op
proof (cases rule: finalize_commit_cases)
  case (fresh e a decision db1)
  let ?c = "re_claim receipt" and ?e = "finalized_event e (re_outcome receipt)" and ?a = "completed_attempt a receipt decision"
  have e_in: "e \<in> set (ob_events db)" "ev_event_id e = oc_event_id ?c" using outbox_event_Some[OF fresh(1)] by auto
  have id: "event_identity ?e = event_identity e" "ev_event_id ?e = oc_event_id ?c" "da_event_id ?a = oc_event_id ?c"
    using e_in outbox_attempt_Some[OF fresh(2)]
    by (simp_all add: finalized_event_def event_identity_def completed_attempt_def)
  have db1: "db1 = db\<lparr>ob_events := row_put ev_event_id ?e (ob_events db)\<rparr>" "event_check (ox_octets env) ?e"
    using fresh(8) by (auto simp: update_event_Inr)
  have db': "db' = db1\<lparr>ob_attempts := row_put attempt_key ?a (ob_attempts db1)\<rparr>"
    using fresh(9) by (auto simp: update_attempt_Inr)
  have "attempts_ok sha db1"
  proof (rule attempts_ok_events)
    show "attempts_ok sha db" using ok by (simp add: outbox_ok_def)
  qed (simp_all add: db1)
  then have "attempts_ok sha db'" using attempts_ok_update fresh(9) sha by blast
  moreover have "events_ok db'"
  proof (rule events_ok_touch[OF _ e_in(1) id(1)])
    show "events_ok db" using ok by (simp add: outbox_ok_def)
    show "event_attempts db' j = event_attempts db j" if "j \<noteq> ev_event_id ?e" for j
      using that id attempt_put_frame[of j ?a db1]
      by (simp add: db' event_attempts_put) (simp add: db1 event_attempts_def)
  qed (use event_check_parts[OF db1(2)] fresh(10) id in \<open>simp_all add: db' db1\<close>)
  ultimately show ?thesis by (simp add: outbox_ok_def)
qed (use ok in simp)

lemma append_keeps_ok:
  assumes ok: "outbox_ok sha db" and op: "outbox_append env db v = Inr (res, db')"
  shows "outbox_ok sha db'"
  using op
proof (cases rule: outbox_append_cases)
  case (created e)
  have key: "ev_idempotency_key e = ai_idempotency_key v"
    by (simp add: created(1) event_row_def guard_event_insert_def)
  have fresh: "ev_event_id e \<notin> set (row_keys ev_event_id (ob_events db))"
    using created(4) by (simp add: row_get_None_iff)
  have att: "event_attempts db' j = event_attempts db j" for j by (simp add: created(2) event_attempts_def)
  have "row_get ev_event_id (ev_event_id e) (ob_events db') = Some e"
    using created(4) by (simp add: created(2) row_get_append row_get_Cons)
  then have "delivery_projection_ok db' e" using created(6) by (simp add: check_outbox_delivery_projection_def)
  moreover have "delivery_projection_ok db' x" if "x \<in> set (ob_events db)" for x
    using ok that projection_frame[OF att] by (simp add: outbox_ok_def events_ok_def)
  ultimately have "events_ok db'"
    using ok created(3) event_check_parts[OF created(5)] fresh key
    by (auto simp: outbox_ok_def events_ok_def created(2) list_ex_iff)
  moreover have "attempts_ok sha db'"
    by (rule attempts_ok_events) (use ok in \<open>auto simp: outbox_ok_def created(2)\<close>)
  ultimately show ?thesis by (simp add: outbox_ok_def)
qed (use ok in simp)

lemma outbox_ok_empty: "outbox_ok sha empty_outbox"
  by (simp add: outbox_ok_def events_ok_def attempts_ok_def empty_outbox_def row_keys_def)

lemma outbox_step_ok: "outbox_ok sha db \<Longrightarrow> outbox_step sha cfg db db' \<Longrightarrow> outbox_ok sha db'"
  by (erule outbox_step.cases) (auto intro: append_keeps_ok claim_keeps_ok invoke_keeps_ok finalize_keeps_ok)

interpretation custody: inductive_invariant empty_outbox "outbox_step sha cfg" "outbox_ok sha" for sha cfg
  by unfold_locales (auto simp: outbox_ok_empty intro: outbox_step_ok)

end
