(* ===== verification/Outbox_Evolution.thy ===== *)
theory Outbox_Evolution
  imports Outbox_Custody
begin

text \<open>
  How rows change along the steps of the outbox: an event keeps its identity columns and moves only
  from an open state to a claim and from a claim to an outcome; an attempt keeps its lease and moves
  forward through its stages. The second invariant bounds the claim generation by the attempts that
  the event's options allow.
\<close>

definition event_moves :: "OutboxEvent \<Rightarrow> OutboxEvent \<Rightarrow> bool" where
  "event_moves e e' \<longleftrightarrow> event_identity e' = event_identity e \<and>
     (e' = e \<or>
      open_state (ev_delivery_state e) \<and> ev_delivery_state e' = Claimed \<and>
        ev_claim_generation e' = ev_claim_generation e + 1 \<or>
      ev_delivery_state e = Claimed \<and> ev_delivery_state e' \<in> {Retryable, Acknowledged, Dead_letter} \<and>
        ev_claim_generation e' = ev_claim_generation e)"

definition attempt_moves :: "OutboxDeliveryAttempt \<Rightarrow> OutboxDeliveryAttempt \<Rightarrow> bool" where
  "attempt_moves a a' \<longleftrightarrow> attempt_lease a' = attempt_lease a \<and>
     (a' = a \<or>
      da_stage a = Stage_claimed \<and> da_stage a' \<in> {Stage_invoked, Stage_completed} \<or>
      da_stage a = Stage_invoked \<and> da_stage a' = Stage_completed \<and> da_invoked_at a' = da_invoked_at a)"

definition rows_move :: "outbox_db \<Rightarrow> outbox_db \<Rightarrow> bool" where
  "rows_move db db' \<longleftrightarrow>
     (\<forall>e \<in> set (ob_events db). \<exists>e' \<in> set (ob_events db'). event_moves e e') \<and>
     (\<forall>a \<in> set (ob_attempts db). \<exists>a' \<in> set (ob_attempts db'). attempt_moves a a')"

lemma event_moves_refl: "event_moves e e" by (simp add: event_moves_def)
lemma attempt_moves_refl: "attempt_moves a a" by (simp add: attempt_moves_def)

lemma row_put_moves:
  assumes "distinct (row_keys key t)" "old \<in> set t" "key new = key old" "R old new" "\<And>x. R x x"
  shows "\<forall>x \<in> set t. \<exists>x' \<in> set (row_put key new t). R x x'"
proof
  fix x assume x: "x \<in> set t"
  show "\<exists>x' \<in> set (row_put key new t). R x x'"
  proof (cases "key x = key new")
    case True
    then have "x = old" using row_unique[OF assms(1) x assms(2)] assms(3) by simp
    moreover have "new \<in> set (row_put key new t)" using x True by (force simp: row_put_def)
    ultimately show ?thesis using assms(4) by blast
  next
    case False
    then have "x \<in> set (row_put key new t)" using x by (force simp: row_put_def)
    then show ?thesis using assms(5) by blast
  qed
qed

lemma update_event_moves:
  assumes ok: "events_ok db" and upd: "update_event octets db e' = Inr db'" and e: "e \<in> set (ob_events db)"
    and m: "event_moves e e'"
  shows "\<forall>x \<in> set (ob_events db). \<exists>x' \<in> set (ob_events db'). event_moves x x'"
proof -
  have "db' = db\<lparr>ob_events := row_put ev_event_id e' (ob_events db)\<rparr>" using upd by (auto simp: update_event_Inr)
  moreover have "ev_event_id e' = ev_event_id e" using m identity_columns(1) by (auto simp: event_moves_def)
  ultimately show ?thesis
    using row_put_moves[where R = event_moves and key = ev_event_id, OF _ e _ m event_moves_refl] ok by (simp add: events_ok_def)
qed

lemma update_attempt_moves:
  assumes ok: "attempts_ok sha db" and upd: "update_attempt sha now db a' = Inr db'" and a: "a \<in> set (ob_attempts db)"
    and m: "attempt_moves a a'"
  shows "\<forall>x \<in> set (ob_attempts db). \<exists>x' \<in> set (ob_attempts db'). attempt_moves x x'"
proof -
  have "db' = db\<lparr>ob_attempts := row_put attempt_key a' (ob_attempts db)\<rparr>" using upd by (auto simp: update_attempt_Inr)
  moreover have "attempt_key a' = attempt_key a"
    using m by (auto simp: attempt_moves_def attempt_lease_def attempt_key_def)
  ultimately show ?thesis
    using row_put_moves[where R = attempt_moves and key = attempt_key, OF _ a _ m attempt_moves_refl] ok by (simp add: attempts_ok_def)
qed

lemma outcome_states:
  "delivery_outcome c invoked cause now options ru = Inr d \<Longrightarrow> do_delivery_state d \<in> {Retryable, Acknowledged, Dead_letter}"
  by (auto simp: delivery_outcome_def outcome_disposition_def Let_def split: if_splits)

lemma step_rows_move:
  assumes ok: "outbox_ok sha db" and st: "outbox_step sha cfg db db'"
  shows "rows_move db db'"
proof -
  have evs: "events_ok db" and att: "attempts_ok sha db" using ok by (simp_all add: outbox_ok_def)
  from st show ?thesis
  proof cases
    case (step_append env v res)
    show ?thesis
      using step_append(1)
      by (cases rule: outbox_append_cases) (auto simp: rows_move_def intro: event_moves_refl attempt_moves_refl)
  next
    case (step_claim env0 db0 i p owner c env c')
    show ?thesis
      using step_claim(3)
    proof (rule claim_commit_cases)
      fix e decision due db1 db2
      assume e: "outbox_event db (oc_event_id c) (oc_project_id c) = Some e" "open_state (ev_delivery_state e)"
          "oc_claim_generation c = ev_claim_generation e + 1"
        and upd: "update_event (ox_octets env) db (claimed_event e c) = Inr db1"
        and ins: "insert_attempt (ox_sha env) (ox_clock env 3) db1 (claimed_attempt c decision) = Inr db2" "db' = db2"
      have "event_moves e (claimed_event e c)"
        using e(2,3) by (auto simp: event_moves_def claimed_event_def event_identity_def)
      from update_event_moves[OF evs upd _ this] outbox_event_Some[OF e(1)]
      have "\<forall>x \<in> set (ob_events db). \<exists>x' \<in> set (ob_events db1). event_moves x x'" by blast
      moreover have "ob_attempts db1 = ob_attempts db" using upd by (auto simp: update_event_Inr)
      ultimately show ?thesis
        using ins by (auto simp: rows_move_def insert_attempt_Inr intro: attempt_moves_refl)
    qed
  next
    case (step_invoke env c envelope)
    show ?thesis
      using step_invoke(1)
    proof (rule begin_invocation_cases)
      fix e a decision
      assume a: "outbox_attempt db c = Some a" "da_stage a = Stage_claimed"
        and upd: "update_attempt (ox_sha env) (ox_clock env 2) db (invoked_attempt a (ox_clock env 1) decision) = Inr db'"
      have "attempt_moves a (invoked_attempt a (ox_clock env 1) decision)"
        using a(2) by (auto simp: attempt_moves_def invoked_attempt_def attempt_lease_def)
      from update_attempt_moves[OF att _ _ this] upd step_invoke(2) outbox_attempt_Some[OF a(1)]
      have "\<forall>x \<in> set (ob_attempts db). \<exists>x' \<in> set (ob_attempts db'). attempt_moves x x'" by blast
      moreover have "ob_events db' = ob_events db" using upd by (auto simp: update_attempt_Inr)
      ultimately show ?thesis by (auto simp: rows_move_def intro: event_moves_refl)
    qed
  next
    case (step_finalize env receipt cause receipt')
    show ?thesis
      using step_finalize(1)
    proof (cases rule: finalize_commit_cases)
      case (fresh e a decision db1)
      have "event_moves e (finalized_event e (re_outcome receipt))"
        using fresh(5) outcome_states[OF fresh(6)]
        by (auto simp: event_moves_def finalized_event_def event_identity_def matches_event_def)
      from update_event_moves[OF evs fresh(8) _ this] outbox_event_Some[OF fresh(1)]
      have 1: "\<forall>x \<in> set (ob_events db). \<exists>x' \<in> set (ob_events db1). event_moves x x'" by blast
      have same: "ob_attempts db1 = ob_attempts db" using fresh(8) by (auto simp: update_event_Inr)
      have "attempt_moves a (completed_attempt a receipt decision)"
        using fresh(4) by (cases "da_stage a") (auto simp: attempt_moves_def completed_attempt_def attempt_lease_def)
      moreover have "attempts_ok sha db1"
        using att fresh(8) by (intro attempts_ok_events[OF att]) (auto simp: update_event_Inr)
      ultimately have "\<forall>x \<in> set (ob_attempts db1). \<exists>x' \<in> set (ob_attempts db'). attempt_moves x x'"
        using update_attempt_moves fresh(9) step_finalize(2) outbox_attempt_Some[OF fresh(2)] same by metis
      moreover have "ob_events db' = ob_events db1" using fresh(9) by (auto simp: update_attempt_Inr)
      ultimately show ?thesis using 1 same by (simp add: rows_move_def)
    qed (auto simp: rows_move_def intro: event_moves_refl attempt_moves_refl)
  qed
qed

subsection \<open>The generation bound\<close>

definition attempts_allowed :: "OutboxDelivery \<Rightarrow> OutboxEvent \<Rightarrow> int" where
  "attempts_allowed cfg e = max_attempts (options_for cfg (ev_event_type e) (ev_event_version e))"

definition generations_bounded :: "OutboxDelivery \<Rightarrow> outbox_db \<Rightarrow> bool" where
  "generations_bounded cfg db \<longleftrightarrow>
     (\<forall>e \<in> set (ob_events db). ev_claim_generation e \<le> max 0 (attempts_allowed cfg e))"

lemma claim_propose_Some:
  assumes "claim_propose cfg env db i p owner = Inr (Some c)"
  obtains e where "e \<in> set (ob_events db)" "ev_event_id e = oc_event_id c" "ev_project_id e = oc_project_id c"
    "oc_claim_generation c = ev_claim_generation e + 1" "ev_claim_generation e < attempts_allowed cfg e"
    "OutboxClaim_valid c" "open_state (ev_delivery_state e)"
  using assms
  by (auto simp: claim_propose_def Let_def outcome_inv if_eq_Inr_both attempts_allowed_def not_le not_less
      split: option.splits dest!: outbox_event_Some)

lemma event_identity_allowed:
  "event_identity e' = event_identity e \<Longrightarrow> attempts_allowed cfg e' = attempts_allowed cfg e"
  using identity_columns(3,4)[of e' e] by (simp add: attempts_allowed_def)

lemma generations_bounded_step:
  assumes ok: "outbox_ok sha db" and b: "generations_bounded cfg db" and st: "outbox_step sha cfg db db'"
  shows "generations_bounded cfg db'"
  using st
proof cases
  case (step_append env v res)
  then show ?thesis
    using b by (cases rule: outbox_append_cases)
      (auto simp: generations_bounded_def event_row_def guard_event_insert_def)
next
  case (step_claim env0 db0 i p owner c env c')
  have keys: "distinct (row_keys ev_event_id (ob_events db))" using ok by (simp add: outbox_ok_def events_ok_def)
  obtain e0 where e0: "e0 \<in> set (ob_events db0)" "ev_event_id e0 = oc_event_id c"
      "oc_claim_generation c = ev_claim_generation e0 + 1" "ev_claim_generation e0 < attempts_allowed cfg e0"
    using claim_propose_Some[OF step_claim(1)] by metis
  obtain e1 where e1: "e1 \<in> set (ob_events db)" "event_identity e1 = event_identity e0"
    using step_claim(2) e0(1) by (auto simp: snapshot_def)
  show ?thesis
    using step_claim(3)
  proof (rule claim_commit_cases)
    fix e decision due db1 db2
    assume e: "outbox_event db (oc_event_id c) (oc_project_id c) = Some e"
      and upd: "update_event (ox_octets env) db (claimed_event e c) = Inr db1"
      and ins: "insert_attempt (ox_sha env) (ox_clock env 3) db1 (claimed_attempt c decision) = Inr db2" "db' = db2"
    have "e = e1"
      using row_unique[OF keys _ e1(1)] outbox_event_Some[OF e] identity_columns(1)[OF e1(2)] e0(2) by metis
    then have "event_identity (claimed_event e c) = event_identity e0"
      using e1(2) by (simp add: claimed_event_def event_identity_def)
    from event_identity_allowed[OF this]
    have "ev_claim_generation (claimed_event e c) \<le> attempts_allowed cfg (claimed_event e c)"
      using e0(3,4) by (simp add: claimed_event_def)
    moreover have "ob_events db' = row_put ev_event_id (claimed_event e c) (ob_events db)"
      using upd ins by (auto simp: update_event_Inr insert_attempt_Inr)
    ultimately show ?thesis using b by (auto simp: generations_bounded_def dest!: in_set_row_putD)
  qed
next
  case (step_invoke env c envelope)
  show ?thesis
    using step_invoke(1)
    by (rule begin_invocation_cases) (use b in \<open>auto simp: generations_bounded_def update_attempt_Inr\<close>)
next
  case (step_finalize env receipt cause receipt')
  show ?thesis
    using step_finalize(1)
  proof (cases rule: finalize_commit_cases)
    case (fresh e a decision db1)
    let ?e = "finalized_event e (re_outcome receipt)"
    have "event_identity ?e = event_identity e" "ev_claim_generation ?e = ev_claim_generation e"
      by (simp_all add: finalized_event_def event_identity_def)
    then have "ev_claim_generation ?e \<le> max 0 (attempts_allowed cfg ?e)"
      using b outbox_event_Some[OF fresh(1)] event_identity_allowed[of ?e e cfg] by (simp add: generations_bounded_def)
    moreover have "ob_events db' = row_put ev_event_id ?e (ob_events db)"
      using fresh(8,9) by (auto simp: update_event_Inr update_attempt_Inr)
    ultimately show ?thesis using b by (auto simp: generations_bounded_def dest!: in_set_row_putD)
  qed (use b in simp)
qed

interpretation bounded_custody: inductive_invariant empty_outbox "outbox_step sha cfg"
    "\<lambda>db. outbox_ok sha db \<and> generations_bounded cfg db" for sha cfg
proof unfold_locales
  show "outbox_ok sha empty_outbox \<and> generations_bounded cfg empty_outbox"
    using outbox_ok_empty by (simp add: generations_bounded_def empty_outbox_def)
qed (auto intro: outbox_step_ok generations_bounded_step)

subsection \<open>Contents\<close>

text \<open>
  What the immutable columns of an event hold: they satisfy their CHECKs, the octet bound of the payload
  apart, and the digest is the one of the payload.
\<close>

definition contents_ok :: "(octets \<Rightarrow> string) \<Rightarrow> outbox_db \<Rightarrow> bool" where
  "contents_ok sha db \<longleftrightarrow> (\<forall>e \<in> set (ob_events db). event_envelope_check (\<lambda>_. 0) e \<and>
     ev_payload_digest e = json_digest sha (ev_payload e))"

lemma envelope_identity:
  "event_identity e' = event_identity e \<Longrightarrow> event_envelope_check n e' \<longleftrightarrow> event_envelope_check n e"
  by (simp add: event_envelope_check_def event_identity_def)

lemma envelope_weaken: "event_envelope_check n e \<Longrightarrow> event_envelope_check (\<lambda>_. 0) e"
  by (simp add: event_envelope_check_def)

lemma contents_ok_put:
  assumes "contents_ok sha db" "e \<in> set (ob_events db)" "event_identity e' = event_identity e"
    and "ob_events db' = row_put ev_event_id e' (ob_events db)"
  shows "contents_ok sha db'"
  using assms(1,2) identity_columns(6,7)[OF assms(3)] envelope_identity[OF assms(3)]
  by (auto simp: contents_ok_def assms(4) dest!: in_set_row_putD)

lemma contents_ok_step:
  assumes ok: "contents_ok sha db" and st: "outbox_step sha cfg db db'"
  shows "contents_ok sha db'"
  using st
proof cases
  case (step_append env v res)
  show ?thesis
    using step_append(1)
  proof (cases rule: outbox_append_cases)
    case (created e)
    have "event_envelope_check (\<lambda>_. 0) e" using created(5) envelope_weaken by (auto simp: event_check_def)
    moreover have "ev_payload_digest e = json_digest sha (ev_payload e)"
      by (simp add: created(1) step_append(2) event_row_def guard_event_insert_def)
    ultimately show ?thesis using ok created by (auto simp: contents_ok_def)
  qed (use ok in simp)
next
  case (step_claim env0 db0 i p owner c env c')
  show ?thesis
    using step_claim(3)
  proof (rule claim_commit_cases)
    fix e decision due db1 db2
    assume e: "outbox_event db (oc_event_id c) (oc_project_id c) = Some e"
      and upd: "update_event (ox_octets env) db (claimed_event e c) = Inr db1"
      and ins: "insert_attempt (ox_sha env) (ox_clock env 3) db1 (claimed_attempt c decision) = Inr db2" "db' = db2"
    show ?thesis
      by (rule contents_ok_put[OF ok, of e "claimed_event e c"])
        (use outbox_event_Some[OF e] upd ins in \<open>auto simp: claimed_event_def event_identity_def update_event_Inr insert_attempt_Inr\<close>)
  qed
next
  case (step_invoke env c envelope)
  show ?thesis
    using step_invoke(1) by (rule begin_invocation_cases) (use ok in \<open>auto simp: contents_ok_def update_attempt_Inr\<close>)
next
  case (step_finalize env receipt cause receipt')
  show ?thesis
    using step_finalize(1)
  proof (cases rule: finalize_commit_cases)
    case (fresh e a decision db1)
    show ?thesis
      by (rule contents_ok_put[OF ok, of e "finalized_event e (re_outcome receipt)"])
        (use outbox_event_Some[OF fresh(1)] fresh(8,9) in
          \<open>auto simp: finalized_event_def event_identity_def update_event_Inr update_attempt_Inr\<close>)
  qed (use ok in simp)
qed

interpretation contents: inductive_invariant empty_outbox "outbox_step sha cfg" "contents_ok sha" for sha cfg
proof unfold_locales
  show "contents_ok sha empty_outbox" by (simp add: contents_ok_def empty_outbox_def)
qed (rule contents_ok_step)

subsection \<open>Along a run\<close>

definition event_later :: "OutboxEvent \<Rightarrow> OutboxEvent \<Rightarrow> bool" where
  "event_later e e' \<longleftrightarrow> event_identity e' = event_identity e \<and> ev_claim_generation e \<le> ev_claim_generation e' \<and>
     (ev_delivery_state e \<in> {Acknowledged, Dead_letter} \<longrightarrow> e' = e)"

definition attempt_later :: "OutboxDeliveryAttempt \<Rightarrow> OutboxDeliveryAttempt \<Rightarrow> bool" where
  "attempt_later a a' \<longleftrightarrow> attempt_lease a' = attempt_lease a \<and> (da_stage a = Stage_completed \<longrightarrow> a' = a) \<and>
     (da_stage a = Stage_invoked \<longrightarrow> da_stage a' \<noteq> Stage_claimed \<and> da_invoked_at a' = da_invoked_at a)"

lemma event_moves_later: "event_moves e e' \<Longrightarrow> event_later e e'"
  by (auto simp: event_moves_def event_later_def open_state_def)

lemma attempt_moves_later: "attempt_moves a a' \<Longrightarrow> attempt_later a a'"
  by (auto simp: attempt_moves_def attempt_later_def)

lemma event_later_trans: "event_later a b \<Longrightarrow> event_later b c \<Longrightarrow> event_later a c"
  by (auto simp: event_later_def)

lemma attempt_later_trans: "attempt_later a b \<Longrightarrow> attempt_later b c \<Longrightarrow> attempt_later a c"
  by (cases "da_stage b") (auto simp: attempt_later_def)

lemma run_rows_later:
  assumes "(outbox_step sha cfg)\<^sup>*\<^sup>* db db'" "outbox_ok sha db"
  shows "outbox_ok sha db' \<and> (\<forall>e \<in> set (ob_events db). \<exists>e' \<in> set (ob_events db'). event_later e e') \<and>
     (\<forall>a \<in> set (ob_attempts db). \<exists>a' \<in> set (ob_attempts db'). attempt_later a a')"
  using assms
proof (induction rule: rtranclp_induct)
  case base
  then show ?case by (auto simp: event_later_def attempt_later_def)
next
  case (step y z)
  then have ok: "outbox_ok sha y" by blast
  have "rows_move y z" by (rule step_rows_move[OF ok step(2)])
  then have "\<forall>e \<in> set (ob_events y). \<exists>e' \<in> set (ob_events z). event_later e e'"
    "\<forall>a \<in> set (ob_attempts y). \<exists>a' \<in> set (ob_attempts z). attempt_later a a'"
    unfolding rows_move_def using event_moves_later attempt_moves_later by meson+
  then show ?case using step outbox_step_ok[OF ok step(2)] event_later_trans attempt_later_trans by meson
qed

end
