(* ===== verification/Outbox_Scenario.thy ===== *)
theory Outbox_Scenario
  imports Outbox_Evolution
begin

text \<open>
  The production composition of the outbox (\<open>adapters/outbox/__init__.py\<close>) and one concrete history of an
  event under it: appended, claimed, invoked and acknowledged. Every port agrees, the digest function is
  constant and the clock stands still within a phase. The history gives the reachable states at which
  the properties of the outbox are applied.
\<close>

subsection \<open>Production composition\<close>

definition production_keys :: "(string \<times> int) list" where
  "production_keys =
     [(''TaskAssignmentAuthorityInvalidationRequested'', 1), (''TaskRevisionExpiryRequested'', 1),
      (''TaskRevisionExpired'', 1), (''TaskRevisionContextBlocked'', 1), (''TaskRevisionExhausted'', 1),
      (''PostSubmissionEvaluationRequested'', 1), (''PostSubmissionEvaluationCompleted'', 1),
      (''PostSubmissionDeliveryReconciliationRequested'', 1)]"

definition production_replay_safe :: "(string \<times> int) list" where
  "production_replay_safe =
     [(''TaskRevisionExpiryRequested'', 1), (''TaskRevisionExpired'', 1), (''TaskRevisionContextBlocked'', 1),
      (''TaskRevisionExhausted'', 1)]"

definition production_event_options :: "((string \<times> int) \<times> DeliveryOptions) list" where
  "production_event_options =
     [((''PostSubmissionEvaluationRequested'', 1),
       default_delivery_options\<lparr> lease_seconds := 3600, handler_timeout_seconds := 3520 \<rparr>)]"

definition production_outbox :: OutboxDelivery where
  "production_outbox =
   \<lparr> od_registry = \<lparr> hr_keys = production_keys, hr_replay_safe = production_replay_safe \<rparr>,
     od_options = default_delivery_options, od_event_options = production_event_options \<rparr>"

lemmas token_checks = is_event_type_def is_token_def is_snake_def is_token_char_def is_alnum_char_def
  is_lower_char_def is_upper_char_def is_digit_char_def in_range_def is_error_code_def

lemma production_composes:
  "andthen (HandlerRegistry_new production_keys production_replay_safe) (\<lambda>r.
     OutboxDelivery_new r default_delivery_options production_event_options) = Inr production_outbox"
proof -
  have "list_all (\<lambda>(t, v). is_event_type t \<and> 1 \<le> v \<and> v \<le> (32767::int)) production_keys"
    by (simp add: production_keys_def token_checks)
  moreover have "distinct production_keys" by (simp add: production_keys_def)
  moreover have "list_all (\<lambda>k. k \<in> set production_keys) production_replay_safe"
    by (simp add: production_keys_def production_replay_safe_def)
  ultimately show ?thesis
    by (simp add: HandlerRegistry_new_def OutboxDelivery_new_def production_outbox_def DeliveryOptions_valid_def
        default_delivery_options_def production_event_options_def production_keys_def)
qed

lemma production_default_options [simp]: "options_for production_outbox ''TaskRevisionExhausted'' 1 = default_delivery_options"
  by (simp add: options_for_def production_outbox_def production_event_options_def)

lemma production_exhausted [simp]:
  "registered (od_registry production_outbox) ''TaskRevisionExhausted'' 1"
  "can_retry_unknown (od_registry production_outbox) ''TaskRevisionExhausted'' 1"
  by (simp_all add: registered_def can_retry_unknown_def production_outbox_def production_keys_def
      production_replay_safe_def)

subsection \<open>Environment and inputs\<close>

definition ob_id :: "int \<Rightarrow> uuid" where
  "ob_id n = word_of_int (0x70008000000000000000 + n)"

definition ob_sha_const :: "octets \<Rightarrow> string" where
  "ob_sha_const b = replicate 64 (CHR ''0'')"

definition ob_digest :: string where
  "ob_digest = ''sha256:'' @ replicate 64 (CHR ''0'')"

lemma ob_hash [simp]: "json_digest ob_sha_const v = ob_digest"
  by (simp add: json_digest_def ob_sha_const_def ob_digest_def)

lemma ob_digest_ok [simp]: "is_sha256 ob_digest"
  by (simp add: is_sha256_def ob_digest_def is_lower_hex_def is_digit_char_def in_range_def list_all_iff)

definition ob_env :: "instant \<Rightarrow> int \<Rightarrow> outbox_env" where
  "ob_env t d =
   \<lparr> ox_sha = ob_sha_const, ox_octets = (\<lambda>_. 100), ox_clock = (\<lambda>_. t), ox_new_id = ob_id d,
     ox_prepare = (\<lambda>_. True),
     ox_consume = (\<lambda>_. Some \<lparr> ad_decision_id = ob_id d, ad_allow = True, ad_action_id = ''outbox.dispatch'',
       ad_permission_id = ''outbox.dispatch'' \<rparr>) \<rparr>"

lemma ob_env_simps [simp]:
  "ox_sha (ob_env t d) = ob_sha_const" "ox_octets (ob_env t d) v = 100" "ox_clock (ob_env t d) n = t"
  "ox_new_id (ob_env t d) = ob_id d" "prepare_authority (ob_env t d) f = Inr ()"
  "allow_decision (ob_env t d) f = Inr (ob_id d)"
  by (simp_all add: ob_env_def prepare_authority_def allow_decision_def)

definition ob_input :: OutboxAppendInput where
  "ob_input =
   \<lparr> ai_event_type = ''TaskRevisionExhausted'', ai_event_version = 1, ai_aggregate_type = ''task'',
     ai_aggregate_id = ob_id 2, ai_project_id = ob_id 1, ai_correlation_id = ''c-1'',
     ai_causation_event_id = None, ai_idempotency_key = ''k-1'', ai_payload = jobj [(''task_id'', jstr ''t-1'')],
     ai_not_before_at = None \<rparr>"

definition ob_event0 :: OutboxEvent where
  "ob_event0 = event_row ob_input (ob_id 10) ob_digest 0"

definition ob_db1 :: outbox_db where
  "ob_db1 = \<lparr> ob_events = [ob_event0], ob_attempts = [] \<rparr>"

definition ob_claim :: OutboxClaim where
  "ob_claim =
   \<lparr> oc_event_id = ob_id 10, oc_project_id = ob_id 1, oc_payload_digest = ob_digest, oc_claim_generation = 1,
     oc_claim_owner = ''w-1'', oc_claimed_at = 10, oc_claim_expires_at = 300000010 \<rparr>"

definition ob_db2 :: outbox_db where
  "ob_db2 = \<lparr> ob_events = [claimed_event ob_event0 ob_claim], ob_attempts = [claimed_attempt ob_claim (ob_id 20)] \<rparr>"

definition ob_db3 :: outbox_db where
  "ob_db3 = ob_db2\<lparr> ob_attempts := [invoked_attempt (claimed_attempt ob_claim (ob_id 20)) 20 (ob_id 30)] \<rparr>"

definition ob_outcome :: DeliveryOutcome where
  "ob_outcome = \<lparr> do_delivery_state = Acknowledged, do_error_code = None, do_next_attempt_at = None,
     do_finalized_at = Some 30, do_receipt_completed_at = 30, do_invocation_unknown = False,
     do_invoked_at = Some 20 \<rparr>"

definition ob_receipt :: DeliveryReceipt where
  "ob_receipt = \<lparr> re_claim = ob_claim, re_outcome = ob_outcome, re_outcome_digest = ob_digest \<rparr>"

definition ob_db4 :: outbox_db where
  "ob_db4 = \<lparr> ob_events = [finalized_event (claimed_event ob_event0 ob_claim) ob_outcome],
     ob_attempts = [completed_attempt (invoked_attempt (claimed_attempt ob_claim (ob_id 20)) 20 (ob_id 30))
       ob_receipt (ob_id 40)] \<rparr>"

subsection \<open>The history\<close>

lemma ob_input_valid: "OutboxAppendInput_valid ob_input"
proof -
  have len: "utf8_length (code_points ''task_id'') = 7" "length (utf8_bytes (code_points ''t-1'')) = 3"
    by (simp_all add: ascii_one utf8_octets_def)
  have "\<not> is_sensitive_key ''task_id''" by code_simp
  then have "payload_key_ok (code_points ''task_id'')"
    by (simp add: payload_key_code_points is_snake_def is_lower_char_def is_digit_char_def in_range_def del: code_points_simps)
  then have "validate_outbox_payload (jobj [(''task_id'', jstr ''t-1'')])"
    using len
    by (simp add: validate_outbox_payload_def jobj_def jstr_def encoding_budget.simps encode_utf8_def
        del: code_points_simps utf8_bytes_simps)
  then show ?thesis by (simp add: OutboxAppendInput_valid_def ob_input_def token_checks)
qed

lemma ob_uuid7: "require_uuid7 (ob_id 10)"
  unfolding ob_id_def by (simp add: require_uuid7_def uuid_version_def uuid_rfc4122_def) 

lemma ob_event0_simps [simp]:
  "ev_event_id ob_event0 = ob_id 10" "ev_project_id ob_event0 = ob_id 1" "ev_delivery_state ob_event0 = Pending"
  "ev_claim_generation ob_event0 = 0" "ev_attempt_count ob_event0 = 0" "ev_payload_digest ob_event0 = ob_digest"
  "ev_next_attempt_at ob_event0 = Some 0" "ev_event_type ob_event0 = ''TaskRevisionExhausted''"
  "ev_event_version ob_event0 = 1" "ev_occurred_at ob_event0 = 0" "ev_not_before_at ob_event0 = None"
  "ev_last_error_code ob_event0 = None" "ev_finalized_at ob_event0 = None" "ev_archived_at ob_event0 = None"
  "ev_idempotency_key ob_event0 = ''k-1''" "ev_claim_owner ob_event0 = None" "ev_claimed_at ob_event0 = None"
  "ev_claim_expires_at ob_event0 = None" "ev_last_attempt_at ob_event0 = None"
  by (simp_all add: ob_event0_def event_row_def guard_event_insert_def ob_input_def)

lemma ob_event0_envelope: "event_envelope_check (\<lambda>_. 100) ob_event0"
  using ob_uuid7
  by (simp add: event_envelope_check_def) (simp add: ob_event0_def event_row_def guard_event_insert_def ob_input_def token_checks jobj_def)

lemma ob_claim_simps [simp]:
  "oc_event_id ob_claim = ob_id 10" "oc_project_id ob_claim = ob_id 1" "oc_payload_digest ob_claim = ob_digest"
  "oc_claim_generation ob_claim = 1" "oc_claim_owner ob_claim = ''w-1''" "oc_claimed_at ob_claim = 10"
  "oc_claim_expires_at ob_claim = 300000010"
  by (simp_all add: ob_claim_def)

lemma ob_claim_valid [simp]: "OutboxClaim_valid ob_claim"
  by (simp add: OutboxClaim_valid_def timedelta_seconds_def token_checks)

lemma ob_facts [simp]:
  "\<exists>f. dispatch_facts ob_claim Phase_claim None = Inr f"
  "\<exists>f. dispatch_facts ob_claim Phase_invoke None = Inr f"
  "\<exists>f. dispatch_facts ob_claim Phase_finalize (Some ob_digest) = Inr f"
  by (simp_all add: dispatch_facts_def OutboxDispatchFacts_valid_def Let_def token_checks)

lemma ob_step1: "outbox_append (ob_env 0 10) empty_outbox ob_input
    = Inr (\<lparr> ar_event_id = ob_id 10, ar_disposition = Created, ar_payload_digest = ob_digest, ar_occurred_at = 0 \<rparr>, ob_db1)"
proof -
  have row: "event_row ob_input (ob_id 10) ob_digest 0 = ob_event0" by (simp add: ob_event0_def)
  have check: "event_check (\<lambda>_. 100) ob_event0"
    using ob_event0_envelope by (simp add: event_check_def event_times_check_def event_shape_check.simps)
  have octets: "ox_octets (ob_env 0 10) = (\<lambda>_. 100)" by (simp add: ob_env_def)
  have same: "ai_idempotency_key ob_input = ''k-1''" "ai_payload ob_input = ev_payload ob_event0"
    by (simp_all add: ob_input_def ob_event0_def event_row_def guard_event_insert_def)
  have match: "event_matches ob_event0 ob_input ob_digest"
    by (simp add: event_matches_def py_equal_def)
      (simp add: ob_event0_def event_row_def guard_event_insert_def ob_input_def)
  have proj: "check_outbox_delivery_projection ob_db1 (ob_id 10)"
    by (simp add: check_outbox_delivery_projection_def ob_db1_def row_get_def delivery_projection_ok_def event_attempts_def)
  have db: "empty_outbox\<lparr>ob_events := [ob_event0]\<rparr> = ob_db1" "ob_events empty_outbox = []" "ob_events ob_db1 = [ob_event0]"
    by (simp_all add: ob_db1_def empty_outbox_def)
  show ?thesis
    by (simp add: outbox_append_def ob_input_valid reserve_def row octets check same db row_get_Nil match proj commit_event_Inr
        commit_event_def require_row_def)
qed

lemma ob_propose: "claim_propose production_outbox (ob_env 10 20) ob_db1 (ob_id 10) (ob_id 1) ''w-1'' = Inr (Some ob_claim)"
proof -
  have "\<lparr> oc_event_id = ob_id 10, oc_project_id = ob_id 1, oc_payload_digest = ob_digest, oc_claim_generation = 1,
     oc_claim_owner = ''w-1'', oc_claimed_at = 10, oc_claim_expires_at = 10 + timedelta_seconds 300 \<rparr> = ob_claim"
    by (simp add: ob_claim_def timedelta_seconds_def)
  then show ?thesis
    by (simp add: claim_propose_def outbox_event_def ob_db1_def open_state_def default_delivery_options_def)
qed

lemma ob_step2: "claim_commit (ob_env 10 20) ob_db1 ob_claim = Inr (Some ob_claim, ob_db2)"
proof -
  let ?e = "claimed_event ob_event0 ob_claim" and ?a = "claimed_attempt ob_claim (ob_id 20)"
  have octets: "ox_octets (ob_env 10 20) = (\<lambda>_. 100)" by (simp add: ob_env_def)
  have "event_envelope_check (\<lambda>_. 100) ?e"
    using ob_event0_envelope by (simp add: event_envelope_check_def claimed_event_def)
  then have check: "event_check (\<lambda>_. 100) ?e"
    by (simp add: event_check_def event_times_check_def event_shape_check.simps claimed_event_def token_checks)
  have guard: "guard_event_update ob_event0 ?e"
    by (simp add: guard_event_update_def guard_event_transition_def claimed_event_def event_identity_def open_state_def)
  have upd: "update_event (\<lambda>_. 100) ob_db1 ?e = Inr (ob_db1\<lparr>ob_events := [?e]\<rparr>)"
    using check guard by (simp add: update_event_def ob_db1_def row_get_def row_put_def require_row_def) (simp add: claimed_event_def)
  have "attempt_check ob_sha_const ?a" "guard_attempt_insert 10 ?a"
    by (simp_all add: attempt_check_def attempt_phase_check_def attempt_shape_check_def claimed_attempt_def token_checks
        timedelta_seconds_def guard_attempt_insert_def guard_attempt_current_def)
  then have ins: "insert_attempt ob_sha_const 10 (ob_db1\<lparr>ob_events := [?e]\<rparr>) ?a = Inr ob_db2"
    by (simp add: insert_attempt_def require_row_def ob_db1_def ob_db2_def row_get_def)
      (simp add: claimed_event_def claimed_attempt_def)
  have proj: "check_outbox_delivery_projection ob_db2 (ob_id 10)"
    by (simp add: check_outbox_delivery_projection_def ob_db2_def row_get_def delivery_projection_ok_def event_attempts_def
        claimed_event_def claimed_attempt_def attempt_misfits_def unknown_retry_def current_custody_matches_def)
  have ev: "outbox_event ob_db1 (ob_id 10) (ob_id 1) = Some ob_event0" by (simp add: outbox_event_def ob_db1_def)
  obtain f where f: "dispatch_facts ob_claim Phase_claim None = Inr f" using ob_facts(1) by blast
  show ?thesis
    by (simp add: claim_commit_def f ev open_state_def octets upd ins commit_event_def require_row_def proj)
qed

lemma ob_rows [simp]:
  "outbox_event ob_db2 (ob_id 10) (ob_id 1) = Some (claimed_event ob_event0 ob_claim)"
  "outbox_event ob_db3 (ob_id 10) (ob_id 1) = Some (claimed_event ob_event0 ob_claim)"
  "outbox_attempt ob_db2 ob_claim = Some (claimed_attempt ob_claim (ob_id 20))"
  "outbox_attempt ob_db3 ob_claim = Some (invoked_attempt (claimed_attempt ob_claim (ob_id 20)) 20 (ob_id 30))"
  "matches_event (claimed_event ob_event0 ob_claim) ob_claim"
  "claim_from_attempt (claimed_attempt ob_claim d) = ob_claim"
  "claim_from_attempt (invoked_attempt (claimed_attempt ob_claim d) t d') = ob_claim"
  by (simp_all add: outbox_event_def outbox_attempt_def ob_db2_def ob_db3_def matches_event_def claim_from_attempt_def)
    (simp_all add: claimed_event_def claimed_attempt_def invoked_attempt_def ob_claim_def)

lemma ob_step3: "\<exists>envelope. begin_invocation production_outbox (ob_env 20 30) ob_db2 ob_claim = Inr (Some envelope, ob_db3)"
proof -
  let ?a = "invoked_attempt (claimed_attempt ob_claim (ob_id 20)) 20 (ob_id 30)"
  have ne: "ob_id 20 \<noteq> ob_id 30" by (simp add: ob_id_def)
  have "attempt_check ob_sha_const ?a" "guard_attempt_update 20 (claimed_attempt ob_claim (ob_id 20)) ?a"
    by (simp_all add: attempt_check_def attempt_phase_check_def attempt_shape_check_def claimed_attempt_def token_checks
        invoked_attempt_def timedelta_seconds_def guard_attempt_update_def guard_attempt_current_def invoked_in_lease_def
        attempt_lease_def)
  then have upd: "update_attempt ob_sha_const 20 ob_db2 ?a = Inr ob_db3"
    by (simp add: update_attempt_def require_row_def ob_db2_def ob_db3_def row_get_def row_put_def)
      (simp add: claimed_attempt_def invoked_attempt_def attempt_key_def)
  have proj: "check_outbox_delivery_projection ob_db3 (ob_id 10)"
    by (simp add: check_outbox_delivery_projection_def ob_db2_def ob_db3_def row_get_def delivery_projection_ok_def
        event_attempts_def claimed_event_def claimed_attempt_def invoked_attempt_def attempt_misfits_def unknown_retry_def
        current_custody_matches_def)
  have cols: "da_stage (claimed_attempt ob_claim (ob_id 20)) = Stage_claimed"
    "ev_event_type (claimed_event ob_event0 ob_claim) = ''TaskRevisionExhausted''"
    "ev_event_version (claimed_event ob_event0 ob_claim) = 1"
    by (simp_all add: claimed_attempt_def claimed_event_def)
  obtain f where f: "dispatch_facts ob_claim Phase_invoke None = Inr f" using ob_facts(2) by blast
  show ?thesis
    by (simp add: begin_invocation_def checked_claim_def f cols upd commit_event_def require_row_def proj)
qed

lemma ob_delivery_outcome:
  "delivery_outcome ob_claim (Some 20) CauseAcknowledge 30 default_delivery_options ru = Inr ob_outcome"
  by (simp add: delivery_outcome_def outcome_disposition_def ob_outcome_def Let_def)

lemma ob_receipt_simps [simp]:
  "re_claim ob_receipt = ob_claim" "re_outcome ob_receipt = ob_outcome" "re_outcome_digest ob_receipt = ob_digest"
  "do_receipt_completed_at ob_outcome = 30"
  by (simp_all add: ob_receipt_def ob_outcome_def)

lemma ob_step4: "finalize_commit production_outbox (ob_env 30 40) ob_db3 ob_receipt CauseAcknowledge = Inr (Inr ob_receipt, ob_db4)"
proof -
  let ?old = "claimed_event ob_event0 ob_claim" and ?held = "invoked_attempt (claimed_attempt ob_claim (ob_id 20)) 20 (ob_id 30)"
  let ?e = "finalized_event ?old ob_outcome" and ?a = "completed_attempt ?held ob_receipt (ob_id 40)"
  have octets: "ox_octets (ob_env 30 40) = (\<lambda>_. 100)" by (simp add: ob_env_def)
  have "event_envelope_check (\<lambda>_. 100) ?e"
    using ob_event0_envelope by (simp add: event_envelope_check_def claimed_event_def finalized_event_def)
  then have check: "event_check (\<lambda>_. 100) ?e"
    by (simp add: event_check_def event_times_check_def event_shape_check.simps claimed_event_def finalized_event_def
        ob_outcome_def)
  have guard: "guard_event_update ?old ?e"
    by (simp add: guard_event_update_def guard_event_transition_def claimed_event_def finalized_event_def event_identity_def
        open_state_def ob_outcome_def same_counters_def)
  have upd: "update_event (\<lambda>_. 100) ob_db3 ?e = Inr (ob_db3\<lparr>ob_events := [?e]\<rparr>)"
    using check guard by (simp add: update_event_def ob_db3_def ob_db2_def row_get_def row_put_def require_row_def)
      (simp add: claimed_event_def finalized_event_def)
  have "attempt_check ob_sha_const ?a" "guard_attempt_update 30 ?held ?a"
    by (simp_all add: attempt_check_def attempt_phase_check_def attempt_shape_check_def claimed_attempt_def token_checks
        invoked_attempt_def completed_attempt_def timedelta_seconds_def guard_attempt_update_def guard_attempt_current_def
        invoked_in_lease_def attempt_lease_def outbox_delivery_outcome_valid_def outcome_kind_valid_def)
      (simp_all add: ob_outcome_def)
  then have upa: "update_attempt ob_sha_const 30 (ob_db3\<lparr>ob_events := [?e]\<rparr>) ?a = Inr ob_db4"
    by (simp add: update_attempt_def require_row_def ob_db2_def ob_db3_def ob_db4_def row_get_def row_put_def)
      (simp add: claimed_attempt_def invoked_attempt_def completed_attempt_def attempt_key_def)
  have proj: "check_outbox_delivery_projection ob_db4 (ob_id 10)"
    by (simp add: check_outbox_delivery_projection_def ob_db4_def row_get_def delivery_projection_ok_def
        event_attempts_def claimed_event_def finalized_event_def claimed_attempt_def invoked_attempt_def completed_attempt_def
        attempt_misfits_def unknown_retry_def current_custody_matches_def ob_outcome_def)
  have cols: "da_stage ?held = Stage_invoked" "da_invoked_at ?held = Some 20" "ev_claim_generation ?old = 1"
    "ev_event_type ?old = ''TaskRevisionExhausted''" "ev_event_version ?old = 1"
    by (simp_all add: claimed_attempt_def invoked_attempt_def claimed_event_def)
  obtain f where f: "dispatch_facts ob_claim Phase_finalize (Some ob_digest) = Inr f" using ob_facts(3) by blast
  show ?thesis
    by (simp add: finalize_commit_def checked_claim_def f cols upd upa octets commit_event_def require_row_def proj
        ob_delivery_outcome)
qed

lemma ob_steps:
  "outbox_step ob_sha_const production_outbox empty_outbox ob_db1" "outbox_step ob_sha_const production_outbox ob_db1 ob_db2"
  "outbox_step ob_sha_const production_outbox ob_db2 ob_db3" "outbox_step ob_sha_const production_outbox ob_db3 ob_db4"
proof -
  show "outbox_step ob_sha_const production_outbox empty_outbox ob_db1" by (rule step_append[OF ob_step1]) simp
  show "outbox_step ob_sha_const production_outbox ob_db1 ob_db2"
    by (rule step_claim[OF ob_propose _ ob_step2]) (auto simp: snapshot_def)
  obtain envelope where "begin_invocation production_outbox (ob_env 20 30) ob_db2 ob_claim = Inr (Some envelope, ob_db3)"
    using ob_step3 by blast
  then show "outbox_step ob_sha_const production_outbox ob_db2 ob_db3" by (rule step_invoke) simp
  show "outbox_step ob_sha_const production_outbox ob_db3 ob_db4" by (rule step_finalize[OF ob_step4]) simp
qed

lemma ob_reach:
  "(outbox_step ob_sha_const production_outbox)\<^sup>*\<^sup>* empty_outbox ob_db1"
  "(outbox_step ob_sha_const production_outbox)\<^sup>*\<^sup>* empty_outbox ob_db2"
  "(outbox_step ob_sha_const production_outbox)\<^sup>*\<^sup>* empty_outbox ob_db3"
  "(outbox_step ob_sha_const production_outbox)\<^sup>*\<^sup>* empty_outbox ob_db4"
  using ob_steps by (meson rtranclp.rtrancl_into_rtrancl rtranclp.rtrancl_refl)+

subsection \<open>A registry the database agrees with\<close>

text \<open>The production composition with only those handlers replay-safe that the database registers.\<close>

definition agreed_outbox :: OutboxDelivery where
  "agreed_outbox = production_outbox\<lparr> od_registry :=
     \<lparr> hr_keys = production_keys,
       hr_replay_safe = [(''TaskRevisionExpiryRequested'', 1), (''TaskRevisionExpired'', 1)] \<rparr> \<rparr>"

lemma agreed_outbox_simps [simp]:
  "options_for agreed_outbox t v = options_for production_outbox t v"
  "registered (od_registry agreed_outbox) t v = registered (od_registry production_outbox) t v"
  "\<not> can_retry_unknown (od_registry agreed_outbox) ''TaskRevisionExhausted'' 1"
  by (simp_all add: agreed_outbox_def options_for_def registered_def production_outbox_def can_retry_unknown_def
      split: option.split)

lemma agreed_reach: "(outbox_step ob_sha_const agreed_outbox)\<^sup>*\<^sup>* empty_outbox ob_db3"
proof -
  have "claim_propose agreed_outbox (ob_env 10 20) ob_db1 (ob_id 10) (ob_id 1) ''w-1'' = Inr (Some ob_claim)"
    using ob_propose unfolding claim_propose_def agreed_outbox_simps .
  then have "outbox_step ob_sha_const agreed_outbox ob_db1 ob_db2"
    by (rule step_claim[OF _ _ ob_step2]) (auto simp: snapshot_def)
  moreover obtain envelope where "begin_invocation agreed_outbox (ob_env 20 30) ob_db2 ob_claim = Inr (Some envelope, ob_db3)"
    using ob_step3 unfolding begin_invocation_def agreed_outbox_simps by blast
  then have "outbox_step ob_sha_const agreed_outbox ob_db2 ob_db3" by (rule step_invoke) simp
  moreover have "outbox_step ob_sha_const agreed_outbox empty_outbox ob_db1" by (rule step_append[OF ob_step1]) simp
  ultimately show ?thesis by (meson rtranclp.rtrancl_into_rtrancl rtranclp.rtrancl_refl)
qed

end
