(* ===== verification/Outbox_Outcomes.thy ===== *)
theory Outbox_Outcomes
  imports Outbox_Evolution
begin

text \<open>
  What a finalization writes: the outcomes \<open>_outcome\<close> computes, one case per branch, the CHECK of the attempt
  row on them, and the statements of \<open>_finalize\<close>, each of which the guards and the deferred check admit.
\<close>

lemma outbox_ok_parts:
  assumes "outbox_ok sha db"
  shows "distinct (row_keys ev_event_id (ob_events db))" "distinct (row_keys attempt_key (ob_attempts db))"
    "distinct (map ev_idempotency_key (ob_events db))"
    "\<And>e. e \<in> set (ob_events db) \<Longrightarrow> delivery_projection_ok db e"
    "\<And>e. e \<in> set (ob_events db) \<Longrightarrow> event_times_check e \<and> event_shape_check e"
    "\<And>a. a \<in> set (ob_attempts db) \<Longrightarrow> attempt_check sha a"
  using assms by (auto simp: outbox_ok_def events_ok_def attempts_ok_def)

lemma event_generations_distinct:
  assumes "distinct (row_keys attempt_key (ob_attempts db))"
  shows "distinct (map da_claim_generation (event_attempts db i))"
proof -
  have "inj_on attempt_key (set (ob_attempts db))" "distinct (ob_attempts db)"
    using assms by (auto simp: row_keys_def distinct_map)
  then show ?thesis
    by (auto simp: distinct_map event_attempts_def inj_on_def attempt_key_def)
qed

lemma retry_delay_range:
  assumes "DeliveryOptions_valid p"
  shows "retry_base_seconds p \<le> retry_delay p g" "retry_delay p g \<le> retry_cap_seconds p"
proof -
  have v: "1 \<le> retry_base_seconds p" "retry_base_seconds p \<le> retry_cap_seconds p"
    using assms by (auto simp: DeliveryOptions_valid_def)
  have "(1::int) \<le> 2 ^ nat (min (g - 1) 30)" by simp
  then have "retry_base_seconds p * 1 \<le> retry_base_seconds p * 2 ^ nat (min (g - 1) 30)"
    using v by (intro mult_left_mono) auto
  then show "retry_base_seconds p \<le> retry_delay p g" "retry_delay p g \<le> retry_cap_seconds p"
    using v by (auto simp: retry_delay_def)
qed

lemma retry_time_bounds:
  assumes "DeliveryOptions_valid p"
  shows "now < now + timedelta_seconds (retry_delay p g)"
    "now + timedelta_seconds (retry_delay p g) \<le> now + timedelta_seconds 86400"
  using retry_delay_range[OF assms, of g] assms by (auto simp: timedelta_seconds_def DeliveryOptions_valid_def)

text \<open>The results of \<open>_outcome\<close>, one case per branch.\<close>

lemma delivery_outcome_common:
  assumes "delivery_outcome c invoked cause now options ru = Inr d"
  shows "do_receipt_completed_at d = now" "do_invoked_at d = invoked"
    "do_finalized_at d = (if do_delivery_state d = Retryable then None else Some now)"
    "do_invocation_unknown d \<longleftrightarrow> invoked \<noteq> None \<and> (oc_claim_expires_at c \<le> now \<or> cause = CauseUnknown)"
    "invoked = None \<Longrightarrow> cause = CauseExpired \<and> oc_claim_expires_at c \<le> now"
    "cause = CauseExpired \<Longrightarrow> oc_claim_expires_at c \<le> now"
  using assms by (simp_all add: delivery_outcome_def Let_def split: if_splits prod.splits) auto

lemma delivery_outcome_cases:
  assumes "delivery_outcome c invoked cause now options ru = Inr d"
  obtains (unknown) "do_invocation_unknown d" "do_error_code d = Some ''INVOKE_OUTCOME_UNKNOWN''"
      "if ru \<and> oc_claim_generation c < max_attempts options
       then do_delivery_state d = Retryable \<and>
         do_next_attempt_at d = Some (now + timedelta_seconds (retry_delay options (oc_claim_generation c)))
       else do_delivery_state d = Dead_letter \<and> do_next_attempt_at d = None"
  | (acknowledged) "\<not> do_invocation_unknown d" "cause = CauseAcknowledge" "do_delivery_state d = Acknowledged"
      "do_error_code d = None" "do_next_attempt_at d = None"
  | (exhausted) "\<not> do_invocation_unknown d" "do_delivery_state d = Dead_letter" "do_next_attempt_at d = None"
      "do_error_code d = Some ''ATTEMPTS_EXHAUSTED''"
  | (retry) "\<not> do_invocation_unknown d" "do_delivery_state d = Retryable"
      "do_next_attempt_at d = Some (now + timedelta_seconds (retry_delay options (oc_claim_generation c)))"
      "do_error_code d = Some (if invoked \<noteq> None then ''RETRY_REQUESTED'' else ''LEASE_EXPIRED_BEFORE_INVOKE'')"
  | (rejected) "\<not> do_invocation_unknown d" "cause \<noteq> CauseExpired" "do_delivery_state d = Dead_letter"
      "do_error_code d = Some ''HANDLER_REJECTED''" "do_next_attempt_at d = None"
proof -
  have "(do_delivery_state d, do_error_code d, do_next_attempt_at d) =
      outcome_disposition c (invoked \<noteq> None) (do_invocation_unknown d) cause now options ru"
    using assms by (auto simp: delivery_outcome_def Let_def split: if_splits prod.splits)
  then show ?thesis
    using that by (auto simp: outcome_disposition_def Let_def split: if_splits)
qed

text \<open>Whatever \<open>_outcome\<close> returns passes the CHECK on the attempt row.\<close>

lemma outcome_accepted:
  assumes "delivery_outcome c invoked cause now options retry_unknown = Inr d"
    and "DeliveryOptions_valid options" "1 \<le> oc_claim_generation c" "oc_claimed_at c \<le> now"
    and "pred_option (\<lambda>t. t \<le> now) invoked"
  shows "outbox_delivery_outcome_valid sha d (Some (json_digest sha (outcome_dump d)))
     (oc_claimed_at c) (oc_claim_expires_at c) invoked"
proof -
  note common = delivery_outcome_common[OF assms(1)] and bounds = retry_time_bounds[OF assms(2), of now "oc_claim_generation c"]
  have frame: "\<not> do_receipt_completed_at d < oc_claimed_at c" "nn (\<le>) invoked (Some (do_receipt_completed_at d))"
    using common(1) assms(4,5) by (cases invoked; simp)+
  from assms(1) show ?thesis
    by (cases rule: delivery_outcome_cases; cases invoked)
      (use common frame bounds in \<open>auto simp: outbox_delivery_outcome_valid_def outcome_kind_valid_def split: if_splits\<close>)
qed

subsection \<open>The statements of a finalization\<close>

text \<open>A claim that may be finalized: its event and its open attempt, as \<open>_finalize\<close> reads them.\<close>

definition claim_live :: "outbox_db \<Rightarrow> OutboxClaim \<Rightarrow> OutboxEvent \<Rightarrow> OutboxDeliveryAttempt \<Rightarrow> bool" where
  "claim_live db c e a \<longleftrightarrow>
     outbox_event db (oc_event_id c) (oc_project_id c) = Some e \<and> outbox_attempt db c = Some a \<and>
     claim_from_attempt a = c \<and> matches_event e c \<and> da_stage a \<noteq> Stage_completed"

lemma claim_live_rows:
  assumes "claim_live db c e a"
  shows "e \<in> set (ob_events db)" "a \<in> set (ob_attempts db)" "a \<in> set (event_attempts db (ev_event_id e))"
    "ev_event_id e = oc_event_id c" "da_event_id a = ev_event_id e" "da_claim_generation a = ev_claim_generation e"
    "ev_delivery_state e = Claimed" "ev_claimed_at e = Some (oc_claimed_at c)" "oc_claimed_at c = da_claimed_at a"
    "oc_claim_expires_at c = da_claim_expires_at a" "oc_claim_generation c = da_claim_generation a"
  using assms outbox_event_Some[of db "oc_event_id c" "oc_project_id c" e] outbox_attempt_Some[of db c a]
  by (cases c; auto simp: claim_live_def matches_event_def event_attempts_def claim_from_attempt_def)+

lemma live_stage: "claim_live db c e a \<Longrightarrow> da_stage a \<noteq> Stage_completed"
  by (simp add: claim_live_def)

lemma claim_live_custody:
  assumes ok: "outbox_ok sha db" and live: "claim_live db c e a"
  shows "current_custody_matches e a" "find (\<lambda>x. da_claim_generation x = ev_claim_generation e)
     (event_attempts db (ev_event_id e)) = Some a" "ev_claim_generation e \<noteq> 0"
proof -
  note rows = claim_live_rows[OF live]
  have pos: "1 \<le> da_claim_generation a"
    using outbox_ok_parts(6)[OF ok rows(2)] by (simp add: attempt_check_def attempt_shape_check_def)
  then show "ev_claim_generation e \<noteq> 0" using rows(6) by simp
  show found: "find (\<lambda>x. da_claim_generation x = ev_claim_generation e) (event_attempts db (ev_event_id e)) = Some a"
  proof (cases "find (\<lambda>x. da_claim_generation x = ev_claim_generation e) (event_attempts db (ev_event_id e))")
    case None
    then show ?thesis using rows(3,6) by (auto simp: find_None_iff)
  next
    case (Some b)
    then have "b \<in> set (ob_attempts db)" "attempt_key b = attempt_key a"
      using find_SomeD[OF Some] rows(5,6) by (auto simp: event_attempts_def attempt_key_def)
    then show ?thesis using Some row_unique[OF outbox_ok_parts(2)[OF ok] _ rows(2)] by blast
  qed
  show "current_custody_matches e a"
    using outbox_ok_parts(4)[OF ok rows(1)] found pos rows(6) by (simp add: delivery_projection_ok_def Let_def)
qed

text \<open>The error codes of the engine are words the error column admits.\<close>

lemma outcome_codes:
  "is_error_code ''INVOKE_OUTCOME_UNKNOWN''" "is_error_code ''ATTEMPTS_EXHAUSTED''" "is_error_code ''RETRY_REQUESTED''"
  "is_error_code ''LEASE_EXPIRED_BEFORE_INVOKE''" "is_error_code ''HANDLER_REJECTED''"
  by code_simp+

lemma outcome_columns:
  assumes "delivery_outcome c invoked cause now options ru = Inr d" "DeliveryOptions_valid options"
  shows "do_delivery_state d \<in> {Retryable, Acknowledged, Dead_letter}"
    "do_delivery_state d \<noteq> Acknowledged \<longleftrightarrow> do_error_code d \<noteq> None" "pred_option is_error_code (do_error_code d)"
    "do_next_attempt_at d \<noteq> None \<longleftrightarrow> do_delivery_state d = Retryable" "pred_option (\<lambda>t. now < t) (do_next_attempt_at d)"
    "do_finalized_at d = (if do_delivery_state d = Retryable then None else Some now)"
  using assms(1) retry_time_bounds(1)[OF assms(2), of now "oc_claim_generation c"] delivery_outcome_common(3)[OF assms(1)]
  by (cases rule: delivery_outcome_cases; auto simp: outcome_codes split: if_splits)+

lemma finalized_event_admitted:
  assumes ok: "outbox_ok sha db" and live: "claim_live db c e a" and envelope: "event_envelope_check octets e"
    and d: "delivery_outcome c (da_invoked_at a) cause now options ru = Inr d" "DeliveryOptions_valid options"
    and now: "oc_claimed_at c \<le> now"
  shows "guard_event_update e (finalized_event e d)" "event_check octets (finalized_event e d)"
proof -
  note rows = claim_live_rows[OF live] and cols = outcome_columns[OF d]
  have shape: "event_shape_check e" and times: "event_times_check e"
    using outbox_ok_parts(5)[OF ok rows(1)] by auto
  have last: "ev_last_attempt_at e = Some (oc_claimed_at c)"
    using claim_live_custody(1)[OF ok live] rows(7,9) by (simp add: current_custody_matches_def)
  have arch: "ev_archived_at e = None" "ev_attempt_count e = ev_claim_generation e" "0 < ev_attempt_count e"
    using shape rows(7) by (auto simp: event_shape_check.simps)
  show "guard_event_update e (finalized_event e d)"
    using cols(1) rows(7) arch by (auto simp: guard_event_update_def guard_event_transition_def same_counters_def
        finalized_event_def event_identity_def open_state_def)
  have "event_times_check (finalized_event e d)"
    using times cols(5,6) now rows(8) last arch(1)
    by (cases "do_next_attempt_at d"; cases "ev_not_before_at e") (auto simp: event_times_check_def finalized_event_def)
  moreover have "event_shape_check (finalized_event e d)"
    using cols arch last by (auto simp: event_shape_check.simps finalized_event_def)
  moreover have "event_envelope_check octets (finalized_event e d)"
    using envelope by (simp add: event_envelope_check_def finalized_event_def)
  ultimately show "event_check octets (finalized_event e d)" by (simp add: event_check_def)
qed

lemma completed_attempt_admitted:
  assumes ok: "outbox_ok sha db" and live: "claim_live db c e a"
    and d: "delivery_outcome c (da_invoked_at a) cause completed options ru = Inr d" "DeliveryOptions_valid options"
    and times: "oc_claimed_at c \<le> completed" "pred_option (\<lambda>t. t \<le> completed) (da_invoked_at a)" "completed \<le> now"
    and receipt: "re_outcome receipt = d" "re_outcome_digest receipt = json_digest sha (outcome_dump d)"
    and unused: "\<forall>b \<in> set (ob_attempts db). da_finalize_decision_event_id b \<noteq> Some decision"
  shows "guard_attempt_update now a (completed_attempt a receipt decision)"
    "attempt_check sha (completed_attempt a receipt decision)"
    "\<not> list_ex (\<lambda>b. attempt_key b \<noteq> attempt_key (completed_attempt a receipt decision) \<and>
        attempt_clash (completed_attempt a receipt decision) b) (ob_attempts db)"
proof -
  let ?a = "completed_attempt a receipt decision"
  note rows = claim_live_rows[OF live]
  have check: "attempt_check sha a" by (rule outbox_ok_parts(6)[OF ok rows(2)])
  have stage: "da_stage a \<noteq> Stage_completed" using live by (simp add: claim_live_def)
  have "do_receipt_completed_at d = completed" by (rule delivery_outcome_common(1)[OF d(1)])
  then show "guard_attempt_update now a ?a"
    using stage check times(3) receipt(1)
    by (cases "da_stage a") (auto simp: guard_attempt_update_def guard_attempt_current_def completed_attempt_def
        attempt_lease_def attempt_check_def attempt_shape_check_def)
  have "1 \<le> oc_claim_generation c" using check rows(11) by (simp add: attempt_check_def attempt_shape_check_def)
  then have "outbox_delivery_outcome_valid sha d (Some (json_digest sha (outcome_dump d)))
      (da_claimed_at a) (da_claim_expires_at a) (da_invoked_at a)"
    using outcome_accepted[OF d _ times(1,2), of sha] rows(9,10) by simp
  then show "attempt_check sha ?a"
    using check stage receipt by (cases "da_stage a") (auto simp: attempt_check_def attempt_phase_check_def
        attempt_shape_check_def completed_attempt_def invoked_in_lease_def)
  have "\<not> attempt_clash ?a b" if "b \<in> set (ob_attempts db)" "attempt_key b \<noteq> attempt_key ?a" for b
  proof -
    have "attempt_key a \<noteq> attempt_key b" using that(2) by (auto simp: attempt_key_def completed_attempt_def)
    then have "\<not> attempt_clash a b" using ok rows(2) that(1) by (auto simp: outbox_ok_def attempts_ok_def)
    then show ?thesis
      using that unused by (auto simp: attempt_clash_def completed_attempt_def attempt_key_def)
  qed
  then show "\<not> list_ex (\<lambda>b. attempt_key b \<noteq> attempt_key ?a \<and> attempt_clash ?a b) (ob_attempts db)"
    by (auto simp: list_ex_iff)
qed

text \<open>The rows a finalization leaves, and what the deferred check says of them.\<close>

definition finalized_db :: "outbox_db \<Rightarrow> OutboxEvent \<Rightarrow> OutboxDeliveryAttempt \<Rightarrow> DeliveryReceipt \<Rightarrow> uuid \<Rightarrow> outbox_db" where
  "finalized_db db e a receipt decision =
     db\<lparr> ob_events := row_put ev_event_id (finalized_event e (re_outcome receipt)) (ob_events db),
         ob_attempts := row_put attempt_key (completed_attempt a receipt decision) (ob_attempts db) \<rparr>"

lemma completed_attempts:
  fixes receipt :: DeliveryReceipt and decision :: uuid
  assumes live: "claim_live db c e a"
  defines "xs \<equiv> row_put attempt_key (completed_attempt a receipt decision) (event_attempts db (ev_event_id e))"
  shows "set xs = insert (completed_attempt a receipt decision)
      {s \<in> set (event_attempts db (ev_event_id e)). attempt_key s \<noteq> attempt_key (completed_attempt a receipt decision)}"
    "find (\<lambda>x. da_claim_generation x = ev_claim_generation e) xs = Some (completed_attempt a receipt decision)"
proof -
  note rows = claim_live_rows[OF live]
  show set_xs: "set xs = insert (completed_attempt a receipt decision)
      {s \<in> set (event_attempts db (ev_event_id e)). attempt_key s \<noteq> attempt_key (completed_attempt a receipt decision)}"
    unfolding xs_def by (rule set_row_put[OF rows(3)]) (simp add: completed_attempt_def attempt_key_def)
  show "find (\<lambda>x. da_claim_generation x = ev_claim_generation e) xs = Some (completed_attempt a receipt decision)"
  proof (cases "find (\<lambda>x. da_claim_generation x = ev_claim_generation e) xs")
    case None
    then show ?thesis using set_xs rows(6) by (auto simp: find_None_iff completed_attempt_def)
  next
    case (Some b)
    then show ?thesis
      using find_SomeD[OF Some] set_xs rows(5,6) by (auto simp: event_attempts_def attempt_key_def completed_attempt_def)
  qed
qed

lemma finalized_projection:
  assumes ok: "outbox_ok sha db" and live: "claim_live db c e a"
    and d: "do_delivery_state (re_outcome receipt) \<noteq> Claimed"
  shows "check_outbox_delivery_projection (finalized_db db e a receipt decision) (ev_event_id e) \<longleftrightarrow>
     (do_invocation_unknown (re_outcome receipt) \<and> do_delivery_state (re_outcome receipt) = Retryable \<longrightarrow>
      unknown_retry_registered (ev_event_type e) (ev_event_version e))"
proof -
  let ?d = "re_outcome receipt" and ?a = "completed_attempt a receipt decision" and ?e = "finalized_event e (re_outcome receipt)"
  note rows = claim_live_rows[OF live]
  let ?xs = "event_attempts db (ev_event_id e)"
  have id: "ev_event_id ?e = ev_event_id e" "attempt_key ?a = attempt_key a"
    by (simp_all add: finalized_event_def completed_attempt_def attempt_key_def)
  have get: "row_get ev_event_id (ev_event_id e) (ob_events (finalized_db db e a receipt decision)) = Some ?e"
    using row_get_in[OF outbox_ok_parts(1)[OF ok] rows(1)] by (simp add: finalized_db_def row_get_put id)
  have xs: "event_attempts (finalized_db db e a receipt decision) (ev_event_id e) = row_put attempt_key ?a ?xs"
    by (simp add: finalized_db_def event_attempts_put)
  have old: "delivery_projection_ok db e" by (rule outbox_ok_parts(4)[OF ok rows(1)])
  note set_xs = completed_attempts(1)[OF live, of receipt decision] and find = completed_attempts(2)[OF live, of receipt decision]
  have fit: "attempt_misfits ?e x \<longleftrightarrow> attempt_misfits e x" for x
    by (simp add: attempt_misfits_def finalized_event_def)
  have no: "\<not> attempt_misfits e x" "unknown_retry x \<Longrightarrow> unknown_retry_registered (ev_event_type e) (ev_event_version e)"
    if "x \<in> set ?xs" for x
    using old that by (auto simp: delivery_projection_ok_def Let_def list_ex_iff)
  have new: "\<not> attempt_misfits e ?a"
    using no(1)[OF rows(3)] rows(6) by (auto simp: attempt_misfits_def completed_attempt_def)
  have retry: "unknown_retry ?a \<longleftrightarrow> do_invocation_unknown ?d \<and> do_delivery_state ?d = Retryable"
    by (simp add: unknown_retry_def completed_attempt_def)
  have "current_custody_matches ?e ?a"
    using claim_live_custody(1)[OF ok live] rows(7) d
    by (simp add: current_custody_matches_def finalized_event_def completed_attempt_def)
  moreover have "int (length (row_put attempt_key ?a ?xs)) = ev_claim_generation ?e"
    using old by (simp add: delivery_projection_ok_def Let_def row_put_def finalized_event_def)
  moreover have "ev_claim_generation ?e = ev_claim_generation e" "ev_event_type ?e = ev_event_type e"
      "ev_event_version ?e = ev_event_version e" by (simp_all add: finalized_event_def)
  moreover have "\<not> list_ex (attempt_misfits ?e) (row_put attempt_key ?a ?xs)"
    using no(1) new by (auto simp: list_ex_iff set_xs fit)
  moreover have "list_ex (\<lambda>x. unknown_retry x \<and> \<not> unknown_retry_registered (ev_event_type e) (ev_event_version e))
      (row_put attempt_key ?a ?xs) \<longleftrightarrow> unknown_retry ?a \<and> \<not> unknown_retry_registered (ev_event_type e) (ev_event_version e)"
    using no(2) by (auto simp: list_ex_iff set_xs)
  ultimately show ?thesis
    using find retry by (auto simp: check_outbox_delivery_projection_def get delivery_projection_ok_def id xs Let_def)
qed

text \<open>
  A finalization of a live claim gets to COMMIT: with authority, an unused decision and clocks that neither
  run backwards nor cross the lease, everything before the deferred check succeeds.
\<close>

lemma finalize_commit_live:
  assumes ok: "outbox_ok sha db" and live: "claim_live db c e a" and sha: "ox_sha env = sha"
    and valid: "OutboxClaim_valid c" "event_envelope_check (ox_octets env) e"
      "DeliveryOptions_valid (options_for cfg (ev_event_type e) (ev_event_version e))"
    and d: "delivery_outcome c (da_invoked_at a) cause completed (options_for cfg (ev_event_type e) (ev_event_version e))
         (can_retry_unknown (od_registry cfg) (ev_event_type e) (ev_event_version e)) = Inr d"
    and times: "oc_claimed_at c \<le> completed" "pred_option (\<lambda>t. t \<le> completed) (da_invoked_at a)"
      "\<forall>n \<in> {0, 1, 2}. completed \<le> ox_clock env n \<and> (completed < oc_claim_expires_at c \<longrightarrow> ox_clock env n < oc_claim_expires_at c)"
    and facts: "dispatch_facts c Phase_finalize (Some (json_digest sha (outcome_dump d))) = Inr f"
      "prepare_authority env f = Inr ()" "allow_decision env f = Inr decision"
    and unused: "\<forall>b \<in> set (ob_attempts db). da_finalize_decision_event_id b \<noteq> Some decision"
  shows "finalize_commit cfg env db (receipt_of env c d) cause =
     andthen (commit_event (finalized_db db e a (receipt_of env c d) decision) (oc_event_id c))
       (\<lambda>db3. Inr (Inr (receipt_of env c d), db3))"
proof -
  let ?r = "receipt_of env c d"
  note rows = claim_live_rows[OF live]
  have r: "re_claim ?r = c" "re_outcome ?r = d" "re_outcome_digest ?r = json_digest sha (outcome_dump d)"
    by (simp_all add: receipt_of_def sha)
  have "update_event (ox_octets env) db (finalized_event e d) = Inr (db\<lparr>ob_events := row_put ev_event_id (finalized_event e d) (ob_events db)\<rparr>)"
    using finalized_event_admitted[OF ok live valid(2) d valid(3) times(1)] row_get_in[OF outbox_ok_parts(1)[OF ok] rows(1)]
    by (auto simp: update_event_Inr finalized_event_def)
  moreover have "update_attempt sha (ox_clock env 2) (db\<lparr>ob_events := row_put ev_event_id (finalized_event e d) (ob_events db)\<rparr>)
      (completed_attempt a ?r decision) = Inr (finalized_db db e a ?r decision)"
    using completed_attempt_admitted[OF ok live d valid(3) times(1,2) _ r(2,3) unused, of "ox_clock env 2"] times(3)
      row_get_in[OF outbox_ok_parts(2)[OF ok] rows(2)]
    by (auto simp: update_attempt_Inr finalized_db_def r attempt_key_def completed_attempt_def)
  moreover have "do_receipt_completed_at d = completed" by (rule delivery_outcome_common(1)[OF d])
  moreover have "ev_claim_generation e = oc_claim_generation c" using rows(6,11) by simp
  ultimately show ?thesis
    using live valid(1) facts d times(3)
    by (auto simp: finalize_commit_def r sha checked_claim_def claim_live_def)
qed

subsection \<open>Recovery\<close>

text \<open>The claim that \<open>recover\<close> reads back from a claimed event, and the live attempt it belongs to.\<close>

definition lease_of :: "OutboxEvent \<Rightarrow> OutboxDeliveryAttempt \<Rightarrow> bool" where
  "lease_of e a \<longleftrightarrow> da_event_id a = ev_event_id e \<and> da_claim_generation a = ev_claim_generation e"

lemma claimed_event_live:
  assumes ok: "outbox_ok sha db" and e: "e \<in> set (ob_events db)" "ev_delivery_state e = Claimed"
  obtains a where "a \<in> set (ob_attempts db)" "lease_of e a" "claim_live db (claim_from_attempt a) e a"
    "OutboxClaim_valid (claim_from_attempt a)"
    "recover_claim env db (ev_event_id e) (ev_project_id e) =
       Inr (if da_claim_expires_at a > ox_clock env 0 then None else Some (claim_from_attempt a))"
proof -
  have proj: "delivery_projection_ok db e" by (rule outbox_ok_parts(4)[OF ok e(1)])
  have "ev_claim_generation e \<noteq> 0"
    using outbox_ok_parts(5)[OF ok e(1)] e(2) by (auto simp: event_shape_check.simps)
  then obtain a where a: "find (\<lambda>x. da_claim_generation x = ev_claim_generation e) (event_attempts db (ev_event_id e)) = Some a"
      "current_custody_matches e a"
    using proj by (auto simp: delivery_projection_ok_def Let_def split: option.splits)
  have mem: "a \<in> set (ob_attempts db)" "da_event_id a = ev_event_id e" "da_claim_generation a = ev_claim_generation e"
      "\<not> attempt_misfits e a"
    using find_SomeD[OF a(1)] proj by (auto simp: event_attempts_def delivery_projection_ok_def Let_def list_ex_iff)
  have cols: "ev_claim_owner e = Some (da_claim_owner a)" "ev_claimed_at e = Some (da_claimed_at a)"
      "ev_claim_expires_at e = Some (da_claim_expires_at a)" "da_stage a \<noteq> Stage_completed"
      "da_project_id a = ev_project_id e" "da_payload_digest a = ev_payload_digest e"
    using a(2) e(2) mem(4) by (auto simp: current_custody_matches_def attempt_misfits_def)
  have valid: "OutboxClaim_valid (claim_from_attempt a)"
    using outbox_ok_parts(6)[OF ok mem(1)]
    by (auto simp: OutboxClaim_valid_def claim_from_attempt_def attempt_check_def attempt_shape_check_def)
  have found: "outbox_event db (ev_event_id e) (ev_project_id e) = Some e"
    unfolding outbox_event_def by (rule find_keyed[OF e(1) _ outbox_ok_parts(1)[OF ok]]) auto
  have "outbox_attempt db (claim_from_attempt a) = Some a"
    unfolding outbox_attempt_def
    by (rule find_keyed[OF mem(1) _ outbox_ok_parts(2)[OF ok]]) (auto simp: attempt_key_def claim_from_attempt_def)
  then have "claim_live db (claim_from_attempt a) e a"
    using found cols mem e(2) by (simp add: claim_live_def matches_event_def claim_from_attempt_def)
  moreover have "recover_claim env db (ev_event_id e) (ev_project_id e) =
      Inr (if da_claim_expires_at a > ox_clock env 0 then None else Some (claim_from_attempt a))"
    using found cols mem e(2) valid by (simp add: recover_claim_def claim_from_attempt_def)
  ultimately show ?thesis using that mem valid by (simp add: lease_of_def)
qed

text \<open>A finalization that is recorded for a live claim has passed the deferred check.\<close>

lemma finalize_commit_recorded:
  assumes ok: "outbox_ok sha db" and live: "claim_live db (re_claim receipt) e a"
    and op: "finalize_commit cfg env db receipt cause = Inr (Inr receipt', db')"
    and options: "DeliveryOptions_valid (options_for cfg (ev_event_type e) (ev_event_version e))"
  shows "do_invocation_unknown (re_outcome receipt) \<and> do_delivery_state (re_outcome receipt) = Retryable \<longrightarrow>
      unknown_retry_registered (ev_event_type e) (ev_event_version e)"
    "delivery_outcome (re_claim receipt) (da_invoked_at a) cause (do_receipt_completed_at (re_outcome receipt))
       (options_for cfg (ev_event_type e) (ev_event_version e))
       (can_retry_unknown (od_registry cfg) (ev_event_type e) (ev_event_version e)) = Inr (re_outcome receipt)"
proof -
  obtain decision db1 where fresh: "update_event (ox_octets env) db (finalized_event e (re_outcome receipt)) = Inr db1"
      "update_attempt (ox_sha env) (ox_clock env 2) db1 (completed_attempt a receipt decision) = Inr db'"
      "check_outbox_delivery_projection db' (oc_event_id (re_claim receipt))"
    and d: "delivery_outcome (re_claim receipt) (da_invoked_at a) cause (do_receipt_completed_at (re_outcome receipt))
       (options_for cfg (ev_event_type e) (ev_event_version e))
       (can_retry_unknown (od_registry cfg) (ev_event_type e) (ev_event_version e)) = Inr (re_outcome receipt)"
    using op live by (cases rule: finalize_commit_cases) (auto simp: claim_live_def)
  show "delivery_outcome (re_claim receipt) (da_invoked_at a) cause (do_receipt_completed_at (re_outcome receipt))
       (options_for cfg (ev_event_type e) (ev_event_version e))
       (can_retry_unknown (od_registry cfg) (ev_event_type e) (ev_event_version e)) = Inr (re_outcome receipt)" by (rule d)
  have "db' = finalized_db db e a receipt decision"
    using fresh(1,2) by (auto simp: update_event_Inr update_attempt_Inr finalized_db_def)
  then show "do_invocation_unknown (re_outcome receipt) \<and> do_delivery_state (re_outcome receipt) = Retryable \<longrightarrow>
      unknown_retry_registered (ev_event_type e) (ev_event_version e)"
    using finalized_projection[OF ok live, of receipt decision] fresh(3) claim_live_rows(4)[OF live] outcome_columns(1)[OF d options]
    by auto
qed

end
