(* ===== verification/Outbox_Properties.thy ===== *)
theory Outbox_Properties
  imports Outbox_Scenario Outbox_Outcomes
begin

text \<open>
  The properties of the outbox: exact custody of every delivery, a single invocation per claim, final
  outcomes, replay after a lost response, agreement between the outcomes the engine computes and the
  check the database makes, idempotent append, and the unknown outcomes that production cannot record.
\<close>

subsection \<open>Custody\<close>

text \<open>
  C5. Exact custody. In every reachable outbox an event of claim generation \<open>n\<close> has exactly the attempts
  \<open>1, ..., n\<close>, one each; all but the last are completed; the last one carries the event's current lease
  while the event is claimed and otherwise the recorded outcome that the event's delivery columns show;
  and \<open>n\<close> never exceeds the number of attempts the event's options allow.
\<close>

theorem delivery_custody:
  assumes "(outbox_step sha cfg)\<^sup>*\<^sup>* empty_outbox db" "e \<in> set (ob_events db)"
  shows "set (map da_claim_generation (event_attempts db (ev_event_id e))) = {1..ev_claim_generation e} \<and>
     distinct (map da_claim_generation (event_attempts db (ev_event_id e))) \<and>
     (\<forall>a \<in> set (event_attempts db (ev_event_id e)).
        (da_claim_generation a < ev_claim_generation e \<longrightarrow> da_stage a = Stage_completed) \<and>
        (da_claim_generation a = ev_claim_generation e \<longrightarrow> current_custody_matches e a)) \<and>
     ev_claim_generation e \<le> max 0 (attempts_allowed cfg e)"
proof -
  let ?xs = "event_attempts db (ev_event_id e)" and ?n = "ev_claim_generation e"
  have ok: "outbox_ok sha db" and bound: "generations_bounded cfg db"
    using bounded_custody.reachable_ok[OF assms(1)] by auto
  have proj: "delivery_projection_ok db e" by (rule outbox_ok_parts(4)[OF ok assms(2)])
  have dist: "distinct (map da_claim_generation ?xs)"
    by (rule event_generations_distinct[OF outbox_ok_parts(2)[OF ok]])
  have range: "1 \<le> da_claim_generation a \<and> da_claim_generation a \<le> ?n \<and> \<not> attempt_misfits e a" if "a \<in> set ?xs" for a
  proof -
    have "attempt_check sha a" using that outbox_ok_parts(6)[OF ok] by (simp add: event_attempts_def)
    then show ?thesis
      using that proj by (auto simp: delivery_projection_ok_def list_ex_iff attempt_check_def attempt_shape_check_def
          attempt_misfits_def Let_def)
  qed
  then have "set (map da_claim_generation ?xs) \<subseteq> {1..?n}" by auto
  moreover have "card (set (map da_claim_generation ?xs)) = card {1..?n}"
    using distinct_card[OF dist] proj by (auto simp: delivery_projection_ok_def Let_def)
  ultimately have gens: "set (map da_claim_generation ?xs) = {1..?n}" by (intro card_subset_eq) auto
  have "current_custody_matches e a" if a: "a \<in> set ?xs" "da_claim_generation a = ?n" for a
  proof -
    have "?n \<noteq> 0" using range[OF a(1)] a(2) by auto
    then obtain b where b: "find (\<lambda>x. da_claim_generation x = ?n) ?xs = Some b" "current_custody_matches e b"
      using proj by (auto simp: delivery_projection_ok_def Let_def split: option.splits)
    then have "b = a" using find_SomeD[OF b(1)] a dist by (metis distinct_map inj_onD)
    with b show ?thesis by simp
  qed
  then show ?thesis
    using gens dist range bound assms(2) by (auto simp: attempt_misfits_def generations_bounded_def)
qed

theorem delivery_custody_witness:
  "set (map da_claim_generation (event_attempts ob_db4 (ob_id 10))) = {1..1}"
  using delivery_custody[OF ob_reach(4), of "finalized_event (claimed_event ob_event0 ob_claim) ob_outcome"]
  by (simp add: ob_db4_def finalized_event_def claimed_event_def)

subsection \<open>Invocation\<close>

text \<open>
  C7. A claim is invoked at most once. After \<open>_begin_invocation\<close> has handed out an envelope for a claim,
  no later call for the same claim, after any further committed transactions, with any configuration,
  clock or authority, hands out an envelope again.
\<close>

theorem invocation_happens_once:
  assumes reach: "(outbox_step sha cfg)\<^sup>*\<^sup>* empty_outbox db"
    and first: "begin_invocation cfg env db c = Inr (Some envelope, db1)" "ox_sha env = sha"
    and run: "(outbox_step sha cfg)\<^sup>*\<^sup>* db1 db2"
  shows "begin_invocation cfg' env' db2 c \<noteq> Inr (Some envelope', db3)"
proof
  assume again: "begin_invocation cfg' env' db2 c = Inr (Some envelope', db3)"
  have ok1: "outbox_ok sha db1"
    using custody.reachable_ok[OF rtranclp.rtrancl_into_rtrancl[OF reach step_invoke[OF first]]] .
  obtain a1 where a1: "a1 \<in> set (ob_attempts db1)" "da_stage a1 = Stage_invoked" "claim_from_attempt a1 = c"
    using first(1)
  proof (rule begin_invocation_cases)
    fix e a decision
    assume a: "outbox_attempt db c = Some a" "claim_from_attempt a = c"
      and upd: "update_attempt (ox_sha env) (ox_clock env 2) db (invoked_attempt a (ox_clock env 1) decision) = Inr db1"
    let ?a = "invoked_attempt a (ox_clock env 1) decision"
    have "?a \<in> set (ob_attempts db1)"
      using upd outbox_attempt_Some[OF a(1)]
      by (force simp: update_attempt_Inr row_put_def attempt_key_def invoked_attempt_def)
    moreover have "claim_from_attempt ?a = c" using a(2) by (simp add: claim_from_attempt_def invoked_attempt_def)
    ultimately show ?thesis using that by (simp add: invoked_attempt_def)
  qed
  obtain a2 where a2: "a2 \<in> set (ob_attempts db2)" "attempt_later a1 a2" and ok2: "outbox_ok sha db2"
    using run_rows_later[OF run ok1] a1(1) by blast
  obtain a3 where a3: "outbox_attempt db2 c = Some a3" "da_stage a3 = Stage_claimed"
    using again by (rule begin_invocation_cases)
  have "attempt_key a3 = attempt_key a2"
    using a2(2) a1(3) outbox_attempt_Some[OF a3(1)]
    by (auto simp: attempt_later_def attempt_lease_def attempt_key_def claim_from_attempt_def)
  then have "a3 = a2" using row_unique[OF outbox_ok_parts(2)[OF ok2]] outbox_attempt_Some[OF a3(1)] a2(1) by blast
  then show False using a2(2) a1(2) a3(2) by (simp add: attempt_later_def)
qed

theorem invocation_happens_once_witness:
  "\<nexists>envelope' db3. begin_invocation production_outbox (ob_env 40 50) ob_db4 ob_claim = Inr (Some envelope', db3)"
proof -
  obtain envelope where "begin_invocation production_outbox (ob_env 20 30) ob_db2 ob_claim = Inr (Some envelope, ob_db3)"
    using ob_step3 by blast
  moreover have "(outbox_step ob_sha_const production_outbox)\<^sup>*\<^sup>* ob_db3 ob_db4" using ob_steps(4) by blast
  ultimately show ?thesis using invocation_happens_once[OF ob_reach(2)] ob_env_simps(1) by blast
qed

subsection \<open>Outcomes\<close>

text \<open>
  C24. An acknowledged or dead-lettered event is final. Once an event of a reachable outbox is acknowledged
  or dead-lettered, its row is unchanged after any further transactions, and a claim on it leaves the
  outbox alone.
\<close>

theorem outcomes_are_final:
  assumes reach: "(outbox_step sha cfg)\<^sup>*\<^sup>* empty_outbox db" and e: "e \<in> set (ob_events db)"
    and final: "ev_delivery_state e \<in> {Acknowledged, Dead_letter}" and run: "(outbox_step sha cfg)\<^sup>*\<^sup>* db db'"
  shows "e \<in> set (ob_events db') \<and>
     (\<forall>env c db''. oc_event_id c = ev_event_id e \<longrightarrow> claim_commit env db' c \<noteq> Inr (Some c, db''))"
proof -
  have e': "e \<in> set (ob_events db')" and ok: "outbox_ok sha db'"
    using run_rows_later[OF run custody.reachable_ok[OF reach]] e final by (auto simp: event_later_def)
  have "claim_commit env db' c \<noteq> Inr (Some c, db'')" if "oc_event_id c = ev_event_id e" for env c db''
  proof
    assume "claim_commit env db' c = Inr (Some c, db'')"
    then obtain x where x: "outbox_event db' (oc_event_id c) (oc_project_id c) = Some x" "open_state (ev_delivery_state x)"
      by (rule claim_commit_cases)
    then have "x = e" using row_unique[OF outbox_ok_parts(1)[OF ok] _ e'] outbox_event_Some[OF x(1)] that by metis
    with x(2) final show False by (auto simp: open_state_def)
  qed
  with e' show ?thesis by blast
qed

theorem outcomes_are_final_witness:
  "finalized_event (claimed_event ob_event0 ob_claim) ob_outcome \<in> set (ob_events ob_db4) \<and>
   claim_commit (ob_env 50 60) ob_db4 ob_claim \<noteq> Inr (Some ob_claim, ob_db4)"
  using outcomes_are_final[OF ob_reach(4), of "finalized_event (claimed_event ob_event0 ob_claim) ob_outcome" ob_db4]
  by (simp add: ob_db4_def finalized_event_def claimed_event_def ob_outcome_def)

text \<open>
  C37. Every outcome the engine computes is one the database accepts. For a valid configuration, a
  positive generation and a clock that has not run backwards since the claim and the invocation,
  whatever \<open>_outcome\<close> returns for whatever cause passes \<open>outbox_delivery_outcome_valid\<close>, the CHECK on the
  attempt row, with the digest the engine computes for it.
\<close>

theorem outcome_passes_database_check:
  assumes "delivery_outcome c invoked cause now options retry_unknown = Inr d"
    and "DeliveryOptions_valid options" "1 \<le> oc_claim_generation c" "oc_claimed_at c \<le> now"
    and "pred_option (\<lambda>t. t \<le> now) invoked"
  shows "outbox_delivery_outcome_valid sha d (Some (json_digest sha (outcome_dump d)))
     (oc_claimed_at c) (oc_claim_expires_at c) invoked"
  using assms by (rule outcome_accepted)

theorem outcome_passes_database_check_witness:
  "outbox_delivery_outcome_valid ob_sha_const ob_outcome (Some ob_digest) 10 300000010 (Some 20)"
  using outcome_passes_database_check[OF ob_delivery_outcome, where sha = ob_sha_const]
  by (simp add: DeliveryOptions_valid_def default_delivery_options_def)

text \<open>
  Retries back off within their bounds. For valid options and any generation, the delay before the
  next attempt is at least the base and at most the cap, so at most a day; it never shrinks from one
  generation to the next; and it doubles with every generation until it reaches the cap.
\<close>

lemma retry_delay_bounded:
  assumes "DeliveryOptions_valid p" "1 \<le> g"
  shows "retry_base_seconds p \<le> retry_delay p g \<and> retry_delay p g \<le> retry_cap_seconds p \<and>
     retry_delay p g \<le> 86400 \<and> retry_delay p g \<le> retry_delay p (g + 1) \<and>
     (g \<le> 30 \<longrightarrow> retry_delay p (g + 1) = min (retry_cap_seconds p) (2 * retry_delay p g))"
proof -
  have v: "1 \<le> retry_base_seconds p" "retry_base_seconds p \<le> retry_cap_seconds p" "retry_cap_seconds p \<le> 86400"
    using assms(1) by (auto simp: DeliveryOptions_valid_def)
  have mono: "(2::int) ^ nat (min (g - 1) 30) \<le> 2 ^ nat (min (g + 1 - 1) 30)"
    by (rule power_increasing) auto
  then have "retry_base_seconds p * 2 ^ nat (min (g - 1) 30) \<le> retry_base_seconds p * 2 ^ nat (min (g + 1 - 1) 30)"
    using v by (intro mult_left_mono) auto
  then have "retry_delay p g \<le> retry_delay p (g + 1)" by (auto simp: retry_delay_def)
  moreover have "retry_delay p (g + 1) = min (retry_cap_seconds p) (2 * retry_delay p g)" if "g \<le> 30"
  proof -
    define x where "x = retry_base_seconds p * 2 ^ nat (g - 1)"
    have "nat g = Suc (nat (g - 1))" using assms(2) by auto
    then have "retry_base_seconds p * 2 ^ nat g = 2 * x" by (simp add: x_def)
    moreover have "min g 30 = g" "min (g - 1) 30 = g - 1" using that by auto
    ultimately show ?thesis using v by (simp add: retry_delay_def x_def[symmetric] min_def)
  qed
  ultimately show ?thesis using retry_delay_range[OF assms(1), of g] v by auto
qed

subsection \<open>Replay\<close>

lemma event_matches_identity:
  "event_identity e' = event_identity e \<Longrightarrow> event_matches e' v d \<longleftrightarrow> event_matches e v d"
  by (auto simp: event_matches_def event_identity_def)

lemma finalize_commit_valid:
  assumes "finalize_commit cfg env db receipt cause = Inr x"
  shows "OutboxClaim_valid (re_claim receipt)"
    "\<exists>f. dispatch_facts (re_claim receipt) Phase_finalize (Some (re_outcome_digest receipt)) = Inr f"
  using assms by (auto simp: finalize_commit_def outcome_inv checked_claim_def)

text \<open>
  C36. Append is idempotent. If \<open>append\<close> returned a result in a reachable outbox, then appending the same
  input again, after any further transactions and at any later time, returns the same event identifier,
  digest and occurrence time, now marked as a replay, and writes nothing.
\<close>

theorem append_is_idempotent:
  assumes reach: "(outbox_step sha cfg)\<^sup>*\<^sup>* empty_outbox db"
    and first: "outbox_append env db v = Inr (r, db1)" "ox_sha env = sha"
    and run: "(outbox_step sha cfg)\<^sup>*\<^sup>* db1 db2" and env': "ox_sha env' = sha"
  shows "outbox_append env' db2 v = Inr (r\<lparr>ar_disposition := Replayed\<rparr>, db2)"
proof -
  let ?digest = "json_digest sha (ai_payload v)"
  have ok1: "outbox_ok sha db1"
    by (rule custody.reachable_ok[OF rtranclp.rtrancl_into_rtrancl[OF reach step_append[OF first]]])
  have valid: "OutboxAppendInput_valid v" using first(1) by (auto simp: outbox_append_def split: if_splits)
  obtain e where e: "e \<in> set (ob_events db1)" "event_matches e v ?digest"
      "ar_event_id r = ev_event_id e" "ar_payload_digest r = ev_payload_digest e" "ar_occurred_at r = ev_occurred_at e"
    using first(1)
  proof (cases rule: outbox_append_cases)
    case (replay x)
    have "x \<in> set (ob_events db)" using replay(2) by (auto simp: filter_eq_Cons_iff)
    then show ?thesis using that[of x] replay first(2) by auto
  next
    case (created x)
    have "event_matches x v ?digest"
      by (simp add: created(1) first(2) event_matches_def event_row_def guard_event_insert_def py_equal_def)
    then show ?thesis using that[of x] created by auto
  qed
  obtain e' where e': "e' \<in> set (ob_events db2)" "event_identity e' = event_identity e" and ok2: "outbox_ok sha db2"
    using run_rows_later[OF run ok1] e(1) by (auto simp: event_later_def)
  have match: "event_matches e' v ?digest" using event_matches_identity[OF e'(2)] e(2) by simp
  then have key: "ev_idempotency_key e' = ai_idempotency_key v" by (simp add: event_matches_def)
  have "filter (\<lambda>x. ev_idempotency_key x = ai_idempotency_key v) (ob_events db2) = [e']"
    using filter_key_one[OF outbox_ok_parts(3)[OF ok2] e'(1)] by (simp add: key)
  moreover have "list_ex (\<lambda>x. ev_idempotency_key x = ai_idempotency_key v) (ob_events db2)"
    using e'(1) key by (auto simp: list_ex_iff)
  ultimately show ?thesis
    using valid match e(3-5) identity_columns[OF e'(2)] env'
    by (cases r) (simp add: outbox_append_def reserve_def)
qed

theorem append_is_idempotent_witness:
  "outbox_append (ob_env 99 77) ob_db4 ob_input
     = Inr (\<lparr> ar_event_id = ob_id 10, ar_disposition = Replayed, ar_payload_digest = ob_digest, ar_occurred_at = 0 \<rparr>, ob_db4)"
proof -
  have "(outbox_step ob_sha_const production_outbox)\<^sup>*\<^sup>* ob_db1 ob_db4"
    using ob_steps(2-4) by (meson rtranclp.rtrancl_into_rtrancl rtranclp.rtrancl_refl)
  from append_is_idempotent[OF rtranclp.rtrancl_refl ob_step1 _ this, of "ob_env 99 77"] show ?thesis by simp
qed

text \<open>
  C25. A lost response is replayed, not repeated. If a claim was finalized for a cause and the response was
  lost, then calling \<open>finalize\<close> again for the same claim and cause, after any further transactions and at
  any later time, with authority granted, returns the original receipt, with the original timestamps and
  digest, and writes nothing.
\<close>

theorem finalize_replays_receipt:
  assumes reach: "(outbox_step sha cfg)\<^sup>*\<^sup>* empty_outbox db"
    and first: "finalize_commit cfg env db receipt cause = Inr (Inr receipt, db1)" "ox_sha env = sha"
    and open_attempt: "outbox_attempt db (re_claim receipt) = Some a" "da_stage a \<noteq> Stage_completed"
    and run: "(outbox_step sha cfg)\<^sup>*\<^sup>* db1 db2"
    and env: "ox_sha env1 = sha" "\<And>f. prepare_authority env2 f = Inr ()" "\<And>f. \<exists>d. allow_decision env2 f = Inr d"
  shows "finalize cfg (env1, db2) (env2, db2) s3 (re_claim receipt) cause = Inr (receipt, db2)"
proof -
  let ?c = "re_claim receipt" and ?d = "re_outcome receipt"
  have ok1: "outbox_ok sha db1"
    by (rule custody.reachable_ok[OF rtranclp.rtrancl_into_rtrancl[OF reach step_finalize[OF first]]])
  obtain e decision db0 where fresh: "outbox_event db (oc_event_id ?c) (oc_project_id ?c) = Some e"
      "claim_from_attempt a = ?c"
      "delivery_outcome ?c (da_invoked_at a) cause (do_receipt_completed_at ?d)
         (options_for cfg (ev_event_type e) (ev_event_version e))
         (can_retry_unknown (od_registry cfg) (ev_event_type e) (ev_event_version e)) = Inr ?d"
      "json_digest (ox_sha env) (outcome_dump ?d) = re_outcome_digest receipt"
      "update_event (ox_octets env) db (finalized_event e ?d) = Inr db0"
      "update_attempt (ox_sha env) (ox_clock env 2) db0 (completed_attempt a receipt decision) = Inr db1"
    using first(1) open_attempt by (cases rule: finalize_commit_cases) auto
  let ?a = "completed_attempt a receipt decision"
  have a1: "?a \<in> set (ob_attempts db1)"
    using fresh(5,6) outbox_attempt_Some[OF open_attempt(1)]
    by (force simp: update_attempt_Inr update_event_Inr row_put_def attempt_key_def completed_attempt_def)
  have e1: "finalized_event e ?d \<in> set (ob_events db1)"
    using fresh(5,6) outbox_event_Some[OF fresh(1)]
    by (force simp: update_attempt_Inr update_event_Inr row_put_def finalized_event_def)
  obtain e2 where e2: "e2 \<in> set (ob_events db2)" "event_identity e2 = event_identity (finalized_event e ?d)"
      and a2: "?a \<in> set (ob_attempts db2)" and ok2: "outbox_ok sha db2"
    using run_rows_later[OF run ok1] a1 e1 by (fastforce simp: event_later_def attempt_later_def completed_attempt_def)
  have ids: "da_event_id ?a = oc_event_id ?c" "da_claim_generation ?a = oc_claim_generation ?c"
      "da_project_id ?a = oc_project_id ?c"
    using outbox_attempt_Some[OF open_attempt(1)] by (simp_all add: completed_attempt_def)
  have "outbox_attempt db2 ?c = Some ?a"
    unfolding outbox_attempt_def
    by (rule find_keyed[OF a2 _ outbox_ok_parts(2)[OF ok2]]) (use ids in \<open>simp_all add: attempt_key_def\<close>)
  moreover have e2c: "ev_event_id e2 = oc_event_id ?c" "ev_project_id e2 = oc_project_id ?c"
      "ev_event_type e2 = ev_event_type e" "ev_event_version e2 = ev_event_version e"
    using identity_columns[OF e2(2)] outbox_event_Some[OF fresh(1)] by (simp_all add: finalized_event_def)
  have "outbox_event db2 (oc_event_id ?c) (oc_project_id ?c) = Some e2"
    unfolding outbox_event_def
    by (rule find_keyed[OF e2(1) _ outbox_ok_parts(1)[OF ok2]]) (use e2c in simp_all)
  moreover have "claim_from_attempt ?a = ?c" "da_stage ?a = Stage_completed" "da_outcome ?a = Some ?d"
      "da_outcome_digest ?a = Some (re_outcome_digest receipt)" "da_invoked_at ?a = da_invoked_at a"
    using fresh(2) by (simp_all add: claim_from_attempt_def completed_attempt_def)
  moreover have "receipt_of env1 ?c ?d = receipt"
    using fresh(4) first(2) env(1) by (cases receipt) (simp add: receipt_of_def)
  moreover have "stored_receipt ?c ?a = Inr receipt"
    by (cases receipt) (simp add: stored_receipt_def completed_attempt_def)
  moreover obtain f where "dispatch_facts ?c Phase_finalize (Some (re_outcome_digest receipt)) = Inr f"
    using finalize_commit_valid(2)[OF first(1)] by blast
  moreover obtain dec where "allow_decision env2 f = Inr dec" using env(3) by blast
  ultimately show ?thesis
    using finalize_commit_valid(1)[OF first(1)] fresh(3) e2c env(2)
    by (simp add: finalize_def finalize_propose_def finalize_commit_def checked_claim_def)
qed

theorem finalize_replays_receipt_witness:
  "finalize production_outbox (ob_env 80 81, ob_db4) (ob_env 90 91, ob_db4) (ob_env 0 0, ob_db4) ob_claim CauseAcknowledge
     = Inr (ob_receipt, ob_db4)"
proof -
  have "da_stage (invoked_attempt (claimed_attempt ob_claim (ob_id 20)) 20 (ob_id 30)) \<noteq> Stage_completed"
    by (simp add: invoked_attempt_def)
  from finalize_replays_receipt[OF ob_reach(3) ob_step4 _ _ this rtranclp.rtrancl_refl,
      of "ob_env 80 81" "ob_env 90 91" "(ob_env 0 0, ob_db4)"]
  show ?thesis by simp
qed

subsection \<open>Recovery\<close>

lemma finalize_via_commit:
  assumes op: "finalize cfg (env1, db) (env2, db) s3 c cause = Inr (receipt, db')" and live: "claim_live db c e a"
  obtains r where "re_claim r = c" "finalize_commit cfg env2 db r cause = Inr (Inr receipt, db')"
proof -
  obtain r invoked options ru x where r: "finalize_propose cfg env1 db c cause = Inr (r, invoked, options, ru)"
      "finalize_commit cfg env2 db r cause = Inr x"
    using op by (auto simp: finalize_def andthen_eq_Inr)
  have claim: "re_claim r = c"
    using r(1) by (auto simp: finalize_propose_def receipt_of_def checked_claim_def outcome_inv if_eq_Inr_both)
  then have "\<exists>y. x = (Inr y, snd x)"
    using r(2) live by (auto simp: finalize_commit_def checked_claim_def claim_live_def outcome_inv if_eq_Inr_both)
  then show ?thesis
    using that[OF claim] op r by (cases x) (auto simp: finalize_def)
qed

lemma expired_outcome_exists:
  assumes "oc_claim_expires_at c \<le> now"
  shows "\<exists>d. delivery_outcome c invoked CauseExpired now options ru = Inr d"
  using assms
  by (cases "outcome_disposition c (invoked \<noteq> None) (invoked \<noteq> None) CauseExpired now options ru")
    (simp add: delivery_outcome_def)

text \<open>
  C6. An expired claim is always recovered. In a reachable outbox, once the lease of a claimed event has
  run out, \<open>recover\<close> returns a receipt and the event leaves the claimed state, whatever the worker that
  held the claim did: provided dispatch authority is granted with an unused decision, the clock readings
  do not run backwards, and the registry retries an unknown outcome only for event types that the
  database registers for it.
\<close>

theorem expired_claim_recovers:
  assumes reach: "(outbox_step sha cfg)\<^sup>*\<^sup>* empty_outbox db"
    and e: "e \<in> set (ob_events db)" "ev_delivery_state e = Claimed" "ev_claim_expires_at e = Some expires"
    and envs: "ox_sha (envs 1) = sha" "ox_sha (envs 2) = sha" "\<forall>j. is_sha256 (json_digest sha j)"
      "event_envelope_check (ox_octets (envs 2)) e"
      "DeliveryOptions_valid (options_for cfg (ev_event_type e) (ev_event_version e))"
    and clock: "expires \<le> ox_clock (envs 0) 0" "expires \<le> ox_clock (envs 1) 0"
      "\<forall>n \<in> {0, 1, 2}. ox_clock (envs 1) 0 \<le> ox_clock (envs 2) n"
    and authority: "\<forall>f. prepare_authority (envs 2) f = Inr ()" "\<forall>f. allow_decision (envs 2) f = Inr decision"
      "\<forall>b \<in> set (ob_attempts db). da_finalize_decision_event_id b \<noteq> Some decision"
    and retry: "can_retry_unknown (od_registry cfg) (ev_event_type e) (ev_event_version e) \<longrightarrow>
       unknown_retry_registered (ev_event_type e) (ev_event_version e)"
  shows "\<exists>receipt db' e'. recover cfg envs db (ev_event_id e) (ev_project_id e) = Inr (Some receipt, db') \<and>
     row_get ev_event_id (ev_event_id e) (ob_events db') = Some e' \<and> ev_delivery_state e' \<noteq> Claimed"
proof -
  have ok: "outbox_ok sha db" by (rule custody.reachable_ok[OF reach])
  obtain a where a: "a \<in> set (ob_attempts db)" "claim_live db (claim_from_attempt a) e a"
      "OutboxClaim_valid (claim_from_attempt a)"
      "recover_claim (envs 0) db (ev_event_id e) (ev_project_id e) =
         Inr (if da_claim_expires_at a > ox_clock (envs 0) 0 then None else Some (claim_from_attempt a))"
    by (rule claimed_event_live[OF ok e(1,2)])
  let ?c = "claim_from_attempt a" and ?now = "ox_clock (envs 1) 0"
  let ?opts = "options_for cfg (ev_event_type e) (ev_event_version e)"
  let ?ru = "can_retry_unknown (od_registry cfg) (ev_event_type e) (ev_event_version e)"
  note rows = claim_live_rows[OF a(2)]
  have exp: "da_claim_expires_at a = expires"
    using a(2) e(3) by (simp add: claim_live_def matches_event_def claim_from_attempt_def)
  obtain d where d: "delivery_outcome ?c (da_invoked_at a) CauseExpired ?now ?opts ?ru = Inr d"
    using expired_outcome_exists[of ?c ?now "da_invoked_at a" ?opts ?ru] clock(2) exp rows(10) by auto
  let ?r = "receipt_of (envs 1) ?c d"
  have same: "receipt_of (envs 2) ?c d = ?r" using envs(1,2) by (simp add: receipt_of_def)
  obtain f where f: "dispatch_facts ?c Phase_finalize (Some (json_digest sha (outcome_dump d))) = Inr f"
    using a(3) envs(3) by (auto simp: dispatch_facts_def OutboxDispatchFacts_valid_def OutboxClaim_valid_def Let_def)
  have check: "attempt_check sha a" by (rule outbox_ok_parts(6)[OF ok a(1)])
  have times: "oc_claimed_at ?c \<le> ?now" "pred_option (\<lambda>t. t \<le> ?now) (da_invoked_at a)"
      "\<forall>n \<in> {0, 1, 2}. ?now \<le> ox_clock (envs 2) n \<and> (?now < oc_claim_expires_at ?c \<longrightarrow> ox_clock (envs 2) n < oc_claim_expires_at ?c)"
    using check clock exp live_stage[OF a(2)]
    by (auto simp: claim_from_attempt_def attempt_check_def attempt_shape_check_def invoked_in_lease_def
        split: attempt_stage.splits option.splits)
  have "do_delivery_state d \<noteq> Claimed" using outcome_columns(1)[OF d envs(5)] by auto
  moreover have "do_invocation_unknown d \<and> do_delivery_state d = Retryable \<longrightarrow> ?ru"
    using d by (cases rule: delivery_outcome_cases) (auto split: if_splits)
  ultimately have "commit_event (finalized_db db e a ?r decision) (oc_event_id ?c) = Inr (finalized_db db e a ?r decision)"
    using finalized_projection[OF ok a(2), of ?r decision] retry rows(4) by (simp add: commit_event_Inr receipt_of_def)
  then have commit: "finalize_commit cfg (envs 2) db ?r CauseExpired = Inr (Inr ?r, finalized_db db e a ?r decision)"
    using finalize_commit_live[OF ok a(2) envs(2) a(3) envs(4,5) d times f] authority by (simp add: same)
  have "finalize_propose cfg (envs 1) db ?c CauseExpired = Inr (?r, da_invoked_at a, ?opts, ?ru)"
    using a(2,3) d by (simp add: finalize_propose_def checked_claim_def claim_live_def)
  then have "recover cfg envs db (ev_event_id e) (ev_project_id e) = Inr (Some ?r, finalized_db db e a ?r decision)"
    using a(4) exp clock(1) commit by (simp add: recover_def finalize_def)
  moreover have "row_get ev_event_id (ev_event_id e) (ob_events (finalized_db db e a ?r decision)) = Some (finalized_event e d)"
    using row_get_in[OF outbox_ok_parts(1)[OF ok] e(1)]
    by (simp add: finalized_db_def row_get_put receipt_of_def finalized_event_def)
  ultimately show ?thesis
    using \<open>do_delivery_state d \<noteq> Claimed\<close> by (auto simp: finalized_event_def)
qed

theorem expired_claim_recovers_witness:
  "\<exists>receipt db' e'. recover agreed_outbox (\<lambda>_. ob_env 300000010 40) ob_db3 (ob_id 10) (ob_id 1) = Inr (Some receipt, db') \<and>
     row_get ev_event_id (ob_id 10) (ob_events db') = Some e' \<and> ev_delivery_state e' \<noteq> Claimed"
proof -
  let ?e = "claimed_event ob_event0 ob_claim"
  have "event_envelope_check (ox_octets (ob_env 300000010 40)) ?e"
    using ob_event0_envelope by (simp add: ob_env_def event_envelope_check_def claimed_event_def)
  then show ?thesis
    using expired_claim_recovers[OF agreed_reach, of ?e 300000010 "\<lambda>_. ob_env 300000010 40" "ob_id 40"]
    by (simp add: ob_db3_def ob_db2_def claimed_event_def claimed_attempt_def invoked_attempt_def
        DeliveryOptions_valid_def default_delivery_options_def)
qed

text \<open>
  C39. A lost task-revision notice is never recovered. The production registry declares the handlers of
  \<open>TaskRevisionContextBlocked\<close> and \<open>TaskRevisionExhausted\<close> replay-safe, but the deferred check of the
  database registers neither for retry after an unknown outcome. So when the worker of such an event
  dies after the invocation began, on any but the last attempt, every call of \<open>recover\<close> fails, at every
  time and with every authority, and the event stays claimed.
\<close>

theorem lost_notice_never_recovers:
  assumes reach: "(outbox_step sha production_outbox)\<^sup>*\<^sup>* empty_outbox db"
    and e: "e \<in> set (ob_events db)" "ev_delivery_state e = Claimed" "ev_event_version e = 1"
      "ev_event_type e \<in> {''TaskRevisionContextBlocked'', ''TaskRevisionExhausted''}" "ev_claim_generation e < 5"
    and a: "a \<in> set (event_attempts db (ev_event_id e))" "da_claim_generation a = ev_claim_generation e"
      "da_stage a = Stage_invoked"
  shows "recover production_outbox envs db (ev_event_id e) (ev_project_id e) \<noteq> Inr (Some receipt, db')"
proof
  assume op: "recover production_outbox envs db (ev_event_id e) (ev_project_id e) = Inr (Some receipt, db')"
  have ok: "outbox_ok sha db" by (rule custody.reachable_ok[OF reach])
  obtain x where x: "x \<in> set (ob_attempts db)" "lease_of e x" "claim_live db (claim_from_attempt x) e x"
      "recover_claim (envs 0) db (ev_event_id e) (ev_project_id e) =
         Inr (if da_claim_expires_at x > ox_clock (envs 0) 0 then None else Some (claim_from_attempt x))"
    by (rule claimed_event_live[OF ok e(1,2)])
  have "x = a"
    using row_unique[OF outbox_ok_parts(2)[OF ok] x(1), of a] x(2) a(1,2)
    by (auto simp: lease_of_def event_attempts_def attempt_key_def)
  then have invoked: "da_invoked_at x \<noteq> None"
    using outbox_ok_parts(6)[OF ok x(1)] a(3) by (simp add: attempt_check_def attempt_shape_check_def)
  let ?c = "claim_from_attempt x"
  have opts: "options_for production_outbox (ev_event_type e) (ev_event_version e) = default_delivery_options"
      "can_retry_unknown (od_registry production_outbox) (ev_event_type e) (ev_event_version e)"
      "\<not> unknown_retry_registered (ev_event_type e) (ev_event_version e)" "DeliveryOptions_valid default_delivery_options"
    using e(3,4) by (auto simp: options_for_def production_outbox_def production_event_options_def can_retry_unknown_def
        production_replay_safe_def unknown_retry_registered_def DeliveryOptions_valid_def default_delivery_options_def)
  have "finalize production_outbox (envs 1, db) (envs 2, db) (envs 3, db) ?c CauseExpired = Inr (receipt, db')"
    using op x(4) by (auto simp: recover_def outcome_inv split: if_splits)
  then obtain r where r: "re_claim r = ?c" "finalize_commit production_outbox (envs 2) db r CauseExpired = Inr (Inr receipt, db')"
    by (rule finalize_via_commit[OF _ x(3)])
  note recorded = finalize_commit_recorded[of sha db r e x, OF ok _ r(2), unfolded r(1) opts(1), OF x(3) opts(4)]
  have gen: "oc_claim_generation ?c < max_attempts default_delivery_options"
    using claim_live_rows(6,11)[OF x(3)] e(5) by (simp add: default_delivery_options_def)
  have "do_invocation_unknown (re_outcome r)"
    using delivery_outcome_common(4,6)[OF recorded(2)] invoked by simp
  moreover from recorded(2) this have "do_delivery_state (re_outcome r) = Retryable"
    by (cases rule: delivery_outcome_cases) (use opts(2) gen in auto)
  ultimately show False using recorded(1) opts(3) by simp
qed

theorem lost_notice_never_recovers_witness:
  "recover production_outbox (\<lambda>_. ob_env 300000010 40) ob_db3 (ob_id 10) (ob_id 1) \<noteq> Inr (Some ob_receipt, ob_db4)"
proof -
  have "da_claim_generation (invoked_attempt (claimed_attempt ob_claim (ob_id 20)) 20 (ob_id 30)) = 1"
    by (simp add: invoked_attempt_def claimed_attempt_def)
  then show ?thesis
    using lost_notice_never_recovers[OF ob_reach(3), of "claimed_event ob_event0 ob_claim"
        "invoked_attempt (claimed_attempt ob_claim (ob_id 20)) 20 (ob_id 30)"]
    by (simp add: ob_db3_def ob_db2_def claimed_event_def event_attempts_def invoked_attempt_def claimed_attempt_def)
qed

end
