(* ===== verification/Outbox_Reads.thy ===== *)
theory Outbox_Reads
  imports Outbox_Outcomes "HOL-Library.Product_Lexorder"
begin

text \<open>
  The observations of \<open>modules/outbox/delivery_repository.py\<close>: keyset discovery of due work, the committed
  observation and the fence of an invocation, the drain counts, and the listing, reading and fencing of
  deliveries that ended with an unknown outcome. Each is one function of the snapshot it reads;
  \<open>now\<close> is its \<open>statement_timestamp()\<close>, and \<open>root\<close> says that the session is in a root transaction.
\<close>

subsection \<open>Values\<close>

datatype child_state = Child_pending | Child_active | Child_acknowledged | Child_unknown | Child_held

record ReconciliationChildObservation =
  rc_event_id :: uuid
  rc_payload_digest :: string
  rc_payload_json :: ustring
  rc_occurred_at :: instant
  rc_state :: child_state

record FinalizedUnknownDelivery =
  fu_envelope :: OutboxEventEnvelope
  fu_finalized_at :: instant
  fu_error_code :: string
  fu_child :: "ReconciliationChildObservation option"

record FinalizedUnknownDeliveryPage =
  fp_items :: "FinalizedUnknownDelivery list"
  fp_has_more :: bool

subsection \<open>Discovery\<close>

definition is_candidate :: "(string \<times> int) list \<Rightarrow> instant \<Rightarrow> OutboxEvent \<Rightarrow> bool" where
  "is_candidate keys now e \<longleftrightarrow>
     open_state (ev_delivery_state e) \<and> (case ev_next_attempt_at e of None \<Rightarrow> False | Some t \<Rightarrow> t \<le> now) \<and>
       (ev_event_type e, ev_event_version e) \<in> set keys \<or>
     ev_delivery_state e = Claimed \<and> (case ev_claim_expires_at e of None \<Rightarrow> False | Some t \<Rightarrow> t \<le> now)"

definition past_cursor :: "uuid option \<Rightarrow> OutboxEvent \<Rightarrow> bool" where
  "past_cursor after e \<longleftrightarrow> (case after of None \<Rightarrow> True | Some k \<Rightarrow> k < ev_event_id e)"

definition candidate_of :: "OutboxEvent \<Rightarrow> DeliveryCandidate" where
  "candidate_of e = \<lparr> dc_event_id = ev_event_id e, dc_project_id = ev_project_id e \<rparr>"

definition due_events :: "(string \<times> int) list \<Rightarrow> outbox_db \<Rightarrow> instant \<Rightarrow> uuid option \<Rightarrow> OutboxEvent list" where
  "due_events keys db now after =
     sort_key ev_event_id (filter (\<lambda>e. is_candidate keys now e \<and> past_cursor after e) (ob_events db))"

definition candidates ::
    "(string \<times> int) list \<Rightarrow> outbox_db \<Rightarrow> instant \<Rightarrow> uuid option \<Rightarrow> nat \<Rightarrow> DeliveryCandidatePage" where
  "candidates keys db now after limit =
     (let rows = take (limit + 1) (due_events keys db now after);
          items = map candidate_of (take limit rows)
      in \<lparr> cp_items = items,
           cp_next_after = (if length rows > limit then Some (dc_event_id (last items)) else None) \<rparr>)"

definition delivery_candidates ::
    "OutboxDelivery \<Rightarrow> outbox_db \<Rightarrow> instant \<Rightarrow> uuid option \<Rightarrow> nat \<Rightarrow> outbox_error + DeliveryCandidatePage" where
  "delivery_candidates cfg db now after limit =
     (if \<not> (1 \<le> limit \<and> limit \<le> 500) then Inl DeliveryUnavailable
      else Inr (candidates (hr_keys (od_registry cfg)) db now after limit))"

subsection \<open>Observation of an invocation\<close>

text \<open>The join of an event with the attempt of its current generation.\<close>

definition current_attempts :: "outbox_db \<Rightarrow> OutboxEvent \<Rightarrow> OutboxDeliveryAttempt list" where
  "current_attempts db e =
     filter (\<lambda>a. da_claim_generation a = ev_claim_generation e) (event_attempts db (ev_event_id e))"

definition joined :: "outbox_db \<Rightarrow> (OutboxEvent \<times> OutboxDeliveryAttempt) list" where
  "joined db = concat (map (\<lambda>e. map (Pair e) (current_attempts db e)) (ob_events db))"

text \<open>
  The test of the decoded payload. A text that \<open>json.loads\<close> decodes to an object and \<open>json.dumps\<close> prints
  back unchanged is the canonical text of that object, and by the injectivity of \<open>dumps\<close> the column
  equals it, compared without member order, exactly when the column's canonical text is the same.
\<close>

definition payload_agrees :: "(octets \<Rightarrow> string) \<Rightarrow> OutboxEventEnvelope \<Rightarrow> OutboxEvent \<Rightarrow> bool" where
  "payload_agrees sha envelope e \<longleftrightarrow>
     (case ev_payload e of JObj _ \<Rightarrow> True | _ \<Rightarrow> False) \<and> dumps (ev_payload e) = en_payload_json envelope \<and>
     json_digest sha (ev_payload e) = oc_payload_digest (en_claim envelope)"

definition observed_row ::
    "(octets \<Rightarrow> string) \<Rightarrow> instant \<Rightarrow> OutboxEventEnvelope \<Rightarrow> OutboxEvent \<times> OutboxDeliveryAttempt \<Rightarrow> bool" where
  "observed_row sha now envelope = (\<lambda>(e, a). let c = en_claim envelope in
     ev_event_id e = oc_event_id c \<and> ev_project_id e = oc_project_id c \<and>
     ev_payload_digest e = oc_payload_digest c \<and> ev_event_type e = en_event_type envelope \<and>
     ev_event_version e = en_event_version envelope \<and> ev_aggregate_type e = en_aggregate_type envelope \<and>
     ev_aggregate_id e = en_aggregate_id envelope \<and> ev_correlation_id e = en_correlation_id envelope \<and>
     ev_causation_event_id e = en_causation_event_id envelope \<and>
     ev_idempotency_key e = en_idempotency_key envelope \<and> ev_occurred_at e = en_occurred_at envelope \<and>
     payload_agrees sha envelope e \<and> ev_delivery_state e = Claimed \<and>
     da_stage a = Stage_invoked \<and> da_outcome a = None \<and>
     ev_claim_generation e = oc_claim_generation c \<and> ev_claim_owner e = Some (oc_claim_owner c) \<and>
     ev_claimed_at e = Some (oc_claimed_at c) \<and> ev_claim_expires_at e = Some (oc_claim_expires_at c) \<and>
     da_project_id a = ev_project_id e \<and> da_payload_digest a = ev_payload_digest e \<and>
     ev_claim_owner e = Some (da_claim_owner a) \<and> ev_claimed_at e = Some (da_claimed_at a) \<and>
     ev_claim_expires_at e = Some (da_claim_expires_at a) \<and> now < oc_claim_expires_at c)"

definition observe ::
    "(octets \<Rightarrow> string) \<Rightarrow> outbox_db \<Rightarrow> instant \<Rightarrow> OutboxEventEnvelope \<Rightarrow>
     outbox_error + CommittedInvocationObservation option" where
  "observe sha db now envelope =
     (if \<not> OutboxClaim_valid (en_claim envelope) then Inr None else
      case filter (observed_row sha now envelope) (joined db) of
        [] \<Rightarrow> Inr None
      | [_] \<Rightarrow> Inr (Some \<lparr> ci_claim = en_claim envelope, ci_observed_at = now \<rparr>)
      | _ \<Rightarrow> Inl (OutboxValueError ''MultipleResultsFound''))"

definition fence_invocation ::
    "(octets \<Rightarrow> string) \<Rightarrow> bool \<Rightarrow> outbox_db \<Rightarrow> instant \<Rightarrow> OutboxEventEnvelope \<Rightarrow>
     outbox_error + CommittedInvocationObservation option" where
  "fence_invocation sha root db now envelope =
     (if \<not> root then Inl DeliveryUnavailable else
      if \<not> OutboxClaim_valid (en_claim envelope) then Inr None else
      let c = en_claim envelope in
      if outbox_event db (oc_event_id c) (oc_project_id c) = None then Inr None else
      if outbox_attempt db c = None then Inr None else
      observe sha db now envelope)"

subsection \<open>Drain\<close>

text \<open>The left outer join: an event without current custody appears once, without an attempt.\<close>

definition drain_rows :: "outbox_db \<Rightarrow> uuid \<Rightarrow> (OutboxEvent \<times> OutboxDeliveryAttempt option) list" where
  "drain_rows db project =
     concat (map (\<lambda>e. case current_attempts db e of [] \<Rightarrow> [(e, None)] | xs \<Rightarrow> map (\<lambda>a. (e, Some a)) xs)
       (filter (\<lambda>e. ev_project_id e = project) (ob_events db)))"

definition count_rows :: "('a \<Rightarrow> bool) \<Rightarrow> 'a list \<Rightarrow> nat" where
  "count_rows P xs = length (filter P xs)"

definition in_state :: "delivery_state \<Rightarrow> OutboxEvent \<times> OutboxDeliveryAttempt option \<Rightarrow> bool" where
  "in_state st row \<longleftrightarrow> ev_delivery_state (fst row) = st"

definition drain ::
    "outbox_db \<Rightarrow> instant \<Rightarrow> uuid \<Rightarrow> (string \<times> int) list \<Rightarrow> outbox_error + DrainObservation" where
  "drain db now project keys =
     (let rows = drain_rows db project in
      if count_rows (\<lambda>(e, a). ev_claim_generation e > 0 \<and> a = None) rows \<noteq> 0
      then Inl (DeliveryPersistenceError ''outbox_observation_failed'')
      else Inr
        \<lparr> dr_project_id = project, dr_observed_at = now,
          dr_pending = count_rows (in_state Pending) rows, dr_claimed = count_rows (in_state Claimed) rows,
          dr_retryable = count_rows (in_state Retryable) rows,
          dr_invoked = count_rows (\<lambda>(e, a). pred_option (\<lambda>x. da_stage x = Stage_invoked) a \<and> a \<noteq> None) rows,
          dr_unresolved = count_rows (\<lambda>(e, a). case a of None \<Rightarrow> False | Some x \<Rightarrow>
             da_stage x = Stage_completed \<and> pred_option do_invocation_unknown (da_outcome x) \<and> da_outcome x \<noteq> None) rows,
          dr_unsupported = count_rows (\<lambda>(e, a). ev_delivery_state e \<in> {Pending, Claimed, Retryable} \<and>
             (ev_event_type e, ev_event_version e) \<notin> set keys) rows,
          dr_dead_letter = count_rows (in_state Dead_letter) rows \<rparr>)"

subsection \<open>Deliveries that ended unknown\<close>

definition child_of :: "OutboxEvent \<Rightarrow> ReconciliationChildObservation" where
  "child_of e =
   \<lparr> rc_event_id = ev_event_id e, rc_payload_digest = ev_payload_digest e,
     rc_payload_json = dumps (ev_payload e), rc_occurred_at = ev_occurred_at e,
     rc_state = (if open_state (ev_delivery_state e) then Child_pending
       else if ev_delivery_state e = Claimed then Child_active
       else if ev_delivery_state e = Acknowledged then Child_acknowledged
       else if ev_delivery_state e = Dead_letter \<and> ev_last_error_code e = Some ''INVOKE_OUTCOME_UNKNOWN''
       then Child_unknown else Child_held) \<rparr>"

definition unknown_predicate :: "(string \<times> int) list \<Rightarrow> OutboxEvent \<times> OutboxDeliveryAttempt \<Rightarrow> bool" where
  "unknown_predicate event_types = (\<lambda>(e, a).
     (ev_event_type e, ev_event_version e) \<in> set event_types \<and> ev_delivery_state e = Dead_letter \<and>
     ev_last_error_code e = Some ''INVOKE_OUTCOME_UNKNOWN'' \<and> ev_finalized_at e \<noteq> None \<and>
     da_event_id a = ev_event_id e \<and> da_claim_generation a = ev_claim_generation e \<and>
     da_project_id a = ev_project_id e \<and> da_payload_digest a = ev_payload_digest e \<and>
     da_stage a = Stage_completed \<and>
     (case da_outcome a of None \<Rightarrow> False | Some d \<Rightarrow> do_invocation_unknown d \<and>
        do_delivery_state d = Dead_letter \<and> do_error_code d = Some ''INVOKE_OUTCOME_UNKNOWN''))"

text \<open>The loop of \<open>_children\<close> over the child events, in the order of the query.\<close>

fun collect_children ::
    "(uuid \<times> uuid) list \<Rightarrow> OutboxEvent list \<Rightarrow> (uuid \<times> ReconciliationChildObservation) list \<Rightarrow>
     outbox_error + (uuid \<times> ReconciliationChildObservation) list" where
  "collect_children originals [] children = Inr children"
| "collect_children originals (e # es) children =
     need (ev_causation_event_id e) (OutboxValueError ''causation_event_id'') (\<lambda>k.
     if k \<in> set (map fst children) \<or> map_of originals k \<noteq> Some (ev_project_id e)
     then Inl DeliveryUnavailable else collect_children originals es (children @ [(k, child_of e)]))"

definition children_of ::
    "outbox_db \<Rightarrow> (uuid \<times> uuid) list \<Rightarrow> string \<Rightarrow> outbox_error + (uuid \<times> ReconciliationChildObservation) list" where
  "children_of db originals child_type =
     (if originals = [] then Inr [] else
      collect_children originals
        (sort_key (\<lambda>e. (case ev_causation_event_id e of None \<Rightarrow> 0 | Some k \<Rightarrow> k, ev_event_id e))
          (filter (\<lambda>e. ev_event_type e = child_type \<and> ev_event_version e = 1 \<and>
             (case ev_causation_event_id e of None \<Rightarrow> False | Some k \<Rightarrow> k \<in> set (map fst originals)))
            (ob_events db))) [])"

definition finalized_key :: "OutboxEvent \<times> OutboxDeliveryAttempt \<Rightarrow> instant \<times> uuid" where
  "finalized_key row = (case ev_finalized_at (fst row) of None \<Rightarrow> 0 | Some t \<Rightarrow> t, ev_event_id (fst row))"

definition finalized_unknown_of ::
    "(uuid \<times> ReconciliationChildObservation) list \<Rightarrow> OutboxEvent \<times> OutboxDeliveryAttempt \<Rightarrow> FinalizedUnknownDelivery" where
  "finalized_unknown_of children row =
   \<lparr> fu_envelope = envelope_of (fst row) (claim_from_attempt (snd row)),
     fu_finalized_at = fst (finalized_key row), fu_error_code = ''INVOKE_OUTCOME_UNKNOWN'',
     fu_child = map_of children (ev_event_id (fst row)) \<rparr>"

definition list_finalized_unknown ::
    "outbox_db \<Rightarrow> uuid \<Rightarrow> (string \<times> int) list \<Rightarrow> string \<Rightarrow> (instant \<times> uuid) option \<Rightarrow> nat \<Rightarrow>
     outbox_error + FinalizedUnknownDeliveryPage" where
  "list_finalized_unknown db project event_types child_type after limit =
     (if event_types = [] \<or> \<not> (1 \<le> limit \<and> limit \<le> 100) then Inl DeliveryUnavailable else
      let rows = take (limit + 1) (sort_key finalized_key
            (filter (\<lambda>row. ev_project_id (fst row) = project \<and> unknown_predicate event_types row \<and>
                (case after of None \<Rightarrow> True | Some k \<Rightarrow> k < finalized_key row)) (joined db)));
          selected = take limit rows
      in andthen (children_of db (map (\<lambda>row. (ev_event_id (fst row), ev_project_id (fst row))) selected) child_type)
        (\<lambda>children. Inr \<lparr> fp_items = map (finalized_unknown_of children) selected,
           fp_has_more = (length rows > limit) \<rparr>))"

definition read_finalized_unknown ::
    "outbox_db \<Rightarrow> uuid \<Rightarrow> uuid \<Rightarrow> (string \<times> int) list \<Rightarrow> string \<Rightarrow>
     outbox_error + FinalizedUnknownDelivery option" where
  "read_finalized_unknown db project i event_types child_type =
     (if event_types = [] then Inl DeliveryUnavailable else
      case filter (\<lambda>row. ev_event_id (fst row) = i \<and> ev_project_id (fst row) = project \<and>
             unknown_predicate event_types row) (joined db) of
        [] \<Rightarrow> Inr None
      | [row] \<Rightarrow> andthen (children_of db [(i, project)] child_type) (\<lambda>children.
          Inr (Some (finalized_unknown_of children row)))
      | _ \<Rightarrow> Inl (OutboxValueError ''MultipleResultsFound''))"

definition fence_reconciliation ::
    "(octets \<Rightarrow> string) \<Rightarrow> bool \<Rightarrow> outbox_db \<Rightarrow> instant \<Rightarrow> OutboxEventEnvelope \<Rightarrow> OutboxEventEnvelope \<Rightarrow>
     (string \<times> int) list \<Rightarrow> string \<Rightarrow> outbox_error + CommittedInvocationObservation option" where
  "fence_reconciliation sha root db now original child event_types child_type =
     (if \<not> root then Inl DeliveryUnavailable else
      if \<not> OutboxClaim_valid (en_claim original) \<or> \<not> OutboxClaim_valid (en_claim child) then Inr None else
      andthen (read_finalized_unknown db (oc_project_id (en_claim original)) (oc_event_id (en_claim original))
          event_types child_type) (\<lambda>retained.
      case retained of None \<Rightarrow> Inr None
      | Some r \<Rightarrow>
        if fu_envelope r \<noteq> original \<or> fu_child r = None \<or>
           map_option rc_event_id (fu_child r) \<noteq> Some (oc_event_id (en_claim child)) \<or>
           en_event_type child \<noteq> child_type \<or> en_event_version child \<noteq> 1 \<or>
           oc_project_id (en_claim child) \<noteq> oc_project_id (en_claim original) \<or>
           en_aggregate_type child \<noteq> ''outbox_delivery'' \<or>
           en_aggregate_id child \<noteq> oc_event_id (en_claim original) \<or>
           en_causation_event_id child \<noteq> Some (oc_event_id (en_claim original))
        then Inr None else fence_invocation sha root db now child))"

end
