(* ===== verification/Outbox_Observation.thy ===== *)
theory Outbox_Observation
  imports Outbox_Reads Outbox_Scenario
begin

text \<open>
  What the observations of the outbox say in a reachable state: the fence of an invocation lets exactly
  the live invocations pass, the drain always answers and its counts are the events' states, and the
  listing of unknown outcomes shows final deliveries only.
\<close>

subsection \<open>The current attempt of an event\<close>

lemma current_attempts_cases:
  assumes ok: "outbox_ok sha db" and e: "e \<in> set (ob_events db)"
  obtains (none) "ev_claim_generation e = 0" "current_attempts db e = []"
  | (one) a where "0 < ev_claim_generation e" "current_attempts db e = [a]" "a \<in> set (ob_attempts db)"
      "da_event_id a = ev_event_id e" "da_claim_generation a = ev_claim_generation e"
      "current_custody_matches e a" "\<not> attempt_misfits e a" "attempt_check sha a"
proof (cases "ev_claim_generation e = 0")
  case True
  have "1 \<le> da_claim_generation a" if "a \<in> set (ob_attempts db)" for a
    using outbox_ok_parts(6)[OF ok that] by (simp add: attempt_check_def attempt_shape_check_def)
  then have "current_attempts db e = []"
    using True by (fastforce simp: current_attempts_def event_attempts_def filter_empty_conv)
  then show ?thesis using True none by blast
next
  case False
  have proj: "delivery_projection_ok db e" by (rule outbox_ok_parts(4)[OF ok e])
  then obtain a where a: "find (\<lambda>x. da_claim_generation x = ev_claim_generation e) (event_attempts db (ev_event_id e)) = Some a"
      "current_custody_matches e a"
    using False by (auto simp: delivery_projection_ok_def Let_def split: option.splits)
  have mem: "a \<in> set (event_attempts db (ev_event_id e))" "da_claim_generation a = ev_claim_generation e"
    using find_SomeD[OF a(1)] by auto
  have cur: "current_attempts db e = [a]"
    using filter_key_one[OF event_generations_distinct[OF outbox_ok_parts(2)[OF ok]] mem(1)] mem(2)
    by (simp add: current_attempts_def)
  have "\<not> attempt_misfits e a"
    using proj mem(1) by (auto simp: delivery_projection_ok_def Let_def list_ex_iff)
  moreover have "0 < ev_claim_generation e"
    using outbox_ok_parts(5)[OF ok e] False by (auto simp: event_shape_check.simps)
  ultimately show ?thesis
    using one[OF _ cur] mem a(2) outbox_ok_parts(6)[OF ok] by (auto simp: event_attempts_def)
qed

lemma joined_of_event:
  assumes "outbox_ok sha db" "e \<in> set (ob_events db)"
  shows "filter (\<lambda>x. ev_event_id (fst x) = ev_event_id e) (joined db) = map (Pair e) (current_attempts db e)"
  unfolding joined_def by (rule join_of_row[OF outbox_ok_parts(1)[OF assms(1)] assms(2)])

lemma joined_member:
  "(e, a) \<in> set (joined db) \<longleftrightarrow> e \<in> set (ob_events db) \<and> a \<in> set (current_attempts db e)"
  by (auto simp: joined_def)

text \<open>A test that names one event selects at most one row of the join.\<close>

lemma joined_select:
  assumes ok: "outbox_ok sha db" and P: "\<And>e a. P (e, a) \<Longrightarrow> ev_event_id e = i"
  obtains (none) "filter P (joined db) = []"
  | (one) e a where "filter P (joined db) = [(e, a)]" "P (e, a)" "e \<in> set (ob_events db)" "current_attempts db e = [a]"
proof (cases "\<exists>e \<in> set (ob_events db). ev_event_id e = i")
  case True
  then obtain e where e: "e \<in> set (ob_events db)" "ev_event_id e = i" by blast
  have "filter P (joined db) = filter P (filter (\<lambda>x. ev_event_id (fst x) = ev_event_id e) (joined db))"
    using P e(2) by (auto simp: intro!: filter_cong)
  also have "\<dots> = filter P (map (Pair e) (current_attempts db e))" by (simp only: joined_of_event[OF ok e(1)])
  finally have sel: "filter P (joined db) = filter P (map (Pair e) (current_attempts db e))" .
  show ?thesis
    using ok e(1)
  proof (cases rule: current_attempts_cases)
    case (one a)
    then show ?thesis using sel that e(1) by (cases "P (e, a)") auto
  qed (use sel that in auto)
next
  case False
  then show ?thesis using that(1) P by (force simp: filter_empty_conv joined_def)
qed

subsection \<open>The fence\<close>

lemma current_attempt_found:
  assumes ok: "outbox_ok sha db" and cur: "current_attempts db e = [a]"
    and c: "da_event_id a = oc_event_id c" "da_claim_generation a = oc_claim_generation c" "da_project_id a = oc_project_id c"
  shows "outbox_attempt db c = Some a"
proof -
  have "a \<in> set (current_attempts db e)" by (simp add: cur)
  then have "a \<in> set (ob_attempts db)" by (simp add: current_attempts_def event_attempts_def)
  then show ?thesis
    unfolding outbox_attempt_def
    by (rule find_keyed[OF _ _ outbox_ok_parts(2)[OF ok]]) (use c in \<open>auto simp: attempt_key_def\<close>)
qed

lemma event_found:
  "outbox_ok sha db \<Longrightarrow> e \<in> set (ob_events db) \<Longrightarrow> outbox_event db (ev_event_id e) (ev_project_id e) = Some e"
  unfolding outbox_event_def by (rule find_keyed[OF _ _ outbox_ok_parts(1)]) auto

text \<open>The join of the observation, in terms of the rows that the delivery engine reads.\<close>

lemma observed_row_live:
  assumes ok: "outbox_ok sha db" "contents_ok sha db" and e: "e \<in> set (ob_events db)" and cur: "current_attempts db e = [a]"
  shows "observed_row sha now envelope (e, a) \<longleftrightarrow>
     claim_live db (en_claim envelope) e a \<and> da_stage a = Stage_invoked \<and>
     now < oc_claim_expires_at (en_claim envelope) \<and> envelope = envelope_of e (en_claim envelope)"
proof -
  let ?c = "en_claim envelope"
  have a: "da_event_id a = ev_event_id e" "da_claim_generation a = ev_claim_generation e"
    using arg_cong[OF cur, of set] by (auto simp: current_attempts_def event_attempts_def)
  have content: "(case ev_payload e of JObj _ \<Rightarrow> True | _ \<Rightarrow> False)" "json_digest sha (ev_payload e) = ev_payload_digest e"
    using ok(2) e by (auto simp: contents_ok_def event_envelope_check_def)
  have outcome: "da_stage a = Stage_invoked \<Longrightarrow> da_outcome a = None"
    using ok(1) e
    by (cases rule: current_attempts_cases) (auto simp: cur attempt_check_def attempt_shape_check_def)
  have env: "envelope = envelope_of e ?c \<longleftrightarrow>
      ev_event_type e = en_event_type envelope \<and> ev_event_version e = en_event_version envelope \<and>
      ev_aggregate_type e = en_aggregate_type envelope \<and> ev_aggregate_id e = en_aggregate_id envelope \<and>
      ev_correlation_id e = en_correlation_id envelope \<and> ev_causation_event_id e = en_causation_event_id envelope \<and>
      ev_idempotency_key e = en_idempotency_key envelope \<and> ev_occurred_at e = en_occurred_at envelope \<and>
      dumps (ev_payload e) = en_payload_json envelope"
    by (cases envelope) (auto simp: envelope_of_def)
  have claim: "claim_from_attempt a = ?c \<longleftrightarrow> oc_event_id ?c = da_event_id a \<and> oc_project_id ?c = da_project_id a \<and>
      oc_payload_digest ?c = da_payload_digest a \<and> oc_claim_generation ?c = da_claim_generation a \<and>
      oc_claim_owner ?c = da_claim_owner a \<and> oc_claimed_at ?c = da_claimed_at a \<and>
      oc_claim_expires_at ?c = da_claim_expires_at a"
    by (cases "en_claim envelope") (auto simp: claim_from_attempt_def)
  show ?thesis
  proof
    assume obs: "observed_row sha now envelope (e, a)"
    then have "outbox_attempt db ?c = Some a"
      by (intro current_attempt_found[OF ok(1) cur]) (use a in \<open>auto simp: observed_row_def Let_def\<close>)
    then show "claim_live db ?c e a \<and> da_stage a = Stage_invoked \<and> now < oc_claim_expires_at ?c \<and> envelope = envelope_of e ?c"
      using obs a event_found[OF ok(1) e]
      by (auto simp: observed_row_def Let_def claim_live_def matches_event_def claim env payload_agrees_def)
  next
    assume live: "claim_live db ?c e a \<and> da_stage a = Stage_invoked \<and> now < oc_claim_expires_at ?c \<and> envelope = envelope_of e ?c"
    then show "observed_row sha now envelope (e, a)"
      using content outcome claim env
      by (auto simp: observed_row_def Let_def claim_live_def matches_event_def payload_agrees_def)
  qed
qed

lemma claim_live_current:
  assumes ok: "outbox_ok sha db" and live: "claim_live db c e a"
  shows "current_attempts db e = [a]" "OutboxClaim_valid c" "e \<in> set (ob_events db)"
proof -
  note rows = claim_live_rows[OF live]
  show e: "e \<in> set (ob_events db)" by (rule rows(1))
  have "a \<in> set (current_attempts db e)" using rows(3,6) by (simp add: current_attempts_def)
  with ok e show "current_attempts db e = [a]" by (cases rule: current_attempts_cases) auto
  have "claim_from_attempt a = c" using live by (simp add: claim_live_def)
  moreover have "attempt_check sha a" by (rule outbox_ok_parts(6)[OF ok rows(2)])
  ultimately show "OutboxClaim_valid c"
    by (auto simp: OutboxClaim_valid_def claim_from_attempt_def attempt_check_def attempt_shape_check_def)
qed

lemma fence_live:
  assumes ok: "outbox_ok sha db" "contents_ok sha db"
  shows "fence_invocation sha root db now envelope = Inr (Some obs) \<longleftrightarrow>
     root \<and> obs = \<lparr> ci_claim = en_claim envelope, ci_observed_at = now \<rparr> \<and>
     (\<exists>e a. claim_live db (en_claim envelope) e a \<and> da_stage a = Stage_invoked \<and>
        now < oc_claim_expires_at (en_claim envelope) \<and> envelope = envelope_of e (en_claim envelope))"
    (is "?lhs \<longleftrightarrow> root \<and> obs = ?obs \<and> (\<exists>e a. ?live e a)")
proof -
  let ?c = "en_claim envelope"
  have names: "observed_row sha now envelope (e, a) \<Longrightarrow> ev_event_id e = oc_event_id ?c" for e a
    by (simp add: observed_row_def Let_def)
  show ?thesis
  proof (rule joined_select[of sha db "observed_row sha now envelope" "oc_event_id ?c", OF ok(1) names])
    assume none: "filter (observed_row sha now envelope) (joined db) = []"
    have "\<not> ?live e a" for e a
    proof
      assume live: "?live e a"
      then have cur: "current_attempts db e = [a]" "e \<in> set (ob_events db)" using claim_live_current[OF ok(1)] by blast+
      then have "observed_row sha now envelope (e, a)" using observed_row_live[OF ok cur(2,1)] live by blast
      then show False using none cur by (auto simp: filter_empty_conv joined_def)
    qed
    then show ?thesis using none by (auto simp: fence_invocation_def observe_def Let_def split: if_splits)
  next
    fix e a
    assume one: "filter (observed_row sha now envelope) (joined db) = [(e, a)]" "observed_row sha now envelope (e, a)"
      "e \<in> set (ob_events db)" "current_attempts db e = [a]"
    have live: "?live e a" using observed_row_live[OF ok one(3,4)] one(2) by blast
    then have "OutboxClaim_valid ?c" "outbox_event db (oc_event_id ?c) (oc_project_id ?c) = Some e" "outbox_attempt db ?c = Some a"
      using claim_live_current(2)[OF ok(1), of ?c e a] by (blast, auto simp: claim_live_def)
    then show ?thesis using live one(1) by (auto simp: fence_invocation_def observe_def)
  qed
qed

lemma begun_invocation_passes_fence:
  assumes reach: "(outbox_step sha cfg)\<^sup>*\<^sup>* empty_outbox db"
    and first: "begin_invocation cfg env db c = Inr (Some envelope, db1)" "ox_sha env = sha"
    and now: "now < oc_claim_expires_at c"
  shows "fence_invocation sha True db1 now envelope = Inr (Some \<lparr> ci_claim = c, ci_observed_at = now \<rparr>)"
proof -
  have reach1: "(outbox_step sha cfg)\<^sup>*\<^sup>* empty_outbox db1"
    by (rule rtranclp.rtrancl_into_rtrancl[OF reach step_invoke[OF first]])
  note ok1 = custody.reachable_ok[OF reach1] contents.reachable_ok[OF reach1]
  show ?thesis
    using first(1)
  proof (rule begin_invocation_cases)
    fix e a decision
    assume e: "outbox_event db (oc_event_id c) (oc_project_id c) = Some e" and a: "outbox_attempt db c = Some a"
      and m: "matches_event e c" "claim_from_attempt a = c" "envelope = envelope_of e c"
      and upd: "update_attempt (ox_sha env) (ox_clock env 2) db (invoked_attempt a (ox_clock env 1) decision) = Inr db1"
    let ?a = "invoked_attempt a (ox_clock env 1) decision"
    have events: "ob_events db1 = ob_events db" and mem: "?a \<in> set (ob_attempts db1)"
      using upd outbox_attempt_Some[OF a]
      by (force simp: update_attempt_Inr row_put_def attempt_key_def invoked_attempt_def)+
    have claim: "claim_from_attempt ?a = c" "da_stage ?a = Stage_invoked"
      using m(2) by (simp_all add: claim_from_attempt_def invoked_attempt_def)
    have "outbox_attempt db1 c = Some ?a"
      unfolding outbox_attempt_def
      by (rule find_keyed[OF mem _ outbox_ok_parts(2)[OF ok1(1)]])
        (use outbox_attempt_Some[OF a] in \<open>auto simp: attempt_key_def invoked_attempt_def\<close>)
    moreover have "outbox_event db1 (oc_event_id c) (oc_project_id c) = Some e"
      using e by (simp add: outbox_event_def events)
    ultimately have "claim_live db1 c e ?a" using m(1) claim by (simp add: claim_live_def)
    moreover have "en_claim envelope = c" by (simp add: m(3) envelope_of_def)
    ultimately show ?thesis using fence_live[OF ok1, of True now envelope] claim(2) now m(3) by auto
  qed
qed

text \<open>
  C21. The fence lets exactly the live invocations pass. In a reachable outbox \<open>fence_invocation\<close> answers
  with an observation exactly when it is called in a root transaction, the envelope is the one that the
  event's row and the claim make up, the claim is the event's current lease, its attempt has been
  invoked and not completed, and the lease is still running; otherwise the feature transaction gets no
  observation. So a handler can fence what it was given: whenever \<open>_begin_invocation\<close> hands out an envelope,
  the fence in the resulting state accepts that envelope at every time before the lease expires.
\<close>

theorem fence_admits_live_invocations:
  assumes "(outbox_step sha cfg)\<^sup>*\<^sup>* empty_outbox db"
  shows "(fence_invocation sha root db now envelope = Inr (Some obs) \<longleftrightarrow>
      root \<and> obs = \<lparr> ci_claim = en_claim envelope, ci_observed_at = now \<rparr> \<and>
      (\<exists>e a. claim_live db (en_claim envelope) e a \<and> da_stage a = Stage_invoked \<and>
         now < oc_claim_expires_at (en_claim envelope) \<and> envelope = envelope_of e (en_claim envelope))) \<and>
    (begin_invocation cfg env db c = Inr (Some given, db1) \<and> ox_sha env = sha \<and> now < oc_claim_expires_at c \<longrightarrow>
      fence_invocation sha True db1 now given = Inr (Some \<lparr> ci_claim = c, ci_observed_at = now \<rparr>))"
  using fence_live[OF custody.reachable_ok[OF assms] contents.reachable_ok[OF assms], of root now envelope obs]
    begun_invocation_passes_fence[OF assms] by blast

theorem fence_admits_live_invocations_witness:
  "fence_invocation ob_sha_const False ob_db3 25 (envelope_of (claimed_event ob_event0 ob_claim) ob_claim) \<noteq>
     Inr (Some \<lparr> ci_claim = ob_claim, ci_observed_at = 25 \<rparr>) \<and>
   (\<exists>given. begin_invocation production_outbox (ob_env 20 30) ob_db2 ob_claim = Inr (Some given, ob_db3) \<and>
     fence_invocation ob_sha_const True ob_db3 25 given = Inr (Some \<lparr> ci_claim = ob_claim, ci_observed_at = 25 \<rparr>))"
proof -
  obtain given where "begin_invocation production_outbox (ob_env 20 30) ob_db2 ob_claim = Inr (Some given, ob_db3)"
    using ob_step3 by blast
  then show ?thesis
    using conjunct1[OF fence_admits_live_invocations[OF ob_reach(3)], of False]
      conjunct2[OF fence_admits_live_invocations[OF ob_reach(2)], of "ob_env 20 30" ob_claim given ob_db3 25] by simp
qed

subsection \<open>Drain\<close>

lemma drain_rows_first:
  assumes ok: "outbox_ok sha db"
  shows "map fst (drain_rows db project) = filter (\<lambda>e. ev_project_id e = project) (ob_events db)"
    and "\<forall>(e, m) \<in> set (drain_rows db project). e \<in> set (ob_events db) \<and>
       (case m of None \<Rightarrow> ev_claim_generation e = 0 | Some a \<Rightarrow> current_attempts db e = [a])"
proof -
  let ?f = "\<lambda>e. case current_attempts db e of [] \<Rightarrow> [(e, None)] | xs \<Rightarrow> map (\<lambda>a. (e, Some a)) xs"
  have one: "map fst (?f e) = [e] \<and> (\<forall>(x, m) \<in> set (?f e). x = e \<and> (case m of None \<Rightarrow> ev_claim_generation e = 0 | Some a \<Rightarrow> current_attempts db e = [a]))"
    if "e \<in> set (ob_events db)" for e
    using ok that by (cases rule: current_attempts_cases) auto
  have "map fst (concat (map ?f es)) = es" if "set es \<subseteq> set (ob_events db)" for es
    using that by (induction es) (auto simp: one)
  then show "map fst (drain_rows db project) = filter (\<lambda>e. ev_project_id e = project) (ob_events db)"
    by (auto simp: drain_rows_def)
  show "\<forall>(e, m) \<in> set (drain_rows db project). e \<in> set (ob_events db) \<and>
       (case m of None \<Rightarrow> ev_claim_generation e = 0 | Some a \<Rightarrow> current_attempts db e = [a])"
    using one by (fastforce simp: drain_rows_def)
qed

definition project_events :: "outbox_db \<Rightarrow> uuid \<Rightarrow> OutboxEvent list" where
  "project_events db project = filter (\<lambda>e. ev_project_id e = project) (ob_events db)"

lemma count_in_state:
  "map fst rows = es \<Longrightarrow> count_rows (in_state st) rows = length (filter (\<lambda>e. ev_delivery_state e = st) es)"
  by (auto simp: count_rows_def in_state_def[abs_def] filter_map comp_def)

lemma count_mono: "(\<And>x. x \<in> set xs \<Longrightarrow> P x \<Longrightarrow> Q x) \<Longrightarrow> count_rows P xs \<le> count_rows Q xs"
  by (induction xs) (auto simp: count_rows_def)

text \<open>
  C23. The drain observation is never refused and never wrong. In a reachable outbox \<open>drain\<close> finds custody
  for every claimed event, so it answers; its counts are the numbers of the project's events in each
  state; an invoked delivery is always one of the claimed ones; and the counts of pending, claimed and
  retryable events are all zero exactly when every event of the project has reached an outcome.
\<close>

theorem drain_counts_exact:
  assumes "(outbox_step sha cfg)\<^sup>*\<^sup>* empty_outbox db"
  shows "\<exists>obs. drain db now project keys = Inr obs \<and>
     dr_pending obs = length (filter (\<lambda>e. ev_delivery_state e = Pending) (project_events db project)) \<and>
     dr_claimed obs = length (filter (\<lambda>e. ev_delivery_state e = Claimed) (project_events db project)) \<and>
     dr_retryable obs = length (filter (\<lambda>e. ev_delivery_state e = Retryable) (project_events db project)) \<and>
     dr_dead_letter obs = length (filter (\<lambda>e. ev_delivery_state e = Dead_letter) (project_events db project)) \<and>
     dr_invoked obs \<le> dr_claimed obs \<and>
     (dr_pending obs = 0 \<and> dr_claimed obs = 0 \<and> dr_retryable obs = 0 \<longleftrightarrow>
      list_all (\<lambda>e. ev_delivery_state e \<in> {Acknowledged, Dead_letter, Cancelled}) (project_events db project))"
proof -
  have ok: "outbox_ok sha db" by (rule custody.reachable_ok[OF assms(1)])
  let ?rows = "drain_rows db project"
  note rows = drain_rows_first[OF ok, of project]
  have state: "count_rows (in_state st) ?rows = length (filter (\<lambda>e. ev_delivery_state e = st) (project_events db project))" for st
    by (rule count_in_state) (simp add: rows(1) project_events_def)
  have none: "count_rows (\<lambda>(e, a). ev_claim_generation e > 0 \<and> a = None) ?rows = 0"
    using rows(2) by (auto simp: count_rows_def filter_empty_conv split: option.splits)
  have "count_rows (\<lambda>(e, a). pred_option (\<lambda>x. da_stage x = Stage_invoked) a \<and> a \<noteq> None) ?rows \<le> count_rows (in_state Claimed) ?rows"
  proof (rule count_mono)
    fix x assume x: "x \<in> set ?rows" "case x of (e, a) \<Rightarrow> pred_option (\<lambda>x. da_stage x = Stage_invoked) a \<and> a \<noteq> None"
    then obtain e a where ea: "x = (e, Some a)" "da_stage a = Stage_invoked" by (cases x) auto
    then have "e \<in> set (ob_events db)" "current_attempts db e = [a]" using rows(2) x(1) by auto
    with ok have "current_custody_matches e a" by (cases rule: current_attempts_cases) auto
    then show "in_state Claimed x" using ea by (auto simp: in_state_def current_custody_matches_def split: if_splits)
  qed
  moreover have "ev_delivery_state e \<in> {Acknowledged, Dead_letter, Cancelled} \<longleftrightarrow>
      ev_delivery_state e \<noteq> Pending \<and> ev_delivery_state e \<noteq> Claimed \<and> ev_delivery_state e \<noteq> Retryable" for e
    by (cases "ev_delivery_state e") auto
  ultimately show ?thesis
    by (simp add: drain_def Let_def none state filter_empty_conv list_all_iff) blast
qed

theorem drain_counts_exact_witness:
  "\<exists>obs. drain ob_db3 25 (ob_id 1) production_keys = Inr obs \<and> dr_claimed obs = 1 \<and> dr_pending obs = 0"
  using drain_counts_exact[OF ob_reach(3), of 25 "ob_id 1" production_keys]
  by (auto simp: ob_db3_def ob_db2_def claimed_event_def project_events_def)

end
