(* ===== verification/Outbox_Worker.thy ===== *)
theory Outbox_Worker
  imports Outbox_Observation
begin

text \<open>
  The Celery tasks of \<open>workers/outbox.py\<close>: the periodic scan that publishes one delivery message per
  candidate and continues with the next page, the delivery task's results and retries, and the
  canonical text in which identifiers travel. The broker is a predicate that says which messages it
  accepts; a scan that continues runs on a later snapshot of the database, so the chain of scans takes
  one snapshot per page.
\<close>

subsection \<open>Selectors\<close>

definition hex_value_char :: "char \<Rightarrow> nat" where
  "hex_value_char c = (if is_digit_char c then of_char c - 48 else of_char c - 87)"

definition hex_value :: "string \<Rightarrow> nat" where
  "hex_value s = foldl (\<lambda>n c. n * 16 + hex_value_char c) 0 s"

text \<open>
  \<open>_uuid\<close>: whatever else \<open>UUID(value)\<close> reads, a text that is not the canonical one of the identifier it
  denotes is refused.
\<close>

definition transport_uuid :: "string \<Rightarrow> uuid option" where
  "transport_uuid value =
     (let parsed = word_of_nat (hex_value (filter (\<lambda>c. c \<noteq> CHR ''-'') value))
      in if uuid_text parsed = value then Some parsed else None)"

subsection \<open>Delivery task\<close>

datatype task_result = Task_status string | Task_retry nat | Task_failed

definition retry_task :: "nat \<Rightarrow> task_result" where
  "retry_task retries = (if retries < 3 then Task_retry (30 * 2 ^ retries) else Task_failed)"

definition deliver_event ::
    "OutboxDelivery \<Rightarrow> (nat \<Rightarrow> outbox_env) \<Rightarrow> (OutboxEventEnvelope \<Rightarrow> HandlerOutcome option) \<Rightarrow> outbox_db \<Rightarrow>
     string \<Rightarrow> nat \<Rightarrow> string \<Rightarrow> string \<Rightarrow> task_result" where
  "deliver_event cfg envs handler db request_id retries event_id project_id =
     (case (transport_uuid event_id, transport_uuid project_id, transport_uuid request_id) of
        (Some event, Some project, Some task) \<Rightarrow>
          (case deliver cfg envs handler db event project (''celery:'' @ uuid_text task) of
             Inl _ \<Rightarrow> retry_task retries
           | Inr (receipt, _) \<Rightarrow>
               Task_status (if receipt \<noteq> None then ''delivery_recorded'' else ''delivery_unavailable''))
      | _ \<Rightarrow> Task_status ''delivery_rejected'')"

subsection \<open>Scan\<close>

datatype task_message = Deliver_event string string | Scan_pending string

definition delivery_message :: "DeliveryCandidate \<Rightarrow> task_message" where
  "delivery_message c = Deliver_event (uuid_text (dc_event_id c)) (uuid_text (dc_project_id c))"

record scan_result =
  sr_selected :: nat
  sr_published :: "task_message list"
  sr_continuation :: "uuid option"

text \<open>One page; the broker may refuse a delivery or the continuation, and the rest is still published.\<close>

definition scan_pending ::
    "OutboxDelivery \<Rightarrow> (task_message \<Rightarrow> bool) \<Rightarrow> outbox_db \<times> instant \<Rightarrow> uuid option \<Rightarrow> scan_result" where
  "scan_pending cfg accepts view cursor =
     (let page = candidates (hr_keys (od_registry cfg)) (fst view) (snd view) cursor 100
      in \<lparr> sr_selected = length (cp_items page),
           sr_published = filter accepts (map delivery_message (cp_items page)),
           sr_continuation = (case cp_next_after page of None \<Rightarrow> None
             | Some k \<Rightarrow> if accepts (Scan_pending (uuid_text k)) then Some k else None) \<rparr>)"

lemma candidates_items [simp]:
  "cp_items (candidates keys db now cursor limit) = map candidate_of (take limit (due_events keys db now cursor))"
  by (simp add: candidates_def Let_def take_map min_def)

lemma candidates_next:
  assumes "1 \<le> limit"
  shows "cp_next_after (candidates keys db now cursor limit) =
     (let due = due_events keys db now cursor in if limit < length due then Some (ev_event_id (due ! (limit - 1))) else None)"
proof -
  define due where "due = due_events keys db now cursor"
  have "dc_event_id (last (map candidate_of (take limit due))) = ev_event_id (due ! (limit - 1))" if "limit < length due"
  proof -
    have "map candidate_of (take limit due) \<noteq> []" using that assms by (cases due) auto
    then show ?thesis using that assms by (simp add: last_conv_nth candidate_of_def)
  qed
  then show ?thesis by (auto simp: candidates_def Let_def due_def[symmetric] min_def)
qed

lemma due_events_set:
  "set (due_events keys db now cursor) = {e \<in> set (ob_events db). is_candidate keys now e \<and> past_cursor cursor e}"
  by (auto simp: due_events_def)

lemma due_events_sorted:
  assumes "distinct (row_keys ev_event_id (ob_events db))"
  shows "sorted_wrt (<) (map ev_event_id (due_events keys db now cursor))"
proof -
  have "distinct (map ev_event_id (filter P (ob_events db)))" for P
    using assms by (simp add: row_keys_def distinct_map_filter)
  moreover have "distinct (map ev_event_id (sort_key ev_event_id xs)) \<longleftrightarrow> distinct (map ev_event_id xs)"
    for xs :: "OutboxEvent list" by (rule mset_eq_imp_distinct_iff) simp
  ultimately have "distinct (map ev_event_id (due_events keys db now cursor))" by (simp add: due_events_def)
  then show ?thesis by (simp add: due_events_def strict_sorted_iff)
qed

lemma page_next:
  assumes "cp_next_after (candidates keys db now cursor limit) = Some k" "1 \<le> limit"
  shows "\<exists>e \<in> set (take limit (due_events keys db now cursor)). k = ev_event_id e \<and> past_cursor cursor e"
proof -
  let ?due = "due_events keys db now cursor"
  have len: "limit < length ?due" and k: "k = ev_event_id (?due ! (limit - 1))"
    using assms by (auto simp: candidates_next Let_def split: if_splits)
  have "take limit ?due ! (limit - 1) \<in> set (take limit ?due)" using len assms(2) by (intro nth_mem) simp
  then have mem: "?due ! (limit - 1) \<in> set (take limit ?due)" using len assms(2) by simp
  then have "?due ! (limit - 1) \<in> set ?due" by (rule in_set_takeD)
  then show ?thesis using mem k by (auto simp: due_events_set)
qed

text \<open>The chain of scans that one periodic scan starts: page \<open>n\<close> reads the snapshot \<open>view n\<close>.\<close>

function scan_chain ::
    "OutboxDelivery \<Rightarrow> (task_message \<Rightarrow> bool) \<Rightarrow> (nat \<Rightarrow> outbox_db \<times> instant) \<Rightarrow> nat \<Rightarrow> uuid option \<Rightarrow> task_message list" where
  "scan_chain cfg accepts view n cursor =
     (let r = scan_pending cfg accepts (view n) cursor in
      sr_published r @
      (case sr_continuation r of None \<Rightarrow> [] | Some k \<Rightarrow> scan_chain cfg accepts view (Suc n) (Some k)))"
  by pat_completeness auto

text \<open>Every continuation moves the cursor forward, whatever the snapshots hold.\<close>

definition cursor_room :: "uuid option \<Rightarrow> nat" where
  "cursor_room cursor = (case cursor of None \<Rightarrow> 2 ^ 128 + 1 | Some k \<Rightarrow> 2 ^ 128 - unat k)"

lemma continuation_advances:
  assumes "sr_continuation (scan_pending cfg accepts view cursor) = Some k"
  shows "cursor_room (Some k) < cursor_room cursor"
proof -
  have "cp_next_after (candidates (hr_keys (od_registry cfg)) (fst view) (snd view) cursor 100) = Some k"
    using assms by (auto simp: scan_pending_def Let_def split: option.splits if_splits)
  from page_next[OF this] obtain e where "k = ev_event_id e" "past_cursor cursor e" by auto
  moreover have "unat k < 2 ^ 128" using unsigned_less[of k] by simp
  ultimately show ?thesis
    by (cases cursor) (auto simp: cursor_room_def past_cursor_def word_less_nat_alt)
qed

termination scan_chain
  by (relation "measure (\<lambda>(_, _, _, _, cursor). cursor_room cursor)") (auto simp: continuation_advances)

declare scan_chain.simps [simp del]

subsection \<open>Round trip of identifiers\<close>

lemma hex_digit_value: "hex_value_char (hex_digit n) = n mod 16"
proof -
  have "map hex_value_char ''0123456789abcdef'' = [0..<16]"
    by (simp add: hex_value_char_def is_digit_char_def in_range_def upt_conv_Cons)
  moreover have "hex_value_char (hex_digit n) = map hex_value_char ''0123456789abcdef'' ! (n mod 16)"
    unfolding hex_digit_def by (rule nth_map[symmetric]) simp
  ultimately show ?thesis by (simp add: nth_upt)
qed

lemma hex_digit_no_dash: "hex_digit n \<noteq> CHR ''-''"
proof -
  have "hex_digit n \<in> set ''0123456789abcdef''" unfolding hex_digit_def by (rule nth_mem) simp
  then show ?thesis by auto
qed

lemma hex_text_no_dash: "CHR ''-'' \<notin> set (hex_text n v)"
  by (induction n arbitrary: v) (auto simp: hex_digit_no_dash[symmetric])

lemma hex_value_text: "hex_value (hex_text n v) = v mod 16 ^ n"
proof (induction n arbitrary: v)
  case (Suc n)
  have "hex_value (hex_text (Suc n) v) = (v div 16 mod 16 ^ n) * 16 + v mod 16"
    using Suc by (simp add: hex_value_def hex_digit_value)
  also have "\<dots> = v mod 16 ^ Suc n" by (simp add: mod_mult2_eq mult.commute)
  finally show ?case .
qed (simp add: hex_value_def)

lemma uuid_text_undash: "filter (\<lambda>c. c \<noteq> CHR ''-'') (uuid_text u) = hex_text 32 (unat u)"
proof -
  define h where "h = hex_text 32 (unat u)"
  have keep: "filter (\<lambda>c. c \<noteq> CHR ''-'') xs = xs" if "set xs \<subseteq> set h" for xs
    using that hex_text_no_dash[of 32 "unat u"] by (auto simp: h_def filter_id_conv)
  have parts: "set (take i (drop j h)) \<subseteq> set h" "set (take i h) \<subseteq> set h" "set (drop j h) \<subseteq> set h" for i j
    by (meson in_set_takeD in_set_dropD subsetI)+
  have join: "take i (drop j h) @ drop k h = drop j h" if "k = i + j" for i j k
    using append_take_drop_id[of i "drop j h"] by (simp add: that)
  have "take 8 h @ take 4 (drop 8 h) @ take 4 (drop 12 h) @ take 4 (drop 16 h) @ drop 20 h = h"
    by (simp only: join[of 20 4 16, simplified] join[of 16 4 12, simplified] join[of 12 4 8, simplified] append_take_drop_id)
  then show ?thesis
    by (simp add: uuid_text_def h_def[symmetric] Let_def keep parts)
qed

lemma transport_roundtrip: "transport_uuid (uuid_text u) = Some u"
proof -
  have "unat u < 16 ^ 32" using unsigned_less[of u] by simp
  then have "hex_value (hex_text 32 (unat u)) = unat u" unfolding hex_value_text by (rule mod_less)
  then have "word_of_nat (hex_value (hex_text 32 (unat u))) = u" by (simp only: word_unat_eq_iff) simp
  then show ?thesis unfolding transport_uuid_def uuid_text_undash Let_def by simp
qed

lemma uuid_text_inj: "uuid_text u = uuid_text v \<Longrightarrow> u = v"
  by (metis option.inject transport_roundtrip)

subsection \<open>What a chain of scans publishes\<close>

lemma delivery_message_inj: "delivery_message c = delivery_message d \<Longrightarrow> dc_event_id c = dc_event_id d"
  using uuid_text_inj by (auto simp: delivery_message_def)

lemma sorted_wrt_less_append:
  assumes "sorted_wrt (<) xs" "sorted_wrt (<) ys" "\<And>x. x \<in> set xs \<Longrightarrow> x \<le> k" "\<And>y. y \<in> set ys \<Longrightarrow> k < y"
  shows "sorted_wrt (<) (xs @ ys :: uuid list)"
  using assms by (auto simp: sorted_wrt_append intro: le_less_trans)

text \<open>The identifiers of a page ascend from the cursor to the continuation.\<close>

lemma page_ids:
  assumes keys: "distinct (row_keys ev_event_id (ob_events db))"
    and next_k: "cp_next_after (candidates ks db now cursor limit) = Some k" "1 \<le> limit"
    and e: "e \<in> set (take limit (due_events ks db now cursor))"
  shows "ev_event_id e \<le> k"
proof -
  let ?due = "due_events ks db now cursor"
  have len: "limit < length ?due" and k: "k = ev_event_id (?due ! (limit - 1))"
    using next_k by (auto simp: candidates_next Let_def split: if_splits)
  obtain i where i: "i < limit" "e = ?due ! i" using e len by (auto simp: in_set_conv_nth)
  have "sorted (map ev_event_id ?due)" by (simp add: due_events_def)
  then have "map ev_event_id ?due ! i \<le> map ev_event_id ?due ! (limit - 1)"
    by (rule sorted_nth_mono) (use i len in auto)
  then show ?thesis using i len by (simp add: k)
qed

lemma scan_chain_ascends:
  assumes "\<And>n. distinct (row_keys ev_event_id (ob_events (fst (view n))))"
  shows "\<exists>cs. scan_chain cfg accepts view n cursor = map delivery_message cs \<and>
     sorted_wrt (<) (map dc_event_id cs) \<and> (\<forall>c \<in> set cs. case cursor of None \<Rightarrow> True | Some j \<Rightarrow> j < dc_event_id c)"
  using assms
proof (induction cfg accepts view n cursor rule: scan_chain.induct)
  case (1 cfg accepts view n cursor)
  let ?ks = "hr_keys (od_registry cfg)" and ?db = "fst (view n)" and ?now = "snd (view n)"
  let ?page = "candidates ?ks ?db ?now cursor 100" and ?r = "scan_pending cfg accepts (view n) cursor"
  let ?es = "take 100 (due_events ?ks ?db ?now cursor)"
  define cs where "cs = filter (\<lambda>c. accepts (delivery_message c)) (map candidate_of ?es)"
  have pub: "sr_published ?r = map delivery_message cs"
    by (simp add: scan_pending_def Let_def cs_def filter_map comp_def)
  have ids: "map dc_event_id (map candidate_of ?es) = map ev_event_id ?es" by (simp add: candidate_of_def)
  have "sorted_wrt (<) (map ev_event_id ?es)"
    using due_events_sorted[of ?db ?ks ?now cursor, OF "1.prems"] by (simp add: take_map[symmetric] sorted_wrt_take)
  then have asc: "sorted_wrt (<) (map dc_event_id cs)"
    unfolding cs_def using ids by (metis (no_types, lifting) sorted_wrt_map sorted_wrt_filter)
  have past: "\<forall>c \<in> set cs. case cursor of None \<Rightarrow> True | Some j \<Rightarrow> j < dc_event_id c"
    using due_events_set[of ?ks ?db ?now cursor]
    by (auto simp: cs_def candidate_of_def past_cursor_def dest!: in_set_takeD split: option.splits)
  show ?case
  proof (cases "sr_continuation ?r")
    case None
    then show ?thesis using pub asc past by (subst scan_chain.simps) (auto simp: Let_def)
  next
    case (Some k)
    obtain ds where ds: "scan_chain cfg accepts view (Suc n) (Some k) = map delivery_message ds"
        "sorted_wrt (<) (map dc_event_id ds)" "\<forall>c \<in> set ds. k < dc_event_id c"
      using "1.IH"[OF refl Some "1.prems"] by auto
    have next_k: "cp_next_after ?page = Some k"
      using Some by (auto simp: scan_pending_def Let_def split: option.splits if_splits)
    have below: "\<forall>c \<in> set cs. dc_event_id c \<le> k"
      using page_ids[OF "1.prems" next_k] by (auto simp: cs_def candidate_of_def)
    have "sorted_wrt (<) (map dc_event_id (cs @ ds))"
      unfolding map_append by (rule sorted_wrt_less_append[OF asc ds(2), of k]) (use below ds(3) in auto)
    moreover have "\<forall>c \<in> set ds. case cursor of None \<Rightarrow> True | Some j \<Rightarrow> j < dc_event_id c"
      using ds(3) page_next[OF next_k] by (auto simp: past_cursor_def split: option.splits intro: less_trans)
    moreover have "scan_chain cfg accepts view n cursor = map delivery_message (cs @ ds)"
      using Some ds(1) pub by (subst scan_chain.simps) (simp add: Let_def)
    ultimately show ?thesis using past by (intro exI[of _ "cs @ ds"]) auto
  qed
qed

lemma scan_chain_covers:
  assumes "\<And>n. distinct (row_keys ev_event_id (ob_events (fst (view n))))"
    and "\<And>n. \<exists>e \<in> set (ob_events (fst (view n))). candidate_of e = c \<and> is_candidate (hr_keys (od_registry cfg)) (snd (view n)) e"
    and "accepts (delivery_message c)" "\<And>t. accepts (Scan_pending t)"
    and "case cursor of None \<Rightarrow> True | Some j \<Rightarrow> j < dc_event_id c"
  shows "delivery_message c \<in> set (scan_chain cfg accepts view n cursor)"
  using assms
proof (induction cfg accepts view n cursor rule: scan_chain.induct)
  case (1 cfg accepts view n cursor)
  let ?ks = "hr_keys (od_registry cfg)" and ?db = "fst (view n)" and ?now = "snd (view n)"
  let ?due = "due_events ?ks ?db ?now cursor" and ?r = "scan_pending cfg accepts (view n) cursor"
  obtain e where e: "e \<in> set (ob_events ?db)" "candidate_of e = c" "is_candidate ?ks ?now e"
    using "1.prems"(2) by blast
  have id: "ev_event_id e = dc_event_id c" using e(2) by (auto simp: candidate_of_def)
  then have "e \<in> set ?due" using e "1.prems"(5) by (auto simp: due_events_set past_cursor_def split: option.splits)
  then obtain i where i: "i < length ?due" "?due ! i = e" by (auto simp: in_set_conv_nth)
  show ?case
  proof (cases "i < 100")
    case True
    then have "e \<in> set (take 100 ?due)" using i by (auto simp: in_set_conv_nth intro!: exI[of _ i])
    then have "delivery_message c \<in> set (sr_published ?r)"
      using e(2) "1.prems"(3) by (auto simp: scan_pending_def Let_def)
    then show ?thesis by (subst scan_chain.simps) (simp add: Let_def)
  next
    case False
    have next_k: "sr_continuation ?r = Some (ev_event_id (?due ! 99))"
      using False i(1) "1.prems"(4) by (simp add: scan_pending_def candidates_next Let_def)
    have "map ev_event_id ?due ! 99 < map ev_event_id ?due ! i"
      using sorted_wrt_nth_less[OF due_events_sorted[OF "1.prems"(1)], of 99 i] False i(1) by simp
    then have "ev_event_id (?due ! 99) < dc_event_id c" using False i id by simp
    then have "delivery_message c \<in> set (scan_chain cfg accepts view (Suc n) (Some (ev_event_id (?due ! 99))))"
      using "1.IH"[OF refl next_k "1.prems"(1-4)] by simp
    then show ?thesis using next_k by (subst scan_chain.simps) (simp add: Let_def)
  qed
qed

text \<open>
  C22. A periodic scan ends and misses nothing. The chain of scans that one periodic scan starts always
  ends, whatever is written between its pages; it publishes no delivery twice; and an event that is due
  in every snapshot the chain reads, and whose message the broker accepts, is published, as long as
  the broker accepts the continuations. Each page reads its own reachable snapshot.
\<close>

theorem scan_publishes_each_due_event_once:
  assumes reach: "\<forall>n. (outbox_step sha cfg)\<^sup>*\<^sup>* empty_outbox (fst (view n))"
    and due: "\<forall>n. \<exists>e \<in> set (ob_events (fst (view n))). candidate_of e = c \<and>
       is_candidate (hr_keys (od_registry cfg)) (snd (view n)) e"
    and broker: "accepts (delivery_message c)" "\<forall>t. accepts (Scan_pending t)"
  shows "distinct (scan_chain cfg accepts view 0 None) \<and> delivery_message c \<in> set (scan_chain cfg accepts view 0 None)"
proof -
  have keys: "distinct (row_keys ev_event_id (ob_events (fst (view n))))" for n
    using outbox_ok_parts(1)[OF custody.reachable_ok] reach by blast
  obtain cs where cs: "scan_chain cfg accepts view 0 None = map delivery_message cs" "sorted_wrt (<) (map dc_event_id cs)"
    using scan_chain_ascends[of view cfg accepts 0 None, OF keys] by blast
  have "distinct (map dc_event_id cs)" using cs(2) unfolding strict_sorted_iff ..
  then have "distinct (map delivery_message cs)"
    unfolding distinct_map inj_on_def using delivery_message_inj by metis
  moreover have "delivery_message c \<in> set (scan_chain cfg accepts view 0 None)"
    using scan_chain_covers[of view c cfg accepts None 0, OF keys] due broker by simp
  ultimately show ?thesis using cs(1) by simp
qed

theorem scan_publishes_each_due_event_once_witness:
  "delivery_message (candidate_of ob_event0) \<in> set (scan_chain production_outbox (\<lambda>_. True) (\<lambda>_. (ob_db1, 5)) 0 None)"
  using scan_publishes_each_due_event_once[of ob_sha_const production_outbox "\<lambda>_. (ob_db1, 5)" "candidate_of ob_event0" "\<lambda>_. True"]
    ob_reach(1) by (simp add: ob_db1_def is_candidate_def open_state_def production_outbox_def production_keys_def)

text \<open>
  Identifiers survive the transport. The text in which a delivery or a continuation carries an
  identifier is accepted by \<open>_uuid\<close> and read back as the same identifier, and no other text is read as it.
\<close>

lemma transport_uuid_exact: "transport_uuid t = Some u \<longleftrightarrow> t = uuid_text u"
  using transport_roundtrip[of u] by (auto simp: transport_uuid_def Let_def split: if_splits)

end
