(* ===== verification/Archive_Zip.thy ===== *)
theory Archive_Zip
  imports Prelude
begin

text \<open>
  The outer structure of a ZIP file, over its bytes: the bounded search for the end of central directory
  of \<open>core/zip_safety.py\<close> and the local records that
  \<open>modules/artifacts/submission_archive.py\<close> compares with the central directory. A file is the list
  of its bytes; \<open>seek\<close> past the end and \<open>read\<close> of too few bytes give the shorter list, as a buffered
  reader does, and a seek beyond the range of file offsets raises \<open>ValueError\<close>. The exceptions that the
  readers and their callers distinguish are the constructors of \<open>py_error\<close>.
\<close>

type_synonym bytes = "8 word list"

subsection \<open>Fields\<close>

definition le_nat :: "bytes \<Rightarrow> nat" where
  "le_nat bs = foldr (\<lambda>b n. unat b + 256 * n) bs 0"

text \<open>One little-endian field of \<open>struct.unpack_from\<close>, of the given width at the given offset.\<close>

definition le_field :: "bytes \<Rightarrow> nat \<Rightarrow> nat \<Rightarrow> nat" where
  "le_field bs offset width = le_nat (take width (drop offset bs))"

text \<open>\<open>source.seek(offset)\<close> followed by \<open>source.read(n)\<close>\<close>

definition read_at :: "bytes \<Rightarrow> nat \<Rightarrow> nat \<Rightarrow> bytes" where
  "read_at source offset n = take n (drop offset source)"

definition seekable :: "nat \<Rightarrow> bool" where
  "seekable offset \<longleftrightarrow> offset < 2 ^ 63"

text \<open>\<open>bytes.rfind\<close>\<close>

fun rfind :: "bytes \<Rightarrow> bytes \<Rightarrow> nat option" where
  "rfind pat [] = (if pat = [] then Some 0 else None)"
| "rfind pat (b # bs) =
     (case rfind pat bs of Some i \<Rightarrow> Some (Suc i)
      | None \<Rightarrow> if take (length pat) (b # bs) = pat then Some 0 else None)"

definition EOCD :: bytes where "EOCD = [0x50, 0x4B, 5, 6]"
definition ZIP64_LOCATOR :: bytes where "ZIP64_LOCATOR = [0x50, 0x4B, 6, 7]"
definition ZIP64_EOCD :: bytes where "ZIP64_EOCD = [0x50, 0x4B, 6, 6]"
definition LOCAL_HEADER :: bytes where "LOCAL_HEADER = [0x50, 0x4B, 3, 4]"
definition DATA_DESCRIPTOR :: bytes where "DATA_DESCRIPTOR = [0x50, 0x4B, 7, 8]"

subsection \<open>End of central directory\<close>

datatype py_error =
    is_BadZipFile: BadZipFile string | ValueError | OSError | RuntimeError | EOFError | ZlibError | StructError

record ZipDirectoryLayout =
  entry_count :: nat
  directory_bytes :: nat
  directory_offset :: nat
  end_record_offset :: nat

text \<open>The branch for archives whose classic record defers to the ZIP64 record.\<close>

definition zip64_layout :: "bytes \<Rightarrow> nat \<Rightarrow> py_error + ZipDirectoryLayout" where
  "zip64_layout source absolute_marker =
     (if absolute_marker < 20 then Inl (BadZipFile ''missing zip64 locator'') else
      let locator = read_at source (absolute_marker - 20) 20 in
      if length locator \<noteq> 20 \<or> take 4 locator \<noteq> ZIP64_LOCATOR then Inl (BadZipFile ''missing zip64 locator'') else
      let locator_disk = le_field locator 4 4; record_offset = le_field locator 8 8; disk_count = le_field locator 16 4 in
      if locator_disk \<noteq> 0 \<or> disk_count \<noteq> 1 then Inl (BadZipFile ''multi-disk archive'') else
      if \<not> seekable record_offset then Inl ValueError else
      let rec = read_at source record_offset 56 in
      if length rec < 56 \<or> take 4 rec \<noteq> ZIP64_EOCD then Inl (BadZipFile ''missing zip64 end record'') else
      let record_disk = le_field rec 16 4; directory_record_disk = le_field rec 20 4;
          disk_entries64 = le_field rec 24 8; entries64 = le_field rec 32 8;
          directory_bytes64 = le_field rec 40 8; directory_offset64 = le_field rec 48 8 in
      if record_disk \<noteq> 0 \<or> directory_record_disk \<noteq> 0 \<or> disk_entries64 \<noteq> entries64
      then Inl (BadZipFile ''multi-disk archive'') else
      if directory_offset64 + directory_bytes64 \<noteq> record_offset
      then Inl (BadZipFile ''central directory offset disagreement'') else
      Inr \<lparr> entry_count = entries64, directory_bytes = directory_bytes64,
            directory_offset = directory_offset64, end_record_offset = record_offset \<rparr>)"

definition zip_directory_layout :: "bytes \<Rightarrow> bool \<Rightarrow> py_error + ZipDirectoryLayout" where
  "zip_directory_layout source allow_zip64 =
     (let size = length source; base = size - 65557; tail = read_at source base 65557 in
      case rfind EOCD tail of
        None \<Rightarrow> Inl (BadZipFile ''missing end of central directory'')
      | Some marker \<Rightarrow>
        if length tail - marker < 22 then Inl (BadZipFile ''missing end of central directory'') else
        let absolute_marker = base + marker; comment_bytes = le_field tail (marker + 20) 2 in
        if marker + 22 + comment_bytes \<noteq> length tail then Inl (BadZipFile ''trailing archive content'') else
        let disk = le_field tail (marker + 4) 2; directory_disk = le_field tail (marker + 6) 2;
            entries = le_field tail (marker + 10) 2; directory_size = le_field tail (marker + 12) 4;
            directory_start = le_field tail (marker + 16) 4 in
        if disk \<noteq> 0 \<or> directory_disk \<noteq> 0 then Inl (BadZipFile ''multi-disk archive'') else
        if entries \<noteq> 0xFFFF \<and> directory_size \<noteq> 0xFFFFFFFF then
          if directory_start + directory_size \<noteq> absolute_marker
          then Inl (BadZipFile ''central directory offset disagreement'')
          else Inr \<lparr> entry_count = entries, directory_bytes = directory_size,
                     directory_offset = directory_start, end_record_offset = absolute_marker \<rparr>
        else if \<not> allow_zip64 then Inl (BadZipFile ''zip64 archive is unsupported'')
        else zip64_layout source absolute_marker)"

definition zip_directory_facts :: "bytes \<Rightarrow> bool \<Rightarrow> py_error + (nat \<times> nat)" where
  "zip_directory_facts source allow_zip64 =
     andthen (zip_directory_layout source allow_zip64) (\<lambda>layout. Inr (entry_count layout, directory_bytes layout))"

subsection \<open>What the layout says\<close>

lemma rfind_None: "rfind pat bs = None \<Longrightarrow> i \<le> length bs \<Longrightarrow> take (length pat) (drop i bs) \<noteq> pat"
proof (induction bs arbitrary: i)
  case (Cons b bs)
  then show ?case by (cases i) (auto split: option.splits if_splits)
qed (auto split: if_splits)

lemma rfind_Some_at: "rfind pat bs = Some i \<Longrightarrow> i \<le> length bs \<and> take (length pat) (drop i bs) = pat"
proof (induction bs arbitrary: i)
  case (Cons b bs)
  then show ?case by (cases i) (auto split: option.splits if_splits)
qed (auto split: if_splits)

lemma rfind_Some_last:
  "rfind pat bs = Some i \<Longrightarrow> i < j \<Longrightarrow> j \<le> length bs \<Longrightarrow> take (length pat) (drop j bs) \<noteq> pat"
proof (induction bs arbitrary: i j)
  case (Cons b bs)
  obtain k where j: "j = Suc k" using Cons.prems(2) by (cases j) auto
  show ?case
  proof (cases "rfind pat bs")
    case None
    then show ?thesis using rfind_None[OF None, of k] Cons.prems(3) j by simp
  next
    case (Some m)
    then show ?thesis using Cons.IH[OF Some, of k] Cons.prems j by simp
  qed
qed (auto split: if_splits)

lemma le_field_read_at: "offset + width \<le> n \<Longrightarrow> le_field (read_at bs base n) offset width = le_field bs (base + offset) width"
  by (simp add: le_field_def read_at_def drop_take min_def add.commute)

lemma take_read_at: "k \<le> n \<Longrightarrow> take k (read_at bs base n) = read_at bs base k"
  by (simp add: read_at_def min_def)

lemma length_read_at: "length (read_at bs base n) = min n (length bs - base)"
  by (simp add: read_at_def min.commute)

lemma le_nat_bound: "le_nat bs < 256 ^ length bs"
proof (induction bs)
  case (Cons b bs)
  have "unat b < 256" using unsigned_less[of b] by simp
  moreover have "le_nat bs + 1 \<le> 256 ^ length bs" using Cons.IH by simp
  ultimately show ?case using mult_le_mono2[of "le_nat bs + 1" "256 ^ length bs" 256] by (simp add: le_nat_def)
qed (simp add: le_nat_def)

lemma le_field_bound: "le_field bs offset width < 256 ^ width"
proof -
  have "length (take width (drop offset bs)) \<le> width" by simp
  then have "(256::nat) ^ length (take width (drop offset bs)) \<le> 256 ^ width" by (rule power_increasing) simp
  then show ?thesis using le_nat_bound[of "take width (drop offset bs)"] unfolding le_field_def by linarith
qed

lemma zip64_layout_envelope:
  assumes "zip64_layout source m = Inr layout"
  shows "directory_offset layout + directory_bytes layout = end_record_offset layout"
    "end_record_offset layout + 56 \<le> length source"
    "read_at source (end_record_offset layout) 4 = ZIP64_EOCD"
    "entry_count layout = le_field source (end_record_offset layout + 32) 8"
proof -
  obtain r where r: "56 \<le> length source - r" "read_at source r 4 = ZIP64_EOCD"
      "le_field source (r + 48) 8 + le_field source (r + 40) 8 = r"
      "layout = \<lparr> entry_count = le_field source (r + 32) 8, directory_bytes = le_field source (r + 40) 8,
                 directory_offset = le_field source (r + 48) 8, end_record_offset = r \<rparr>"
    using assms unfolding zip64_layout_def outcome_inv
    by (simp add: le_field_read_at take_read_at length_read_at not_less) metis
  then show "directory_offset layout + directory_bytes layout = end_record_offset layout"
    "end_record_offset layout + 56 \<le> length source"
    "read_at source (end_record_offset layout) 4 = ZIP64_EOCD"
    "entry_count layout = le_field source (end_record_offset layout + 32) 8"
    by simp_all
qed

lemma zip_directory_layout_envelope:
  assumes "zip_directory_layout source allow = Inr layout"
  shows "directory_offset layout + directory_bytes layout = end_record_offset layout"
    "end_record_offset layout + 22 \<le> length source"
    "read_at source (end_record_offset layout) 4 \<in> {EOCD, ZIP64_EOCD}"
    "\<not> allow \<Longrightarrow> read_at source (end_record_offset layout) 4 = EOCD"
proof -
  obtain marker where marker: "rfind EOCD (read_at source (length source - 65557) 65557) = Some marker"
      "22 \<le> length (read_at source (length source - 65557) 65557) - marker"
    using assms by (auto simp: zip_directory_layout_def Let_def split: option.splits if_splits)
  define base where "base = length source - 65557"
  have tail: "length (read_at source base 65557) = length source - base"
    by (simp add: length_read_at base_def)
  have inside: "base + marker + 22 \<le> length source" using marker(2) tail unfolding base_def by simp
  have found: "read_at source (base + marker) 4 = EOCD"
  proof -
    have "take (length EOCD) (drop marker (read_at source base 65557)) = EOCD"
      using rfind_Some_at[OF marker(1)] unfolding base_def by blast
    moreover have "length EOCD = 4" by (simp add: EOCD_def)
    ultimately show ?thesis using inside by (simp add: read_at_def drop_take min_def add.commute base_def split: if_splits)
  qed
  have "(\<exists>n. layout = \<lparr> entry_count = n, directory_bytes = le_field (read_at source base 65557) (marker + 12) 4,
          directory_offset = le_field (read_at source base 65557) (marker + 16) 4, end_record_offset = base + marker \<rparr>
        \<and> directory_offset layout + directory_bytes layout = base + marker)
      \<or> allow \<and> zip64_layout source (base + marker) = Inr layout"
    using assms marker unfolding base_def zip_directory_layout_def Let_def by (auto split: if_splits)
  then show "directory_offset layout + directory_bytes layout = end_record_offset layout"
    "end_record_offset layout + 22 \<le> length source"
    "read_at source (end_record_offset layout) 4 \<in> {EOCD, ZIP64_EOCD}"
    "\<not> allow \<Longrightarrow> read_at source (end_record_offset layout) 4 = EOCD"
    using zip64_layout_envelope[of source "base + marker" layout] inside found by auto
qed

end
