(* ===== verification/Archive_Contracts.thy ===== *)
theory Archive_Contracts
  imports Complex_Main Archive_Zip Texts
begin

text \<open>
  The structural contract of a contributor archive, \<open>modules/artifacts/api/submission_archive.py\<close>, with the
  path rules and the inventory rules of \<open>modules/artifacts/submission_archive.py\<close>. A Python string is the list of its
  code points; Unicode normalization and case folding come with the tables of the runtime and are arguments.
\<close>

datatype SubmissionArchiveFailureCode =
    MALFORMED | LIMIT_EXCEEDED | UNSAFE_ENTRY | COLLISION | ENCRYPTED | INTEGRITY_FAILURE | TIMEOUT

text \<open>
  \<open>Rejected\<close> is \<open>SubmissionArchiveRejectedError\<close>, \<open>Raised\<close> any other exception. \<open>Unfinished\<close> is no exception of the
  code: it marks a decompression loop that is still running when its iteration budget is used up.
\<close>

datatype archive_error = Rejected SubmissionArchiveFailureCode | Raised py_error | Unfinished

datatype SubmissionArchiveEntryType = FILE | DIRECTORY

record SubmissionArchiveEntry =
  normalized_path :: ustring
  entry_type :: SubmissionArchiveEntryType
  byte_count :: nat
  entry_sha256 :: "string option"
  executable :: "bool option"

record SubmissionArchiveInspectionResult =
  result_entries :: "SubmissionArchiveEntry list"
  result_entry_count :: nat
  result_file_count :: nat
  result_directory_count :: nat
  total_expanded_bytes :: nat

record SubmissionArchiveLimits =
  maximum_entries :: int
  maximum_path_bytes :: int
  maximum_path_depth :: int
  maximum_central_directory_bytes :: int
  maximum_entry_bytes :: int
  maximum_expanded_bytes :: int
  maximum_compression_ratio :: int
  maximum_inspection_seconds :: rat

definition limits_valid :: "SubmissionArchiveLimits \<Rightarrow> bool" where
  "limits_valid l \<longleftrightarrow>
     list_all (\<lambda>v. 0 < v) [maximum_entries l, maximum_path_bytes l, maximum_path_depth l,
       maximum_central_directory_bytes l, maximum_entry_bytes l, maximum_expanded_bytes l,
       maximum_compression_ratio l] \<and>
     maximum_entries l \<le> 100000 \<and> maximum_path_depth l \<le> 256 \<and>
     maximum_expanded_bytes l \<le> 512 * 1024 * 1024 \<and>
     maximum_entry_bytes l \<le> maximum_expanded_bytes l \<and>
     0 < maximum_inspection_seconds l"

definition default_limits :: SubmissionArchiveLimits where
  "default_limits = \<lparr> maximum_entries = 2000, maximum_path_bytes = 1024, maximum_path_depth = 32,
     maximum_central_directory_bytes = 8 * 1024 * 1024, maximum_entry_bytes = 128 * 1024 * 1024,
     maximum_expanded_bytes = 512 * 1024 * 1024, maximum_compression_ratio = 100,
     maximum_inspection_seconds = 300 \<rparr>"

lemma default_limits_valid: "limits_valid default_limits"
  by (simp add: limits_valid_def default_limits_def)

subsection \<open>Paths\<close>

text \<open>The length of \<open>path.encode("utf-8")\<close>; a lone surrogate raises \<open>UnicodeEncodeError\<close>, a \<open>ValueError\<close>.\<close>

definition code_point_bytes :: "nat \<Rightarrow> nat" where
  "code_point_bytes c = (if c < 128 then 1 else if c < 2048 then 2 else if c < 65536 then 3 else 4)"

definition encoded_length :: "ustring \<Rightarrow> archive_error + nat" where
  "encoded_length s =
     (if list_ex (\<lambda>c. 55296 \<le> c \<and> c \<le> 57343) s then Inl (Raised ValueError)
      else Inr (sum_list (map code_point_bytes s)))"

abbreviation (input) "slash \<equiv> (47::nat)"
abbreviation (input) "dot \<equiv> (46::nat)"

definition safe_part :: "ustring \<Rightarrow> bool" where
  "safe_part part \<longleftrightarrow> part \<notin> {[], [dot], [dot, dot]} \<and> last part \<notin> {32, dot}"

definition normalize_submission_archive_path ::
  "(ustring \<Rightarrow> ustring) \<Rightarrow> ustring \<Rightarrow> int \<Rightarrow> int \<Rightarrow> archive_error + ustring" where
  "normalize_submission_archive_path nfc path path_bytes path_depth =
     (let parts = split_text slash path; normalized = nfc path in
      if path = [] \<or> 92 \<in> set path \<or> hd path = slash
         \<or> list_ex (\<lambda>c. c < 32 \<or> c = 127) path
         \<or> list_ex (\<lambda>part. \<not> safe_part part) parts
         \<or> 58 \<in> set (hd parts) \<or> int (length parts) > path_depth
      then Inl (Rejected UNSAFE_ENTRY)
      else andthen (encoded_length path) (\<lambda>m. andthen (encoded_length normalized) (\<lambda>n.
        if int (max m n) > path_bytes then Inl (Rejected UNSAFE_ENTRY) else Inr normalized)))"

subsection \<open>Inventories\<close>

definition folded_path :: "(ustring \<Rightarrow> ustring) \<Rightarrow> (ustring \<Rightarrow> ustring) \<Rightarrow> ustring \<Rightarrow> ustring" where
  "folded_path nfc casefold path = casefold (nfc path)"

text \<open>The paths \<open>"/".join(parts[:depth])\<close> for \<open>depth\<close> from 1 below the number of parts.\<close>

definition ancestors :: "ustring list \<Rightarrow> ustring list" where
  "ancestors parts = map (\<lambda>depth. join_text slash (take depth parts)) [1..<length parts]"

definition inventory_kinds :: "SubmissionArchiveEntry list \<Rightarrow> ustring \<Rightarrow> SubmissionArchiveEntryType option" where
  "inventory_kinds entries = map_of (rev (map (\<lambda>e. (normalized_path e, entry_type e)) entries))"

fun inventory_loop ::
  "(ustring \<Rightarrow> ustring) \<Rightarrow> (ustring \<Rightarrow> SubmissionArchiveEntryType option) \<Rightarrow> ustring list
    \<Rightarrow> SubmissionArchiveEntry list \<Rightarrow> archive_error + unit" where
  "inventory_loop fold_path kinds folded_paths [] = Inr ()"
| "inventory_loop fold_path kinds folded_paths (entry # rest) =
     (let folded = fold_path (normalized_path entry) in
      if folded \<in> set folded_paths then Inl (Rejected COLLISION) else
      if list_ex (\<lambda>ancestor. kinds ancestor \<noteq> Some DIRECTORY) (ancestors (split_text slash (normalized_path entry)))
      then Inl (Rejected COLLISION)
      else inventory_loop fold_path kinds (folded # folded_paths) rest)"

definition validate_submission_archive_inventory ::
  "(ustring \<Rightarrow> ustring) \<Rightarrow> (ustring \<Rightarrow> ustring) \<Rightarrow> SubmissionArchiveEntry list \<Rightarrow> archive_error + unit" where
  "validate_submission_archive_inventory nfc casefold entries =
     inventory_loop (folded_path nfc casefold) (inventory_kinds entries) [] entries"

subsection \<open>What an accepted path and an accepted inventory are\<close>

lemma normalized_path_cases:
  assumes "normalize_submission_archive_path nfc path path_bytes path_depth = Inr normalized"
  shows "normalized = nfc path" "path \<noteq> []" "92 \<notin> set path"
    "\<And>c. c \<in> set path \<Longrightarrow> 32 \<le> c \<and> c \<noteq> 127"
    "\<And>part. part \<in> set (split_text slash path) \<Longrightarrow> safe_part part"
    "58 \<notin> set (hd (split_text slash path))"
    "int (length (split_text slash path)) \<le> path_depth"
    "int (sum_list (map code_point_bytes normalized)) \<le> path_bytes"
  using assms unfolding normalize_submission_archive_path_def Let_def outcome_inv
  by (auto simp: encoded_length_def list_ex_iff split: if_splits)

lemma inventory_loop_iff:
  "inventory_loop f kinds seen entries = Inr u \<longleftrightarrow>
     distinct (map (f \<circ> normalized_path) entries) \<and>
     (\<forall>e \<in> set entries. f (normalized_path e) \<notin> set seen \<and>
        (\<forall>a \<in> set (ancestors (split_text slash (normalized_path e))). kinds a = Some DIRECTORY))"
  by (induction entries arbitrary: seen) (auto simp: Let_def list_ex_iff, metis imageI)

lemma distinct_paths:
  assumes "distinct (map (f \<circ> normalized_path) entries)"
  shows "distinct (map normalized_path entries)"
  using assms by (simp add: distinct_map comp_inj_on_iff) (metis inj_on_imageI2)

lemma inventory_kinds_iff:
  assumes "distinct (map normalized_path entries)"
  shows "inventory_kinds entries p = Some k \<longleftrightarrow> (\<exists>e \<in> set entries. normalized_path e = p \<and> entry_type e = k)"
proof -
  have "distinct (map fst (rev (map (\<lambda>e. (normalized_path e, entry_type e)) entries)))"
    using assms by (simp add: rev_map[symmetric] comp_def)
  then show ?thesis unfolding inventory_kinds_def by (auto simp: map_of_eq_Some_iff image_iff)
qed

lemma inventory_accepted_iff:
  "validate_submission_archive_inventory nfc casefold entries = Inr u \<longleftrightarrow>
     distinct (map (\<lambda>e. folded_path nfc casefold (normalized_path e)) entries) \<and>
     (\<forall>e \<in> set entries. \<forall>a \<in> set (ancestors (split_text slash (normalized_path e))).
        \<exists>d \<in> set entries. normalized_path d = a \<and> entry_type d = DIRECTORY)"
  unfolding validate_submission_archive_inventory_def inventory_loop_iff
  using inventory_kinds_iff[OF distinct_paths[of "folded_path nfc casefold" entries]]
  by (auto simp: comp_def)

lemma inventory_failure:
  "validate_submission_archive_inventory nfc casefold entries = Inl x \<Longrightarrow> x = Rejected COLLISION"
proof -
  have "inventory_loop f kinds seen es = Inl x \<Longrightarrow> x = Rejected COLLISION" for f kinds seen es
    by (induction es arbitrary: seen) (auto simp: Let_def split: if_splits)
  then show "validate_submission_archive_inventory nfc casefold entries = Inl x \<Longrightarrow> x = Rejected COLLISION"
    by (simp add: validate_submission_archive_inventory_def)
qed

end
