(* ===== verification/Archive_Records.thy ===== *)
theory Archive_Records
  imports Archive_Contracts "HOL-Library.Multiset"
begin

unbundle bit_operations_syntax

text \<open>
  The local records of a submission archive: \<open>_validate_local_record\<close> and \<open>_validate_record_coverage\<close> of
  \<open>modules/artifacts/submission_archive.py\<close>, and that accepted records tile the file up to the central
  directory. \<open>ZipInfo\<close> has the members of \<open>zipfile.ZipInfo\<close> the inspector reads; the decoding of entry names
  is an argument that gives \<open>None\<close> where \<open>bytes.decode\<close> raises.
\<close>

record ZipInfo =
  filename :: ustring
  orig_filename :: ustring
  header_offset :: int
  flag_bits :: nat
  compress_type :: nat
  CRC :: nat
  compress_size :: nat
  file_size :: nat
  external_attr :: nat
  create_system :: nat

text \<open>\<open>source.seek(offset)\<close>: a negative offset raises \<open>OSError\<close>, one beyond the offset type \<open>ValueError\<close>.\<close>

definition seek_to :: "int \<Rightarrow> archive_error + nat" where
  "seek_to offset =
     (if offset < 0 then Inl (Raised OSError)
      else if \<not> seekable (nat offset) then Inl (Raised ValueError) else Inr (nat offset))"

text \<open>\<open>except (...): self._reject(code)\<close> around a block; a rejection passes through unchanged.\<close>

definition reject_on :: "(py_error \<Rightarrow> bool) \<Rightarrow> SubmissionArchiveFailureCode \<Rightarrow> archive_error + 'a \<Rightarrow> archive_error + 'a" where
  "reject_on caught code m =
     (case m of Inl (Raised e) \<Rightarrow> if caught e then Inl (Rejected code) else Inl (Raised e) | _ \<Rightarrow> m)"

abbreviation "integrity_failure \<equiv> Inl (Rejected INTEGRITY_FAILURE)"

definition wide_record :: "ZipInfo \<Rightarrow> bool" where
  "wide_record info \<longleftrightarrow> file_size info > 0xFFFFFFFF \<or> compress_size info > 0xFFFFFFFF"

text \<open>The trailing data descriptor, present when bit 3 of the flags is set.\<close>

definition data_descriptor_end :: "bytes \<Rightarrow> ZipInfo \<Rightarrow> nat \<Rightarrow> archive_error + nat" where
  "data_descriptor_end source info payload_end =
     andthen (seek_to (int payload_end)) (\<lambda>position.
      let descriptor = read_at source position 24;
          offset = (if take 4 descriptor = DATA_DESCRIPTOR then 4 else 0) in
      if length descriptor < offset + 12 then integrity_failure else
      if wide_record info \<and> length descriptor < offset + 20 then integrity_failure else
      let descriptor_crc = le_field descriptor offset 4; w = (if wide_record info then 8 else 4);
          descriptor_compressed = le_field descriptor (offset + 4) w;
          descriptor_expanded = le_field descriptor (offset + 4 + w) w in
      if descriptor_crc \<noteq> CRC info \<or> descriptor_compressed \<noteq> compress_size info
         \<or> descriptor_expanded \<noteq> file_size info then integrity_failure
      else Inr (payload_end + offset + (if wide_record info then 20 else 12)))"

definition validate_local_record ::
  "(bool \<Rightarrow> bytes \<Rightarrow> ustring option) \<Rightarrow> bytes \<Rightarrow> ZipInfo \<Rightarrow> archive_error + nat" where
  "validate_local_record decode source info =
     reject_on (\<lambda>e. e \<in> {OSError, StructError}) INTEGRITY_FAILURE (andthen (seek_to (header_offset info)) (\<lambda>start.
      let header = read_at source start 30 in
      if length header \<noteq> 30 \<or> take 4 header \<noteq> LOCAL_HEADER then integrity_failure else
      let flags = le_field header 6 2; compression = le_field header 8 2;
          crc = le_field header 14 4; compressed = le_field header 18 4; expanded = le_field header 22 4;
          name_bytes = le_field header 26 2; extra_bytes = le_field header 28 2 in
      if flags \<noteq> flag_bits info \<or> compression \<noteq> compress_type info then integrity_failure else
      let local_name_bytes = read_at source (start + 30) name_bytes in
      if length local_name_bytes \<noteq> name_bytes then integrity_failure else
      need (decode (bit flags 11) local_name_bytes) (Rejected INTEGRITY_FAILURE) (\<lambda>local_name.
      if local_name \<noteq> orig_filename info then integrity_failure else
      let payload_end = start + 30 + name_bytes + extra_bytes + compress_size info in
      if bit flags 3 then data_descriptor_end source info payload_end else
      if crc \<noteq> CRC info \<or> compressed \<notin> {compress_size info, 0xFFFFFFFF}
         \<or> expanded \<notin> {file_size info, 0xFFFFFFFF} then integrity_failure
      else Inr payload_end)))"

fun record_coverage ::
  "(bool \<Rightarrow> bytes \<Rightarrow> ustring option) \<Rightarrow> bytes \<Rightarrow> nat \<Rightarrow> nat \<Rightarrow> ZipInfo list \<Rightarrow> archive_error + unit" where
  "record_coverage decode source directory expected_offset [] =
     (if expected_offset \<noteq> directory then integrity_failure else Inr ())"
| "record_coverage decode source directory expected_offset (info # infos) =
     (if header_offset info \<noteq> int expected_offset then integrity_failure else
      andthen (validate_local_record decode source info)
        (\<lambda>expected_offset. record_coverage decode source directory expected_offset infos))"

definition validate_record_coverage ::
  "(bool \<Rightarrow> bytes \<Rightarrow> ustring option) \<Rightarrow> bytes \<Rightarrow> ZipInfo list \<Rightarrow> nat \<Rightarrow> archive_error + unit" where
  "validate_record_coverage decode source infos directory =
     record_coverage decode source directory 0 (sort_key header_offset infos)"

subsection \<open>Accepted records\<close>

lemma reject_on_Inr [outcome_inv]: "reject_on caught code m = Inr x \<longleftrightarrow> m = Inr x"
  by (auto simp: reject_on_def split: sum.splits archive_error.splits)

lemma seek_to_Inr [outcome_inv]: "seek_to offset = Inr p \<longleftrightarrow> offset = int p \<and> seekable p"
  by (auto simp: seek_to_def)

text \<open>The offset of the compressed payload of a record, as the local header gives it.\<close>

definition payload_start :: "bytes \<Rightarrow> nat \<Rightarrow> nat" where
  "payload_start source start =
     start + 30 + le_field (read_at source start 30) 26 2 + le_field (read_at source start 30) 28 2"

lemma validate_local_record_span:
  assumes "validate_local_record decode source info = Inr stop"
  shows "header_offset info = int (nat (header_offset info))"
    "payload_start source (nat (header_offset info)) + compress_size info \<le> stop"
    "nat (header_offset info) + 30 \<le> stop"
    "read_at source (nat (header_offset info)) 4 = LOCAL_HEADER"
proof -
  obtain start where start: "header_offset info = int start" "take 4 (read_at source start 30) = LOCAL_HEADER"
      "payload_start source start + compress_size info \<le> stop"
    using assms
    unfolding validate_local_record_def outcome_inv data_descriptor_end_def payload_start_def
    by (auto simp: outcome_inv Let_def split: if_splits)
  then show "header_offset info = int (nat (header_offset info))"
    "payload_start source (nat (header_offset info)) + compress_size info \<le> stop"
    "nat (header_offset info) + 30 \<le> stop"
    "read_at source (nat (header_offset info)) 4 = LOCAL_HEADER"
    by (simp_all add: take_read_at payload_start_def)
qed

subsection \<open>Tiling\<close>

text \<open>The byte at offset \<open>i\<close> belongs to the accepted local record of \<open>info\<close>.\<close>

definition record_covers :: "(bool \<Rightarrow> bytes \<Rightarrow> ustring option) \<Rightarrow> bytes \<Rightarrow> nat \<Rightarrow> ZipInfo \<Rightarrow> bool" where
  "record_covers decode source i info \<longleftrightarrow> header_offset info \<le> int i \<and>
     (case validate_local_record decode source info of Inr stop \<Rightarrow> i < stop | Inl _ \<Rightarrow> False)"

lemma record_coverage_tiles:
  assumes "record_coverage decode source directory offset infos = Inr u"
  shows "offset \<le> directory"
    "length (filter (record_covers decode source i) infos) = (if offset \<le> i \<and> i < directory then 1 else 0)"
    "sum_list (map (\<lambda>info. 30 + compress_size info) infos) + offset \<le> directory"
    "\<And>info. info \<in> set infos \<Longrightarrow> \<exists>stop. validate_local_record decode source info = Inr stop \<and> stop \<le> directory"
proof -
  have "offset \<le> directory
      \<and> length (filter (record_covers decode source i) infos) = (if offset \<le> i \<and> i < directory then 1 else 0)
      \<and> sum_list (map (\<lambda>info. 30 + compress_size info) infos) + offset \<le> directory
      \<and> (\<forall>info \<in> set infos. \<exists>stop. validate_local_record decode source info = Inr stop \<and> stop \<le> directory)"
    using assms
  proof (induction infos arbitrary: offset)
    case (Cons info infos)
    then obtain stop where stop: "header_offset info = int offset" "validate_local_record decode source info = Inr stop"
        "record_coverage decode source directory stop infos = Inr u"
      by (auto simp: outcome_inv)
    have "offset + 30 \<le> stop" "offset + 30 + compress_size info \<le> stop"
      using validate_local_record_span[OF stop(2)] stop(1) by (auto simp: payload_start_def)
    then show ?case using Cons.IH[OF stop(3)] stop(1,2) by (auto simp: record_covers_def)
  qed (auto simp: outcome_inv)
  then show "offset \<le> directory"
    "length (filter (record_covers decode source i) infos) = (if offset \<le> i \<and> i < directory then 1 else 0)"
    "sum_list (map (\<lambda>info. 30 + compress_size info) infos) + offset \<le> directory"
    "\<And>info. info \<in> set infos \<Longrightarrow> \<exists>stop. validate_local_record decode source info = Inr stop \<and> stop \<le> directory"
    by blast+
qed

lemma validate_record_coverage_tiles:
  assumes "validate_record_coverage decode source infos directory = Inr u"
  shows "length (filter (record_covers decode source i) infos) = (if i < directory then 1 else 0)"
    "sum_list (map (\<lambda>info. 30 + compress_size info) infos) \<le> directory"
    "\<And>info. info \<in> set infos \<Longrightarrow> \<exists>stop. validate_local_record decode source info = Inr stop \<and> stop \<le> directory"
proof -
  note tiles = record_coverage_tiles[OF assms[unfolded validate_record_coverage_def]]
  have perm: "mset (sort_key header_offset infos) = mset infos" by simp
  have "length (filter P (sort_key header_offset infos)) = length (filter P infos)" for P
    by (metis mset_filter size_mset perm)
  then show "length (filter (record_covers decode source i) infos) = (if i < directory then 1 else 0)"
    using tiles(2)[of i] by simp
  have "sum_list (map f (sort_key header_offset infos)) = (sum_list (map f infos) :: nat)" for f
    by (metis mset_map perm sum_mset_sum_list)
  then show "sum_list (map (\<lambda>info. 30 + compress_size info) infos) \<le> directory"
    using tiles(3) by simp
  show "\<And>info. info \<in> set infos \<Longrightarrow> \<exists>stop. validate_local_record decode source info = Inr stop \<and> stop \<le> directory"
    using tiles(4) by simp
qed

end
