(* ===== verification/Archive_Inspect.thy ===== *)
theory Archive_Inspect
  imports Archive_Records "HOL-Library.AList" "HOL-Library.List_Lexorder"
begin

text \<open>
  \<open>SubmissionArchiveInspector\<close> of \<open>modules/artifacts/submission_archive.py\<close>: the member reads, the loop over
  the entries and \<open>inspect\<close>. The record \<open>archive_env\<close> holds what the inspector takes from the runtime: the
  inventory and the member reader of \<open>zipfile\<close>, a \<open>zlib\<close> decompressor (its state type is \<open>'z\<close>), the Unicode
  functions, SHA-256 and the monotonic clock, whose n-th reading is \<open>clock env n\<close>. A function that reads the
  clock takes the number of readings made before and returns the number made after.
\<close>

datatype member_read = Chunk bytes | Raises py_error

record 'z archive_env =
  infolist :: "bytes \<Rightarrow> py_error + ZipInfo list"
  member_reads :: "bytes \<Rightarrow> ZipInfo \<Rightarrow> member_read list"
  decompressobj :: 'z
  decompress :: "'z \<Rightarrow> bytes \<Rightarrow> int \<Rightarrow> py_error + ('z \<times> bytes)"
  flush :: "'z \<Rightarrow> py_error + ('z \<times> bytes)"
  at_eof :: "'z \<Rightarrow> bool"
  unused_data :: "'z \<Rightarrow> bytes"
  unconsumed_tail :: "'z \<Rightarrow> bytes"
  decode :: "bool \<Rightarrow> bytes \<Rightarrow> ustring option"
  nfc :: "ustring \<Rightarrow> ustring"
  casefold :: "ustring \<Rightarrow> ustring"
  sha256_hex :: "bytes \<Rightarrow> string"
  clock :: "nat \<Rightarrow> rat"

definition READ_BYTES :: nat where "READ_BYTES = 1024 * 1024"

definition raised :: "py_error + 'a \<Rightarrow> archive_error + 'a" where
  "raised m = (case m of Inl e \<Rightarrow> Inl (Raised e) | Inr x \<Rightarrow> Inr x)"

definition check_deadline :: "'z archive_env \<Rightarrow> SubmissionArchiveLimits \<Rightarrow> rat \<Rightarrow> nat \<Rightarrow> archive_error + nat" where
  "check_deadline env limits started tick =
     (if clock env tick - started > maximum_inspection_seconds limits then Inl (Rejected TIMEOUT) else Inr (Suc tick))"

subsection \<open>Compressed streams\<close>

text \<open>
  The loop \<open>while pending\<close>. Every turn that leaves a tail has produced at least one byte, and the loop rejects when
  the output passes the maximum, so the remaining output plus one bounds the number of turns.
\<close>

primrec inflate_pending ::
  "nat \<Rightarrow> 'z archive_env \<Rightarrow> int \<Rightarrow> 'z \<Rightarrow> bytes \<Rightarrow> nat \<Rightarrow> archive_error + ('z \<times> nat)" where
  "inflate_pending 0 env maximum_output z pending actual = (if pending = [] then Inr (z, actual) else Inl Unfinished)"
| "inflate_pending (Suc n) env maximum_output z pending actual =
     (if pending = [] then Inr (z, actual) else
      andthen (raised (decompress env z pending (min (int READ_BYTES) (maximum_output - int actual + 1)))) (\<lambda>(z, output).
      let actual = actual + length output in
      if int actual > maximum_output then Inl (Rejected LIMIT_EXCEEDED)
      else inflate_pending n env maximum_output z (unconsumed_tail env z) actual))"

function inflate_stream ::
  "'z archive_env \<Rightarrow> SubmissionArchiveLimits \<Rightarrow> bytes \<Rightarrow> rat \<Rightarrow> int \<Rightarrow> nat \<Rightarrow> nat \<Rightarrow> 'z \<Rightarrow> nat \<Rightarrow> nat
    \<Rightarrow> archive_error + ('z \<times> nat \<times> nat)" where
  "inflate_stream env limits source started maximum_output position remaining z actual tick =
     (if remaining = 0 then Inr (z, actual, tick) else
      andthen (check_deadline env limits started tick) (\<lambda>tick.
      let chunk = read_at source position (min READ_BYTES remaining) in
      if chunk = [] then integrity_failure else
      andthen (inflate_pending (nat (maximum_output - int actual) + 1) env maximum_output z chunk actual) (\<lambda>(z, actual).
      inflate_stream env limits source started maximum_output
        (position + length chunk) (remaining - length chunk) z actual tick)))"
  by pat_completeness auto
termination
  by (relation "measure (\<lambda>(env, limits, source, started, m, position, remaining, z, actual, tick). remaining)")
    (auto simp: length_greater_0_conv)

declare inflate_stream.simps [simp del]

abbreviation (input) "ZIP_STORED \<equiv> (0::nat)"
abbreviation (input) "ZIP_DEFLATED \<equiv> (8::nat)"

definition validate_compressed_stream ::
  "'z archive_env \<Rightarrow> SubmissionArchiveLimits \<Rightarrow> bytes \<Rightarrow> rat \<Rightarrow> ZipInfo \<Rightarrow> int \<Rightarrow> nat \<Rightarrow> archive_error + nat" where
  "validate_compressed_stream env limits source started info maximum_output tick =
     (if compress_type info = ZIP_STORED then
        if compress_size info \<noteq> file_size info then integrity_failure else Inr tick
      else if compress_type info \<noteq> ZIP_DEFLATED then Inl (Rejected MALFORMED) else
      reject_on (\<lambda>e. e \<in> {OSError, StructError, ZlibError}) INTEGRITY_FAILURE
        (andthen (seek_to (header_offset info)) (\<lambda>start.
         let header = read_at source start 30 in
         if length header < 30 then Inl (Raised StructError) else
         let position = start + 30 + (le_field header 26 2 + le_field header 28 2) in
         andthen (inflate_stream env limits source started maximum_output position (compress_size info)
             (decompressobj env) 0 tick) (\<lambda>(z, actual, tick).
         andthen (raised (flush env z)) (\<lambda>(z, flushed).
         if \<not> at_eof env z \<or> unused_data env z \<noteq> [] \<or> unconsumed_tail env z \<noteq> []
            \<or> actual + length flushed \<noteq> file_size info
         then integrity_failure else Inr tick)))))"

subsection \<open>Members\<close>

fun member_loop ::
  "'z archive_env \<Rightarrow> SubmissionArchiveLimits \<Rightarrow> rat \<Rightarrow> int \<Rightarrow> bytes \<Rightarrow> nat \<Rightarrow> member_read list
    \<Rightarrow> archive_error + (bytes \<times> nat)" where
  "member_loop env limits started maximum_output content tick [] = Inr (content, tick)"
| "member_loop env limits started maximum_output content tick (Raises e # reads) = Inl (Raised e)"
| "member_loop env limits started maximum_output content tick (Chunk chunk # reads) =
     (if chunk = [] then Inr (content, tick) else
      andthen (check_deadline env limits started tick) (\<lambda>tick.
      if int (length (content @ chunk)) > maximum_output then Inl (Rejected LIMIT_EXCEEDED)
      else member_loop env limits started maximum_output (content @ chunk) tick reads))"

definition read_member ::
  "'z archive_env \<Rightarrow> SubmissionArchiveLimits \<Rightarrow> bytes \<Rightarrow> rat \<Rightarrow> ZipInfo \<Rightarrow> int \<Rightarrow> nat
    \<Rightarrow> archive_error + (nat \<times> string \<times> nat)" where
  "read_member env limits source started info remaining_expanded_bytes tick =
     (let maximum_output = min (maximum_entry_bytes limits) remaining_expanded_bytes in
      if int (file_size info) > maximum_output then Inl (Rejected LIMIT_EXCEEDED) else
      if file_size info \<noteq> 0 \<and> (compress_size info = 0 \<or>
           int (file_size info) > int (compress_size info) * maximum_compression_ratio limits)
      then Inl (Rejected LIMIT_EXCEEDED) else
      andthen (validate_compressed_stream env limits source started info maximum_output tick) (\<lambda>tick.
      andthen (reject_on (\<lambda>e. e \<in> {EOFError, OSError, RuntimeError} \<or> is_BadZipFile e) INTEGRITY_FAILURE
          (member_loop env limits started maximum_output [] tick (member_reads env source info))) (\<lambda>(content, tick).
      if length content \<noteq> file_size info then integrity_failure
      else Inr (length content, ''sha256:'' @ sha256_hex env content, tick))))"

definition normalized_executable :: "ZipInfo \<Rightarrow> bool" where
  "normalized_executable info \<longleftrightarrow>
     (if create_system info \<noteq> 3 then False else drop_bit 16 (external_attr info) AND 73 \<noteq> 0)"

definition is_dir :: "ZipInfo \<Rightarrow> bool" where
  "is_dir info \<longleftrightarrow> filename info \<noteq> [] \<and> last (filename info) = slash"

abbreviation (input) "S_IFREG \<equiv> (32768::nat)"
abbreviation (input) "S_IFDIR \<equiv> (16384::nat)"

definition validated_path ::
  "'z archive_env \<Rightarrow> SubmissionArchiveLimits \<Rightarrow> ZipInfo \<Rightarrow> archive_error + (ustring \<times> SubmissionArchiveEntryType)" where
  "validated_path env limits info =
     (let is_directory = is_dir info in
      if is_directory \<and> (file_size info \<noteq> 0 \<or> compress_size info \<noteq> 0) then Inl (Rejected UNSAFE_ENTRY) else
      let path = (if is_directory then butlast (filename info) else filename info) in
      andthen (normalize_submission_archive_path (nfc env) path (maximum_path_bytes limits) (maximum_path_depth limits)) (\<lambda>path.
      let kind = drop_bit 16 (external_attr info) AND 61440 in
      if kind \<notin> {0, S_IFREG, S_IFDIR} then Inl (Rejected UNSAFE_ENTRY) else
      if (kind = S_IFDIR) \<noteq> is_directory \<and> kind \<noteq> 0 then Inl (Rejected UNSAFE_ENTRY) else
      if bit (flag_bits info) 0 then Inl (Rejected ENCRYPTED)
      else Inr (path, if is_directory then DIRECTORY else FILE)))"

subsection \<open>Entries\<close>

text \<open>\<open>PurePosixPath(path).parts\<close>: the root when there is one, then the components other than empty ones and dots.\<close>

definition posix_parts :: "ustring \<Rightarrow> ustring list" where
  "posix_parts path =
     (if take 2 path = [slash, slash] \<and> take 3 path \<noteq> [slash, slash, slash] then [[slash, slash]]
      else if take 1 path = [slash] then [[slash]] else [])
     @ filter (\<lambda>part. part \<notin> {[], [dot]}) (split_text slash path)"

abbreviation fold_of :: "'z archive_env \<Rightarrow> ustring \<Rightarrow> ustring" where
  "fold_of env \<equiv> folded_path (nfc env) (casefold env)"

definition directory_entry :: "ustring \<Rightarrow> SubmissionArchiveEntry" where
  "directory_entry path = \<lparr> normalized_path = path, entry_type = DIRECTORY, byte_count = 0,
     entry_sha256 = None, executable = None \<rparr>"

text \<open>
  The loop variables of \<open>_read_entries\<close>; \<open>paths\<close> is the insertion-ordered dictionary, \<open>ticks\<close> the number of
  clock readings.
\<close>

record read_state =
  results :: "SubmissionArchiveEntry list"
  paths :: "(ustring \<times> SubmissionArchiveEntryType) list"
  source_paths :: "ustring list"
  total :: nat
  ticks :: nat

text \<open>The loop \<open>for index in range(1, len(parts))\<close> that adds the directories an entry implies.\<close>

fun implicit_directories ::
  "(ustring \<Rightarrow> ustring) \<Rightarrow> int \<Rightarrow> ustring list \<Rightarrow> read_state \<Rightarrow> archive_error + read_state" where
  "implicit_directories fold_path max_entries [] st = Inr st"
| "implicit_directories fold_path max_entries (implicit_path # rest) st =
     (let ancestor = fold_path implicit_path in
      if map_of (paths st) ancestor = Some FILE then Inl (Rejected COLLISION) else
      if map_of (paths st) ancestor = None then
        let st = st\<lparr> paths := paths st @ [(ancestor, DIRECTORY)], results := results st @ [directory_entry implicit_path] \<rparr> in
        if int (length (paths st)) > max_entries then Inl (Rejected LIMIT_EXCEEDED)
        else implicit_directories fold_path max_entries rest st
      else implicit_directories fold_path max_entries rest st)"

definition starts_with :: "ustring \<Rightarrow> ustring \<Rightarrow> bool" where
  "starts_with prefix s \<longleftrightarrow> take (length prefix) s = prefix"

text \<open>The end of the loop body: the member is read and the entry appended.\<close>

definition append_entry ::
  "'z archive_env \<Rightarrow> SubmissionArchiveLimits \<Rightarrow> bytes \<Rightarrow> rat \<Rightarrow> ZipInfo \<Rightarrow> ustring \<Rightarrow> SubmissionArchiveEntryType
    \<Rightarrow> read_state \<Rightarrow> archive_error + read_state" where
  "append_entry env limits source started info path etype st =
     (if etype = DIRECTORY \<and> list_ex (\<lambda>e. normalized_path e = path) (results st) then Inr st else
      andthen (if etype = FILE
          then andthen (read_member env limits source started info
              (maximum_expanded_bytes limits - int (total st)) (ticks st))
            (\<lambda>(actual, digest, tick). Inr (actual, Some digest, tick))
          else Inr (0, None, ticks st)) (\<lambda>(actual, digest, tick).
      if int (total st + actual) > maximum_expanded_bytes limits then Inl (Rejected LIMIT_EXCEEDED) else
      Inr (st\<lparr> total := total st + actual, ticks := tick,
        results := results st @ [\<lparr> normalized_path = path, entry_type = etype, byte_count = actual, entry_sha256 = digest,
          executable = (if digest \<noteq> None then Some (normalized_executable info) else None) \<rparr>] \<rparr>)))"

definition read_entry ::
  "'z archive_env \<Rightarrow> SubmissionArchiveLimits \<Rightarrow> bytes \<Rightarrow> rat \<Rightarrow> ZipInfo \<Rightarrow> read_state \<Rightarrow> archive_error + read_state" where
  "read_entry env limits source started info st =
     andthen (check_deadline env limits started (ticks st)) (\<lambda>tick.
     andthen (validated_path env limits info) (\<lambda>(path, etype).
     let folded = fold_of env path in
     if folded \<in> set (source_paths st) \<or> map_of (paths st) folded \<noteq> None \<and> etype = FILE
     then Inl (Rejected COLLISION) else
     andthen (implicit_directories (fold_of env) (maximum_entries limits) (ancestors (posix_parts path))
         (st\<lparr> ticks := tick \<rparr>)) (\<lambda>st.
     if etype = FILE \<and> list_ex (\<lambda>(existing, _). starts_with (folded @ [slash]) existing) (paths st)
     then Inl (Rejected COLLISION) else
     append_entry env limits source started info path etype
       (st\<lparr> paths := AList.update folded etype (paths st), source_paths := folded # source_paths st \<rparr>))))"

primrec read_entries ::
  "'z archive_env \<Rightarrow> SubmissionArchiveLimits \<Rightarrow> bytes \<Rightarrow> rat \<Rightarrow> ZipInfo list \<Rightarrow> read_state \<Rightarrow> archive_error + read_state" where
  "read_entries env limits source started [] st = Inr st"
| "read_entries env limits source started (info # infos) st =
     andthen (read_entry env limits source started info st) (read_entries env limits source started infos)"

subsection \<open>Inspection\<close>

definition initial_read :: read_state where
  "initial_read = \<lparr> results = [], paths = [], source_paths = [], total = 0, ticks = 1 \<rparr>"

text \<open>The body of the \<open>try\<close> block of \<open>inspect\<close>.\<close>

definition inspected_entries ::
  "'z archive_env \<Rightarrow> SubmissionArchiveLimits \<Rightarrow> bytes \<Rightarrow> archive_error + SubmissionArchiveEntry list" where
  "inspected_entries env limits source =
     (if read_at source 0 4 \<notin> {LOCAL_HEADER, EOCD, ZIP64_EOCD} then Inl (Rejected MALFORMED) else
      andthen (raised (zip_directory_layout source True)) (\<lambda>layout.
      if int (entry_count layout) > maximum_entries limits
         \<or> int (directory_bytes layout) > maximum_central_directory_bytes limits
      then Inl (Rejected LIMIT_EXCEEDED) else
      andthen (raised (infolist env source)) (\<lambda>infos.
      if length infos \<noteq> entry_count layout then Inl (Rejected MALFORMED) else
      andthen (validate_record_coverage (decode env) source infos (directory_offset layout)) (\<lambda>_.
      andthen (read_entries env limits source (clock env 0) infos initial_read) (\<lambda>st.
      andthen (validate_submission_archive_inventory (nfc env) (casefold env) (results st)) (\<lambda>_.
      Inr (results st)))))))"

definition result_of :: "SubmissionArchiveEntry list \<Rightarrow> SubmissionArchiveInspectionResult" where
  "result_of entries =
     (let files = length (filter (\<lambda>e. entry_type e = FILE) entries) in
      \<lparr> result_entries = sort_key normalized_path entries, result_entry_count = length entries,
        result_file_count = files, result_directory_count = length entries - files,
        total_expanded_bytes = sum_list (map byte_count entries) \<rparr>)"

definition inspect ::
  "'z archive_env \<Rightarrow> SubmissionArchiveLimits \<Rightarrow> bytes \<Rightarrow> archive_error + SubmissionArchiveInspectionResult" where
  "inspect env limits source =
     andthen (reject_on (\<lambda>e. e \<in> {OSError, ValueError, RuntimeError} \<or> is_BadZipFile e) MALFORMED
         (inspected_entries env limits source)) (\<lambda>entries. Inr (result_of entries))"

subsection \<open>Checks before an export\<close>

fun exported_entries_ok ::
  "(ustring \<Rightarrow> ustring) \<Rightarrow> SubmissionArchiveLimits \<Rightarrow> SubmissionArchiveEntry list \<Rightarrow> archive_error + unit" where
  "exported_entries_ok to_nfc limits [] = Inr ()"
| "exported_entries_ok to_nfc limits (entry # rest) =
     andthen (normalize_submission_archive_path to_nfc (normalized_path entry) (maximum_path_bytes limits)
         (maximum_path_depth limits)) (\<lambda>path.
     if path \<noteq> normalized_path entry \<or> int (byte_count entry) > maximum_entry_bytes limits then integrity_failure
     else exported_entries_ok to_nfc limits rest)"

definition export_guard ::
  "(ustring \<Rightarrow> ustring) \<Rightarrow> (ustring \<Rightarrow> ustring) \<Rightarrow> SubmissionArchiveLimits \<Rightarrow> SubmissionArchiveInspectionResult
    \<Rightarrow> archive_error + unit" where
  "export_guard to_nfc fold_case limits expected =
     andthen (validate_submission_archive_inventory to_nfc fold_case (result_entries expected)) (\<lambda>_.
     andthen (exported_entries_ok to_nfc limits (result_entries expected)) (\<lambda>_.
     if int (result_entry_count expected) > maximum_entries limits
        \<or> int (total_expanded_bytes expected) > maximum_expanded_bytes limits
     then Inl (Rejected LIMIT_EXCEEDED) else Inr ()))"

end
