(* ===== verification/Archive_Safety.thy ===== *)
theory Archive_Safety
  imports Archive_Inspect
begin

text \<open>
  What the inspector guarantees about the archives it accepts: the effect of one turn of the entry loop, the
  invariant the whole loop keeps, and what is known of the file and of the result when \<open>inspect\<close> returns.
\<close>

subsection \<open>One entry\<close>

lemma raised_Inr [outcome_inv]: "raised m = Inr x \<longleftrightarrow> m = Inr x"
  by (auto simp: raised_def split: sum.splits)

lemma check_deadline_Inr [outcome_inv]:
  "check_deadline env limits started tick = Inr n \<longleftrightarrow>
     clock env tick - started \<le> maximum_inspection_seconds limits \<and> n = Suc tick"
  by (auto simp: check_deadline_def)

lemma read_member_bounds:
  assumes "read_member env limits source started info remaining tick = Inr (actual, digest, tick')"
  shows "actual = file_size info" "int actual \<le> maximum_entry_bytes limits" "int actual \<le> remaining"
    "actual = 0 \<or> int actual \<le> int (compress_size info) * maximum_compression_ratio limits"
  using assms unfolding read_member_def Let_def outcome_inv by (auto simp: not_less)

definition entry_within :: "SubmissionArchiveLimits \<Rightarrow> ZipInfo \<Rightarrow> SubmissionArchiveEntry \<Rightarrow> bool" where
  "entry_within limits info e \<longleftrightarrow>
     int (byte_count e) \<le> maximum_entry_bytes limits \<and>
     int (byte_count e) \<le> int (compress_size info) * maximum_compression_ratio limits"

lemma append_entry_effect:
  assumes "append_entry env limits source started info path etype st = Inr st'" "limits_valid limits"
  shows "results st' = results st \<and> total st' = total st \<or>
    (\<exists>e. results st' = results st @ [e] \<and> normalized_path e = path \<and> entry_type e = etype
       \<and> total st' = total st + byte_count e \<and> int (total st') \<le> maximum_expanded_bytes limits
       \<and> entry_within limits info e)"
  using assms read_member_bounds[of env limits source started info "maximum_expanded_bytes limits - int (total st)" "ticks st"]
  unfolding append_entry_def limits_valid_def
  by (auto simp: outcome_inv entry_within_def split: if_splits)

lemma implicit_directories_effect:
  assumes "implicit_directories f m as st = Inr st'"
  shows "\<exists>ds. set ds \<subseteq> set as \<and> results st' = results st @ map directory_entry ds \<and> total st' = total st"
  using assms
proof (induction f m as st rule: implicit_directories.induct)
  case (1 f m st)
  then show ?case by (auto intro: exI[of _ "[]"])
next
  case (2 f m a as st)
  show ?case
  proof (cases "map_of (paths st) (f a) = None")
    case True
    define st1 where "st1 = st\<lparr> paths := paths st @ [(f a, DIRECTORY)], results := results st @ [directory_entry a] \<rparr>"
    have "implicit_directories f m as st1 = Inr st'" "\<not> int (length (paths st1)) > m"
      using 2(3) True unfolding st1_def by (auto simp: Let_def split: if_splits)
    then obtain ds where "set ds \<subseteq> set as" "results st' = results st1 @ map directory_entry ds" "total st' = total st1"
      using 2(1)[OF refl _ True refl, folded st1_def] True by auto
    then show ?thesis unfolding st1_def by (intro exI[of _ "a # ds"]) auto
  next
    case False
    then show ?thesis using 2(2)[OF refl _ False] 2(3) by (auto simp: Let_def split: if_splits)
  qed
qed

lemma read_entry_effect:
  assumes "read_entry env limits source started info st = Inr st'" "limits_valid limits"
  obtains path etype ds es where "validated_path env limits info = Inr (path, etype)"
    "set ds \<subseteq> set (ancestors (posix_parts path))" "results st' = results st @ map directory_entry ds @ es"
    "es = [] \<and> total st' = total st \<or>
     (\<exists>e. es = [e] \<and> normalized_path e = path \<and> entry_type e = etype
       \<and> total st' = total st + byte_count e \<and> int (total st') \<le> maximum_expanded_bytes limits
       \<and> entry_within limits info e)"
proof -
  obtain path etype mid tick where p: "validated_path env limits info = Inr (path, etype)"
    and mid: "implicit_directories (fold_of env) (maximum_entries limits) (ancestors (posix_parts path))
        (st\<lparr> ticks := tick \<rparr>) = Inr mid"
    and app: "append_entry env limits source started info path etype
        (mid\<lparr> paths := AList.update (fold_of env path) etype (paths mid), source_paths := fold_of env path # source_paths mid \<rparr>)
        = Inr st'"
    using assms(1) unfolding read_entry_def outcome_inv by (auto simp: Let_def outcome_inv split: if_splits)
  obtain ds where ds: "set ds \<subseteq> set (ancestors (posix_parts path))"
      "results mid = results st @ map directory_entry ds" "total mid = total st"
    using implicit_directories_effect[OF mid] by auto
  show ?thesis
    using append_entry_effect[OF app assms(2)] ds that[OF p ds(1)] by fastforce
qed

subsection \<open>The loop\<close>

text \<open>A path that comes from an accepted entry name: the normalized name, or a directory it implies.\<close>

definition path_of_archive :: "'z archive_env \<Rightarrow> SubmissionArchiveLimits \<Rightarrow> ustring \<Rightarrow> bool" where
  "path_of_archive env limits p \<longleftrightarrow>
     (\<exists>raw path. normalize_submission_archive_path (nfc env) raw (maximum_path_bytes limits) (maximum_path_depth limits) = Inr path
        \<and> p \<in> insert path (set (ancestors (posix_parts path))))"

definition read_ok :: "'z archive_env \<Rightarrow> SubmissionArchiveLimits \<Rightarrow> int \<Rightarrow> read_state \<Rightarrow> bool" where
  "read_ok env limits compressed st \<longleftrightarrow>
     total st = sum_list (map byte_count (results st)) \<and>
     int (total st) \<le> maximum_expanded_bytes limits \<and>
     int (total st) \<le> compressed * maximum_compression_ratio limits \<and>
     (\<forall>e \<in> set (results st). path_of_archive env limits (normalized_path e)
        \<and> int (byte_count e) \<le> maximum_entry_bytes limits)"

lemma validated_path_normalized:
  assumes "validated_path env limits info = Inr (path, etype)"
  shows "\<exists>raw. normalize_submission_archive_path (nfc env) raw (maximum_path_bytes limits) (maximum_path_depth limits) = Inr path"
  using assms unfolding validated_path_def Let_def outcome_inv by auto

lemma read_entry_ok:
  assumes "read_entry env limits source started info st = Inr st'" "limits_valid limits" "read_ok env limits n st"
  shows "read_ok env limits (n + int (compress_size info)) st'"
proof -
  obtain path etype ds es where step: "validated_path env limits info = Inr (path, etype)"
    "set ds \<subseteq> set (ancestors (posix_parts path))" "results st' = results st @ map directory_entry ds @ es"
    "es = [] \<and> total st' = total st \<or>
     (\<exists>e. es = [e] \<and> normalized_path e = path \<and> entry_type e = etype
       \<and> total st' = total st + byte_count e \<and> int (total st') \<le> maximum_expanded_bytes limits
       \<and> entry_within limits info e)"
    by (rule read_entry_effect[OF assms(1,2)])
  have names: "path_of_archive env limits p" if "p \<in> insert path (set (ancestors (posix_parts path)))" for p
    using validated_path_normalized[OF step(1)] that unfolding path_of_archive_def by blast
  have dirs: "path_of_archive env limits (normalized_path d) \<and> byte_count d = 0" if d: "d \<in> set (map directory_entry ds)" for d
  proof -
    obtain p where p: "p \<in> set ds" "d = directory_entry p" using d by auto
    then show ?thesis using names[of p] step(2) by (auto simp: directory_entry_def)
  qed
  have dirs_sum: "sum_list (map byte_count (map directory_entry ds)) = 0"
    by (simp add: directory_entry_def)
  have pos: "0 \<le> maximum_entry_bytes limits" "0 \<le> int (compress_size info) * maximum_compression_ratio limits"
    using assms(2) by (auto simp: limits_valid_def)
  have prior: "total st = sum_list (map byte_count (results st))" "int (total st) \<le> maximum_expanded_bytes limits"
      "int (total st) \<le> n * maximum_compression_ratio limits"
      "\<And>e. e \<in> set (results st) \<Longrightarrow> path_of_archive env limits (normalized_path e) \<and> int (byte_count e) \<le> maximum_entry_bytes limits"
    using assms(3) unfolding read_ok_def by blast+
  define fits :: "SubmissionArchiveEntry \<Rightarrow> bool" where "fits = (\<lambda>e. path_of_archive env limits (normalized_path e) \<and> int (byte_count e) \<le> maximum_entry_bytes limits)"
  have old: "\<forall>e \<in> set (results st @ map directory_entry ds). fits e"
  proof
    fix e assume "e \<in> set (results st @ map directory_entry ds)"
    then consider "e \<in> set (results st)" | "e \<in> set (map directory_entry ds)" unfolding set_append by blast
    then show "fits e" using prior(4)[of e] dirs[of e] pos(1) by cases (simp_all add: fits_def)
  qed
  have sum: "sum_list (map byte_count (results st')) = total st + sum_list (map byte_count es)"
    using dirs_sum prior(1) step(3) by simp
  have new: "(\<forall>e \<in> set es. fits e) \<and> total st' = total st + sum_list (map byte_count es)
      \<and> int (total st') \<le> maximum_expanded_bytes limits
      \<and> int (total st') \<le> int (total st) + int (compress_size info) * maximum_compression_ratio limits"
    using step(4)
  proof
    assume "es = [] \<and> total st' = total st"
    then show ?thesis using prior(2) pos(2) by simp
  next
    assume "\<exists>e. es = [e] \<and> normalized_path e = path \<and> entry_type e = etype
       \<and> total st' = total st + byte_count e \<and> int (total st') \<le> maximum_expanded_bytes limits
       \<and> entry_within limits info e"
    then obtain e where e: "es = [e]" "normalized_path e = path" "total st' = total st + byte_count e"
        "int (total st') \<le> maximum_expanded_bytes limits" "entry_within limits info e" by blast
    have "fits e" using names[of path] e(2,5) by (simp add: fits_def entry_within_def)
    then show ?thesis using e(1,3,4,5) by (simp add: entry_within_def)
  qed
  have all: "\<forall>e \<in> set (results st'). fits e" using old new step(3) by auto
  have ratio: "int (total st') \<le> (n + int (compress_size info)) * maximum_compression_ratio limits"
    using new prior(3) unfolding distrib_right by linarith
  show ?thesis using all[unfolded fits_def] ratio new sum unfolding read_ok_def by simp
qed

lemma read_entries_ok:
  assumes "read_entries env limits source started infos st = Inr st'" "limits_valid limits" "read_ok env limits n st"
  shows "read_ok env limits (n + int (sum_list (map compress_size infos))) st'"
  using assms
proof (induction infos arbitrary: st n)
  case (Cons info infos)
  obtain mid where mid: "read_entry env limits source started info st = Inr mid"
      "read_entries env limits source started infos mid = Inr st'"
    using Cons.prems(1) by (auto simp: outcome_inv)
  show ?case using Cons.IH[OF mid(2) Cons.prems(2) read_entry_ok[OF mid(1) Cons.prems(2,3)]] by (simp add: add.assoc)
qed simp

subsection \<open>Paths that survive a second normalization\<close>

text \<open>
  What the export relies on in Unicode normalization form C: it is idempotent, works on each component of a path,
  keeps a safe component safe, and introduces no control character, colon, backslash or delete.
\<close>

definition nfc_laws :: "(ustring \<Rightarrow> ustring) \<Rightarrow> bool" where
  "nfc_laws n \<longleftrightarrow> (\<forall>p. n (n p) = n p)
     \<and> (\<forall>p. split_text slash (n p) = map n (split_text slash p))
     \<and> (\<forall>p. safe_part p \<longrightarrow> safe_part (n p))
     \<and> (\<forall>p c. c \<in> set (n p) \<longrightarrow> c < 32 \<or> c \<in> {58, 92, 127} \<longrightarrow> c \<in> set p)"

definition normal_path :: "(ustring \<Rightarrow> ustring) \<Rightarrow> SubmissionArchiveLimits \<Rightarrow> ustring \<Rightarrow> bool" where
  "normal_path n limits p \<longleftrightarrow>
     normalize_submission_archive_path n p (maximum_path_bytes limits) (maximum_path_depth limits) = Inr p"

lemma normalize_accepts:
  assumes "n p = p" "92 \<notin> set p" "\<And>c. c \<in> set p \<Longrightarrow> 32 \<le> c \<and> c \<noteq> 127"
    "\<And>part. part \<in> set (split_text slash p) \<Longrightarrow> safe_part part" "58 \<notin> set (hd (split_text slash p))"
    "int (length (split_text slash p)) \<le> depth" "encoded_length p = Inr k" "int k \<le> limit"
  shows "normalize_submission_archive_path n p limit depth = Inr p"
proof -
  have "p \<noteq> []" "hd p \<noteq> slash"
    using assms(4)[of "hd (split_text slash p)"] by (cases p; auto simp: safe_part_def split_text_Cons split: if_splits)+
  then show ?thesis
    using assms unfolding normalize_submission_archive_path_def Let_def
    by (auto simp: list_ex_iff not_less)
qed

lemma normalized_is_normal:
  assumes "nfc_laws n" "normalize_submission_archive_path n raw limit depth = Inr path"
  shows "normalize_submission_archive_path n path limit depth = Inr path"
proof -
  note raw = normalized_path_cases[OF assms(2)]
  have laws: "n (n p) = n p" "split_text slash (n p) = map n (split_text slash p)" "safe_part p \<Longrightarrow> safe_part (n p)"
      "c \<in> set (n p) \<Longrightarrow> c < 32 \<or> c \<in> {58, 92, 127} \<Longrightarrow> c \<in> set p" for p c
    using assms(1) unfolding nfc_laws_def by blast+
  obtain k where k: "encoded_length path = Inr k" "int k \<le> limit"
    using assms(2) unfolding normalize_submission_archive_path_def Let_def outcome_inv by auto
  have parts: "split_text slash path = map n (split_text slash raw)" using laws(2) raw(1) by simp
  have colon: "58 \<notin> set (hd (split_text slash path))"
    using raw(6) laws(4)[of 58 "hd (split_text slash raw)"] unfolding parts by (auto simp: hd_map)
  have chars: "32 \<le> c \<and> c \<notin> {92, 127}" if "c \<in> set path" for c
    using that raw(1,3) raw(4)[of c] laws(4)[of c raw] by fastforce
  have safe: "\<And>part. part \<in> set (split_text slash path) \<Longrightarrow> safe_part part"
    using raw(5) laws(3) unfolding parts by auto
  show ?thesis
    using normalize_accepts[of n path depth k limit] laws(1)[of raw] chars safe colon k raw(1,7) parts by auto
qed

lemma encoded_length_prefix:
  assumes "encoded_length (a @ b) = Inr k"
  obtains j where "encoded_length a = Inr j" "j \<le> k"
  using assms by (auto simp: encoded_length_def split: if_splits)

lemma ancestor_is_normal:
  assumes "nfc_laws n" "normalize_submission_archive_path n path limit depth = Inr path"
    "a \<in> set (ancestors (split_text slash path))"
  shows "normalize_submission_archive_path n a limit depth = Inr a"
proof -
  note path = normalized_path_cases[OF assms(2)]
  define parts where "parts = split_text slash path"
  obtain d where d: "0 < d" "d < length parts" "a = join_text slash (take d parts)"
    using assms(3) unfolding ancestors_def parts_def[symmetric] set_map by (auto simp: Suc_le_eq)
  have plain: "slash \<notin> set q" if "q \<in> set parts" for q using that split_text_parts[of q slash path] by (simp add: parts_def)
  have split: "split_text slash a = take d parts"
    unfolding d(3) by (rule split_join) (use d plain in \<open>auto dest: in_set_takeD\<close>)
  have whole: "path = a @ slash # join_text slash (drop d parts)"
    using join_take_drop[OF d(1,2), of slash] join_split[of slash path] unfolding d(3) parts_def by simp
  have "map n parts = parts" using assms(1) path(1) unfolding nfc_laws_def parts_def by metis
  then have "split_text slash (n a) = split_text slash a"
    using assms(1) unfolding nfc_laws_def by (metis split take_map)
  then have fixed: "n a = a" by (metis join_split)
  obtain k where k: "encoded_length path = Inr k" "int k \<le> limit"
    using assms(2) unfolding normalize_submission_archive_path_def Let_def outcome_inv by auto
  obtain j where j: "encoded_length a = Inr j" "j \<le> k"
    using encoded_length_prefix[of a _ k] k(1) whole by metis
  have sub: "set a \<subseteq> set path" by (subst whole) auto
  have safe: "\<And>part. part \<in> set (split_text slash a) \<Longrightarrow> safe_part part"
    using path(5) unfolding split parts_def by (auto dest: in_set_takeD)
  have colon: "58 \<notin> set (hd (split_text slash a))"
    using path(6) d(1) unfolding split parts_def by simp
  have depth: "int (length (split_text slash a)) \<le> depth"
    using path(7) d(2) unfolding split parts_def by simp
  show ?thesis
    using normalize_accepts[of n a depth j limit] fixed sub path(3,4) safe colon depth j k(2) by fastforce
qed

lemma posix_parts_safe:
  assumes "\<And>part. part \<in> set (split_text slash path) \<Longrightarrow> safe_part part"
  shows "posix_parts path = split_text slash path"
proof -
  have "take 1 path \<noteq> [slash]"
    using assms[of "hd (split_text slash path)"] by (cases path) (auto simp: safe_part_def)
  moreover have "take 2 path \<noteq> [slash, slash]" using \<open>take 1 path \<noteq> [slash]\<close> by (cases path) auto
  moreover have "filter (\<lambda>part. part \<notin> {[], [dot]}) (split_text slash path) = split_text slash path"
    using assms by (intro filter_True) (auto simp: safe_part_def)
  ultimately show ?thesis by (simp add: posix_parts_def)
qed

lemma path_of_archive_normal:
  assumes "nfc_laws (nfc env)" "path_of_archive env limits p"
  shows "normal_path (nfc env) limits p"
proof -
  obtain raw path where raw: "normalize_submission_archive_path (nfc env) raw (maximum_path_bytes limits) (maximum_path_depth limits) = Inr path"
      "p \<in> insert path (set (ancestors (posix_parts path)))"
    using assms(2) unfolding path_of_archive_def by blast
  note normal = normalized_is_normal[OF assms(1) raw(1)]
  have "posix_parts path = split_text slash path"
    by (rule posix_parts_safe) (rule normalized_path_cases(5)[OF normal])
  then show ?thesis using normal ancestor_is_normal[OF assms(1) normal, of p] raw(2) unfolding normal_path_def by auto
qed

subsection \<open>Accepted archives\<close>

lemma inspect_accepted:
  assumes "inspect env limits source = Inr result"
  obtains layout infos st where
    "zip_directory_layout source True = Inr layout"
    "int (entry_count layout) \<le> maximum_entries limits"
    "int (directory_bytes layout) \<le> maximum_central_directory_bytes limits"
    "infolist env source = Inr infos" "length infos = entry_count layout"
    "validate_record_coverage (decode env) source infos (directory_offset layout) = Inr ()"
    "read_entries env limits source (clock env 0) infos initial_read = Inr st"
    "validate_submission_archive_inventory (nfc env) (casefold env) (results st) = Inr ()"
    "result = result_of (results st)"
  using assms unfolding inspect_def inspected_entries_def outcome_inv
  by (auto simp: outcome_inv not_less split: if_splits)

lemma initial_read_ok: "limits_valid limits \<Longrightarrow> read_ok env limits 0 initial_read"
  by (simp add: read_ok_def initial_read_def limits_valid_def)

lemma inspect_read_ok:
  assumes "inspect env limits source = Inr result" "limits_valid limits"
  obtains entries infos layout where "result = result_of entries"
    "validate_submission_archive_inventory (nfc env) (casefold env) entries = Inr ()"
    "infolist env source = Inr infos" "zip_directory_layout source True = Inr layout"
    "validate_record_coverage (decode env) source infos (directory_offset layout) = Inr ()"
    "int (sum_list (map byte_count entries)) \<le> maximum_expanded_bytes limits"
    "int (sum_list (map byte_count entries)) \<le> int (sum_list (map compress_size infos)) * maximum_compression_ratio limits"
    "\<And>e. e \<in> set entries \<Longrightarrow> path_of_archive env limits (normalized_path e)"
    "\<And>e. e \<in> set entries \<Longrightarrow> int (byte_count e) \<le> maximum_entry_bytes limits"
proof -
  obtain layout infos st where st: "zip_directory_layout source True = Inr layout" "infolist env source = Inr infos"
    "validate_record_coverage (decode env) source infos (directory_offset layout) = Inr ()"
    "read_entries env limits source (clock env 0) infos initial_read = Inr st"
    "validate_submission_archive_inventory (nfc env) (casefold env) (results st) = Inr ()"
    "result = result_of (results st)"
    using inspect_accepted[OF assms(1)] by metis
  have ok: "read_ok env limits (int (sum_list (map compress_size infos))) st"
    using read_entries_ok[OF st(4) assms(2) initial_read_ok[OF assms(2)]] by simp
  show ?thesis
    by (rule that[OF st(6,5,2,1,3)]) (use ok in \<open>auto simp: read_ok_def\<close>)
qed

lemma inventory_sorted:
  "validate_submission_archive_inventory n c (sort_key normalized_path entries) = Inr u \<longleftrightarrow>
   validate_submission_archive_inventory n c entries = Inr u"
proof -
  have "mset (map f (sort_key normalized_path entries)) = mset (map f entries)" for f :: "SubmissionArchiveEntry \<Rightarrow> ustring"
    by simp
  then have "distinct (map f (sort_key normalized_path entries)) \<longleftrightarrow> distinct (map f entries)"
    for f :: "SubmissionArchiveEntry \<Rightarrow> ustring"
    using mset_eq_imp_distinct_iff by blast
  then show ?thesis unfolding inventory_accepted_iff by simp
qed

lemma exported_entries_ok_iff:
  "exported_entries_ok n limits entries = Inr () \<longleftrightarrow>
     (\<forall>e \<in> set entries. normal_path n limits (normalized_path e) \<and> int (byte_count e) \<le> maximum_entry_bytes limits)"
proof (induction entries)
  case (Cons e rest)
  then show ?case by (auto simp: outcome_inv normal_path_def not_less)
qed simp

lemma inspected_export_guard:
  assumes "inspect env limits source = Inr result" "limits_valid limits" "nfc_laws (nfc env)"
  shows "export_guard (nfc env) (casefold env) limits result =
    (if int (result_entry_count result) > maximum_entries limits then Inl (Rejected LIMIT_EXCEEDED) else Inr ())"
proof -
  obtain entries where e: "result = result_of entries"
    "validate_submission_archive_inventory (nfc env) (casefold env) entries = Inr ()"
    "int (sum_list (map byte_count entries)) \<le> maximum_expanded_bytes limits"
    "\<And>e. e \<in> set entries \<Longrightarrow> path_of_archive env limits (normalized_path e)"
    "\<And>e. e \<in> set entries \<Longrightarrow> int (byte_count e) \<le> maximum_entry_bytes limits"
    using inspect_read_ok[OF assms(1,2)] by metis
  have "exported_entries_ok (nfc env) limits (result_entries result) = Inr ()"
    unfolding exported_entries_ok_iff
    using e(4,5) path_of_archive_normal[OF assms(3)] by (simp add: e(1) result_of_def Let_def)
  moreover have "validate_submission_archive_inventory (nfc env) (casefold env) (result_entries result) = Inr ()"
    using e(2) by (simp add: e(1) result_of_def Let_def inventory_sorted)
  moreover have "int (total_expanded_bytes result) \<le> maximum_expanded_bytes limits"
    using e(3) by (simp add: e(1) result_of_def Let_def)
  ultimately show ?thesis unfolding export_guard_def by simp
qed

end
