(* ===== verification/Archive_Failures.thy ===== *)
theory Archive_Failures
  imports Archive_Safety
begin

text \<open>
  How an inspection can fail. \<open>fails_within E m\<close> says that \<open>m\<close>, when it fails, rejects the archive or raises an
  exception that satisfies \<open>E\<close>; in particular it has not run out of loop turns. The rules follow the chains of
  guards, so that the failure of a whole operation is read off its parts.
\<close>

named_theorems failing \<open>rules for the failures of an operation\<close>

definition fails_within :: "(py_error \<Rightarrow> bool) \<Rightarrow> archive_error + 'a \<Rightarrow> bool" where
  "fails_within E m \<longleftrightarrow>
     (case m of Inl (Rejected _) \<Rightarrow> True | Inl (Raised e) \<Rightarrow> E e | Inl Unfinished \<Rightarrow> False | Inr _ \<Rightarrow> True)"

lemma fails_within_simps [simp]:
  "fails_within E (Inl (Rejected c))" "fails_within E (Inr x)" "fails_within E (Inl (Raised e)) \<longleftrightarrow> E e"
  "\<not> fails_within E (Inl Unfinished)"
  by (simp_all add: fails_within_def)

lemma fails_within_cases:
  "fails_within E m \<longleftrightarrow> (\<forall>x. m = Inl x \<longrightarrow> (\<exists>c. x = Rejected c) \<or> (\<exists>e. x = Raised e \<and> E e))"
  by (auto simp: fails_within_def split: sum.splits archive_error.splits)

lemma fails_andthen [failing]:
  "fails_within E m \<Longrightarrow> (\<And>x. m = Inr x \<Longrightarrow> fails_within E (k x)) \<Longrightarrow> fails_within E (andthen m k)"
  by (cases m) (auto simp: fails_within_def)

lemma fails_if [failing]:
  "(c \<Longrightarrow> fails_within E a) \<Longrightarrow> (\<not> c \<Longrightarrow> fails_within E b) \<Longrightarrow> fails_within E (if c then a else b)"
  by simp

lemma fails_Let [failing]: "fails_within E (f x) \<Longrightarrow> fails_within E (Let x f)"
  by simp

lemma fails_prod [failing]:
  "(\<And>a b. p = (a, b) \<Longrightarrow> fails_within E (f a b)) \<Longrightarrow> fails_within E (case p of (a, b) \<Rightarrow> f a b)"
  by (cases p) simp

lemma fails_need [failing]:
  "(\<And>x. m = Some x \<Longrightarrow> fails_within E (k x)) \<Longrightarrow> fails_within E (need m (Rejected c) k)"
  by (cases m) simp_all

lemma fails_rejected [failing]: "fails_within E (Inl (Rejected c))" and fails_returned [failing]: "fails_within E (Inr x)"
  by simp_all

lemma fails_mono: "fails_within E m \<Longrightarrow> (\<And>e. E e \<Longrightarrow> F e) \<Longrightarrow> fails_within F m"
  by (auto simp: fails_within_cases)

lemma fails_reject_on:
  "fails_within E m \<Longrightarrow> (\<And>e. E e \<Longrightarrow> \<not> caught e \<Longrightarrow> F e) \<Longrightarrow> fails_within F (reject_on caught code m)"
  by (auto simp: fails_within_def reject_on_def split: sum.splits archive_error.splits)

lemma fails_raised: "(\<And>e. m = Inl e \<Longrightarrow> E e) \<Longrightarrow> fails_within E (raised m)"
  by (cases m) (simp_all add: raised_def)

lemma fails_deadline [failing]: "fails_within E (check_deadline env limits started tick)"
  by (simp add: check_deadline_def)

text \<open>The exceptions that \<open>inspect\<close> turns into a rejection.\<close>

definition inspect_catches :: "py_error \<Rightarrow> bool" where
  "inspect_catches e \<longleftrightarrow> e \<in> {OSError, ValueError, RuntimeError} \<or> is_BadZipFile e"

subsection \<open>Deflate streams\<close>

text \<open>
  \<open>feeds env z data z'\<close>: a decompressor in state \<open>z\<close> takes in all of \<open>data\<close> without an error, in some division into
  calls, and is then in state \<open>z'\<close>; what a call leaves over is fed again. A complete stream is one that a new
  decompressor takes in with nothing missing and nothing left over.
\<close>

inductive feeds :: "'z archive_env \<Rightarrow> 'z \<Rightarrow> bytes \<Rightarrow> 'z \<Rightarrow> bool" for env where
  feeds_nil: "feeds env z [] z"
| feeds_call: "pending \<noteq> [] \<Longrightarrow> decompress env z pending n = Inr (z1, out) \<Longrightarrow>
    feeds env z1 (unconsumed_tail env z1 @ rest) z2 \<Longrightarrow> feeds env z (pending @ rest) z2"

definition inflatable :: "'z archive_env \<Rightarrow> bytes \<Rightarrow> bool" where
  "inflatable env data \<longleftrightarrow>
     (\<exists>z z' out. feeds env (decompressobj env) data z \<and> flush env z = Inr (z', out) \<and>
        at_eof env z' \<and> unused_data env z' = [] \<and> unconsumed_tail env z' = [])"

text \<open>The compressed bytes of a member, behind its local header.\<close>

definition member_data :: "bytes \<Rightarrow> ZipInfo \<Rightarrow> bytes" where
  "member_data source info = read_at source (payload_start source (nat (header_offset info))) (compress_size info)"

text \<open>
  What the inspector relies on in \<open>zlib\<close>: a decompressor raises only \<open>zlib.error\<close>, it leaves an unconsumed tail only
  after it has produced as many bytes as it was allowed to, and whether a stream is accepted does not depend on how it is
  divided into calls, so that the reader of \<open>zipfile\<close>, which divides it in its own way, raises \<open>zlib.error\<close> only for a
  deflated member whose bytes are not a complete stream. Nothing is assumed about other exceptions of \<open>zipfile\<close>.
\<close>

definition zlib_laws :: "'z archive_env \<Rightarrow> bool" where
  "zlib_laws env \<longleftrightarrow>
     (\<forall>source info. Raises ZlibError \<in> set (member_reads env source info) \<longrightarrow>
        compress_type info = ZIP_DEFLATED \<and> \<not> inflatable env (member_data source info)) \<and>
     (\<forall>z e. flush env z = Inl e \<longrightarrow> e = ZlibError) \<and>
     (\<forall>z pending n. 0 < n \<longrightarrow> (case decompress env z pending n of
         Inl e \<Rightarrow> e = ZlibError
       | Inr (z', output) \<Rightarrow> unconsumed_tail env z' \<noteq> [] \<longrightarrow> length output = nat n))"

lemma inflate_pending_feeds:
  "inflate_pending n env maximum_output z pending actual = Inr (z', actual') \<Longrightarrow> feeds env z' rest z2 \<Longrightarrow>
   feeds env z (pending @ rest) z2"
proof (induction n arbitrary: z pending actual)
  case (Suc n)
  show ?case
  proof (cases "pending = []")
    case False
    then obtain z1 out where step: "decompress env z pending (min (int READ_BYTES) (maximum_output - int actual + 1)) = Inr (z1, out)"
        "inflate_pending n env maximum_output z1 (unconsumed_tail env z1) (actual + length out) = Inr (z', actual')"
      using Suc.prems(1) by (auto simp: outcome_inv raised_def split: sum.splits if_splits)
    then show ?thesis using feeds_call[OF False step(1)] Suc.IH[OF step(2) Suc.prems(2)] by blast
  qed (use Suc.prems in simp)
qed (simp split: if_splits)

lemma read_at_split:
  assumes "chunk = read_at source position (min k remaining)"
  shows "read_at source position remaining
    = chunk @ read_at source (position + length chunk) (remaining - length chunk)"
proof (cases "length chunk = min k remaining")
  case True
  then have "read_at source position remaining = take (length chunk + (remaining - length chunk)) (drop position source)"
    by (simp add: read_at_def)
  then show ?thesis using assms True unfolding take_add by (simp add: read_at_def add.commute)
next
  case False
  then have short: "length source - position < min k remaining" using assms by (auto simp: read_at_def)
  then have "chunk = drop position source" using assms by (simp add: read_at_def)
  then show ?thesis using short by (simp add: read_at_def)
qed

lemma inflate_stream_feeds:
  "inflate_stream env limits source started maximum_output position remaining z actual tick = Inr (z', actual', tick') \<Longrightarrow>
   feeds env z (read_at source position remaining) z'"
proof (induction env limits source started maximum_output position remaining z actual tick rule: inflate_stream.induct)
  case (1 env limits source started maximum_output position remaining z actual tick)
  define chunk where "chunk = read_at source position (min READ_BYTES remaining)"
  show ?case
  proof (cases "remaining = 0")
    case True
    then show ?thesis using "1.prems" by (simp add: inflate_stream.simps read_at_def feeds_nil)
  next
    case False
    then obtain t z1 actual1 where turn: "chunk \<noteq> []"
        "inflate_pending (nat (maximum_output - int actual) + 1) env maximum_output z chunk actual = Inr (z1, actual1)"
        "inflate_stream env limits source started maximum_output (position + length chunk) (remaining - length chunk) z1 actual1 t
           = Inr (z', actual', tick')"
      using "1.prems" unfolding inflate_stream.simps[of env limits source started maximum_output position]
      by (auto simp: outcome_inv Let_def chunk_def[symmetric] split: if_splits)
    have "feeds env z1 (read_at source (position + length chunk) (remaining - length chunk)) z'"
      using "1.IH"[OF False chunk_def turn(1)] turn(3) by blast
    from inflate_pending_feeds[OF turn(2) this] show ?thesis
      using read_at_split[OF chunk_def] by simp
  qed
qed

lemma validated_stream_inflatable:
  assumes "validate_compressed_stream env limits source started info maximum_output tick = Inr tick'"
    and "compress_type info = ZIP_DEFLATED"
  shows "inflatable env (member_data source info)"
proof -
  obtain start z actual t z' out where r: "seek_to (header_offset info) = Inr start"
      "inflate_stream env limits source started maximum_output
         (start + 30 + (le_field (read_at source start 30) 26 2 + le_field (read_at source start 30) 28 2))
         (compress_size info) (decompressobj env) 0 tick = Inr (z, actual, t)"
      "flush env z = Inr (z', out)" "at_eof env z'" "unused_data env z' = []" "unconsumed_tail env z' = []"
    using assms unfolding validate_compressed_stream_def
    by (auto simp: outcome_inv Let_def split: if_splits)
  have "start = nat (header_offset info)" using r(1) by (simp add: seek_to_def split: if_splits)
  then have "feeds env (decompressobj env) (member_data source info) z"
    using inflate_stream_feeds[OF r(2)] by (simp add: member_data_def payload_start_def add.assoc)
  then show ?thesis using r(3-6) unfolding inflatable_def by blast
qed

subsection \<open>Decompression ends\<close>

lemma decompress_law:
  assumes "zlib_laws env" "0 < n"
  obtains e where "decompress env z pending n = Inl e" "e = ZlibError"
  | z' out where "decompress env z pending n = Inr (z', out)" "unconsumed_tail env z' = [] \<or> length out = nat n"
proof -
  have law: "case decompress env z pending n of Inl e \<Rightarrow> e = ZlibError
      | Inr (z', output) \<Rightarrow> unconsumed_tail env z' \<noteq> [] \<longrightarrow> length output = nat n"
    using assms(2) conjunct2[OF conjunct2[OF assms(1)[unfolded zlib_laws_def]]] by blast
  show ?thesis
  proof (cases "decompress env z pending n")
    case (Inl e)
    then show ?thesis using law that(1)[of e] by simp
  next
    case (Inr r)
    then show ?thesis using law that(2)[of "fst r" "snd r"] by (cases r) auto
  qed
qed

lemma inflate_pending_ends:
  assumes "zlib_laws env" "int actual \<le> maximum_output" "nat (maximum_output - int actual) < n"
  shows "fails_within (\<lambda>e. e = ZlibError) (inflate_pending n env maximum_output z pending actual) \<and>
    (\<forall>z' actual'. inflate_pending n env maximum_output z pending actual = Inr (z', actual') \<longrightarrow> int actual' \<le> maximum_output)"
  using assms(2,3)
proof (induction n arbitrary: z pending actual)
  case (Suc n)
  define limit where "limit = min (int READ_BYTES) (maximum_output - int actual + 1)"
  have pos: "0 < limit" using Suc.prems(1) by (simp add: limit_def READ_BYTES_def)
  show ?case
  proof (cases "pending = []")
    case False
    show ?thesis
    proof (rule decompress_law[OF assms(1) pos, of z pending])
      fix e assume "decompress env z pending limit = Inl e" "e = ZlibError"
      then show ?thesis using False by (simp add: raised_def flip: limit_def)
    next
      fix z1 out assume out: "decompress env z pending limit = Inr (z1, out)" "unconsumed_tail env z1 = [] \<or> length out = nat limit"
      have step: "inflate_pending (Suc n) env maximum_output z pending actual =
          (if int (actual + length out) > maximum_output then Inl (Rejected LIMIT_EXCEEDED)
           else inflate_pending n env maximum_output z1 (unconsumed_tail env z1) (actual + length out))"
        using False out by (simp add: raised_def flip: limit_def)
      consider "int (actual + length out) > maximum_output"
        | "int (actual + length out) \<le> maximum_output" "unconsumed_tail env z1 = []"
        | "int (actual + length out) \<le> maximum_output" "1 \<le> length out"
        using out(2) pos by fastforce
      then show ?thesis
      proof cases
        case 1
        then show ?thesis unfolding step by simp
      next
        case 2
        then show ?thesis unfolding step by (cases n) auto
      next
        case 3
        then have "nat (maximum_output - int (actual + length out)) < n" using Suc.prems by linarith
        then show ?thesis using Suc.IH[of "actual + length out"] 3(1) unfolding step by simp
      qed
    qed
  qed (use Suc.prems(1) in simp)
qed simp

lemma inflate_stream_ends:
  assumes "zlib_laws env" "int actual \<le> maximum_output"
  shows "fails_within (\<lambda>e. e = ZlibError)
    (inflate_stream env limits source started maximum_output position remaining z actual tick)"
  using assms
proof (induction env limits source started maximum_output position remaining z actual tick rule: inflate_stream.induct)
  case (1 env limits source started maximum_output position remaining z actual tick)
  define chunk where "chunk = read_at source position (min READ_BYTES remaining)"
  note turn = inflate_pending_ends[OF 1(2,3), of "nat (maximum_output - int actual) + 1" z chunk]
  have rest: "fails_within (\<lambda>e. e = ZlibError)
      (andthen (inflate_pending (nat (maximum_output - int actual) + 1) env maximum_output z chunk actual)
        (\<lambda>(z, actual). inflate_stream env limits source started maximum_output
           (position + length chunk) (remaining - length chunk) z actual tick'))"
    if more: "remaining \<noteq> 0" "chunk \<noteq> []" for tick'
  proof (intro fails_andthen fails_prod)
    show "fails_within (\<lambda>e. e = ZlibError)
        (inflate_pending (nat (maximum_output - int actual) + 1) env maximum_output z chunk actual)"
      using turn by simp
  next
    fix r z' actual'
    assume "inflate_pending (nat (maximum_output - int actual) + 1) env maximum_output z chunk actual = Inr r" "r = (z', actual')"
    then have "int actual' \<le> maximum_output" using turn by simp
    then show "fails_within (\<lambda>e. e = ZlibError) (inflate_stream env limits source started maximum_output
        (position + length chunk) (remaining - length chunk) z' actual' tick')"
      using 1(1)[OF more(1) chunk_def more(2) 1(2)] by blast
  qed
  show ?case
    by (subst inflate_stream.simps, unfold Let_def chunk_def[symmetric])
      (intro fails_if fails_andthen[OF fails_deadline] fails_returned fails_rejected rest)
qed

subsection \<open>The other operations\<close>

lemma seek_to_fails: "fails_within (\<lambda>e. e \<in> {OSError, ValueError}) (seek_to offset)"
  by (simp add: seek_to_def)

lemma validate_compressed_stream_fails:
  assumes "zlib_laws env" "0 \<le> maximum_output"
  shows "fails_within inspect_catches (validate_compressed_stream env limits source started info maximum_output tick)"
proof -
  define E where "E = (\<lambda>e. e \<in> {OSError, ValueError, StructError, ZlibError})"
  have seeks: "fails_within E (seek_to offset)" for offset
    by (rule fails_mono[OF seek_to_fails]) (auto simp: E_def)
  have inflates: "fails_within E (inflate_stream env limits source started maximum_output position remaining z 0 tick)"
    for position remaining z
    by (rule fails_mono[OF inflate_stream_ends[OF assms(1)]]) (use assms(2) in \<open>auto simp: E_def\<close>)
  have flushes: "fails_within E (raised (flush env z))" for z
    by (rule fails_raised) (use assms(1) in \<open>auto simp: E_def zlib_laws_def\<close>)
  have short: "fails_within E (Inl (Raised StructError) :: archive_error + nat)" by (simp add: E_def)
  show ?thesis
    unfolding validate_compressed_stream_def
    by (intro fails_if fails_rejected fails_returned)
      (rule fails_reject_on[of E]; (intro failing seeks inflates flushes short)?; auto simp: E_def inspect_catches_def)
qed

lemma member_loop_fails:
  assumes "\<And>e. Raises e \<in> set reads \<Longrightarrow> E e"
  shows "fails_within E (member_loop env limits started maximum_output content tick reads)"
  using assms
  by (induction env limits started maximum_output content tick reads rule: member_loop.induct)
    (auto intro!: failing)

text \<open>The exceptions of \<open>zipfile\<close> that no handler of the inspector names.\<close>

definition member_raises :: "'z archive_env \<Rightarrow> bytes \<Rightarrow> ZipInfo \<Rightarrow> py_error \<Rightarrow> bool" where
  "member_raises env source info e \<longleftrightarrow>
     Raises e \<in> set (member_reads env source info) \<and> e \<noteq> EOFError \<and> e \<noteq> ZlibError \<and> \<not> inspect_catches e"

lemma read_member_fails:
  assumes "zlib_laws env"
  shows "fails_within (\<lambda>e. inspect_catches e \<or> member_raises env source info e)
    (read_member env limits source started info remaining tick)"
proof -
  define m where "m = min (maximum_entry_bytes limits) remaining"
  define E where "E = (\<lambda>e. inspect_catches e \<or> member_raises env source info e)"
  have no_zlib: "Raises ZlibError \<notin> set (member_reads env source info)"
    if "validate_compressed_stream env limits source started info m tick = Inr t" for t
    using assms validated_stream_inflatable[OF that] unfolding zlib_laws_def by blast
  have member: "fails_within E (reject_on (\<lambda>e. e \<in> {EOFError, OSError, RuntimeError} \<or> is_BadZipFile e)
      INTEGRITY_FAILURE (member_loop env limits started m [] t (member_reads env source info)))"
    if "validate_compressed_stream env limits source started info m tick = Inr t" for t
  proof (rule fails_reject_on[OF member_loop_fails])
    show "\<And>e. Raises e \<in> set (member_reads env source info) \<Longrightarrow>
        e = EOFError \<or> inspect_catches e \<or> member_raises env source info e"
      using no_zlib[OF that] by (auto simp: member_raises_def)
  qed (auto simp: E_def)
  have "fails_within E (validate_compressed_stream env limits source started info m tick)"
    if "\<not> int (file_size info) > m"
    by (rule fails_mono[OF validate_compressed_stream_fails[OF assms]]) (use that in \<open>auto simp: E_def\<close>)
  then show ?thesis
    unfolding read_member_def m_def[symmetric] E_def[symmetric] Let_def by (intro failing member)
qed

lemma normalize_fails: "fails_within inspect_catches (normalize_submission_archive_path n path size_limit depth)"
  unfolding normalize_submission_archive_path_def encoded_length_def
  by (intro failing) (simp_all add: inspect_catches_def)

lemma validated_path_fails: "fails_within inspect_catches (validated_path env limits info)"
  unfolding validated_path_def by (intro failing normalize_fails)

lemma implicit_directories_fails: "fails_within E (implicit_directories f m as st)"
  by (induction f m as st rule: implicit_directories.induct) (auto simp: Let_def)

lemma append_entry_fails:
  assumes "zlib_laws env"
  shows "fails_within (\<lambda>e. inspect_catches e \<or> member_raises env source info e)
    (append_entry env limits source started info path etype st)"
  unfolding append_entry_def by (intro failing read_member_fails assms)

lemma read_entry_fails:
  assumes "zlib_laws env"
  shows "fails_within (\<lambda>e. inspect_catches e \<or> member_raises env source info e)
    (read_entry env limits source started info st)"
  unfolding read_entry_def
  by (intro failing fails_mono[OF validated_path_fails] implicit_directories_fails append_entry_fails assms disjI1)

lemma read_entries_fails:
  assumes "zlib_laws env"
  shows "fails_within (\<lambda>e. inspect_catches e \<or> (\<exists>info \<in> set infos. member_raises env source info e))
    (read_entries env limits source started infos st)"
proof (induction infos arbitrary: st)
  case (Cons info infos)
  show ?case
    unfolding read_entries.simps
    by (intro fails_andthen fails_mono[OF read_entry_fails[OF assms]] fails_mono[OF Cons.IH]) auto
qed simp

lemma if_Let_eq_Inl:
  "((if c then Inl a else k) = Inl e) \<longleftrightarrow> c \<and> a = e \<or> \<not> c \<and> k = Inl e" "(Let v f = Inl e) \<longleftrightarrow> f v = Inl e"
  by auto

lemma caught_by_inspect: "BadZipFile message = e \<Longrightarrow> inspect_catches e" "ValueError = e \<Longrightarrow> inspect_catches e"
  by (auto simp: inspect_catches_def)

lemma zip64_layout_fails: "zip64_layout source marker = Inl e \<Longrightarrow> inspect_catches e"
  unfolding zip64_layout_def if_Let_eq_Inl
  by (elim disjE conjE) (erule caught_by_inspect | simp only: sum.distinct)+

lemma zip_directory_layout_fails:
  assumes "zip_directory_layout source allow = Inl e"
  shows "inspect_catches e"
proof -
  have "is_BadZipFile e \<or> (\<exists>marker. zip64_layout source marker = Inl e)"
    using assms unfolding zip_directory_layout_def Let_def by (auto split: option.splits if_splits)
  then show ?thesis using zip64_layout_fails by (auto simp: inspect_catches_def)
qed

lemma validate_local_record_fails: "fails_within inspect_catches (validate_local_record decode_name source info)"
proof -
  have "fails_within (\<lambda>e. e \<in> {OSError, ValueError}) (data_descriptor_end source info stop)" for stop
    unfolding data_descriptor_end_def by (intro failing seek_to_fails)
  then show ?thesis
    unfolding validate_local_record_def
    by (intro fails_reject_on[of "\<lambda>e. e \<in> {OSError, ValueError}"] failing seek_to_fails)
      (auto simp: inspect_catches_def)
qed

lemma record_coverage_fails: "fails_within inspect_catches (record_coverage decode_name source directory offset infos)"
  by (induction infos arbitrary: offset) (auto intro!: failing validate_local_record_fails)

lemma validate_inventory_fails: "fails_within E (validate_submission_archive_inventory n c entries)"
  using inventory_failure[of n c entries] by (auto simp: fails_within_cases)

definition escapes :: "'z archive_env \<Rightarrow> bytes \<Rightarrow> py_error \<Rightarrow> bool" where
  "escapes env source e \<longleftrightarrow> \<not> inspect_catches e \<and>
     (case infolist env source of Inl e' \<Rightarrow> e' = e | Inr infos \<Rightarrow> \<exists>info \<in> set infos. member_raises env source info e)"

lemma inspected_entries_fails:
  assumes "zlib_laws env"
  shows "fails_within (\<lambda>e. inspect_catches e \<or> escapes env source e) (inspected_entries env limits source)"
proof -
  define E where "E = (\<lambda>e. inspect_catches e \<or> escapes env source e)"
  have opens: "fails_within E (raised (infolist env source))"
    by (rule fails_raised) (auto simp: E_def escapes_def)
  have layout: "fails_within E (raised (zip_directory_layout source True))"
    by (rule fails_raised) (auto simp: E_def dest: zip_directory_layout_fails)
  have covers: "fails_within E (record_coverage (decode env) source directory offset infos)" for directory offset infos
    by (rule fails_mono[OF record_coverage_fails]) (simp add: E_def)
  have reads: "fails_within E (read_entries env limits source started infos st)"
    if "raised (infolist env source) = Inr infos" for infos started st
  proof (rule fails_mono[OF read_entries_fails[OF assms]])
    fix e assume "inspect_catches e \<or> (\<exists>info \<in> set infos. member_raises env source info e)"
    moreover have "infolist env source = Inr infos" using that by (simp add: raised_def split: sum.splits)
    ultimately show "E e" by (auto simp: E_def escapes_def member_raises_def)
  qed
  show ?thesis
    unfolding inspected_entries_def validate_record_coverage_def E_def[symmetric]
    by (intro failing opens layout covers reads validate_inventory_fails)
qed

lemma inspect_fails:
  assumes "zlib_laws env"
  shows "fails_within (escapes env source) (inspect env limits source)"
  unfolding inspect_def
  by (intro fails_andthen fails_returned fails_reject_on[OF inspected_entries_fails[OF assms]])
    (auto simp: inspect_catches_def)

end
