(* ===== verification/Archive_Example.thy ===== *)
theory Archive_Example
  imports Archive_Failures
begin

text \<open>
  A concrete archive: the bytes of a ZIP file with the stored members \<open>a/b\<close> (one byte) and \<open>c\<close> (empty), and a
  runtime that reads it. Names are ASCII, so normalization is the identity and case folding lowers letters.
\<close>

definition example_zip :: bytes where
  "example_zip =
     [0x50, 0x4B, 3, 4, 20, 0, 0, 0, 0, 0, 0, 0, 0, 0, 0x8B, 0x9E, 0xD9, 0xD3, 1, 0, 0, 0, 1, 0, 0, 0, 3, 0, 0, 0,
      0x61, 0x2F, 0x62, 0x41] @
     [0x50, 0x4B, 3, 4, 20, 0, 0, 0, 0, 0, 0, 0, 0, 0, 0, 0, 0, 0, 0, 0, 0, 0, 0, 0, 0, 0, 1, 0, 0, 0, 0x63] @
     [0x50, 0x4B, 1, 2, 20, 3, 20, 0, 0, 0, 0, 0, 0, 0, 0, 0, 0x8B, 0x9E, 0xD9, 0xD3, 1, 0, 0, 0, 1, 0, 0, 0,
      3, 0, 0, 0, 0, 0, 0, 0, 0, 0, 0, 0, 0xA4, 0x81, 0, 0, 0, 0, 0x61, 0x2F, 0x62] @
     [0x50, 0x4B, 1, 2, 20, 3, 20, 0, 0, 0, 0, 0, 0, 0, 0, 0, 0, 0, 0, 0, 0, 0, 0, 0, 0, 0, 0, 0,
      1, 0, 0, 0, 0, 0, 0, 0, 0, 0, 0, 0, 0xED, 0x81, 34, 0, 0, 0, 0x63] @
     [0x50, 0x4B, 5, 6, 0, 0, 0, 0, 2, 0, 2, 0, 96, 0, 0, 0, 65, 0, 0, 0, 0, 0]"

definition example_nested :: ZipInfo where
  "example_nested = \<lparr> filename = [97, 47, 98], orig_filename = [97, 47, 98], header_offset = 0, flag_bits = 0,
     compress_type = 0, CRC = 0xD3D99E8B, compress_size = 1, file_size = 1, external_attr = 0x81A40000, create_system = 3 \<rparr>"

definition example_empty :: ZipInfo where
  "example_empty = \<lparr> filename = [99], orig_filename = [99], header_offset = 34, flag_bits = 0,
     compress_type = 0, CRC = 0, compress_size = 0, file_size = 0, external_attr = 0x81ED0000, create_system = 3 \<rparr>"

definition example_env :: "unit archive_env" where
  "example_env =
     \<lparr> infolist = (\<lambda>_. Inr [example_nested, example_empty]),
       member_reads = (\<lambda>_ info. if file_size info = 0 then [] else [Chunk [0x41]]),
       decompressobj = (), decompress = (\<lambda>_ _ _. Inl ZlibError), flush = (\<lambda>z. Inr (z, [])),
       at_eof = (\<lambda>_. True), unused_data = (\<lambda>_. []), unconsumed_tail = (\<lambda>_. []),
       decode = (\<lambda>_ bs. Some (map unat bs)), nfc = (\<lambda>p. p),
       casefold = map (\<lambda>c. if 65 \<le> c \<and> c \<le> 90 then c + 32 else c),
       sha256_hex = (\<lambda>bs. if bs = [] then ''e3b0'' else ''559a''), clock = (\<lambda>_. 0) \<rparr>"

definition example_result :: SubmissionArchiveInspectionResult where
  "example_result =
     \<lparr> result_entries =
         [directory_entry [97],
          \<lparr> normalized_path = [97, 47, 98], entry_type = FILE, byte_count = 1, entry_sha256 = Some ''sha256:559a'',
            executable = Some False \<rparr>,
          \<lparr> normalized_path = [99], entry_type = FILE, byte_count = 0, entry_sha256 = Some ''sha256:e3b0'',
            executable = Some True \<rparr>],
       result_entry_count = 3, result_file_count = 2, result_directory_count = 1, total_expanded_bytes = 1 \<rparr>"

lemma example_nfc_laws: "nfc_laws (nfc example_env)"
  by (simp add: nfc_laws_def example_env_def)

text \<open>The same runtime, except that the first member is deflated and its bytes are corrupt.\<close>

definition corrupt_env :: "unit archive_env" where
  "corrupt_env = example_env
     \<lparr> infolist := (\<lambda>_. Inr [example_nested\<lparr> compress_type := 8 \<rparr>, example_empty]),
       member_reads := (\<lambda>_ info. if compress_type info = 8 then [Raises ZlibError] else []),
       at_eof := (\<lambda>_. False) \<rparr>"

lemma corrupt_zlib_laws: "zlib_laws corrupt_env"
  by (simp add: zlib_laws_def inflatable_def corrupt_env_def example_env_def)

lemmas example_runtime = example_env_def example_nested_def example_empty_def default_limits_def

lemma example_length: "length example_zip = 183"
  by (simp add: example_zip_def)

lemma example_marker: "rfind EOCD example_zip = Some 161"
  by (simp add: example_zip_def EOCD_def)

lemma example_layout: "zip_directory_layout example_zip True =
    Inr \<lparr> entry_count = 2, directory_bytes = 96, directory_offset = 65, end_record_offset = 161 \<rparr>"
proof -
  have all: "read_at example_zip 0 65557 = example_zip" by (simp add: read_at_def example_length)
  have fields: "le_field example_zip 181 2 = 0" "le_field example_zip 165 2 = 0" "le_field example_zip 167 2 = 0"
    "le_field example_zip 171 2 = 2" "le_field example_zip 173 4 = 96" "le_field example_zip 177 4 = 65"
    by (simp_all add: example_zip_def le_field_def le_nat_def)
  show ?thesis by (simp add: zip_directory_layout_def Let_def example_length all example_marker fields)
qed

lemma example_records:
  "validate_local_record (decode example_env) example_zip example_nested = Inr 34"
  "validate_local_record (decode example_env) example_zip example_empty = Inr 65"
  by (simp_all add: example_runtime example_zip_def validate_local_record_def reject_on_def seek_to_def seekable_def read_at_def
      le_field_def le_nat_def LOCAL_HEADER_def Let_def)

lemma example_coverage: "validate_record_coverage (decode example_env) example_zip [example_nested, example_empty] 65 = Inr ()"
  using example_records by (simp add: validate_record_coverage_def example_nested_def example_empty_def)

lemma example_members:
  "read_member example_env (default_limits\<lparr> maximum_entries := m \<rparr>) example_zip 0 example_nested (512 * 1024 * 1024) n
     = Inr (1, ''sha256:559a'', Suc n)"
  "read_member example_env (default_limits\<lparr> maximum_entries := m \<rparr>) example_zip 0 example_empty (512 * 1024 * 1024 - 1) n
     = Inr (0, ''sha256:e3b0'', n)"
  by (simp_all add: example_runtime read_member_def validate_compressed_stream_def check_deadline_def reject_on_def)

lemma example_paths:
  "validated_path example_env (default_limits\<lparr> maximum_entries := m \<rparr>) example_nested = Inr ([97, 47, 98], FILE)"
  "validated_path example_env (default_limits\<lparr> maximum_entries := m \<rparr>) example_empty = Inr ([99], FILE)"
  by (simp_all add: example_runtime validated_path_def is_dir_def normalize_submission_archive_path_def safe_part_def
      encoded_length_def code_point_bytes_def Let_def drop_bit_eq_div)

lemma example_modes: "normalized_executable example_nested = False" "normalized_executable example_empty = True"
  by (simp_all add: normalized_executable_def example_nested_def example_empty_def drop_bit_eq_div)

lemma example_folds:
  "fold_of example_env [97, 47, 98] = [97, 47, 98]" "fold_of example_env [97] = [97]" "fold_of example_env [99] = [99]"
  by (simp_all add: folded_path_def example_env_def)

lemma example_parts: "ancestors (posix_parts [97, 47, 98]) = [[97]]" "ancestors (posix_parts [99]) = []"
  by (simp_all add: posix_parts_def ancestors_def upt_rec)

lemma example_deadline: "check_deadline example_env (default_limits\<lparr> maximum_entries := m \<rparr>) 0 n = Inr (Suc n)"
  by (simp add: check_deadline_def example_runtime)

lemma example_expanded: "maximum_expanded_bytes default_limits = 512 * 1024 * 1024"
  by (simp add: default_limits_def)

lemmas example_turn = read_entry_def append_entry_def starts_with_def Let_def example_deadline example_paths
  example_folds example_parts example_members[simplified] example_modes example_expanded

lemma example_first:
  assumes "2 \<le> m"
  shows "read_entry example_env (default_limits\<lparr> maximum_entries := m \<rparr>) example_zip 0 example_nested initial_read =
    Inr \<lparr> results = take 2 (result_entries example_result), paths = [([97], DIRECTORY), ([97, 47, 98], FILE)],
          source_paths = [[97, 47, 98]], total = 1, ticks = 3 \<rparr>"
  using assms by (simp add: example_turn initial_read_def example_result_def directory_entry_def)

lemma example_second:
  "read_entry example_env (default_limits\<lparr> maximum_entries := m \<rparr>) example_zip 0 example_empty
    \<lparr> results = take 2 (result_entries example_result), paths = [([97], DIRECTORY), ([97, 47, 98], FILE)],
      source_paths = [[97, 47, 98]], total = 1, ticks = 3 \<rparr> =
    Inr \<lparr> results = result_entries example_result, paths = [([97], DIRECTORY), ([97, 47, 98], FILE), ([99], FILE)],
          source_paths = [[99], [97, 47, 98]], total = 1, ticks = 4 \<rparr>"
  by (simp add: example_turn example_result_def directory_entry_def)

lemma example_entries:
  assumes "2 \<le> m"
  obtains st where
    "read_entries example_env (default_limits\<lparr> maximum_entries := m \<rparr>) example_zip 0 [example_nested, example_empty] initial_read = Inr st"
    "results st = result_entries example_result"
  using that example_first[OF assms] example_second[of m] by simp

lemma example_inventory:
  "validate_submission_archive_inventory (nfc example_env) (casefold example_env) (result_entries example_result) = Inr ()"
  by (simp add: validate_submission_archive_inventory_def example_folds Let_def ancestors_def inventory_kinds_def
      example_result_def directory_entry_def upt_rec)

lemma example_result_of: "result_of (result_entries example_result) = example_result"
  by (simp add: result_of_def example_result_def directory_entry_def)

lemma example_inspected:
  assumes "2 \<le> m"
  shows "inspect example_env (default_limits\<lparr> maximum_entries := m \<rparr>) example_zip = Inr example_result"
proof -
  obtain st where st:
    "read_entries example_env (default_limits\<lparr> maximum_entries := m \<rparr>) example_zip 0 [example_nested, example_empty] initial_read = Inr st"
    "results st = result_entries example_result"
    using example_entries[OF assms] .
  have parts: "read_at example_zip 0 4 = LOCAL_HEADER" "clock example_env 0 = 0" "infolist example_env example_zip = Inr [example_nested, example_empty]"
    "maximum_central_directory_bytes default_limits = 8 * 1024 * 1024"
    by (simp_all add: example_zip_def read_at_def LOCAL_HEADER_def example_runtime)
  show ?thesis
    using assms st example_coverage example_inventory example_result_of
    by (simp add: inspect_def inspected_entries_def example_layout parts raised_def reject_on_def)
qed

lemma example_inspected_default: "inspect example_env default_limits example_zip = Inr example_result"
proof -
  have "default_limits = default_limits\<lparr> maximum_entries := 2000 \<rparr>" by (simp add: default_limits_def)
  then show ?thesis using example_inspected[of 2000] by simp
qed

end
