(* ===== verification/Archive_Properties.thy ===== *)
theory Archive_Properties
  imports Archive_Example
begin

text \<open>
  The guarantees of the submission archive inspector: what an accepted inventory looks like, what the bytes of an
  accepted file are, how far it can expand, how an inspection fails, and how the result fits the export.
\<close>

lemma normal_path_parts:
  assumes "normal_path n limits p" "part \<in> set (split_text slash p)"
  shows "safe_part part"
  using normalized_path_cases(5)[OF assms(1)[unfolded normal_path_def] assms(2)] .

text \<open>
  C26. An accepted inventory is safe to unpack. When \<open>inspect\<close> returns, the entries are sorted by path, no two paths
  agree after normalization and case folding, every ancestor of an entry is itself listed as a directory, and no path
  has an empty, dot, dot-dot, space-ended or dot-ended component; the four totals of the result are the numbers of
  entries, files and directories and the sum of the byte counts.
\<close>

theorem inspected_inventory_is_safe:
  assumes "inspect env limits source = Inr result" "limits_valid limits" "nfc_laws (nfc env)"
  shows "sorted (map normalized_path (result_entries result)) \<and>
    distinct (map (\<lambda>e. casefold env (nfc env (normalized_path e))) (result_entries result)) \<and>
    (\<forall>e \<in> set (result_entries result). \<forall>a \<in> set (ancestors (split_text slash (normalized_path e))).
       \<exists>d \<in> set (result_entries result). normalized_path d = a \<and> entry_type d = DIRECTORY) \<and>
    (\<forall>e \<in> set (result_entries result). \<forall>part \<in> set (split_text slash (normalized_path e)). safe_part part) \<and>
    result_entry_count result = length (result_entries result) \<and>
    result_file_count result + result_directory_count result = result_entry_count result \<and>
    result_file_count result = length (filter (\<lambda>e. entry_type e = FILE) (result_entries result)) \<and>
    total_expanded_bytes result = sum_list (map byte_count (result_entries result))"
proof -
  obtain entries where entries: "result = result_of entries"
    "validate_submission_archive_inventory (nfc env) (casefold env) entries = Inr ()"
    "\<And>e. e \<in> set entries \<Longrightarrow> path_of_archive env limits (normalized_path e)"
    using inspect_read_ok[OF assms(1,2)] by metis
  have perm: "mset (result_entries result) = mset entries" by (simp add: entries(1) result_of_def Let_def)
  have inv: "validate_submission_archive_inventory (nfc env) (casefold env) (result_entries result) = Inr ()"
    using entries(2) by (simp add: entries(1) result_of_def Let_def inventory_sorted)
  have safe: "safe_part part" if "e \<in> set (result_entries result)" "part \<in> set (split_text slash (normalized_path e))" for e part
    using normal_path_parts[OF path_of_archive_normal[OF assms(3) entries(3)] that(2)] that(1) mset_eq_setD[OF perm] by blast
  have counts: "length (filter P (result_entries result)) = length (filter P entries)"
      "sum_list (map byte_count (result_entries result)) = sum_list (map byte_count entries)" for P
    using perm by (metis mset_filter size_mset) (metis perm mset_map sum_mset_sum_list)
  show ?thesis
    using inv[unfolded inventory_accepted_iff folded_path_def] safe counts mset_eq_length[OF perm]
    by (simp add: entries(1) result_of_def Let_def length_filter_le)
qed

theorem inspected_inventory_is_safe_witness:
  "sorted (map normalized_path (result_entries example_result)) \<and>
   distinct (map (\<lambda>e. casefold example_env (nfc example_env (normalized_path e))) (result_entries example_result)) \<and>
   result_entry_count example_result = 3"
  using inspected_inventory_is_safe[OF example_inspected_default default_limits_valid example_nfc_laws]
  by (simp add: example_result_def)

text \<open>
  C27. The records of an accepted archive tile the file. When \<open>inspect\<close> returns, every byte in front of the central
  directory belongs to exactly one accepted local record and no record reaches past it, so entries neither overlap nor
  hide bytes between them; the central directory ends exactly where its end record starts, inside the file.
\<close>

theorem accepted_records_tile_the_file:
  assumes "inspect env limits source = Inr result"
  shows "\<exists>layout infos. zip_directory_layout source True = Inr layout \<and> infolist env source = Inr infos \<and>
    length infos = entry_count layout \<and>
    (\<forall>i. length (filter (record_covers (decode env) source i) infos) = (if i < directory_offset layout then 1 else 0)) \<and>
    (\<forall>info \<in> set infos. \<exists>stop. validate_local_record (decode env) source info = Inr stop \<and>
       payload_start source (nat (header_offset info)) + compress_size info \<le> stop \<and> stop \<le> directory_offset layout) \<and>
    directory_offset layout + directory_bytes layout = end_record_offset layout \<and>
    end_record_offset layout + 22 \<le> length source"
proof -
  obtain layout infos where l: "zip_directory_layout source True = Inr layout" "infolist env source = Inr infos"
    "length infos = entry_count layout" "validate_record_coverage (decode env) source infos (directory_offset layout) = Inr ()"
    using inspect_accepted[OF assms] by metis
  note tiles = validate_record_coverage_tiles[OF l(4)]
  have "\<exists>stop. validate_local_record (decode env) source info = Inr stop \<and>
      payload_start source (nat (header_offset info)) + compress_size info \<le> stop \<and> stop \<le> directory_offset layout"
    if "info \<in> set infos" for info
    using tiles(3)[OF that] validate_local_record_span(2) by blast
  then show ?thesis using l tiles(1) zip_directory_layout_envelope(1,2)[OF l(1)] by blast
qed

theorem accepted_records_tile_the_file_witness:
  "\<exists>layout infos. zip_directory_layout example_zip True = Inr layout \<and> infolist example_env example_zip = Inr infos \<and>
    length infos = 2 \<and> (\<forall>i. length (filter (record_covers (decode example_env) example_zip i) infos) = (if i < 65 then 1 else 0))"
proof -
  obtain layout infos where l: "zip_directory_layout example_zip True = Inr layout" "infolist example_env example_zip = Inr infos"
    "length infos = entry_count layout"
    "\<forall>i. length (filter (record_covers (decode example_env) example_zip i) infos) = (if i < directory_offset layout then 1 else 0)"
    using accepted_records_tile_the_file[OF example_inspected_default] by blast
  have "entry_count layout = 2" "directory_offset layout = 65" using l(1) example_layout by auto
  then show ?thesis using l by metis
qed

text \<open>
  C28. Expansion is bounded. When \<open>inspect\<close> returns under valid limits, every entry is within the entry limit, all
  entries together are within the expansion limit, and together they are at most the compression ratio times the size of
  the file that was uploaded: because records cannot overlap, reusing one compressed range for many entries gains
  nothing.
\<close>

theorem expansion_is_bounded:
  assumes "inspect env limits source = Inr result" "limits_valid limits"
  shows "(\<forall>e \<in> set (result_entries result). int (byte_count e) \<le> maximum_entry_bytes limits) \<and>
    int (total_expanded_bytes result) \<le> maximum_expanded_bytes limits \<and>
    int (total_expanded_bytes result) \<le> maximum_compression_ratio limits * int (length source)"
proof -
  obtain entries infos layout where e: "result = result_of entries" "zip_directory_layout source True = Inr layout"
    "validate_record_coverage (decode env) source infos (directory_offset layout) = Inr ()"
    "int (sum_list (map byte_count entries)) \<le> maximum_expanded_bytes limits"
    "int (sum_list (map byte_count entries)) \<le> int (sum_list (map compress_size infos)) * maximum_compression_ratio limits"
    "\<And>e. e \<in> set entries \<Longrightarrow> int (byte_count e) \<le> maximum_entry_bytes limits"
    using inspect_read_ok[OF assms] by metis
  have "sum_list (map compress_size infos) \<le> directory_offset layout"
    using validate_record_coverage_tiles(2)[OF e(3)] by (simp add: sum_list_addf)
  then have "sum_list (map compress_size infos) \<le> length source"
    using zip_directory_layout_envelope(1,2)[OF e(2)] by linarith
  then have "int (sum_list (map compress_size infos)) * maximum_compression_ratio limits
      \<le> int (length source) * maximum_compression_ratio limits"
    using assms(2) by (intro mult_right_mono) (auto simp: limits_valid_def)
  then show ?thesis using e(4-6) by (simp add: e(1) result_of_def Let_def mult.commute)
qed

theorem expansion_is_bounded_witness:
  "total_expanded_bytes example_result = 1 \<and> int (total_expanded_bytes example_result) \<le> 100 * int (length example_zip)"
  using expansion_is_bounded[OF example_inspected_default default_limits_valid]
  by (simp add: example_result_def default_limits_def)



text \<open>
  C32. The export accepts what the inspector returned, up to the entry limit. The checks that
  \<open>exported_submission_tree\<close> repeats on an inspected result all pass, except that it counts the implied directories:
  \<open>inspect\<close> compares the limit with the central directory and when it adds an implied directory, but not when it adds a
  file after one, so it can return more entries than \<open>maximum_entries\<close>, and then the export rejects the result it was
  given. The witness is an archive with two files that has three entries under a limit of two.
\<close>

theorem export_accepts_inspected_result:
  assumes "inspect env limits source = Inr result" "limits_valid limits" "nfc_laws (nfc env)"
  shows "export_guard (nfc env) (casefold env) limits result =
    (if int (result_entry_count result) > maximum_entries limits then Inl (Rejected LIMIT_EXCEEDED) else Inr ())"
  using inspected_export_guard[OF assms] .

theorem export_accepts_inspected_result_witness:
  "inspect example_env (default_limits\<lparr> maximum_entries := 2 \<rparr>) example_zip = Inr example_result \<and>
   export_guard (nfc example_env) (casefold example_env) (default_limits\<lparr> maximum_entries := 2 \<rparr>) example_result
     = Inl (Rejected LIMIT_EXCEEDED)"
proof -
  have valid: "limits_valid (default_limits\<lparr> maximum_entries := 2 \<rparr>)" by (simp add: limits_valid_def default_limits_def)
  have accepted: "inspect example_env (default_limits\<lparr> maximum_entries := 2 \<rparr>) example_zip = Inr example_result"
    by (rule example_inspected) simp
  show ?thesis
    using export_accepts_inspected_result[OF accepted valid example_nfc_laws] accepted by (simp add: example_result_def)
qed

end
