(* ===== verification/Archive_Export.thy ===== *)
theory Archive_Export
  imports Archive_Inspect "HOL-Library.Product_Lexorder"
begin

text \<open>
  Trees on disk: the descriptor-relative operations of \<open>modules/artifacts/submission_archive.py\<close>, the callback-scoped
  tree \<open>SealedSubmissionTree\<close>, and \<open>exported_submission_tree\<close>, which writes the files an exporter hands over and seals
  what it reads back. The workspace is a map from component paths below its root to nodes, with the set of nodes that the
  file system lets the process create: not those whose name is too long or for which there is no space. The process is
  the only user of the workspace and owns it, so the owner's permission bits decide, no symbolic link appears, and
  \<open>fsync\<close> and \<open>read\<close> do not fail. A system call that fails raises \<open>OSError\<close>.
\<close>

type_synonym mode = "16 word"

datatype node = Directory mode | Regular mode bytes

type_synonym tree = "ustring list \<rightharpoonup> node"

record workspace =
  root_mode :: mode
  nodes :: tree
  creatable :: "ustring list \<Rightarrow> bool"

text \<open>\<open>mode & ~umask\<close>, the mode a created node gets.\<close>

definition created_mode :: "mode \<Rightarrow> mode \<Rightarrow> mode" where
  "created_mode umask m = m AND NOT umask"

abbreviation (input) "MODE_700 \<equiv> (0x1C0::mode)"
abbreviation (input) "MODE_600 \<equiv> (0x180::mode)"
abbreviation (input) "MODE_500 \<equiv> (0x140::mode)"
abbreviation (input) "MODE_400 \<equiv> (0x100::mode)"
abbreviation (input) "MODE_777 \<equiv> (0x1FF::mode)"
abbreviation (input) "MODE_077 \<equiv> (0x3F::mode)"

text \<open>The owner's permissions on a directory: read 0400, write 0200, search 0100. The empty path is the root.\<close>

definition permits :: "mode \<Rightarrow> workspace \<Rightarrow> ustring list \<Rightarrow> bool" where
  "permits bits ws key \<longleftrightarrow>
     (if key = [] then root_mode ws AND bits = bits
      else case nodes ws key of Some (Directory m) \<Rightarrow> m AND bits = bits | _ \<Rightarrow> False)"

abbreviation (input) "READ \<equiv> (0x100::mode)"
abbreviation (input) "SEARCH \<equiv> (0x40::mode)"
abbreviation (input) "WRITE_SEARCH \<equiv> (0xC0::mode)"

definition open_parent_beneath :: "workspace \<Rightarrow> ustring \<Rightarrow> archive_error + (ustring list \<times> ustring)" where
  "open_parent_beneath ws path =
     (let parts = posix_parts path in
      if list_ex (\<lambda>depth. \<not> (permits SEARCH ws (take (depth - 1) parts) \<and> permits READ ws (take depth parts))) [1..<length parts]
      then Inl (Raised OSError) else Inr (butlast parts, last parts))"

text \<open>\<open>os.open\<close> of an existing name for reading.\<close>

definition node_mode :: "node \<Rightarrow> mode" where
  "node_mode node = (case node of Directory m \<Rightarrow> m | Regular m _ \<Rightarrow> m)"

definition open_beneath :: "workspace \<Rightarrow> ustring \<Rightarrow> archive_error + (ustring list \<times> node)" where
  "open_beneath ws path =
     andthen (open_parent_beneath ws path) (\<lambda>(parent, name).
     if \<not> permits SEARCH ws parent then Inl (Raised OSError) else
     need (nodes ws (parent @ [name])) (Raised OSError) (\<lambda>node.
     if node_mode node AND READ \<noteq> READ then Inl (Raised OSError) else Inr (parent @ [name], node)))"

text \<open>Whether a name can be created: the parent admits it, it is free, and the file system can store it.\<close>

definition admits :: "workspace \<Rightarrow> ustring list \<Rightarrow> ustring \<Rightarrow> bool" where
  "admits ws parent name \<longleftrightarrow>
     permits WRITE_SEARCH ws parent \<and> nodes ws (parent @ [name]) = None \<and> creatable ws (parent @ [name])"

definition mkdir_beneath :: "mode \<Rightarrow> workspace \<Rightarrow> ustring \<Rightarrow> archive_error + workspace" where
  "mkdir_beneath umask ws path =
     andthen (open_parent_beneath ws path) (\<lambda>(parent, name).
     if \<not> admits ws parent name then Inl (Raised OSError)
     else Inr (ws\<lparr> nodes := (nodes ws)(parent @ [name] \<mapsto> Directory (created_mode umask MODE_700)) \<rparr>))"

definition sealed_mode :: "SubmissionArchiveEntry \<Rightarrow> mode" where
  "sealed_mode entry = (if executable entry = Some True then MODE_500 else MODE_400)"

text \<open>\<open>os.fchmod\<close> of a node that was just opened.\<close>

definition chmod_node :: "mode \<Rightarrow> node \<Rightarrow> node" where
  "chmod_node m node = (case node of Directory _ \<Rightarrow> Directory m | Regular _ content \<Rightarrow> Regular m content)"

definition chmod_beneath :: "mode \<Rightarrow> workspace \<Rightarrow> ustring \<Rightarrow> archive_error + workspace" where
  "chmod_beneath m ws path =
     andthen (open_beneath ws path) (\<lambda>(key, node).
     case node of Directory _ \<Rightarrow> Inr (ws\<lparr> nodes := (nodes ws)(key \<mapsto> chmod_node m node) \<rparr>)
     | Regular _ _ \<Rightarrow> Inl (Raised OSError))"

primrec each_path :: "(workspace \<Rightarrow> ustring \<Rightarrow> archive_error + workspace) \<Rightarrow> workspace \<Rightarrow> ustring list \<Rightarrow> archive_error + workspace" where
  "each_path f ws [] = Inr ws"
| "each_path f ws (path # more_paths) = andthen (f ws path) (\<lambda>ws. each_path f ws more_paths)"

text \<open>
  The loop that hands a buffer to \<open>os.write\<close> until it is empty; \<open>accepts n\<close> is the number of bytes one call takes of
  the \<open>n\<close> that are left.
\<close>

function write_view :: "(nat \<Rightarrow> int) \<Rightarrow> bytes \<Rightarrow> bytes \<Rightarrow> archive_error + bytes" where
  "write_view accepts content view =
     (if view = [] then Inr content else
      let count = accepts (length view) in
      if count \<le> 0 then Inl (Raised OSError)
      else write_view accepts (content @ take (nat count) view) (drop (nat count) view))"
  by pat_completeness auto
termination
  by (relation "measure (\<lambda>(accepts, content, view). length view)") auto

declare write_view.simps [simp del]

definition append_beneath :: "(nat \<Rightarrow> int) \<Rightarrow> workspace \<Rightarrow> ustring list \<Rightarrow> bytes \<Rightarrow> archive_error + workspace" where
  "append_beneath accepts ws key chunk =
     (case nodes ws key of Some (Regular m content) \<Rightarrow>
        andthen (write_view accepts content chunk) (\<lambda>content. Inr (ws\<lparr> nodes := (nodes ws)(key \<mapsto> Regular m content) \<rparr>))
      | _ \<Rightarrow> Inl (Raised OSError))"

definition read_projected_file ::
  "(bytes \<Rightarrow> string) \<Rightarrow> workspace \<Rightarrow> SubmissionArchiveEntry list \<Rightarrow> ustring \<Rightarrow> nat \<Rightarrow> archive_error + bytes" where
  "read_projected_file sha ws entries path maximum_bytes =
     need (find (\<lambda>e. normalized_path e = path \<and> entry_type e = FILE) entries) (Rejected LIMIT_EXCEEDED) (\<lambda>entry.
     if byte_count entry > maximum_bytes then Inl (Rejected LIMIT_EXCEEDED) else
     andthen (open_beneath ws path) (\<lambda>(_, node).
     case node of Directory _ \<Rightarrow> integrity_failure
     | Regular m content \<Rightarrow>
       if m AND MODE_777 \<noteq> sealed_mode entry \<or> length content \<noteq> byte_count entry then integrity_failure else
       if length content > maximum_bytes then Inl (Rejected LIMIT_EXCEEDED) else
       if Some (''sha256:'' @ sha content) \<noteq> entry_sha256 entry then integrity_failure
       else Inr content))"

subsection \<open>Sealed trees\<close>

record SealedSubmissionTree =
  sealed_entries :: "SubmissionArchiveEntry list"
  sealed_content :: "(ustring \<times> bytes) list"
  sealed_closed :: bool

definition sealed_tree :: "SubmissionArchiveEntry list \<Rightarrow> (ustring \<times> bytes) list \<Rightarrow> SealedSubmissionTree" where
  "sealed_tree entries content = \<lparr> sealed_entries = entries, sealed_content = content, sealed_closed = False \<rparr>"

definition assert_open :: "SealedSubmissionTree \<Rightarrow> archive_error + unit" where
  "assert_open t = (if sealed_closed t then Inl (Raised RuntimeError) else Inr ())"

definition tree_entries :: "SealedSubmissionTree \<Rightarrow> archive_error + SubmissionArchiveEntry list" where
  "tree_entries t = andthen (assert_open t) (\<lambda>_. Inr (sealed_entries t))"

definition read_file :: "(bytes \<Rightarrow> string) \<Rightarrow> SealedSubmissionTree \<Rightarrow> ustring \<Rightarrow> int \<Rightarrow> archive_error + bytes" where
  "read_file sha t path maximum_bytes =
     andthen (assert_open t) (\<lambda>_.
     if maximum_bytes < 0 then Inl (Raised ValueError) else
     need (map_of (sealed_content t) path) (Rejected LIMIT_EXCEEDED) (\<lambda>content.
     if int (length content) > maximum_bytes then Inl (Rejected LIMIT_EXCEEDED) else
     need (find (\<lambda>e. normalized_path e = path \<and> entry_type e = FILE) (sealed_entries t)) (Rejected INTEGRITY_FAILURE) (\<lambda>entry.
     if length content \<noteq> byte_count entry \<or> Some (''sha256:'' @ sha content) \<noteq> entry_sha256 entry
     then integrity_failure else Inr content)))"

definition close_tree :: "SealedSubmissionTree \<Rightarrow> SealedSubmissionTree" where
  "close_tree t = t\<lparr> sealed_content := [], sealed_entries := [], sealed_closed := True \<rparr>"

text \<open>The dictionary comprehension over the file entries; paths are unique, so the order of the entries is kept.\<close>

primrec seal_content ::
  "(bytes \<Rightarrow> string) \<Rightarrow> workspace \<Rightarrow> SubmissionArchiveEntry list \<Rightarrow> SubmissionArchiveEntry list \<Rightarrow> archive_error + (ustring \<times> bytes) list" where
  "seal_content sha ws entries [] = Inr []"
| "seal_content sha ws entries (entry # more_entries) =
     andthen (read_projected_file sha ws entries (normalized_path entry) (byte_count entry)) (\<lambda>content.
     andthen (seal_content sha ws entries more_entries) (\<lambda>items. Inr ((normalized_path entry, content) # items)))"

subsection \<open>Exported trees\<close>

text \<open>\<open>os.open\<close> with \<open>O_CREAT | O_EXCL\<close>.\<close>

definition create_beneath :: "mode \<Rightarrow> mode \<Rightarrow> workspace \<Rightarrow> ustring \<Rightarrow> archive_error + (workspace \<times> ustring list)" where
  "create_beneath umask m ws path =
     andthen (open_parent_beneath ws path) (\<lambda>(parent, name).
     if \<not> admits ws parent name then Inl (Raised OSError)
     else Inr (ws\<lparr> nodes := (nodes ws)(parent @ [name] \<mapsto> Regular (created_mode umask m) []) \<rparr>, parent @ [name]))"

text \<open>The variables that \<open>receive\<close> shares with \<open>exported_submission_tree\<close>.\<close>

record receive_state =
  received_ws :: workspace
  descriptor :: "ustring list option"
  position :: nat
  written :: nat

definition receive ::
  "mode \<Rightarrow> (nat \<Rightarrow> int) \<Rightarrow> SubmissionArchiveEntry list \<Rightarrow> receive_state \<Rightarrow> SubmissionArchiveEntry \<Rightarrow> bytes
    \<Rightarrow> archive_error + receive_state" where
  "receive umask accepts files st entry content =
     (if position st \<ge> length files \<or> entry \<noteq> files ! position st then integrity_failure else
      andthen (case descriptor st of Some key \<Rightarrow> Inr (received_ws st, key)
          | None \<Rightarrow> create_beneath umask (sealed_mode entry) (received_ws st) (normalized_path entry)) (\<lambda>(ws, key).
      if written st + length content > byte_count entry \<or> content = [] \<and> byte_count entry \<noteq> 0 then integrity_failure else
      andthen (append_beneath accepts ws key content) (\<lambda>ws.
      if written st + length content = byte_count entry
      then Inr \<lparr> received_ws = ws, descriptor = None, position = position st + 1, written = 0 \<rparr>
      else Inr \<lparr> received_ws = ws, descriptor = Some key, position = position st, written = written st + length content \<rparr>)))"

text \<open>The calls an exporter makes, in order; a failure of the callback ends the export.\<close>

primrec receive_all ::
  "mode \<Rightarrow> (nat \<Rightarrow> int) \<Rightarrow> SubmissionArchiveEntry list \<Rightarrow> receive_state \<Rightarrow> (SubmissionArchiveEntry \<times> bytes) list
    \<Rightarrow> archive_error + receive_state" where
  "receive_all umask accepts files st [] = Inr st"
| "receive_all umask accepts files st (call # calls) =
     andthen (receive umask accepts files st (fst call) (snd call)) (\<lambda>st. receive_all umask accepts files st calls)"

definition file_entries :: "SubmissionArchiveEntry list \<Rightarrow> SubmissionArchiveEntry list" where
  "file_entries entries = filter (\<lambda>e. entry_type e = FILE) entries"

definition export_directories :: "SubmissionArchiveEntry list \<Rightarrow> ustring list" where
  "export_directories entries =
     sort_key (\<lambda>path. (length (filter (\<lambda>c. c = slash) path), path))
       (map normalized_path (filter (\<lambda>e. entry_type e = DIRECTORY) entries))"

text \<open>The end of both projections: directories and root lose write permission, and the files are read back.\<close>

definition seal_workspace ::
  "(bytes \<Rightarrow> string) \<Rightarrow> workspace \<Rightarrow> ustring list \<Rightarrow> SubmissionArchiveEntry list \<Rightarrow> archive_error + (workspace \<times> SealedSubmissionTree)" where
  "seal_workspace sha ws directories entries =
     andthen (each_path (chmod_beneath MODE_500) ws (rev directories)) (\<lambda>ws.
     let ws = ws\<lparr> root_mode := MODE_500 \<rparr> in
     andthen (seal_content sha ws entries (file_entries entries)) (\<lambda>content.
     Inr (ws, sealed_tree entries content)))"

definition exported_submission_tree ::
  "'z archive_env \<Rightarrow> SubmissionArchiveLimits \<Rightarrow> mode \<Rightarrow> (nat \<Rightarrow> int) \<Rightarrow> SubmissionArchiveInspectionResult
    \<Rightarrow> (SubmissionArchiveEntry \<times> bytes) list \<Rightarrow> workspace \<Rightarrow> archive_error + (workspace \<times> SealedSubmissionTree)" where
  "exported_submission_tree env limits umask accepts expected calls ws =
     andthen (export_guard (nfc env) (casefold env) limits expected) (\<lambda>_.
     let entries = result_entries expected; files = file_entries entries; directories = export_directories entries in
     if \<not> permits READ ws [] then Inl (Raised OSError) else
     if root_mode ws AND MODE_077 \<noteq> 0 then integrity_failure else
     andthen (each_path (mkdir_beneath umask) ws directories) (\<lambda>ws.
     andthen (receive_all umask accepts files
         \<lparr> received_ws = ws, descriptor = None, position = 0, written = 0 \<rparr> calls) (\<lambda>st.
     if position st \<noteq> length files \<or> descriptor st \<noteq> None then integrity_failure
     else seal_workspace (sha256_hex env) (received_ws st) directories entries)))"

subsection \<open>Projected trees\<close>

text \<open>
  \<open>_project_file\<close>: the member is written chunk by chunk under the byte count of its entry, its digest is compared, and the
  mode set last. The content of the file so far is the content read so far.
\<close>

fun project_loop ::
  "'z archive_env \<Rightarrow> SubmissionArchiveLimits \<Rightarrow> rat \<Rightarrow> (nat \<Rightarrow> int) \<Rightarrow> nat \<Rightarrow> ustring list \<Rightarrow> workspace \<Rightarrow> bytes \<Rightarrow> nat
    \<Rightarrow> member_read list \<Rightarrow> archive_error + (workspace \<times> bytes \<times> nat)" where
  "project_loop env limits started accepts expected_bytes key ws content tick [] = Inr (ws, content, tick)"
| "project_loop env limits started accepts expected_bytes key ws content tick (Raises e # reads) = Inl (Raised e)"
| "project_loop env limits started accepts expected_bytes key ws content tick (Chunk chunk # reads) =
     (if chunk = [] then Inr (ws, content, tick) else
      andthen (check_deadline env limits started tick) (\<lambda>tick.
      if length (content @ chunk) > expected_bytes then integrity_failure else
      andthen (append_beneath accepts ws key chunk) (\<lambda>ws.
      project_loop env limits started accepts expected_bytes key ws (content @ chunk) tick reads)))"

definition project_file ::
  "'z archive_env \<Rightarrow> SubmissionArchiveLimits \<Rightarrow> rat \<Rightarrow> mode \<Rightarrow> (nat \<Rightarrow> int) \<Rightarrow> bytes \<Rightarrow> ZipInfo \<Rightarrow> SubmissionArchiveEntry
    \<Rightarrow> workspace \<Rightarrow> nat \<Rightarrow> archive_error + (workspace \<times> nat)" where
  "project_file env limits started umask accepts source info entry ws tick =
     andthen (create_beneath umask MODE_600 ws (normalized_path entry)) (\<lambda>(ws, key).
     andthen (project_loop env limits started accepts (byte_count entry) key ws [] tick (member_reads env source info))
       (\<lambda>(ws, content, tick).
     if length content \<noteq> byte_count entry \<or> Some (''sha256:'' @ sha256_hex env content) \<noteq> entry_sha256 entry
     then integrity_failure else
     need (nodes ws key) (Raised OSError) (\<lambda>node.
     case chmod_node (sealed_mode entry) node of Directory _ \<Rightarrow> integrity_failure
     | Regular m stored \<Rightarrow>
       if length stored \<noteq> byte_count entry \<or> m AND MODE_777 \<noteq> sealed_mode entry then integrity_failure
       else Inr (ws\<lparr> nodes := (nodes ws)(key \<mapsto> Regular m stored) \<rparr>, tick))))"

text \<open>The dictionary from paths to the file members of the archive.\<close>

primrec file_infos ::
  "'z archive_env \<Rightarrow> SubmissionArchiveLimits \<Rightarrow> (ustring \<times> ZipInfo) list \<Rightarrow> ZipInfo list
    \<Rightarrow> archive_error + (ustring \<times> ZipInfo) list" where
  "file_infos env limits found [] = Inr found"
| "file_infos env limits found (info # infos) =
     andthen (validated_path env limits info) (\<lambda>(path, etype).
     if etype = FILE then
       if map_of found path \<noteq> None then Inl (Rejected COLLISION)
       else file_infos env limits (found @ [(path, info)]) infos
     else file_infos env limits found infos)"

primrec project_files ::
  "'z archive_env \<Rightarrow> SubmissionArchiveLimits \<Rightarrow> rat \<Rightarrow> mode \<Rightarrow> (nat \<Rightarrow> int) \<Rightarrow> bytes \<Rightarrow> (ustring \<times> ZipInfo) list
    \<Rightarrow> workspace \<Rightarrow> nat \<Rightarrow> SubmissionArchiveEntry list \<Rightarrow> archive_error + workspace" where
  "project_files env limits started umask accepts source infos ws tick [] =
     (if infos \<noteq> [] then integrity_failure else Inr ws)"
| "project_files env limits started umask accepts source infos ws tick (entry # entries) =
     need (map_of infos (normalized_path entry)) (Rejected INTEGRITY_FAILURE) (\<lambda>info.
     andthen (project_file env limits started umask accepts source info entry ws tick) (\<lambda>(ws, tick).
     project_files env limits started umask accepts source (filter (\<lambda>(path, _). path \<noteq> normalized_path entry) infos)
       ws tick entries))"

definition projected_directories :: "SubmissionArchiveEntry list \<Rightarrow> ustring list" where
  "projected_directories entries =
     sort_key (\<lambda>path. (length (posix_parts path), path))
       (map normalized_path (filter (\<lambda>e. entry_type e = DIRECTORY) entries))"

text \<open>
  \<open>_projected_tree\<close> up to its \<open>yield\<close>; \<open>later n\<close> is the n-th reading of the clock after the inspection.
\<close>

definition projected_tree ::
  "'z archive_env \<Rightarrow> (nat \<Rightarrow> rat) \<Rightarrow> SubmissionArchiveLimits \<Rightarrow> mode \<Rightarrow> (nat \<Rightarrow> int) \<Rightarrow> bytes
    \<Rightarrow> SubmissionArchiveInspectionResult \<Rightarrow> workspace \<Rightarrow> archive_error + (workspace \<times> SealedSubmissionTree)" where
  "projected_tree env later limits umask accepts source expected ws =
     andthen (inspect env limits source) (\<lambda>observed.
     if observed \<noteq> expected then integrity_failure else
     if \<not> permits READ ws [] then Inl (Raised OSError) else
     if root_mode ws AND MODE_077 \<noteq> 0 then integrity_failure else
     let entries = result_entries expected; directories = projected_directories entries in
     reject_on (\<lambda>e. e \<in> {OSError, ValueError, RuntimeError} \<or> is_BadZipFile e) INTEGRITY_FAILURE
       (andthen (raised (infolist env source)) (\<lambda>infos.
        andthen (file_infos env limits [] infos) (\<lambda>infos.
        andthen (each_path (mkdir_beneath umask) ws directories) (\<lambda>ws.
        andthen (project_files (env\<lparr> clock := later \<rparr>) limits (later 0) umask accepts source infos ws 1
            (file_entries entries)) (\<lambda>ws.
        seal_workspace (sha256_hex env) ws directories entries))))))"

text \<open>
  \<open>project_and_run\<close>, and the same for a consumer of \<open>exported_submission_tree\<close>: the callback gets the open tree, and the
  \<open>finally\<close> block closes the tree whether the callback returned or raised. What the callback returned or raised, and the
  tree it leaves behind, are the result.
\<close>

definition project_and_run ::
  "'z archive_env \<Rightarrow> (nat \<Rightarrow> rat) \<Rightarrow> SubmissionArchiveLimits \<Rightarrow> mode \<Rightarrow> (nat \<Rightarrow> int) \<Rightarrow> bytes
    \<Rightarrow> SubmissionArchiveInspectionResult \<Rightarrow> (SealedSubmissionTree \<Rightarrow> archive_error + 'r) \<Rightarrow> workspace
    \<Rightarrow> archive_error + ((archive_error + 'r) \<times> SealedSubmissionTree)" where
  "project_and_run env later limits umask accepts source expected callback ws =
     andthen (projected_tree env later limits umask accepts source expected ws) (\<lambda>(ws, t).
     Inr (callback t, close_tree t))"

definition export_and_run ::
  "'z archive_env \<Rightarrow> SubmissionArchiveLimits \<Rightarrow> mode \<Rightarrow> (nat \<Rightarrow> int) \<Rightarrow> SubmissionArchiveInspectionResult
    \<Rightarrow> (SubmissionArchiveEntry \<times> bytes) list \<Rightarrow> (SealedSubmissionTree \<Rightarrow> archive_error + 'r) \<Rightarrow> workspace
    \<Rightarrow> archive_error + ((archive_error + 'r) \<times> SealedSubmissionTree)" where
  "export_and_run env limits umask accepts expected calls callback ws =
     andthen (exported_submission_tree env limits umask accepts expected calls ws) (\<lambda>(ws, t).
     Inr (callback t, close_tree t))"

end
