(* ===== verification/Archive_Seal.thy ===== *)
theory Archive_Seal
  imports Archive_Export Archive_Safety
begin

text \<open>
  What the export seals. The state that \<open>receive\<close> keeps is determined by the calls made so far: the files completed
  and the one in progress hold exactly the bytes handed over for them, and nothing else below the root changes.
\<close>

subsection \<open>Writing\<close>

lemma write_view_content: "write_view accepts content view = Inr r \<Longrightarrow> r = content @ view"
proof (induction accepts content view rule: write_view.induct)
  case (1 accepts content view)
  note step = write_view.simps[of accepts content view]
  show ?case
  proof (cases "view = []")
    case True
    then show ?thesis using 1(2) step by simp
  next
    case False
    have "\<not> accepts (length view) \<le> 0"
        "write_view accepts (content @ take (nat (accepts (length view))) view) (drop (nat (accepts (length view))) view) = Inr r"
      using 1(2) False unfolding step by (auto simp: Let_def split: if_splits)
    then show ?thesis using 1(1)[OF False refl] by simp
  qed
qed

lemma append_beneath_Inr:
  assumes "append_beneath accepts ws key chunk = Inr ws'"
  obtains m content where "nodes ws key = Some (Regular m content)"
    "ws' = ws\<lparr> nodes := (nodes ws)(key \<mapsto> Regular m (content @ chunk)) \<rparr>"
  using assms write_view_content unfolding append_beneath_def
  by (auto simp: outcome_inv split: option.splits node.splits)

lemma open_parent_beneath_Inr:
  "open_parent_beneath ws path = Inr (parent, name) \<Longrightarrow> parent = butlast (posix_parts path) \<and> name = last (posix_parts path)"
  by (auto simp: open_parent_beneath_def Let_def split: if_splits)

lemma create_beneath_Inr:
  assumes "create_beneath umask m ws path = Inr (ws', key)" "posix_parts path \<noteq> []"
  shows "key = posix_parts path" "nodes ws key = None"
    "ws' = ws\<lparr> nodes := (nodes ws)(key \<mapsto> Regular (created_mode umask m) []) \<rparr>"
  using assms unfolding create_beneath_def
  by (auto simp: outcome_inv admits_def dest!: open_parent_beneath_Inr split: if_splits)

subsection \<open>Receiving\<close>

text \<open>The bytes that a sequence of calls hands over for an entry.\<close>

definition received :: "(SubmissionArchiveEntry \<times> bytes) list \<Rightarrow> SubmissionArchiveEntry \<Rightarrow> bytes" where
  "received calls e = concat (map snd (filter (\<lambda>c. fst c = e) calls))"

abbreviation entry_key :: "SubmissionArchiveEntry \<Rightarrow> ustring list" where
  "entry_key e \<equiv> posix_parts (normalized_path e)"

definition stored_node :: "mode \<Rightarrow> (SubmissionArchiveEntry \<times> bytes) list \<Rightarrow> SubmissionArchiveEntry \<Rightarrow> node" where
  "stored_node umask calls e = Regular (created_mode umask (sealed_mode e)) (received calls e)"

definition stored :: "mode \<Rightarrow> (SubmissionArchiveEntry \<times> bytes) list \<Rightarrow> SubmissionArchiveEntry list \<Rightarrow> tree" where
  "stored umask calls fs = map_of (map (\<lambda>e. (entry_key e, stored_node umask calls e)) fs)"

definition begun :: "receive_state \<Rightarrow> nat" where
  "begun st = (if descriptor st = None then position st else position st + 1)"

definition receive_ok ::
  "mode \<Rightarrow> SubmissionArchiveEntry list \<Rightarrow> workspace \<Rightarrow> (SubmissionArchiveEntry \<times> bytes) list \<Rightarrow> receive_state \<Rightarrow> bool" where
  "receive_ok umask files base calls st \<longleftrightarrow>
     begun st \<le> length files \<and>
     received_ws st = base\<lparr> nodes := nodes base ++ stored umask calls (take (begun st) files) \<rparr> \<and>
     (\<forall>e \<in> set (take (position st) files). length (received calls e) = byte_count e) \<and>
     (\<forall>e \<in> set (drop (begun st) files). received calls e = []) \<and>
     (case descriptor st of None \<Rightarrow> written st = 0
      | Some key \<Rightarrow> key = entry_key (files ! position st) \<and> written st = length (received calls (files ! position st)))"

lemma received_snoc: "received (calls @ [(e, c)]) f = (if e = f then received calls f @ c else received calls f)"
  by (simp add: received_def)

lemma stored_other:
  assumes "e \<notin> set fs"
  shows "stored umask (calls @ [(e, c)]) fs = stored umask calls fs"
  unfolding stored_def using assms
  by (intro arg_cong[where f = map_of] map_cong) (auto simp: stored_node_def received_snoc)

lemma stored_snoc:
  assumes "entry_key e \<notin> entry_key ` set fs"
  shows "stored umask calls (fs @ [e]) = (stored umask calls fs)(entry_key e \<mapsto> stored_node umask calls e)"
  using assms
proof (induction fs)
  case (Cons f fs)
  then have "entry_key f \<noteq> entry_key e" by auto
  then show ?case using Cons by (simp add: stored_def) (auto simp: fun_eq_iff)
qed (simp add: stored_def)

lemma stored_fresh: "entry_key e \<notin> entry_key ` set fs \<Longrightarrow> stored umask calls fs (entry_key e) = None"
  by (auto simp: stored_def map_of_eq_None_iff image_iff)

text \<open>A call opens the next file or goes on with the one that is open.\<close>

lemma receive_Inr:
  assumes "receive umask accepts files st e c = Inr st'"
  obtains ws key ws' where "position st < length files" "e = files ! position st"
    "(case descriptor st of Some k \<Rightarrow> Inr (received_ws st, k)
      | None \<Rightarrow> create_beneath umask (sealed_mode e) (received_ws st) (normalized_path e)) = Inr (ws, key)"
    "written st + length c \<le> byte_count e" "append_beneath accepts ws key c = Inr ws'"
    "st' = (if written st + length c = byte_count e
       then \<lparr> received_ws = ws', descriptor = None, position = position st + 1, written = 0 \<rparr>
       else \<lparr> received_ws = ws', descriptor = Some key, position = position st, written = written st + length c \<rparr>)"
proof -
  obtain ws key ws' where s: "\<not> (position st \<ge> length files \<or> e \<noteq> files ! position st)"
    "(case descriptor st of Some k \<Rightarrow> Inr (received_ws st, k)
      | None \<Rightarrow> create_beneath umask (sealed_mode e) (received_ws st) (normalized_path e)) = Inr (ws, key)"
    "\<not> (written st + length c > byte_count e \<or> c = [] \<and> byte_count e \<noteq> 0)" "append_beneath accepts ws key c = Inr ws'"
    "(if written st + length c = byte_count e
       then Inr \<lparr> received_ws = ws', descriptor = None, position = position st + 1, written = 0 \<rparr>
       else Inr \<lparr> received_ws = ws', descriptor = Some key, position = position st, written = written st + length c \<rparr>)
      = (Inr st' :: archive_error + receive_state)"
    using assms unfolding receive_def outcome_inv by blast
  show ?thesis by (rule that[OF _ _ s(2) _ s(4)]) (use s in \<open>auto split: if_splits\<close>)
qed

text \<open>The file entries of an accepted inventory: each has a name, and no two name the same node.\<close>

definition files_ok :: "SubmissionArchiveEntry list \<Rightarrow> bool" where
  "files_ok files \<longleftrightarrow> distinct (map entry_key files) \<and> (\<forall>e \<in> set files. entry_key e \<noteq> [])"

lemma files_ok_split:
  assumes "files_ok files" "p < length files"
  shows "take (p + 1) files = take p files @ [files ! p]" "entry_key (files ! p) \<notin> entry_key ` set (take p files)"
    "files ! p \<notin> set (take p files)" "files ! p \<notin> set (drop (p + 1) files)" "entry_key (files ! p) \<noteq> []"
proof -
  have split: "files = take p files @ files ! p # drop (p + 1) files" using id_take_nth_drop[OF assms(2)] by simp
  have "distinct (map entry_key (take p files @ files ! p # drop (p + 1) files))"
    using assms(1) split unfolding files_ok_def by metis
  then show "entry_key (files ! p) \<notin> entry_key ` set (take p files)" "files ! p \<notin> set (take p files)"
    "files ! p \<notin> set (drop (p + 1) files)" by auto
  show "take (p + 1) files = take p files @ [files ! p]" using assms(2) by (simp add: take_Suc_conv_app_nth)
  show "entry_key (files ! p) \<noteq> []" using assms unfolding files_ok_def by simp
qed

lemma receive_ok_step:
  assumes ok: "files_ok files" "receive_ok umask files base calls st"
    and call: "receive umask accepts files st e c = Inr st'"
  shows "receive_ok umask files base (calls @ [(e, c)]) st'"
proof -
  define p where "p = position st"
  obtain ws key ws' where s: "p < length files" "e = files ! p"
    "(case descriptor st of Some k \<Rightarrow> Inr (received_ws st, k)
      | None \<Rightarrow> create_beneath umask (sealed_mode e) (received_ws st) (normalized_path e)) = Inr (ws, key)"
    "written st + length c \<le> byte_count e" "append_beneath accepts ws key c = Inr ws'"
    "st' = (if written st + length c = byte_count e
       then \<lparr> received_ws = ws', descriptor = None, position = p + 1, written = 0 \<rparr>
       else \<lparr> received_ws = ws', descriptor = Some key, position = p, written = written st + length c \<rparr>)"
    using receive_Inr[OF call] unfolding p_def by metis
  note split = files_ok_split[OF ok(1) s(1), folded s(2)]
  define m where "m = created_mode umask (sealed_mode e)"
  have open_file: "key = entry_key e \<and> written st = length (received calls e) \<and>
      ws = base\<lparr> nodes := (nodes base ++ stored umask calls (take p files))(entry_key e \<mapsto> Regular m (received calls e)) \<rparr>"
  proof (cases "descriptor st")
    case None
    have "received calls e = []" "written st = 0"
        "received_ws st = base\<lparr> nodes := nodes base ++ stored umask calls (take p files) \<rparr>"
      using ok(2) None s(1,2) unfolding receive_ok_def begun_def p_def by (auto simp: Cons_nth_drop_Suc[symmetric])
    then show ?thesis using create_beneath_Inr[of umask "sealed_mode e" "received_ws st" "normalized_path e" ws key] s(3) None split(5)
      by (simp add: m_def)
  next
    case (Some k)
    then have "k = entry_key e" "written st = length (received calls e)"
        "received_ws st = base\<lparr> nodes := nodes base ++ stored umask calls (take (p + 1) files) \<rparr>"
      using ok(2) s(2) unfolding receive_ok_def begun_def p_def by auto
    then show ?thesis using s(3) Some split(1) stored_snoc[OF split(2), of umask calls]
      by (simp add: m_def stored_node_def)
  qed
  have ws': "ws' = base\<lparr> nodes := nodes base ++ stored umask (calls @ [(e, c)]) (take (p + 1) files) \<rparr>"
    using append_beneath_Inr[OF s(5)] open_file stored_snoc[OF split(2)] stored_other[OF split(3)] split(1)
    by (auto simp: stored_node_def received_snoc m_def)
  have before: "length (received (calls @ [(e, c)]) f) = byte_count f" if "f \<in> set (take p files)" for f
    using that ok(2) split(3) unfolding receive_ok_def p_def by (auto simp: received_snoc)
  have after: "received (calls @ [(e, c)]) f = []" if "f \<in> set (drop (p + 1) files)" for f
  proof -
    have "set (drop (p + 1) files) \<subseteq> set (drop (begun st) files)"
      by (rule set_drop_subset_set_drop) (simp add: begun_def p_def)
    then show ?thesis using that ok(2) split(4) unfolding receive_ok_def by (auto simp: received_snoc)
  qed
  have "begun st' = p + 1" using s(6) by (simp add: begun_def)
  then show ?thesis
    using s(1,2,4,6) ws' before after open_file split(1) unfolding receive_ok_def by (auto simp: received_snoc)
qed

lemma receive_all_ok:
  assumes "files_ok files" "receive_ok umask files base done_calls st" "receive_all umask accepts files st calls = Inr st'"
  shows "receive_ok umask files base (done_calls @ calls) st'"
  using assms(2,3)
proof (induction calls arbitrary: st done_calls)
  case (Cons call calls)
  obtain mid where mid: "receive umask accepts files st (fst call) (snd call) = Inr mid"
      "receive_all umask accepts files mid calls = Inr st'"
    using Cons.prems(2) by (auto simp: outcome_inv)
  have "receive_ok umask files base (done_calls @ [call]) mid"
    using receive_ok_step[OF assms(1) Cons.prems(1) mid(1)] by simp
  from Cons.IH[OF this mid(2)] show ?case by simp
qed simp

subsection \<open>Sealing\<close>

lemma open_beneath_Inr:
  assumes "open_beneath ws path = Inr (key, node)" "posix_parts path \<noteq> []"
  shows "key = posix_parts path" "nodes ws key = Some node"
  using assms unfolding open_beneath_def by (auto simp: outcome_inv dest!: open_parent_beneath_Inr)

lemma chmod_keeps_files:
  assumes "chmod_beneath m ws path = Inr ws'" "nodes ws k = Some (Regular md content)"
  shows "nodes ws' k = Some (Regular md content)"
proof -
  obtain key node where opened: "nodes ws key = Some node"
      "(case node of Directory _ \<Rightarrow> Inr (ws\<lparr> nodes := (nodes ws)(key \<mapsto> chmod_node m node) \<rparr>)
        | Regular _ _ \<Rightarrow> Inl (Raised OSError)) = Inr ws'"
    using assms(1) unfolding chmod_beneath_def open_beneath_def by (auto simp: outcome_inv)
  then show ?thesis using assms(2) by (cases node) auto
qed

lemma chmods_keep_files:
  "each_path (chmod_beneath m) ws ds = Inr ws' \<Longrightarrow> nodes ws k = Some (Regular md content) \<Longrightarrow> nodes ws' k = Some (Regular md content)"
proof (induction ds arbitrary: ws)
  case (Cons d ds)
  then obtain mid where "chmod_beneath m ws d = Inr mid" "each_path (chmod_beneath m) mid ds = Inr ws'"
    by (auto simp: outcome_inv)
  then show ?case using Cons.IH chmod_keeps_files[OF _ Cons.prems(2)] by blast
qed simp

lemma find_file:
  assumes "distinct (map normalized_path entries)" "e \<in> set (file_entries entries)"
  shows "find (\<lambda>x. normalized_path x = normalized_path e \<and> entry_type x = FILE) entries = Some e"
  using assms by (induction entries) (auto simp: file_entries_def image_iff split: if_splits)

lemma read_projected_file_Inr:
  assumes "read_projected_file sha ws entries (normalized_path e) n = Inr content" "entry_key e \<noteq> []"
    "distinct (map normalized_path entries)" "e \<in> set (file_entries entries)"
  shows "\<exists>m. nodes ws (entry_key e) = Some (Regular m content)"
    "length content = byte_count e" "entry_sha256 e = Some (''sha256:'' @ sha content)"
proof -
  obtain key node where opened: "open_beneath ws (normalized_path e) = Inr (key, node)"
      "(case node of Directory _ \<Rightarrow> integrity_failure
        | Regular m content \<Rightarrow>
          if m AND MODE_777 \<noteq> sealed_mode e \<or> length content \<noteq> byte_count e then integrity_failure else
          if length content > n then Inl (Rejected LIMIT_EXCEEDED) else
          if Some (''sha256:'' @ sha content) \<noteq> entry_sha256 e then integrity_failure else Inr content) = Inr content"
    using assms(1) unfolding read_projected_file_def find_file[OF assms(3,4)] need_simps outcome_inv by blast
  then obtain m where "node = Regular m content" "length content = byte_count e" "entry_sha256 e = Some (''sha256:'' @ sha content)"
    by (cases node) (auto simp: outcome_inv)
  then show "\<exists>m. nodes ws (entry_key e) = Some (Regular m content)"
    "length content = byte_count e" "entry_sha256 e = Some (''sha256:'' @ sha content)"
    using open_beneath_Inr[OF opened(1) assms(2)] by auto
qed

lemma seal_content_Inr:
  assumes "seal_content sha ws entries fs = Inr items"
  shows "map fst items = map normalized_path fs"
    "\<And>e. e \<in> set fs \<Longrightarrow> \<exists>content. (normalized_path e, content) \<in> set items
       \<and> read_projected_file sha ws entries (normalized_path e) (byte_count e) = Inr content"
  using assms by (induction fs arbitrary: items) (auto simp: outcome_inv, blast)

text \<open>A sealed tree answers with what it read back, and only with bytes that fit their entry.\<close>

lemma seal_workspace_exact:
  assumes seal: "seal_workspace sha ws ds entries = Inr (ws', t)" and e: "e \<in> set (file_entries entries)"
    and entries: "distinct (map normalized_path entries)" "entry_key e \<noteq> []"
  obtains content mid where "each_path (chmod_beneath MODE_500) ws (rev ds) = Inr mid"
    "\<exists>m. nodes mid (entry_key e) = Some (Regular m content)" "sealed_entries t = entries"
    "length content = byte_count e" "entry_sha256 e = Some (''sha256:'' @ sha content)"
    "\<And>n. int (byte_count e) \<le> n \<Longrightarrow> read_file sha t (normalized_path e) n = Inr content"
proof -
  obtain mid items where mid: "each_path (chmod_beneath MODE_500) ws (rev ds) = Inr mid"
      "seal_content sha (mid\<lparr> root_mode := MODE_500 \<rparr>) entries (file_entries entries) = Inr items"
      "t = sealed_tree entries items"
    using seal unfolding seal_workspace_def by (auto simp: outcome_inv)
  obtain content where c: "(normalized_path e, content) \<in> set items"
      "read_projected_file sha (mid\<lparr> root_mode := MODE_500 \<rparr>) entries (normalized_path e) (byte_count e) = Inr content"
    using seal_content_Inr(2)[OF mid(2) e] by blast
  note sealed = read_projected_file_Inr[OF c(2) entries(2,1) e]
  have "distinct (map fst items)"
    using entries(1) unfolding seal_content_Inr(1)[OF mid(2)] file_entries_def by (simp add: distinct_map_filter)
  then have item: "map_of items (normalized_path e) = Some content" using c(1) by simp
  show ?thesis
  proof (rule that[OF mid(1) _ _ sealed(2,3)])
    show "\<exists>m. nodes mid (entry_key e) = Some (Regular m content)" using sealed(1) by simp
    show "sealed_entries t = entries" by (simp add: mid(3) sealed_tree_def)
    show "read_file sha t (normalized_path e) n = Inr content" if "int (byte_count e) \<le> n" for n
      using that item sealed(2,3) find_file[OF entries(1) e] by (auto simp: read_file_def assert_open_def mid(3) sealed_tree_def)
  qed
qed

lemma seal_workspace_reads:
  assumes "seal_workspace sha ws ds entries = Inr (ws', t)" "e \<in> set (file_entries entries)"
    "distinct (map normalized_path entries)" "entry_key e \<noteq> []" "nodes ws (entry_key e) = Some (Regular m content)"
  shows "sealed_entries t = entries" "length content = byte_count e" "entry_sha256 e = Some (''sha256:'' @ sha content)"
    "int (byte_count e) \<le> n \<Longrightarrow> read_file sha t (normalized_path e) n = Inr content"
proof -
  obtain stored_content mid where s: "each_path (chmod_beneath MODE_500) ws (rev ds) = Inr mid"
    "\<exists>m. nodes mid (entry_key e) = Some (Regular m stored_content)" "sealed_entries t = entries"
    "length stored_content = byte_count e" "entry_sha256 e = Some (''sha256:'' @ sha stored_content)"
    "\<And>n. int (byte_count e) \<le> n \<Longrightarrow> read_file sha t (normalized_path e) n = Inr stored_content"
    using seal_workspace_exact[OF assms(1-4)] by metis
  have "stored_content = content" using s(2) chmods_keep_files[OF s(1) assms(5)] by auto
  then show "sealed_entries t = entries" "length content = byte_count e" "entry_sha256 e = Some (''sha256:'' @ sha content)"
    "int (byte_count e) \<le> n \<Longrightarrow> read_file sha t (normalized_path e) n = Inr content" using s(3-6) by auto
qed

subsection \<open>Exports\<close>

lemma export_guard_Inr:
  assumes "export_guard n c limits expected = Inr u"
  shows "validate_submission_archive_inventory n c (result_entries expected) = Inr ()"
    "\<And>e. e \<in> set (result_entries expected) \<Longrightarrow> normal_path n limits (normalized_path e)"
    "distinct (map normalized_path (result_entries expected))"
    "\<And>e. e \<in> set (result_entries expected) \<Longrightarrow> entry_key e = split_text slash (normalized_path e)"
    "files_ok (file_entries (result_entries expected))"
proof -
  show inv: "validate_submission_archive_inventory n c (result_entries expected) = Inr ()"
    using assms unfolding export_guard_def by (auto simp: outcome_inv)
  have "exported_entries_ok n limits (result_entries expected) = Inr ()"
    using assms unfolding export_guard_def by (auto simp: outcome_inv)
  then show normal: "\<And>e. e \<in> set (result_entries expected) \<Longrightarrow> normal_path n limits (normalized_path e)"
    unfolding exported_entries_ok_iff by blast
  show paths: "distinct (map normalized_path (result_entries expected))"
    by (rule distinct_paths[of "folded_path n c"]) (use inv in \<open>simp add: inventory_accepted_iff comp_def\<close>)
  show keys: "\<And>e. e \<in> set (result_entries expected) \<Longrightarrow> entry_key e = split_text slash (normalized_path e)"
    using posix_parts_safe normalized_path_cases(5)[OF normal[unfolded normal_path_def]] by blast
  have "inj_on entry_key (set (result_entries expected))"
  proof (rule inj_onI)
    fix x y assume xy: "x \<in> set (result_entries expected)" "y \<in> set (result_entries expected)" "entry_key x = entry_key y"
    then have "normalized_path x = normalized_path y" using keys join_split by metis
    then show "x = y" using paths xy(1,2) by (auto simp: distinct_map dest: inj_onD)
  qed
  moreover have "distinct (result_entries expected)" using paths by (simp add: distinct_map)
  ultimately show "files_ok (file_entries (result_entries expected))"
    using keys unfolding files_ok_def file_entries_def by (auto simp: distinct_map inj_on_def)
qed

lemma initial_receive_ok:
  "receive_ok umask files base [] \<lparr> received_ws = base, descriptor = None, position = 0, written = 0 \<rparr>"
  by (simp add: receive_ok_def begun_def stored_def received_def)

lemma exported_submission_tree_Inr:
  assumes "exported_submission_tree env limits umask accepts expected calls ws = Inr (ws', t)"
  obtains base st where "export_guard (nfc env) (casefold env) limits expected = Inr ()"
    "receive_ok umask (file_entries (result_entries expected)) base calls st"
    "position st = length (file_entries (result_entries expected))" "descriptor st = None"
    "seal_workspace (sha256_hex env) (received_ws st) (export_directories (result_entries expected)) (result_entries expected) = Inr (ws', t)"
proof -
  obtain base st where s: "export_guard (nfc env) (casefold env) limits expected = Inr ()"
    "receive_all umask accepts (file_entries (result_entries expected))
       \<lparr> received_ws = base, descriptor = None, position = 0, written = 0 \<rparr> calls = Inr st"
    "position st = length (file_entries (result_entries expected))" "descriptor st = None"
    "seal_workspace (sha256_hex env) (received_ws st) (export_directories (result_entries expected)) (result_entries expected) = Inr (ws', t)"
    using assms unfolding exported_submission_tree_def Let_def outcome_inv by auto
  show ?thesis
    using that[OF s(1) _ s(3,4,5)] receive_all_ok[OF export_guard_Inr(5)[OF s(1)] initial_receive_ok s(2)] by simp
qed

lemma exported_file:
  assumes "exported_submission_tree env limits umask accepts expected calls ws = Inr (ws', t)"
    "e \<in> set (file_entries (result_entries expected))"
  shows "sealed_entries t = result_entries expected" "length (received calls e) = byte_count e"
    "entry_sha256 e = Some (''sha256:'' @ sha256_hex env (received calls e))"
    "int (byte_count e) \<le> n \<Longrightarrow> read_file (sha256_hex env) t (normalized_path e) n = Inr (received calls e)"
proof -
  define files where "files = file_entries (result_entries expected)"
  obtain base st where s: "export_guard (nfc env) (casefold env) limits expected = Inr ()"
    "receive_ok umask files base calls st" "position st = length files" "descriptor st = None"
    "seal_workspace (sha256_hex env) (received_ws st) (export_directories (result_entries expected)) (result_entries expected) = Inr (ws', t)"
    using exported_submission_tree_Inr[OF assms(1)] unfolding files_def by metis
  note guard = export_guard_Inr[OF s(1)]
  have "stored umask calls files (entry_key e) = Some (stored_node umask calls e)"
    unfolding stored_def using guard(5) assms(2) unfolding files_def files_ok_def
    by (intro map_of_is_SomeI) (auto simp: comp_def)
  then have node: "nodes (received_ws st) (entry_key e) =
      Some (Regular (created_mode umask (sealed_mode e)) (received calls e))"
    using s(2,3,4) unfolding receive_ok_def begun_def by (simp add: stored_node_def)
  have "entry_key e \<noteq> []" using guard(5) assms(2) unfolding files_ok_def by blast
  from seal_workspace_reads[OF s(5) assms(2) guard(3) this node]
  show "sealed_entries t = result_entries expected" "length (received calls e) = byte_count e"
    "entry_sha256 e = Some (''sha256:'' @ sha256_hex env (received calls e))"
    "int (byte_count e) \<le> n \<Longrightarrow> read_file (sha256_hex env) t (normalized_path e) n = Inr (received calls e)" by simp_all
qed

subsection \<open>Projections\<close>

lemma projected_file:
  assumes "projected_tree env later limits umask accepts source expected ws = Inr (ws', t)"
    "e \<in> set (file_entries (result_entries expected))" "limits_valid limits" "nfc_laws (nfc env)"
  shows "inspect env limits source = Inr expected" "sealed_entries t = result_entries expected"
    "\<exists>content. length content = byte_count e \<and> entry_sha256 e = Some (''sha256:'' @ sha256_hex env content) \<and>
       (\<forall>n. int (byte_count e) \<le> n \<longrightarrow> read_file (sha256_hex env) t (normalized_path e) n = Inr content)"
proof -
  obtain mid where seal: "seal_workspace (sha256_hex env) mid (projected_directories (result_entries expected)) (result_entries expected) = Inr (ws', t)"
    and insp: "inspect env limits source = Inr expected"
    using assms(1) unfolding projected_tree_def Let_def by (auto simp: outcome_inv)
  obtain entries where entries: "expected = result_of entries"
    "validate_submission_archive_inventory (nfc env) (casefold env) entries = Inr ()"
    "\<And>e. e \<in> set entries \<Longrightarrow> path_of_archive env limits (normalized_path e)"
    using inspect_read_ok[OF insp assms(3)] by metis
  have inv: "validate_submission_archive_inventory (nfc env) (casefold env) (result_entries expected) = Inr ()"
    using entries(2) by (simp add: entries(1) result_of_def Let_def inventory_sorted)
  then have paths: "distinct (map normalized_path (result_entries expected))"
    by (intro distinct_paths[of "fold_of env"]) (simp add: inventory_accepted_iff comp_def)
  have "normal_path (nfc env) limits (normalized_path e)"
    using path_of_archive_normal[OF assms(4) entries(3)] assms(2) by (simp add: entries(1) result_of_def Let_def file_entries_def)
  then have "entry_key e = split_text slash (normalized_path e)"
    using posix_parts_safe normalized_path_cases(5) unfolding normal_path_def by blast
  then have named: "entry_key e \<noteq> []" by simp
  from seal_workspace_exact[OF seal assms(2) paths named]
  show "inspect env limits source = Inr expected" "sealed_entries t = result_entries expected"
    "\<exists>content. length content = byte_count e \<and> entry_sha256 e = Some (''sha256:'' @ sha256_hex env content) \<and>
       (\<forall>n. int (byte_count e) \<le> n \<longrightarrow> read_file (sha256_hex env) t (normalized_path e) n = Inr content)"
    using insp by metis+
qed

lemma closed_tree_refuses:
  "read_file sha (close_tree t) path n = Inl (Raised RuntimeError)" "tree_entries (close_tree t) = Inl (Raised RuntimeError)"
  by (simp_all add: read_file_def tree_entries_def assert_open_def close_tree_def)

end
