(* ===== verification/Archive_Roundtrip.thy ===== *)
theory Archive_Roundtrip
  imports Archive_Seal
begin

text \<open>
  An export that hands over the right bytes succeeds: directories are made parents first, files are created below
  directories that exist, and reading back finds what was written.
\<close>

subsection \<open>Directories\<close>

definition parents_permit :: "mode \<Rightarrow> workspace \<Rightarrow> ustring list \<Rightarrow> bool" where
  "parents_permit bits ws key \<longleftrightarrow> (\<forall>depth < length key. permits bits ws (take depth key))"

text \<open>A mode that grants a set of permissions grants its subsets.\<close>

lemma mode_subset: "(m::mode) AND b = b \<Longrightarrow> b AND a = a \<Longrightarrow> m AND a = a"
  by (metis and.assoc)

lemma permits_subset: "permits b ws key \<Longrightarrow> b AND a = a \<Longrightarrow> permits a ws key"
  using mode_subset[of _ b a] by (auto simp: permits_def split: option.splits node.splits if_splits)

lemma parents_permit_subset: "parents_permit b ws key \<Longrightarrow> b AND a = a \<Longrightarrow> parents_permit a ws key"
  using permits_subset by (auto simp: parents_permit_def)

lemma parents_permit_parent: "parents_permit bits ws key \<Longrightarrow> key \<noteq> [] \<Longrightarrow> permits bits ws (butlast key)"
  by (simp add: parents_permit_def butlast_conv_take)

lemma open_parent_beneath_ok:
  assumes "parents_permit MODE_500 ws (posix_parts path)"
  shows "open_parent_beneath ws path = Inr (butlast (posix_parts path), last (posix_parts path))"
proof -
  have "permits a ws (take depth (posix_parts path))" if "depth < length (posix_parts path)" "MODE_500 AND a = a" for depth a
    using assms that permits_subset unfolding parents_permit_def by blast
  then have "\<not> list_ex (\<lambda>depth. \<not> (permits SEARCH ws (take (depth - 1) (posix_parts path)) \<and>
      permits READ ws (take depth (posix_parts path)))) [1..<length (posix_parts path)]"
    by (auto simp: list_ex_iff)
  then show ?thesis unfolding open_parent_beneath_def Let_def by simp
qed

lemma open_beneath_ok:
  assumes "parents_permit MODE_500 ws (posix_parts path)" "posix_parts path \<noteq> []"
    "nodes ws (posix_parts path) = Some node" "node_mode node AND READ = READ"
  shows "open_beneath ws path = Inr (posix_parts path, node)"
proof -
  have "permits SEARCH ws (butlast (posix_parts path))"
    by (rule permits_subset[OF parents_permit_parent[OF assms(1,2)]]) simp
  then show ?thesis using assms by (simp add: open_beneath_def open_parent_beneath_ok)
qed

text \<open>A free name below directories on which the owner has all permissions can be created.\<close>

lemma admits_ok:
  assumes "parents_permit MODE_700 ws key" "key \<noteq> []" "nodes ws key = None" "creatable ws key"
  shows "admits ws (butlast key) (last key)"
proof -
  have "permits WRITE_SEARCH ws (butlast key)"
    by (rule permits_subset[OF parents_permit_parent[OF assms(1,2)]]) simp
  then show ?thesis using assms by (simp add: admits_def)
qed

lemma parent_700_500: "parents_permit MODE_700 ws key \<Longrightarrow> parents_permit MODE_500 ws key"
  by (erule parents_permit_subset) simp

lemma mkdir_beneath_ok:
  assumes "parents_permit MODE_700 ws (posix_parts path)" "posix_parts path \<noteq> []" "nodes ws (posix_parts path) = None"
    "creatable ws (posix_parts path)"
  shows "mkdir_beneath umask ws path =
    Inr (ws\<lparr> nodes := (nodes ws)(posix_parts path \<mapsto> Directory (created_mode umask MODE_700)) \<rparr>)"
  using assms by (simp add: mkdir_beneath_def open_parent_beneath_ok parent_700_500 admits_ok)

text \<open>A file mode mask that leaves the owner's bits.\<close>

lemma owner_modes:
  assumes "created_mode umask MODE_700 = MODE_700"
  shows "created_mode umask MODE_500 = MODE_500" "created_mode umask MODE_400 = MODE_400"
proof -
  have "created_mode umask a = a" if a: "a AND MODE_700 = a" for a
  proof -
    have "a AND NOT umask = (a AND MODE_700) AND NOT umask" by (simp only: a)
    also have "\<dots> = a AND (MODE_700 AND NOT umask)" by (simp only: and.assoc)
    also have "\<dots> = a" using assms a by (simp only: created_mode_def)
    finally show ?thesis by (simp only: created_mode_def)
  qed
  then show "created_mode umask MODE_500 = MODE_500" "created_mode umask MODE_400 = MODE_400" by simp_all
qed

text \<open>Making directories in the order of their depth, when every ancestor is in the list or exists already.\<close>

lemma mkdirs_ok:
  assumes "created_mode umask MODE_700 = MODE_700" "permits MODE_700 ws []"
    "sorted (map (\<lambda>p. length (posix_parts p)) ds)" "distinct (map posix_parts ds)"
    "\<And>p. p \<in> set ds \<Longrightarrow> posix_parts p \<noteq> [] \<and> nodes ws (posix_parts p) = None \<and> creatable ws (posix_parts p)"
    "\<And>p depth. p \<in> set ds \<Longrightarrow> 0 < depth \<Longrightarrow> depth < length (posix_parts p) \<Longrightarrow>
       take depth (posix_parts p) \<in> posix_parts ` set ds \<or> permits MODE_700 ws (take depth (posix_parts p))"
  shows "each_path (mkdir_beneath umask) ws ds =
    Inr (ws\<lparr> nodes := (\<lambda>k. if k \<in> posix_parts ` set ds then Some (Directory MODE_700) else nodes ws k) \<rparr>)"
  using assms(2-6)
proof (induction ds arbitrary: ws)
  case (Cons p ds)
  define ws1 where "ws1 = ws\<lparr> nodes := (nodes ws)(posix_parts p \<mapsto> Directory MODE_700) \<rparr>"
  have "permits MODE_700 ws (take depth (posix_parts p))" if depth: "depth < length (posix_parts p)" for depth
  proof (cases "depth = 0")
    case False
    have "length q = depth \<Longrightarrow> q \<notin> posix_parts ` set (p # ds)" for q
      using Cons.prems(2) depth by fastforce
    then have "take depth (posix_parts p) \<notin> posix_parts ` set (p # ds)" using depth by simp
    then show ?thesis using Cons.prems(5)[of p depth] depth False by auto
  qed (use Cons.prems(1) in simp)
  then have "parents_permit MODE_700 ws (posix_parts p)" by (simp add: parents_permit_def)
  then have step: "mkdir_beneath umask ws p = Inr ws1"
    using Cons.prems(4)[of p] mkdir_beneath_ok assms(1) by (simp add: ws1_def)
  have kept: "permits MODE_700 ws1 key" if "permits MODE_700 ws key" for key
    using that Cons.prems(4)[of p] by (auto simp: ws1_def permits_def)
  have "each_path (mkdir_beneath umask) ws1 ds =
      Inr (ws1\<lparr> nodes := (\<lambda>k. if k \<in> posix_parts ` set ds then Some (Directory MODE_700) else nodes ws1 k) \<rparr>)"
  proof (rule Cons.IH)
    show "permits MODE_700 ws1 []" by (rule kept[OF Cons.prems(1)])
    show "\<And>q. q \<in> set ds \<Longrightarrow> posix_parts q \<noteq> [] \<and> nodes ws1 (posix_parts q) = None \<and> creatable ws1 (posix_parts q)"
      using Cons.prems(3,4) by (auto simp: ws1_def image_iff)
    show "\<And>q depth. q \<in> set ds \<Longrightarrow> 0 < depth \<Longrightarrow> depth < length (posix_parts q) \<Longrightarrow>
        take depth (posix_parts q) \<in> posix_parts ` set ds \<or> permits MODE_700 ws1 (take depth (posix_parts q))"
    proof -
      fix q depth assume q: "q \<in> set ds" "0 < depth" "depth < length (posix_parts q)"
      then consider "take depth (posix_parts q) = posix_parts p" | "take depth (posix_parts q) \<in> posix_parts ` set ds"
        | "permits MODE_700 ws (take depth (posix_parts q))" using Cons.prems(5)[of q depth] by auto
      then show "take depth (posix_parts q) \<in> posix_parts ` set ds \<or> permits MODE_700 ws1 (take depth (posix_parts q))"
      proof cases
        case 1
        then show ?thesis using Cons.prems(4)[of p] by (simp add: ws1_def permits_def)
      qed (use kept in auto)
    qed
  qed (use Cons.prems in auto)
  then show ?case using step by (auto simp: ws1_def fun_eq_iff intro!: arg_cong[where f = "\<lambda>n. ws\<lparr>nodes := n\<rparr>"])
qed simp

subsection \<open>Files\<close>

text \<open>\<open>os.write\<close> takes at least one byte of a non-empty buffer.\<close>

definition makes_progress :: "(nat \<Rightarrow> int) \<Rightarrow> bool" where
  "makes_progress accepts \<longleftrightarrow> (\<forall>n. 0 < n \<longrightarrow> 0 < accepts n)"

lemma write_view_total: "makes_progress accepts \<Longrightarrow> write_view accepts content view = Inr (content @ view)"
proof (induction accepts content view rule: write_view.induct)
  case (1 accepts content view)
  note step = write_view.simps[of accepts content view]
  show ?case
  proof (cases "view = []")
    case False
    then have count: "\<not> accepts (length view) \<le> 0" using 1(2) by (simp add: makes_progress_def not_le)
    then show ?thesis using 1(1)[OF False refl count 1(2)] False unfolding step by (simp add: Let_def)
  next
    case True
    then show ?thesis using step by simp
  qed
qed

text \<open>
  The base of an export has room for its files: their ancestors are directories with all permissions, and their names are
  free and can be stored.
\<close>

definition room_for :: "workspace \<Rightarrow> SubmissionArchiveEntry list \<Rightarrow> bool" where
  "room_for base files \<longleftrightarrow> (\<forall>e \<in> set files. nodes base (entry_key e) = None \<and> creatable base (entry_key e)
     \<and> parents_permit MODE_700 base (entry_key e) \<and> (\<forall>depth. 0 < depth \<and> depth < length (entry_key e) \<longrightarrow> take depth (entry_key e) \<notin> entry_key ` set files))"

lemma receive_succeeds:
  assumes accepts: "makes_progress accepts" and ok: "files_ok files" "room_for base files"
    "receive_ok umask files base calls st"
    and call: "position st < length files" "written st + length c \<le> byte_count (files ! position st)"
      "c \<noteq> [] \<or> byte_count (files ! position st) = 0"
  shows "\<exists>st'. receive umask accepts files st (files ! position st) c = Inr st' \<and>
    (if written st + length c = byte_count (files ! position st) then descriptor st' = None \<and> position st' = position st + 1 \<and> written st' = 0
     else descriptor st' \<noteq> None \<and> position st' = position st \<and> written st' = written st + length c)"
proof -
  define e where "e = files ! position st"
  note split = files_ok_split[OF ok(1) call(1), folded e_def]
  have base: "received_ws st = base\<lparr> nodes := nodes base ++ stored umask calls (take (begun st) files) \<rparr>"
    using ok(3) unfolding receive_ok_def by blast
  have e: "e \<in> set files" using call(1) by (simp add: e_def)
  obtain ws key m content where opened: "(case descriptor st of Some k \<Rightarrow> Inr (received_ws st, k)
      | None \<Rightarrow> create_beneath umask (sealed_mode e) (received_ws st) (normalized_path e)) = Inr (ws, key)"
      "nodes ws key = Some (Regular m content)"
  proof (cases "descriptor st")
    case None
    have "permits MODE_700 (received_ws st) (take depth (entry_key e))" if d: "depth < length (entry_key e)" for depth
    proof -
      have "permits MODE_700 base (take depth (entry_key e))" using ok(2) e d unfolding room_for_def parents_permit_def by blast
      moreover have "stored umask calls (take (begun st) files) (take depth (entry_key e)) = None" if "0 < depth"
      proof -
        have "take depth (entry_key e) \<notin> entry_key ` set (take (begun st) files)"
          using ok(2) e d that unfolding room_for_def by (meson image_mono set_take_subset subsetD)
        then show ?thesis by (force simp: stored_def map_of_eq_None_iff)
      qed
      ultimately show ?thesis using base by (cases "depth = 0") (auto simp: permits_def map_add_def)
    qed
    then have parents: "parents_permit MODE_700 (received_ws st) (entry_key e)" by (simp add: parents_permit_def)
    have "nodes (received_ws st) (entry_key e) = None" "creatable (received_ws st) (entry_key e)"
      using ok(2) e stored_fresh[OF split(2)] None base unfolding room_for_def begun_def by (simp_all add: map_add_def)
    then have "create_beneath umask (sealed_mode e) (received_ws st) (normalized_path e) =
        Inr ((received_ws st)\<lparr> nodes := (nodes (received_ws st))(entry_key e \<mapsto> Regular (created_mode umask (sealed_mode e)) []) \<rparr>, entry_key e)"
      using split(5) parents open_parent_beneath_ok[OF parent_700_500[OF parents]] admits_ok[OF parents] unfolding create_beneath_def by simp
    then show ?thesis using that None by simp
  next
    case (Some k)
    have "nodes (received_ws st) k = Some (stored_node umask calls e)"
      using ok(3) Some base split(1) stored_snoc[OF split(2), of umask calls] unfolding receive_ok_def begun_def e_def
      by (simp add: map_add_def)
    then show ?thesis using that Some by (simp add: stored_node_def)
  qed
  have "append_beneath accepts ws key c = Inr (ws\<lparr> nodes := (nodes ws)(key \<mapsto> Regular m (content @ c)) \<rparr>)"
    using opened(2) write_view_total[OF accepts] by (simp add: append_beneath_def)
  then show ?thesis
    using call opened(1) unfolding e_def[symmetric] receive_def by (auto simp: not_less not_le)
qed

lemma receive_all_append:
  "receive_all umask accepts files st (xs @ ys) =
     andthen (receive_all umask accepts files st xs) (\<lambda>st. receive_all umask accepts files st ys)"
  by (induction xs arbitrary: st) (auto simp: andthen_def split: sum.splits)

text \<open>Chunks that make up a file: no chunk is empty, except the single one of an empty file.\<close>

definition proper_chunks :: "SubmissionArchiveEntry \<Rightarrow> bytes list \<Rightarrow> bool" where
  "proper_chunks e chunks \<longleftrightarrow> length (concat chunks) = byte_count e \<and>
     (if byte_count e = 0 then chunks = [[]] else [] \<notin> set chunks)"

lemma receive_chunks:
  assumes accepts: "makes_progress accepts" and ok: "files_ok files" "room_for base files"
    and st: "receive_ok umask files base calls st" "position st < length files" "chunks \<noteq> []"
      "written st + length (concat chunks) = byte_count (files ! position st)"
      "[] \<in> set chunks \<Longrightarrow> byte_count (files ! position st) = 0 \<and> chunks = [[]]"
  shows "\<exists>st'. receive_all umask accepts files st (map (Pair (files ! position st)) chunks) = Inr st' \<and>
    descriptor st' = None \<and> position st' = position st + 1"
  using st
proof (induction chunks arbitrary: st calls)
  case (Cons c chunks)
  define e where "e = files ! position st"
  obtain st1 where st1: "receive umask accepts files st e c = Inr st1"
    "if written st + length c = byte_count e then descriptor st1 = None \<and> position st1 = position st + 1 \<and> written st1 = 0
     else descriptor st1 \<noteq> None \<and> position st1 = position st \<and> written st1 = written st + length c"
    using receive_succeeds[OF accepts ok Cons.prems(1,2), where c = c] Cons.prems(4,5) unfolding e_def by auto
  show ?case
  proof (cases "chunks = []")
    case True
    then show ?thesis using st1 Cons.prems(4) unfolding e_def by auto
  next
    case False
    then have "[] \<notin> set chunks" using Cons.prems(5) by auto
    then have "0 < length (concat chunks)" using False by (cases chunks) auto
    then have "written st + length c \<noteq> byte_count e" using Cons.prems(4) unfolding e_def concat.simps length_append by linarith
    then have mid: "position st1 = position st" "written st1 + length (concat chunks) = byte_count (files ! position st1)"
      using st1(2) Cons.prems(4) by (simp_all add: e_def)
    have "receive_ok umask files base (calls @ [(e, c)]) st1" by (rule receive_ok_step[OF ok(1) Cons.prems(1) st1(1)])
    from Cons.IH[OF this _ False mid(2)] show ?thesis
      using Cons.prems(2) mid(1) st1(1) \<open>[] \<notin> set chunks\<close> unfolding e_def by auto
  qed
qed simp

lemma receive_files:
  assumes accepts: "makes_progress accepts" and ok: "files_ok files" "room_for base files"
    and chunks: "\<And>e. e \<in> set files \<Longrightarrow> proper_chunks e (chunks e)"
    and st: "receive_ok umask files base calls st" "descriptor st = None" "position st \<le> length files"
  shows "\<exists>st'. receive_all umask accepts files st (concat (map (\<lambda>e. map (Pair e) (chunks e)) (drop (position st) files))) = Inr st' \<and>
    descriptor st' = None \<and> position st' = length files"
  using st
proof (induction "length files - position st" arbitrary: st calls)
  case (Suc n)
  define e where "e = files ! position st"
  have p: "position st < length files" using Suc.hyps(2) by simp
  have e: "proper_chunks e (chunks e)" using chunks p by (simp add: e_def)
  have start: "written st = 0" using Suc.prems(1,2) unfolding receive_ok_def by simp
  have parts: "chunks e \<noteq> []" "written st + length (concat (chunks e)) = byte_count e"
      "[] \<in> set (chunks e) \<Longrightarrow> byte_count e = 0 \<and> chunks e = [[]]"
    using e start unfolding proper_chunks_def by (auto split: if_splits)
  obtain st1 where st1: "receive_all umask accepts files st (map (Pair e) (chunks e)) = Inr st1"
      "descriptor st1 = None" "position st1 = position st + 1"
    using receive_chunks[OF accepts ok Suc.prems(1) p, folded e_def, OF parts] by blast
  have ok1: "receive_ok umask files base (calls @ map (Pair e) (chunks e)) st1"
    by (rule receive_all_ok[OF ok(1) Suc.prems(1) st1(1)])
  have "n = length files - position st1" "position st1 \<le> length files" using Suc.hyps(2) p st1(3) by linarith+
  then obtain st2 where "receive_all umask accepts files st1 (concat (map (\<lambda>e. map (Pair e) (chunks e)) (drop (position st1) files))) = Inr st2"
      "descriptor st2 = None" "position st2 = length files"
    using Suc.hyps(1)[OF _ ok1 st1(2)] by blast
  then show ?case
    using st1 p by (simp add: Cons_nth_drop_Suc[symmetric] e_def receive_all_append)
qed simp

subsection \<open>Sealing\<close>

text \<open>Directories stay readable and searchable while their permissions are reduced to that.\<close>

lemma chmods_ok:
  assumes "\<And>d. d \<in> set ds \<Longrightarrow> posix_parts d \<noteq> [] \<and> permits MODE_500 ws (posix_parts d) \<and> parents_permit MODE_500 ws (posix_parts d)"
  shows "\<exists>ws'. each_path (chmod_beneath MODE_500) ws ds = Inr ws' \<and> (\<forall>k. permits MODE_500 ws k \<longrightarrow> permits MODE_500 ws' k)"
  using assms
proof (induction ds arbitrary: ws)
  case (Cons d ds)
  have d: "posix_parts d \<noteq> []" "permits MODE_500 ws (posix_parts d)" "parents_permit MODE_500 ws (posix_parts d)" using Cons.prems by auto
  obtain old where old: "nodes ws (posix_parts d) = Some (Directory old)" "old AND MODE_500 = MODE_500"
    using d(1,2) by (auto simp: permits_def split: option.splits node.splits)
  define ws1 where "ws1 = ws\<lparr> nodes := (nodes ws)(posix_parts d \<mapsto> Directory MODE_500) \<rparr>"
  have "node_mode (Directory old) AND READ = READ" using mode_subset[OF old(2), of READ] by (simp add: node_mode_def)
  then have step: "chmod_beneath MODE_500 ws d = Inr ws1"
    using open_beneath_ok[OF d(3,1) old(1)] by (simp add: chmod_beneath_def chmod_node_def ws1_def)
  have kept: "permits MODE_500 ws1 k" if "permits MODE_500 ws k" for k using that by (simp add: ws1_def permits_def)
  then have "\<exists>ws'. each_path (chmod_beneath MODE_500) ws1 ds = Inr ws' \<and> (\<forall>k. permits MODE_500 ws1 k \<longrightarrow> permits MODE_500 ws' k)"
    using Cons.prems by (intro Cons.IH) (simp add: parents_permit_def)
  then show ?case using step kept by auto
qed simp

lemma seal_content_ok:
  assumes "\<And>e. e \<in> set fs \<Longrightarrow> \<exists>c. read_projected_file sha ws entries (normalized_path e) (byte_count e) = Inr c"
  shows "\<exists>items. seal_content sha ws entries fs = Inr items"
  using assms
proof (induction fs)
  case (Cons e fs)
  then obtain c items where "read_projected_file sha ws entries (normalized_path e) (byte_count e) = Inr c"
      "seal_content sha ws entries fs = Inr items" by (meson list.set_intros)
  then show ?case by simp
qed simp

lemma read_projected_file_ok:
  assumes "distinct (map normalized_path entries)" "e \<in> set (file_entries entries)" "entry_key e \<noteq> []"
    "parents_permit MODE_500 ws (entry_key e)" "nodes ws (entry_key e) = Some (Regular (sealed_mode e) content)"
    "length content = byte_count e" "entry_sha256 e = Some (''sha256:'' @ sha content)"
  shows "read_projected_file sha ws entries (normalized_path e) (byte_count e) = Inr content"
proof -
  have "sealed_mode e AND MODE_777 = sealed_mode e" "node_mode (Regular (sealed_mode e) content) AND READ = READ"
    by (simp_all add: sealed_mode_def node_mode_def)
  then show ?thesis
    using assms open_beneath_ok[OF assms(4,3,5)] by (simp add: read_projected_file_def find_file)
qed

lemma seal_workspace_ok:
  assumes dirs: "\<And>d. d \<in> set ds \<Longrightarrow> posix_parts d \<noteq> [] \<and> permits MODE_500 ws (posix_parts d) \<and> parents_permit MODE_500 ws (posix_parts d)"
    and entries: "distinct (map normalized_path entries)"
    and stored: "\<And>e. e \<in> set (file_entries entries) \<Longrightarrow> entry_key e \<noteq> [] \<and> parents_permit MODE_500 ws (entry_key e) \<and>
      nodes ws (entry_key e) = Some (Regular (sealed_mode e) (content e)) \<and>
      length (content e) = byte_count e \<and> entry_sha256 e = Some (''sha256:'' @ sha (content e))"
  shows "\<exists>ws' t. seal_workspace sha ws ds entries = Inr (ws', t)"
proof -
  obtain mid where mid: "each_path (chmod_beneath MODE_500) ws (rev ds) = Inr mid" "\<And>k. permits MODE_500 ws k \<Longrightarrow> permits MODE_500 mid k"
    using chmods_ok[of "rev ds" ws] dirs by auto
  define sealed where "sealed = mid\<lparr> root_mode := MODE_500 \<rparr>"
  have "read_projected_file sha sealed entries (normalized_path e) (byte_count e) = Inr (content e)"
    if e: "e \<in> set (file_entries entries)" for e
  proof (rule read_projected_file_ok[OF entries e])
    have "permits MODE_500 sealed k" if "permits MODE_500 ws k" for k
      using mid(2)[OF that] by (simp add: permits_def sealed_def)
    then show "parents_permit MODE_500 sealed (entry_key e)" using stored[OF e] by (simp add: parents_permit_def)
    show "nodes sealed (entry_key e) = Some (Regular (sealed_mode e) (content e))"
      using stored[OF e] chmods_keep_files[OF mid(1)] by (simp add: sealed_def)
  qed (use stored[OF e] in auto)
  then obtain items where "seal_content sha sealed entries (file_entries entries) = Inr items"
    using seal_content_ok by blast
  then show ?thesis using mid(1) by (simp add: seal_workspace_def sealed_def)
qed

subsection \<open>Accepted inventories on disk\<close>

lemma slash_count: "length (split_text d p) = length (filter (\<lambda>c. c = d) p) + 1"
  by (induction p) (auto simp: split_text_Cons simp del: split_text.simps(2))

lemma sorted_by_first: "sorted (map (\<lambda>x. (f x, g x)) xs) \<Longrightarrow> sorted (map f xs)"
  by (induction xs) (auto simp: less_eq_prod_def)

definition directory_keys :: "SubmissionArchiveEntry list \<Rightarrow> ustring list set" where
  "directory_keys entries = {entry_key e |e. e \<in> set entries \<and> entry_type e = DIRECTORY}"

lemma export_directories_set:
  "set (export_directories entries) = {normalized_path e |e. e \<in> set entries \<and> entry_type e = DIRECTORY}"
  by (auto simp: export_directories_def)

lemma export_directories_keys: "posix_parts ` set (export_directories entries) = directory_keys entries"
  unfolding export_directories_set directory_keys_def by blast

lemma guarded_keys_inj:
  assumes "export_guard n c limits expected = Inr u" "a \<in> set (result_entries expected)" "b \<in> set (result_entries expected)"
    "entry_key a = entry_key b"
  shows "a = b"
proof -
  have "normalized_path a = normalized_path b"
    using export_guard_Inr(4)[OF assms(1)] assms(2-4) join_split by metis
  then show ?thesis using export_guard_Inr(3)[OF assms(1)] assms(2,3) by (auto simp: distinct_map dest: inj_onD)
qed

lemma guarded_file_keys:
  assumes "export_guard n c limits expected = Inr u" "e \<in> set (file_entries (result_entries expected))"
  shows "entry_key e \<notin> directory_keys (result_entries expected)"
  using guarded_keys_inj[OF assms(1)] assms(2) unfolding directory_keys_def file_entries_def by fastforce

lemma guarded_ancestors:
  assumes "export_guard n c limits expected = Inr u" "e \<in> set (result_entries expected)"
    "0 < depth" "depth < length (entry_key e)"
  shows "take depth (entry_key e) \<in> directory_keys (result_entries expected)"
proof -
  note guard = export_guard_Inr[OF assms(1)]
  define parts where "parts = split_text slash (normalized_path e)"
  have key: "entry_key e = parts" using guard(4)[OF assms(2)] by (simp add: parts_def)
  define a where "a = join_text slash (take depth parts)"
  have "a \<in> set (ancestors parts)" using assms(3,4) key unfolding ancestors_def a_def by auto
  then obtain d where d: "d \<in> set (result_entries expected)" "normalized_path d = a" "entry_type d = DIRECTORY"
    using guard(1) assms(2) unfolding inventory_accepted_iff parts_def by blast
  have "slash \<notin> set q" if "q \<in> set (take depth parts)" for q
    using in_set_takeD[OF that] split_text_parts[of q slash] by (simp add: parts_def)
  then have "split_text slash a = take depth parts"
    unfolding a_def using assms(3,4) key by (intro split_join) auto
  then show ?thesis using d guard(4)[OF d(1)] key unfolding directory_keys_def by force
qed

definition made_directories :: "SubmissionArchiveEntry list \<Rightarrow> workspace \<Rightarrow> workspace" where
  "made_directories entries ws =
     ws\<lparr> nodes := (\<lambda>k. if k \<in> directory_keys entries then Some (Directory MODE_700) else nodes ws k) \<rparr>"

text \<open>A fresh workspace: empty, of mode 0700, on a file system that can store every entry, and a mask that keeps the owner's bits.\<close>

definition fresh_workspace :: "mode \<Rightarrow> workspace \<Rightarrow> SubmissionArchiveEntry list \<Rightarrow> bool" where
  "fresh_workspace umask ws entries \<longleftrightarrow> nodes ws = Map.empty \<and> root_mode ws AND MODE_777 = MODE_700 \<and>
     created_mode umask MODE_700 = MODE_700 \<and> (\<forall>e \<in> set entries. creatable ws (entry_key e))"

lemma fresh_workspace_root:
  assumes "fresh_workspace umask ws entries"
  shows "permits MODE_700 ws []" "permits READ ws []" "root_mode ws AND MODE_077 = 0"
proof -
  have root: "root_mode ws AND MODE_777 = MODE_700" using assms by (simp add: fresh_workspace_def)
  have part: "root_mode ws AND a = MODE_700 AND a" if "MODE_777 AND a = a" for a
    using root that by (metis and.assoc)
  show "permits MODE_700 ws []" "permits READ ws []" "root_mode ws AND MODE_077 = 0"
    using part[of MODE_700] part[of READ] part[of MODE_077] by (simp_all add: permits_def)
qed

lemma export_mkdirs:
  assumes "export_guard n c limits expected = Inr u" "fresh_workspace umask ws (result_entries expected)"
  shows "each_path (mkdir_beneath umask) ws (export_directories (result_entries expected)) =
    Inr (made_directories (result_entries expected) ws)"
proof -
  define ds where "ds = export_directories (result_entries expected)"
  note guard = export_guard_Inr[OF assms(1)]
  have mem: "\<exists>e \<in> set (result_entries expected). p = normalized_path e \<and> entry_type e = DIRECTORY" if "p \<in> set ds" for p
    using that unfolding ds_def export_directories_set by blast
  have parts: "posix_parts p = split_text slash p" if "p \<in> set ds" for p using mem[OF that] guard(4) by auto
  have "sorted (map (\<lambda>p. (length (filter (\<lambda>c. c = slash) p), p)) ds)"
    unfolding ds_def export_directories_def by (rule sorted_sort_key)
  then have "sorted (map (\<lambda>p. length (filter (\<lambda>c. c = slash) p)) ds)" by (rule sorted_by_first)
  then have "sorted (map Suc (map (\<lambda>p. length (filter (\<lambda>c. c = slash) p)) ds))" by (simp add: sorted_map)
  moreover have "map Suc (map (\<lambda>p. length (filter (\<lambda>c. c = slash) p)) ds) = map (\<lambda>p. length (posix_parts p)) ds"
    using parts by (auto simp: slash_count)
  ultimately have order: "sorted (map (\<lambda>p. length (posix_parts p)) ds)" by metis
  have "distinct ds" unfolding ds_def export_directories_def using guard(3) by (simp add: distinct_map_filter)
  moreover have "inj_on posix_parts (set ds)" using parts by (intro inj_onI) (metis join_split)
  ultimately have keys: "distinct (map posix_parts ds)" by (simp add: distinct_map)
  have "each_path (mkdir_beneath umask) ws ds =
      Inr (ws\<lparr> nodes := (\<lambda>k. if k \<in> posix_parts ` set ds then Some (Directory MODE_700) else nodes ws k) \<rparr>)"
  proof (rule mkdirs_ok[OF _ fresh_workspace_root(1)[OF assms(2)] order keys])
    show "created_mode umask MODE_700 = MODE_700" using assms(2) by (simp add: fresh_workspace_def)
    show "posix_parts p \<noteq> [] \<and> nodes ws (posix_parts p) = None \<and> creatable ws (posix_parts p)" if "p \<in> set ds" for p
      using parts[OF that] mem[OF that] assms(2) by (auto simp: fresh_workspace_def)
    show "\<And>p depth. p \<in> set ds \<Longrightarrow> 0 < depth \<Longrightarrow> depth < length (posix_parts p) \<Longrightarrow>
        take depth (posix_parts p) \<in> posix_parts ` set ds \<or> permits MODE_700 ws (take depth (posix_parts p))"
      using mem guarded_ancestors[OF assms(1)] unfolding ds_def export_directories_keys by blast
  qed
  then show ?thesis unfolding ds_def export_directories_keys made_directories_def .
qed

subsection \<open>Exports\<close>

text \<open>The calls of an exporter that hands over every file in order, each in proper chunks.\<close>

definition export_calls ::
  "(SubmissionArchiveEntry \<Rightarrow> bytes list) \<Rightarrow> SubmissionArchiveEntry list \<Rightarrow> (SubmissionArchiveEntry \<times> bytes) list" where
  "export_calls chunks files = concat (map (\<lambda>e. map (Pair e) (chunks e)) files)"

lemma received_same: "received (map (Pair e) cs) f = (if e = f then concat cs else [])"
  by (induction cs) (auto simp: received_def)

lemma received_append: "received (xs @ ys) e = received xs e @ received ys e"
  by (simp add: received_def)

lemma received_export_calls:
  "distinct files \<Longrightarrow> received (export_calls chunks files) e = (if e \<in> set files then concat (chunks e) else [])"
proof (induction files)
  case (Cons f files)
  then show ?case by (auto simp: export_calls_def received_append received_same)
qed (simp add: export_calls_def received_def)

text \<open>Below the root of an export there are the directories and the files received.\<close>

lemma made_directories_permit:
  assumes "export_guard n c limits expected = Inr u" "fresh_workspace umask ws (result_entries expected)"
    "e \<in> set (result_entries expected)"
  shows "parents_permit MODE_700 (made_directories (result_entries expected) ws) (entry_key e)"
  unfolding parents_permit_def
proof (intro allI impI)
  fix depth assume "depth < length (entry_key e)"
  then show "permits MODE_700 (made_directories (result_entries expected) ws) (take depth (entry_key e))"
    using guarded_ancestors[OF assms(1,3)] fresh_workspace_root(1)[OF assms(2)]
    by (cases "depth = 0") (auto simp: permits_def made_directories_def)
qed

lemma export_room:
  assumes "export_guard n c limits expected = Inr u" "fresh_workspace umask ws (result_entries expected)"
  shows "room_for (made_directories (result_entries expected) ws) (file_entries (result_entries expected))"
proof -
  have files: "e \<in> set (result_entries expected)" if "e \<in> set (file_entries (result_entries expected))" for e
    using that by (simp add: file_entries_def)
  have "take depth (entry_key e) \<notin> entry_key ` set (file_entries (result_entries expected))"
    if "e \<in> set (file_entries (result_entries expected))" "0 < depth" "depth < length (entry_key e)" for e depth
    using guarded_ancestors[OF assms(1) files[OF that(1)] that(2,3)] guarded_file_keys[OF assms(1)] by auto
  then show ?thesis
    using made_directories_permit[OF assms files] guarded_file_keys[OF assms(1)] assms(2) files
    unfolding room_for_def fresh_workspace_def by (auto simp: made_directories_def)
qed

lemma export_succeeds:
  assumes guard: "export_guard (nfc env) (casefold env) limits expected = Inr ()"
    and ws: "fresh_workspace umask ws (result_entries expected)"
    and accepts: "makes_progress accepts"
    and chunks: "\<And>e. e \<in> set (file_entries (result_entries expected)) \<Longrightarrow> proper_chunks e (chunks e)"
    and digests: "\<And>e. e \<in> set (file_entries (result_entries expected)) \<Longrightarrow>
      entry_sha256 e = Some (''sha256:'' @ sha256_hex env (concat (chunks e)))"
  shows "\<exists>ws' t. exported_submission_tree env limits umask accepts expected
    (export_calls chunks (file_entries (result_entries expected))) ws = Inr (ws', t)"
proof -
  define entries files base where "entries = result_entries expected" and "files = file_entries entries"
    and "base = made_directories entries ws"
  note facts = export_guard_Inr[OF guard, folded entries_def, folded files_def]
  have room: "room_for base files" using export_room[OF guard ws] by (simp add: base_def entries_def files_def)
  obtain st where st: "receive_all umask accepts files \<lparr> received_ws = base, descriptor = None, position = 0, written = 0 \<rparr>
      (export_calls chunks files) = Inr st" "descriptor st = None" "position st = length files"
    using receive_files[OF accepts facts(5) room _ initial_receive_ok, of chunks] chunks
    unfolding export_calls_def files_def entries_def by auto
  have "receive_ok umask files base (export_calls chunks files) st"
    using receive_all_ok[OF facts(5) initial_receive_ok st(1)] by simp
  then have final: "received_ws st = base\<lparr> nodes := nodes base ++ stored umask (export_calls chunks files) files \<rparr>"
    using st(2,3) unfolding receive_ok_def begun_def by simp
  have kept: "permits MODE_500 (received_ws st) k" if "permits MODE_700 base k" "k \<notin> entry_key ` set files" for k
  proof (rule permits_subset[of MODE_700])
    have "stored umask (export_calls chunks files) files k = None"
      using that(2) by (force simp: stored_def map_of_eq_None_iff)
    then show "permits MODE_700 (received_ws st) k" using that(1) unfolding final by (simp add: permits_def map_add_def)
  qed simp
  have dirs: "permits MODE_500 (received_ws st) k" if "k \<in> directory_keys entries" for k
  proof (rule kept)
    have "k \<noteq> []" using that facts(4) unfolding directory_keys_def by auto
    then show "permits MODE_700 base k" using that by (simp add: base_def made_directories_def permits_def)
    show "k \<notin> entry_key ` set files" using that guarded_file_keys[OF guard] unfolding files_def entries_def by auto
  qed
  have root: "permits MODE_500 (received_ws st) []"
  proof (rule kept)
    show "permits MODE_700 base []"
      using fresh_workspace_root(1)[OF ws] by (simp add: base_def made_directories_def permits_def)
    show "[] \<notin> entry_key ` set files" using facts(5) unfolding files_ok_def by force
  qed
  have parents: "parents_permit MODE_500 (received_ws st) (entry_key e)" if "e \<in> set entries" for e
    unfolding parents_permit_def
  proof (intro allI impI)
    fix depth assume "depth < length (entry_key e)"
    then show "permits MODE_500 (received_ws st) (take depth (entry_key e))"
      using guarded_ancestors[OF guard that[unfolded entries_def]] dirs root by (cases "depth = 0") (auto simp: entries_def)
  qed
  have named: "entry_key e \<noteq> []" if "e \<in> set entries" for e using facts(4)[OF that] by simp
  have "\<exists>ws' t. seal_workspace (sha256_hex env) (received_ws st) (export_directories entries) entries = Inr (ws', t)"
  proof (rule seal_workspace_ok[OF _ facts(3), where content = "\<lambda>e. concat (chunks e)"])
    fix d assume "d \<in> set (export_directories entries)"
    then show "posix_parts d \<noteq> [] \<and> permits MODE_500 (received_ws st) (posix_parts d) \<and> parents_permit MODE_500 (received_ws st) (posix_parts d)"
      using dirs parents named unfolding export_directories_set directory_keys_def by blast
  next
    fix e assume e: "e \<in> set (file_entries entries)"
    then have mem: "e \<in> set entries" "e \<in> set files" by (simp_all add: file_entries_def files_def)
    have "distinct files" using facts(5) by (simp add: files_ok_def distinct_map)
    then have "received (export_calls chunks files) e = concat (chunks e)" using received_export_calls mem(2) by simp
    moreover have "stored umask (export_calls chunks files) files (entry_key e) = Some (stored_node umask (export_calls chunks files) e)"
      unfolding stored_def using facts(5) mem(2) unfolding files_ok_def by (intro map_of_is_SomeI) (auto simp: comp_def)
    moreover have "created_mode umask (sealed_mode e) = sealed_mode e"
      using owner_modes[of umask] ws by (simp add: sealed_mode_def fresh_workspace_def)
    ultimately show "entry_key e \<noteq> [] \<and> parents_permit MODE_500 (received_ws st) (entry_key e) \<and>
        nodes (received_ws st) (entry_key e) = Some (Regular (sealed_mode e) (concat (chunks e))) \<and>
        length (concat (chunks e)) = byte_count e \<and> entry_sha256 e = Some (''sha256:'' @ sha256_hex env (concat (chunks e)))"
      using parents named mem chunks digests final unfolding entries_def[symmetric] files_def[symmetric]
      by (simp add: stored_node_def proper_chunks_def)
  qed
  then show ?thesis
    using guard fresh_workspace_root(2,3)[OF ws] export_mkdirs[OF guard ws] st
    unfolding exported_submission_tree_def Let_def entries_def files_def base_def by auto
qed

end
