(* ===== verification/Archive_Export_Properties.thy ===== *)
theory Archive_Export_Properties
  imports Archive_Roundtrip Archive_Example
begin

text \<open>
  The guarantees of the trees that inspected archives become: what a sealed tree answers, and that handing over the
  inspected content always ends in such a tree.
\<close>

definition example_workspace :: workspace where
  "example_workspace = \<lparr> root_mode = MODE_700, nodes = Map.empty,
     creatable = list_all (\<lambda>name. case encode_utf8 name of None \<Rightarrow> False | Some bs \<Rightarrow> length bs \<le> 255) \<rparr>"

definition example_chunks :: "SubmissionArchiveEntry \<Rightarrow> bytes list" where
  "example_chunks e = (if byte_count e = 0 then [[]] else [[0x41]])"

abbreviation "example_umask \<equiv> (0x12::mode)"

lemmas example_entries_listed = example_result_def[THEN arg_cong[where f = result_entries], simplified]

lemma example_files:
  "file_entries (result_entries example_result) =
     [\<lparr> normalized_path = [97, 47, 98], entry_type = FILE, byte_count = 1, entry_sha256 = Some ''sha256:559a'', executable = Some False \<rparr>,
      \<lparr> normalized_path = [99], entry_type = FILE, byte_count = 0, entry_sha256 = Some ''sha256:e3b0'', executable = Some True \<rparr>]"
  by (simp add: file_entries_def example_result_def directory_entry_def)

lemma example_keys: "posix_parts [97] = [[97]]" "posix_parts [99] = [[99]]" "posix_parts [97, 47, 98] = [[97], [98]]"
  by (simp_all add: posix_parts_def)

lemma example_creatable:
  "creatable example_workspace [[97]]" "creatable example_workspace [[99]]" "creatable example_workspace [[97], [98]]"
  by (simp_all add: example_workspace_def encode_utf8_def scalar_value_def utf8_octets_def)

lemma example_modes_kept: "nodes example_workspace = Map.empty" "root_mode example_workspace AND MODE_777 = MODE_700"
  "created_mode example_umask MODE_700 = MODE_700"
  "\<forall>e \<in> set (result_entries example_result). creatable example_workspace (posix_parts (normalized_path e))"
proof -
  show "\<forall>e \<in> set (result_entries example_result). creatable example_workspace (posix_parts (normalized_path e))"
    using example_creatable by (simp add: example_result_def directory_entry_def example_keys)
qed (simp_all add: created_mode_def example_workspace_def)

lemma example_fresh: "fresh_workspace example_umask example_workspace (result_entries example_result)"
  unfolding fresh_workspace_def using example_modes_kept by blast

lemma example_chunks_proper:
  "e \<in> set (file_entries (result_entries example_result)) \<Longrightarrow> proper_chunks e (example_chunks e) \<and>
     entry_sha256 e = Some (''sha256:'' @ sha256_hex example_env (concat (example_chunks e)))"
  unfolding example_files by (auto simp: proper_chunks_def example_chunks_def example_env_def)

lemma example_progress: "makes_progress int"
  by (simp add: makes_progress_def)

lemma example_projected:
  "\<exists>ws t. projected_tree example_env (\<lambda>_. 0) default_limits example_umask int example_zip example_result example_workspace = Inr (ws, t)"
proof -
  have limits: "default_limits = default_limits\<lparr> maximum_entries := 2000 \<rparr>" by (simp add: default_limits_def)
  have reads: "member_reads example_env example_zip example_nested = [Chunk [0x41]]" "member_reads example_env example_zip example_empty = []"
    "infolist example_env example_zip = Inr [example_nested, example_empty]"
    by (simp_all add: example_runtime)
  have checks: "check_deadline (example_env\<lparr> clock := \<lambda>_. 0 \<rparr>) default_limits 0 n = Inr (Suc n)"
    "sha256_hex example_env [] = ''e3b0''" "sha256_hex example_env [0x41] = ''559a''" for n
    by (simp_all add: check_deadline_def example_runtime)
  have written: "write_view int content chunk = Inr (content @ chunk)" for content chunk
    by (rule write_view_total[OF example_progress])
  have fresh: "nodes example_workspace = Map.empty" "root_mode example_workspace = MODE_700" by (simp_all add: example_workspace_def)
  show ?thesis
    by (simp add: projected_tree_def Let_def example_inspected_default projected_directories_def example_paths[of 2000, folded limits] reads raised_def reject_on_def
        mkdir_beneath_def open_parent_beneath_def example_keys project_file_def create_beneath_def append_beneath_def written checks
        created_mode_def sealed_mode_def chmod_node_def seal_workspace_def chmod_beneath_def open_beneath_def
        read_projected_file_def file_entries_def example_entries_listed directory_entry_def upt_rec
        fresh permits_def admits_def node_mode_def example_creatable)
qed

text \<open>
  C31. A sealed tree answers exactly. When \<open>exported_submission_tree\<close> yields a tree, the bytes the exporter handed over
  for each file have the size and the digest its entry was inspected with, and \<open>read_file\<close> returns those bytes. When
  \<open>_projected_tree\<close> yields one, the archive has just been inspected again with the expected result and \<open>read_file\<close>
  returns bytes of the inspected size and digest. Once the callback of \<open>project_and_run\<close>, or the consumer of an exported
  tree, has returned or raised, the tree it was given answers nothing more, and what it returned or raised is passed on.
\<close>

theorem sealed_trees_answer_exactly:
  "(exported_submission_tree env limits umask accepts expected calls ws = Inr (ws1, t1) \<and>
      e \<in> set (file_entries (result_entries expected)) \<longrightarrow>
    sealed_entries t1 = result_entries expected \<and> length (received calls e) = byte_count e \<and>
    entry_sha256 e = Some (''sha256:'' @ sha256_hex env (received calls e)) \<and>
    read_file (sha256_hex env) t1 (normalized_path e) (int (byte_count e)) = Inr (received calls e)) \<and>
   (projected_tree env later limits umask accepts source expected ws = Inr (ws2, t2) \<and>
      e \<in> set (file_entries (result_entries expected)) \<and> limits_valid limits \<and> nfc_laws (nfc env) \<longrightarrow>
    inspect env limits source = Inr expected \<and> sealed_entries t2 = result_entries expected \<and>
    (\<exists>content. length content = byte_count e \<and> entry_sha256 e = Some (''sha256:'' @ sha256_hex env content) \<and>
       read_file (sha256_hex env) t2 (normalized_path e) (int (byte_count e)) = Inr content)) \<and>
   (project_and_run env later limits umask accepts source expected callback ws = Inr (outcome, t3) \<longrightarrow>
    (\<exists>ws' t. projected_tree env later limits umask accepts source expected ws = Inr (ws', t) \<and> outcome = callback t) \<and>
    read_file (sha256_hex env) t3 path n = Inl (Raised RuntimeError) \<and> tree_entries t3 = Inl (Raised RuntimeError)) \<and>
   (export_and_run env limits umask accepts expected calls callback ws = Inr (outcome, t4) \<longrightarrow>
    (\<exists>ws' t. exported_submission_tree env limits umask accepts expected calls ws = Inr (ws', t) \<and> outcome = callback t) \<and>
    read_file (sha256_hex env) t4 path n = Inl (Raised RuntimeError) \<and> tree_entries t4 = Inl (Raised RuntimeError)) \<and>
   read_file (sha256_hex env) (close_tree t) path n = Inl (Raised RuntimeError)"
  using exported_file[of env limits umask accepts expected calls ws ws1 t1 e]
    projected_file[of env later limits umask accepts source expected ws ws2 t2 e]
  by (auto simp: closed_tree_refuses project_and_run_def export_and_run_def outcome_inv)

theorem sealed_trees_answer_exactly_witness:
  "(\<exists>ws t. exported_submission_tree example_env default_limits example_umask int example_result
      (export_calls example_chunks (file_entries (result_entries example_result))) example_workspace = Inr (ws, t) \<and>
      read_file (sha256_hex example_env) t [97, 47, 98] 1 = Inr [0x41]) \<and>
   (\<exists>ws t content. projected_tree example_env (\<lambda>_. 0) default_limits example_umask int example_zip example_result example_workspace
      = Inr (ws, t) \<and> read_file (sha256_hex example_env) t [97, 47, 98] 1 = Inr content \<and> length content = 1) \<and>
   (\<exists>t. export_and_run example_env default_limits example_umask int example_result
      (export_calls example_chunks (file_entries (result_entries example_result))) (\<lambda>t. read_file (sha256_hex example_env) t [99] 0)
      example_workspace = Inr (Inr [], t) \<and> read_file (sha256_hex example_env) t [99] 0 = Inl (Raised RuntimeError))"
proof -
  define nested where "nested = file_entries (result_entries example_result) ! 0"
  have nested: "nested \<in> set (file_entries (result_entries example_result))" "normalized_path nested = [97, 47, 98]"
    "byte_count nested = 1" "received (export_calls example_chunks (file_entries (result_entries example_result))) nested = [0x41]"
    by (simp_all add: nested_def example_files export_calls_def example_chunks_def received_def)
  have guard: "export_guard (nfc example_env) (casefold example_env) default_limits example_result = Inr ()"
    using inspected_export_guard[OF example_inspected_default default_limits_valid example_nfc_laws]
    by (simp add: example_result_def default_limits_def)
  obtain ws1 t1 where export: "exported_submission_tree example_env default_limits example_umask int example_result
      (export_calls example_chunks (file_entries (result_entries example_result))) example_workspace = Inr (ws1, t1)"
    using export_succeeds[OF guard example_fresh example_progress, of example_chunks]
      example_chunks_proper by blast
  obtain ws2 t2 where project:
    "projected_tree example_env (\<lambda>_. 0) default_limits example_umask int example_zip example_result example_workspace = Inr (ws2, t2)"
    using example_projected by blast
  define empty where "empty = file_entries (result_entries example_result) ! 1"
  have empty: "empty \<in> set (file_entries (result_entries example_result))" "normalized_path empty = [99]" "byte_count empty = 0"
      "received (export_calls example_chunks (file_entries (result_entries example_result))) empty = []"
    by (simp_all add: empty_def example_files export_calls_def example_chunks_def received_def)
  have run: "export_and_run example_env default_limits example_umask int example_result
      (export_calls example_chunks (file_entries (result_entries example_result))) (\<lambda>t. read_file (sha256_hex example_env) t [99] 0)
      example_workspace = Inr (read_file (sha256_hex example_env) t1 [99] 0, close_tree t1)"
    using export by (simp add: export_and_run_def)
  note exact = sealed_trees_answer_exactly[where env = example_env and limits = default_limits and umask = example_umask
      and accepts = int and expected = example_result and ws = example_workspace and path = "[99]" and n = 0
      and calls = "export_calls example_chunks (file_entries (result_entries example_result))"
      and source = example_zip and later = "\<lambda>_. 0" and ?ws1.0 = ws1 and ?t1.0 = t1]
  have first: "read_file (sha256_hex example_env) t1 [97, 47, 98] 1 = Inr [0x41]" "read_file (sha256_hex example_env) t1 [99] 0 = Inr []"
    using exact[where e = nested, THEN conjunct1] exact[where e = empty, THEN conjunct1] export nested empty by simp_all
  have second: "\<exists>content. read_file (sha256_hex example_env) t2 [97, 47, 98] 1 = Inr content \<and> length content = 1"
    using exact[where e = nested and ?ws2.0 = ws2 and ?t2.0 = t2, THEN conjunct2, THEN conjunct1]
      project nested default_limits_valid example_nfc_laws by auto
  have third: "read_file (sha256_hex example_env) (close_tree t1) [99] 0 = Inl (Raised RuntimeError)"
    using exact[where callback = "\<lambda>t. read_file (sha256_hex example_env) t [99] 0" and ?t4.0 = "close_tree t1"] run by blast
  show ?thesis using export project run first second third by auto
qed

text \<open>
  C30. What was inspected can be exported, if the file system can hold it. Take an archive that \<open>inspect\<close> accepts within
  the entry limit, and an exporter that hands over its files in order, each in non-empty chunks that add up to the
  inspected size and digest. Into an empty workspace of mode 0700, with a file mode mask that leaves the owner's bits, on
  a file system that accepts the name of every entry and has room for it, and that takes some bytes of every write,
  \<open>exported_submission_tree\<close> succeeds, and reading any file of the sealed tree returns its content. The condition on
  names is needed: \<open>inspect\<close> limits the length of whole paths only, and a component may be longer than the file system
  allows.
\<close>

theorem inspected_content_exports:
  assumes "inspect env limits source = Inr expected" "limits_valid limits" "nfc_laws (nfc env)"
    "int (result_entry_count expected) \<le> maximum_entries limits"
    "nodes ws = Map.empty" "root_mode ws AND MODE_777 = MODE_700" "created_mode umask MODE_700 = MODE_700"
    "\<forall>e \<in> set (result_entries expected). creatable ws (posix_parts (normalized_path e))"
    "makes_progress accepts"
    "\<forall>e \<in> set (file_entries (result_entries expected)). proper_chunks e (chunks e) \<and>
       entry_sha256 e = Some (''sha256:'' @ sha256_hex env (concat (chunks e)))"
  shows "\<exists>ws' t. exported_submission_tree env limits umask accepts expected
      (export_calls chunks (file_entries (result_entries expected))) ws = Inr (ws', t) \<and>
    (\<forall>e \<in> set (file_entries (result_entries expected)).
       read_file (sha256_hex env) t (normalized_path e) (int (byte_count e)) = Inr (concat (chunks e)))"
proof -
  have guard: "export_guard (nfc env) (casefold env) limits expected = Inr ()"
    using inspected_export_guard[OF assms(1-3)] assms(4) by simp
  obtain ws' t where export: "exported_submission_tree env limits umask accepts expected
      (export_calls chunks (file_entries (result_entries expected))) ws = Inr (ws', t)"
    using export_succeeds[OF guard _ assms(9), of umask ws chunks] assms(5-8,10) unfolding fresh_workspace_def by blast
  have "distinct (file_entries (result_entries expected))"
    using export_guard_Inr(5)[OF guard] by (simp add: files_ok_def distinct_map)
  then show ?thesis using export exported_file(4)[OF export, of _ "int (byte_count _)"] received_export_calls by fastforce
qed

theorem inspected_content_exports_witness:
  "\<exists>ws t. exported_submission_tree example_env default_limits example_umask int example_result
      (export_calls example_chunks (file_entries (result_entries example_result))) example_workspace = Inr (ws, t) \<and>
    read_file (sha256_hex example_env) t [97, 47, 98] 1 = Inr [0x41] \<and> read_file (sha256_hex example_env) t [99] 0 = Inr []"
proof -
  have "int (result_entry_count example_result) \<le> maximum_entries default_limits"
    by (simp add: example_result_def default_limits_def)
  moreover have "\<forall>e \<in> set (file_entries (result_entries example_result)). proper_chunks e (example_chunks e) \<and>
      entry_sha256 e = Some (''sha256:'' @ sha256_hex example_env (concat (example_chunks e)))"
    using example_chunks_proper by blast
  ultimately have "\<exists>ws t. exported_submission_tree example_env default_limits example_umask int example_result
      (export_calls example_chunks (file_entries (result_entries example_result))) example_workspace = Inr (ws, t) \<and>
    (\<forall>e \<in> set (file_entries (result_entries example_result)).
       read_file (sha256_hex example_env) t (normalized_path e) (int (byte_count e)) = Inr (concat (example_chunks e)))"
    using inspected_content_exports[OF example_inspected_default default_limits_valid example_nfc_laws _
      example_modes_kept example_progress, of example_chunks] by blast
  then show ?thesis unfolding example_files by (simp add: example_chunks_def)
qed

end
