(* ===== verification/Rate_Control.thy ===== *)
theory Rate_Control
  imports Unicode
begin

text \<open>
  The durable API rate control of \<open>modules/api_controls\<close>: the table of fixed-window counters, its two statements, the
  privacy key of an identity and \<open>RateControlService.consume\<close>, with the decoding of the key secret of
  \<open>core/config.py\<close>. Bytes are \<open>8 word\<close>s, a Python string is the list of its code points and an instant counts
  microseconds. HMAC-SHA256, the database clock and the rows that other transactions hold locked are arguments.
\<close>

datatype rate_error = RateControlUnavailableError | Rate_ValueError | SQLAlchemyError

subsection \<open>Table\<close>

record ApiRateControlCounter =
  control_scope :: string
  key_digest :: octets
  window_started_at :: instant
  window_expires_at :: instant
  request_count :: int
  updated_at :: instant

abbreviation counter_key :: "ApiRateControlCounter \<Rightarrow> string \<times> octets" where
  "counter_key r \<equiv> (control_scope r, key_digest r)"

definition RATE_SCOPES :: "string list" where
  "RATE_SCOPES = [''first_access'', ''admin_mutation'', ''authorization_read'']"

definition MAX_COUNT :: int where "MAX_COUNT = 9223372036854775807"

definition counter_check :: "ApiRateControlCounter \<Rightarrow> bool" where
  "counter_check r \<longleftrightarrow> control_scope r \<in> set RATE_SCOPES \<and> length (key_digest r) = 32 \<and>
     1 \<le> request_count r \<and> request_count r \<le> MAX_COUNT \<and> window_started_at r < window_expires_at r"

record ConsumedCounter =
  db_now :: instant
  consumed_started_at :: instant
  consumed_expires_at :: instant
  consumed_count :: int

definition returning :: "instant \<Rightarrow> ApiRateControlCounter \<Rightarrow> ConsumedCounter" where
  "returning now r = \<lparr> db_now = now, consumed_started_at = window_started_at r,
     consumed_expires_at = window_expires_at r, consumed_count = request_count r \<rparr>"

definition seconds :: "int \<Rightarrow> int" where "seconds n = n * 1000000"

text \<open>The row the statement proposes, and what the conflict clause makes of the stored one.\<close>

definition fresh_counter :: "instant \<Rightarrow> string \<Rightarrow> octets \<Rightarrow> int \<Rightarrow> ApiRateControlCounter" where
  "fresh_counter now scope digest window_seconds =
     \<lparr> control_scope = scope, key_digest = digest, window_started_at = now,
       window_expires_at = now + seconds window_seconds, request_count = 1, updated_at = now \<rparr>"

definition counted :: "instant \<Rightarrow> int \<Rightarrow> ApiRateControlCounter \<Rightarrow> ApiRateControlCounter" where
  "counted now window_seconds r = r\<lparr>
     window_started_at := (if window_expires_at r \<le> now then now else window_started_at r),
     window_expires_at := (if window_expires_at r \<le> now then now + seconds window_seconds else window_expires_at r),
     request_count := (if window_expires_at r \<le> now then 1
       else if request_count r = MAX_COUNT then request_count r else request_count r + 1),
     updated_at := now \<rparr>"

text \<open>\<open>UPSERT_COUNTER\<close>: the constraints are checked on the proposed row, and on the updated one when there is a conflict.\<close>

definition upsert_counter ::
  "instant \<Rightarrow> string \<Rightarrow> octets \<Rightarrow> int \<Rightarrow> ApiRateControlCounter list \<Rightarrow> rate_error + (ConsumedCounter \<times> ApiRateControlCounter list)" where
  "upsert_counter now scope digest window_seconds t =
     (let proposed = fresh_counter now scope digest window_seconds in
      if \<not> counter_check proposed then Inl SQLAlchemyError else
      case row_get counter_key (scope, digest) t of
        None \<Rightarrow> Inr (returning now proposed, t @ [proposed])
      | Some r \<Rightarrow>
          let r' = counted now window_seconds r in
          if \<not> counter_check r' then Inl SQLAlchemyError else Inr (returning now r', row_put counter_key r' t))"

text \<open>\<open>PRUNE_EXPIRED\<close>: a bounded batch of other expired rows, oldest first, without those another transaction has locked.\<close>

definition prune_expired ::
  "instant \<Rightarrow> (string \<times> octets \<Rightarrow> bool) \<Rightarrow> string \<Rightarrow> octets \<Rightarrow> nat \<Rightarrow> ApiRateControlCounter list \<Rightarrow> ApiRateControlCounter list" where
  "prune_expired now locked scope digest batch_size t =
     (let expired = take batch_size (sort_key window_expires_at
        (filter (\<lambda>r. window_expires_at r \<le> now \<and> counter_key r \<noteq> (scope, digest) \<and> \<not> locked (counter_key r)) t)) in
      filter (\<lambda>r. counter_key r \<notin> set (map counter_key expired)) t)"

definition PRUNE_BATCH_SIZE :: nat where "PRUNE_BATCH_SIZE = 100"

subsection \<open>Privacy keys\<close>

definition ascii :: "string \<Rightarrow> octets" where
  "ascii s = map of_char s"

text \<open>\<open>len(value).to_bytes(4, "big") + value\<close>\<close>

definition frame :: "octets \<Rightarrow> octets" where
  "frame v = [of_nat (length v div 16777216), of_nat (length v div 65536), of_nat (length v div 256), of_nat (length v)] @ v"

definition RATE_KEY_DOMAIN :: octets where "RATE_KEY_DOMAIN = ascii ''workstream-api-rate/v1''"

definition MAX_IDENTITY_BYTES :: nat where "MAX_IDENTITY_BYTES = 4096"

definition key_preimage :: "string \<Rightarrow> octets \<Rightarrow> octets \<Rightarrow> octets" where
  "key_preimage scope issuer subject = concat (map frame [RATE_KEY_DOMAIN, ascii scope, issuer, subject])"

subsection \<open>The secret\<close>

definition b64_char :: "nat \<Rightarrow> 8 word" where
  "b64_char n = (if n < 26 then of_nat (65 + n) else if n < 52 then of_nat (97 + (n - 26))
     else if n < 62 then of_nat (48 + (n - 52)) else if n = 62 then 43 else 47)"

definition b64_value :: "8 word \<Rightarrow> nat option" where
  "b64_value w = (let c = unat w in
     if 65 \<le> c \<and> c \<le> 90 then Some (c - 65) else if 97 \<le> c \<and> c \<le> 122 then Some (c - 97 + 26)
     else if 48 \<le> c \<and> c \<le> 57 then Some (c - 48 + 52) else if c = 43 then Some 62 else if c = 47 then Some 63 else None)"

abbreviation (input) "pad_char \<equiv> (61 :: 8 word)"

fun b64encode :: "octets \<Rightarrow> octets" where
  "b64encode [] = []"
| "b64encode [a] = [b64_char (unat a div 4), b64_char (unat a mod 4 * 16), pad_char, pad_char]"
| "b64encode [a, b] = [b64_char (unat a div 4), b64_char (unat a mod 4 * 16 + unat b div 16), b64_char (unat b mod 16 * 4), pad_char]"
| "b64encode (a # b # c # rest) =
     [b64_char (unat a div 4), b64_char (unat a mod 4 * 16 + unat b div 16),
      b64_char (unat b mod 16 * 4 + unat c div 64), b64_char (unat c mod 64)] @ b64encode rest"

text \<open>\<open>base64.b64decode(encoded, validate=True)\<close> on groups of four; \<open>None\<close> is \<open>binascii.Error\<close>.\<close>

fun b64decode :: "octets \<Rightarrow> octets option" where
  "b64decode [] = Some []"
| "b64decode (p # q # r # s # rest) =
     (case (b64_value p, b64_value q) of (Some x, Some y) \<Rightarrow>
        if rest = [] \<and> s = pad_char then
          if r = pad_char then Some [of_nat (x * 4 + y div 16)]
          else (case b64_value r of Some z \<Rightarrow> Some [of_nat (x * 4 + y div 16), of_nat (y mod 16 * 16 + z div 4)] | None \<Rightarrow> None)
        else (case (b64_value r, b64_value s, b64decode rest) of
            (Some z, Some u, Some others) \<Rightarrow>
              Some ([of_nat (x * 4 + y div 16), of_nat (y mod 16 * 16 + z div 4), of_nat (z mod 4 * 64 + u)] @ others)
          | _ \<Rightarrow> None)
      | _ \<Rightarrow> None)"
| "b64decode _ = None"

definition decode_api_rate_limit_key_secret :: "nat list \<Rightarrow> rate_error + octets" where
  "decode_api_rate_limit_key_secret secret =
     (if list_ex (\<lambda>c. c \<ge> 128) secret then Inl Rate_ValueError else
      let encoded = map of_nat secret in
      need (b64decode encoded) Rate_ValueError (\<lambda>decoded.
      if \<not> (32 \<le> length decoded \<and> length decoded \<le> 64) \<or> b64encode decoded \<noteq> encoded then Inl Rate_ValueError
      else Inr decoded))"

definition rate_key_digest ::
  "(octets \<Rightarrow> octets \<Rightarrow> octets) \<Rightarrow> nat list \<Rightarrow> string \<Rightarrow> nat list \<Rightarrow> nat list \<Rightarrow> rate_error + octets" where
  "rate_key_digest hmac secret scope issuer subject =
     (if scope \<notin> set RATE_SCOPES then Inl Rate_ValueError else
      need (encode_utf8 issuer) RateControlUnavailableError (\<lambda>issuer_bytes.
      need (encode_utf8 subject) RateControlUnavailableError (\<lambda>subject_bytes.
      if \<not> (1 \<le> length issuer_bytes \<and> length issuer_bytes \<le> MAX_IDENTITY_BYTES) \<or>
         \<not> (1 \<le> length subject_bytes \<and> length subject_bytes \<le> MAX_IDENTITY_BYTES)
      then Inl RateControlUnavailableError else
      andthen (decode_api_rate_limit_key_secret secret) (\<lambda>key.
      Inr (hmac key (key_preimage scope issuer_bytes subject_bytes))))))"

subsection \<open>Service\<close>

record RateControlDecision =
  allowed :: bool
  decision_count :: int
  retry_after :: int

text \<open>
  One transaction: the clock readings of its two statements, the rows locked elsewhere, and whether the database can be
  reached and the commit succeeds.
\<close>

record rate_transaction =
  upsert_at :: instant
  prune_at :: instant
  locked_rows :: "string \<times> octets \<Rightarrow> bool"
  database_ok :: bool

definition count_request ::
  "rate_transaction \<Rightarrow> string \<Rightarrow> octets \<Rightarrow> int \<Rightarrow> ApiRateControlCounter list \<Rightarrow> rate_error + (ConsumedCounter \<times> ApiRateControlCounter list)" where
  "count_request tx scope digest window_seconds t =
     (if \<not> database_ok tx then Inl RateControlUnavailableError else
      case upsert_counter (upsert_at tx) scope digest window_seconds t of
        Inl _ \<Rightarrow> Inl RateControlUnavailableError
      | Inr (consumed, t) \<Rightarrow> Inr (consumed, prune_expired (prune_at tx) (locked_rows tx) scope digest PRUNE_BATCH_SIZE t))"

definition decision_of :: "int \<Rightarrow> int \<Rightarrow> ConsumedCounter \<Rightarrow> RateControlDecision" where
  "decision_of limit window_seconds consumed =
     \<lparr> allowed = consumed_count consumed \<le> limit, decision_count = consumed_count consumed,
       retry_after = max 1 (min window_seconds (- ((db_now consumed - consumed_expires_at consumed) div 1000000))) \<rparr>"

definition rate_consume ::
  "(octets \<Rightarrow> octets \<Rightarrow> octets) \<Rightarrow> rate_transaction \<Rightarrow> string \<Rightarrow> nat list \<Rightarrow> nat list \<Rightarrow> int \<Rightarrow> int \<Rightarrow> nat list option
    \<Rightarrow> ApiRateControlCounter list \<Rightarrow> rate_error + (RateControlDecision \<times> ApiRateControlCounter list)" where
  "rate_consume hmac tx scope issuer subject limit window_seconds secret t =
     need secret RateControlUnavailableError (\<lambda>secret.
     andthen (rate_key_digest hmac secret scope issuer subject) (\<lambda>digest.
     andthen (count_request tx scope digest window_seconds t) (\<lambda>(consumed, t).
     Inr (decision_of limit window_seconds consumed, t))))"

end
