(* ===== verification/Rate_Windows.thy ===== *)
theory Rate_Windows
  imports Rate_Control
begin

text \<open>
  The fixed windows that the counters stand for. The reference machine keeps one window per key and never forgets one;
  the table implements it although every request also deletes expired rows of other keys.
\<close>

subsection \<open>Histories\<close>

record rate_call =
  call_scope :: string
  call_digest :: octets
  call_window :: int
  call_tx :: rate_transaction

abbreviation call_key :: "rate_call \<Rightarrow> string \<times> octets" where
  "call_key c \<equiv> (call_scope c, call_digest c)"

abbreviation call_at :: "rate_call \<Rightarrow> instant" where
  "call_at c \<equiv> upsert_at (call_tx c)"

text \<open>The committed answers of a sequence of requests; a failed request leaves the table as it was.\<close>

fun run_counters :: "ApiRateControlCounter list \<Rightarrow> rate_call list \<Rightarrow> (rate_error + ConsumedCounter) list" where
  "run_counters t [] = []"
| "run_counters t (c # cs) =
     (case count_request (call_tx c) (call_scope c) (call_digest c) (call_window c) t of
        Inl e \<Rightarrow> Inl e # run_counters t cs
      | Inr (consumed, t') \<Rightarrow> Inr consumed # run_counters t' cs)"

text \<open>The database clock does not run backwards from one statement to the next.\<close>

fun timeline :: "instant \<Rightarrow> rate_call list \<Rightarrow> bool" where
  "timeline now [] \<longleftrightarrow> True"
| "timeline now (c # cs) \<longleftrightarrow> now \<le> call_at c \<and> call_at c \<le> prune_at (call_tx c) \<and> timeline (prune_at (call_tx c)) cs"

subsection \<open>The reference machine\<close>

record rate_window =
  started :: instant
  expires :: instant
  uses :: int

definition open_window :: "instant \<Rightarrow> int \<Rightarrow> rate_window" where
  "open_window now window_seconds = \<lparr> started = now, expires = now + seconds window_seconds, uses = 1 \<rparr>"

definition use_window :: "instant \<Rightarrow> int \<Rightarrow> rate_window option \<Rightarrow> rate_window" where
  "use_window now window_seconds v =
     (case v of None \<Rightarrow> open_window now window_seconds
      | Some w \<Rightarrow> if expires w \<le> now then open_window now window_seconds
                  else w\<lparr> uses := min MAX_COUNT (uses w + 1) \<rparr>)"

definition answer :: "instant \<Rightarrow> rate_window \<Rightarrow> ConsumedCounter" where
  "answer now w = \<lparr> db_now = now, consumed_started_at = started w, consumed_expires_at = expires w, consumed_count = uses w \<rparr>"

definition call_accepted :: "rate_call \<Rightarrow> bool" where
  "call_accepted c \<longleftrightarrow> database_ok (call_tx c) \<and> call_scope c \<in> set RATE_SCOPES \<and> length (call_digest c) = 32 \<and> 0 < call_window c"

fun run_windows :: "(string \<times> octets \<rightharpoonup> rate_window) \<Rightarrow> rate_call list \<Rightarrow> (rate_error + ConsumedCounter) list" where
  "run_windows m [] = []"
| "run_windows m (c # cs) =
     (if call_accepted c then
        let w = use_window (call_at c) (call_window c) (m (call_key c)) in
        Inr (answer (call_at c) w) # run_windows (m(call_key c \<mapsto> w)) cs
      else Inl RateControlUnavailableError # run_windows m cs)"

subsection \<open>Simulation\<close>

definition window_of :: "ApiRateControlCounter \<Rightarrow> rate_window" where
  "window_of r = \<lparr> started = window_started_at r, expires = window_expires_at r, uses = request_count r \<rparr>"

definition live :: "instant \<Rightarrow> rate_window option \<Rightarrow> rate_window option" where
  "live now v = (case v of None \<Rightarrow> None | Some w \<Rightarrow> if now < expires w then Some w else None)"

definition simulates :: "instant \<Rightarrow> ApiRateControlCounter list \<Rightarrow> (string \<times> octets \<rightharpoonup> rate_window) \<Rightarrow> bool" where
  "simulates now t m \<longleftrightarrow> distinct (row_keys counter_key t) \<and> (\<forall>r \<in> set t. counter_check r) \<and>
     (\<forall>k. live now (map_option window_of (row_get counter_key k t)) = live now (m k))"

lemma use_live: "use_window now w (live now v) = use_window now w v"
  by (auto simp: use_window_def live_def split: option.splits)

lemma live_later: "live now u = live now v \<Longrightarrow> now \<le> now' \<Longrightarrow> live now' u = live now' v"
  by (auto simp: live_def split: option.splits if_splits)

lemma fresh_check:
  "counter_check (fresh_counter now scope digest w) \<longleftrightarrow> scope \<in> set RATE_SCOPES \<and> length digest = 32 \<and> 0 < w"
  by (auto simp: counter_check_def fresh_counter_def seconds_def MAX_COUNT_def)

lemma counted_check: "counter_check r \<Longrightarrow> 0 < w \<Longrightarrow> counter_check (counted now w r)"
  by (auto simp: counter_check_def counted_def seconds_def MAX_COUNT_def)

lemma counted_window: "counter_check r \<Longrightarrow> window_of (counted now w r) = use_window now w (Some (window_of r))"
  by (auto simp: counter_check_def counted_def use_window_def window_of_def open_window_def min_def)

lemma window_of_fresh: "window_of (fresh_counter now scope digest w) = open_window now w"
  by (simp add: window_of_def fresh_counter_def open_window_def)

lemma returning_answer: "returning now r = answer now (window_of r)"
  by (simp add: returning_def answer_def window_of_def)

lemma counted_key: "counter_key (counted now w r) = counter_key r" "counter_key (fresh_counter now scope digest w) = (scope, digest)"
  by (simp_all add: counted_def fresh_counter_def)

lemma upsert_simulates:
  assumes sim: "simulates now t m" "now \<le> at_time" and ok: "scope \<in> set RATE_SCOPES" "length digest = 32" "0 < w"
    and v: "v = use_window at_time w (m (scope, digest))"
  shows "\<exists>t'. upsert_counter at_time scope digest w t = Inr (answer at_time v, t') \<and> simulates at_time t' (m((scope, digest) \<mapsto> v))"
proof -
  have inv: "distinct (row_keys counter_key t)" "\<And>r. r \<in> set t \<Longrightarrow> counter_check r"
      "\<And>k. live at_time (map_option window_of (row_get counter_key k t)) = live at_time (m k)"
    using sim live_later unfolding simulates_def by blast+
  have fresh: "counter_check (fresh_counter at_time scope digest w)" using ok by (simp add: fresh_check)
  show ?thesis
  proof (cases "row_get counter_key (scope, digest) t")
    case None
    have "use_window at_time w (m (scope, digest)) = use_window at_time w None"
      using inv(3)[of "(scope, digest)"] None use_live by (metis option.map(1))
    then have "v = open_window at_time w" by (simp add: v use_window_def)
    moreover have "(scope, digest) \<notin> set (row_keys counter_key t)" using None by (simp add: row_get_None_iff)
    ultimately have row: "v = window_of (fresh_counter at_time scope digest w)"
        "(scope, digest) \<notin> set (row_keys counter_key t)" by (simp_all add: window_of_fresh)
    have "live at_time (map_option window_of (row_get counter_key k (t @ [fresh_counter at_time scope digest w])))
        = live at_time ((m((scope, digest) \<mapsto> v)) k)" for k
      using inv(3)[of k] None row(1)
      by (cases "k = (scope, digest)") (auto simp: row_get_append row_get_Cons row_get_Nil counted_key split: option.splits)
    then have "simulates at_time (t @ [fresh_counter at_time scope digest w]) (m((scope, digest) \<mapsto> v))"
      using inv(1,2) fresh row(2) unfolding simulates_def by (auto simp: counted_key)
    then show ?thesis
      using None fresh row(1) by (simp add: upsert_counter_def returning_answer Let_def)
  next
    case (Some r)
    have r: "r \<in> set t" "counter_key r = (scope, digest)" using row_get_SomeD[OF Some] by auto
    have "window_of (counted at_time w r) = v"
      using inv(3)[of "(scope, digest)"] Some use_live counted_window[OF inv(2)[OF r(1)]] unfolding v by (metis option.map(2))
    moreover have "counter_check (counted at_time w r)" using counted_check[OF inv(2)[OF r(1)] ok(3)] .
    ultimately have row: "v = window_of (counted at_time w r)" "counter_check (counted at_time w r)" by simp_all
    have "live at_time (map_option window_of (row_get counter_key k (row_put counter_key (counted at_time w r) t)))
        = live at_time ((m((scope, digest) \<mapsto> v)) k)" for k
      using inv(3)[of k] Some row(1) r(2) by (cases "k = (scope, digest)") (auto simp: row_get_put counted_key)
    then have "simulates at_time (row_put counter_key (counted at_time w r) t) (m((scope, digest) \<mapsto> v))"
      using inv(1,2) row(2) unfolding simulates_def by (auto dest: in_set_row_putD)
    then show ?thesis
      using Some fresh row by (simp add: upsert_counter_def returning_answer Let_def)
  qed
qed

text \<open>Deleting rows that have expired is invisible from then on.\<close>

lemma row_get_filter:
  assumes "distinct (row_keys key t)"
  shows "row_get key k (filter P t) = (case row_get key k t of Some r \<Rightarrow> if P r then Some r else None | None \<Rightarrow> None)"
proof (cases "row_get key k t")
  case None
  then have "row_get key k (filter P t) = None" by (auto simp: row_get_None_iff row_keys_def)
  then show ?thesis using None by simp
next
  case (Some r)
  note r = row_get_SomeD[OF Some]
  have once: "distinct (row_keys key (filter P t))" using assms by (simp add: row_keys_def distinct_map_filter)
  show ?thesis
  proof (cases "P r")
    case True
    then show ?thesis using row_get_in[OF once, of r] r Some by simp
  next
    case False
    then have "row_get key k (filter P t) = None"
      using r row_unique[OF assms] by (auto simp: row_get_None_iff row_keys_def)
    then show ?thesis using Some False by simp
  qed
qed

lemma prune_simulates:
  assumes "simulates now t m" "now \<le> later"
  shows "simulates later (prune_expired later locked scope digest n t) m"
proof -
  define gone where "gone = set (map counter_key (take n (sort_key window_expires_at
    (filter (\<lambda>r. window_expires_at r \<le> later \<and> counter_key r \<noteq> (scope, digest) \<and> \<not> locked (counter_key r)) t))))"
  have pruned: "prune_expired later locked scope digest n t = filter (\<lambda>r. counter_key r \<notin> gone) t"
    by (simp add: prune_expired_def gone_def Let_def)
  have inv: "distinct (row_keys counter_key t)" "\<And>r. r \<in> set t \<Longrightarrow> counter_check r"
      "\<And>k. live later (map_option window_of (row_get counter_key k t)) = live later (m k)"
    using assms live_later unfolding simulates_def by blast+
  have expired: "window_expires_at r \<le> later" if r: "r \<in> set t" "counter_key r \<in> gone" for r
  proof -
    obtain r' where "r' \<in> set t" "window_expires_at r' \<le> later" "counter_key r' = counter_key r"
      using r(2) unfolding gone_def by (auto dest!: in_set_takeD)
    then show ?thesis using row_unique[OF inv(1)] r(1) by metis
  qed
  have "live later (map_option window_of (row_get counter_key k (filter (\<lambda>r. counter_key r \<notin> gone) t))) = live later (m k)" for k
  proof (cases "row_get counter_key k t")
    case (Some r)
    then show ?thesis
      using expired[of r] row_get_SomeD[OF Some] inv(3)[of k] unfolding row_get_filter[OF inv(1)]
      by (cases "counter_key r \<in> gone") (auto simp: live_def window_of_def)
  qed (use inv(3)[of k] in \<open>simp add: row_get_filter[OF inv(1)]\<close>)
  then show ?thesis
    using inv unfolding pruned simulates_def by (auto simp: row_keys_def distinct_map_filter)
qed

lemma run_simulates:
  assumes "simulates now t m" "timeline now cs"
  shows "run_counters t cs = run_windows m cs"
  using assms
proof (induction cs arbitrary: now t m)
  case (Cons c cs)
  show ?case
  proof (cases "call_accepted c")
    case True
    define v where "v = use_window (call_at c) (call_window c) (m (call_key c))"
    obtain t1 where t1: "upsert_counter (call_at c) (call_scope c) (call_digest c) (call_window c) t = Inr (answer (call_at c) v, t1)"
        "simulates (call_at c) t1 (m(call_key c \<mapsto> v))"
      using upsert_simulates[OF Cons.prems(1) _ _ _ _ v_def] Cons.prems(2) True by (auto simp: call_accepted_def)
    have "simulates (prune_at (call_tx c)) (prune_expired (prune_at (call_tx c)) (locked_rows (call_tx c)) (call_scope c) (call_digest c) PRUNE_BATCH_SIZE t1)
        (m(call_key c \<mapsto> v))"
      by (rule prune_simulates[OF t1(2)]) (use Cons.prems(2) in simp)
    from Cons.IH[OF this] show ?thesis
      using True t1(1) Cons.prems(2) by (simp add: count_request_def call_accepted_def v_def Let_def fun_upd_def)
  next
    case False
    then have "count_request (call_tx c) (call_scope c) (call_digest c) (call_window c) t = Inl RateControlUnavailableError"
      by (auto simp: count_request_def call_accepted_def upsert_counter_def fresh_check Let_def)
    moreover have "simulates (prune_at (call_tx c)) t m"
      using Cons.prems live_later unfolding simulates_def by (meson order_trans timeline.simps(2))
    ultimately show ?thesis using False Cons.IH[of "prune_at (call_tx c)" t m] Cons.prems(2) by simp
  qed
qed simp

subsection \<open>One key\<close>

text \<open>The uses of one window after another at the given instants, all with the same length.\<close>

fun window_uses :: "int \<Rightarrow> rate_window option \<Rightarrow> instant list \<Rightarrow> (instant \<times> rate_window) list" where
  "window_uses len v [] = []"
| "window_uses len v (now # later) = (let w = use_window now len v in (now, w) # window_uses len (Some w) later)"

definition key_times :: "string \<times> octets \<Rightarrow> rate_call list \<Rightarrow> instant list" where
  "key_times k cs = map call_at (filter (\<lambda>c. call_key c = k \<and> call_accepted c) cs)"

lemma run_windows_key:
  assumes "\<And>c. c \<in> set cs \<Longrightarrow> call_key c = k \<Longrightarrow> call_window c = len"
  shows "filter (\<lambda>(c, d). call_key c = k \<and> (\<exists>x. d = Inr x)) (zip cs (run_windows m cs)) =
    map (\<lambda>(c, u). (c, Inr (answer (fst u) (snd u))))
      (zip (filter (\<lambda>c. call_key c = k \<and> call_accepted c) cs) (window_uses len (m k) (key_times k cs)))"
  using assms
proof (induction cs arbitrary: m)
  case (Cons c cs)
  then show ?case by (auto simp: key_times_def Let_def)
qed (simp add: key_times_def)

text \<open>How many of the uses satisfy a condition and are within the limit.\<close>

definition admitted :: "int \<Rightarrow> (instant \<Rightarrow> rate_window \<Rightarrow> bool) \<Rightarrow> (instant \<times> rate_window) list \<Rightarrow> int" where
  "admitted limit P us = int (length (filter (\<lambda>(now, w). P now w \<and> uses w \<le> limit) us))"

lemma admitted_simps [simp]:
  "admitted limit P [] = 0"
  "admitted limit P ((now, w) # us) = (if P now w \<and> uses w \<le> limit then 1 else 0) + admitted limit P us"
  by (simp_all add: admitted_def)

definition remaining :: "int \<Rightarrow> rate_window \<Rightarrow> int" where
  "remaining limit w = max 0 (limit - uses w)"

lemma use_window_cases:
  obtains (reset) "use_window now len v = open_window now len" "\<And>w. v = Some w \<Longrightarrow> expires w \<le> now"
  | (use) w where "v = Some w" "now < expires w" "use_window now len v = w\<lparr> uses := min MAX_COUNT (uses w + 1) \<rparr>"
proof (cases v)
  case (Some w)
  then show ?thesis using that by (cases "expires w \<le> now") (auto simp: use_window_def)
qed (use that in \<open>simp add: use_window_def\<close>)

lemma admitted_late: "\<forall>x \<in> set ts. bound \<le> x \<Longrightarrow> admitted limit (\<lambda>now w. now < bound) (window_uses len v ts) = 0"
  by (induction ts arbitrary: v) (auto simp: Let_def)

definition well_opened :: "int \<Rightarrow> rate_window \<Rightarrow> bool" where
  "well_opened len w \<longleftrightarrow> expires w = started w + seconds len \<and> 1 \<le> uses w"

lemma well_opened_use: "(\<And>w. v = Some w \<Longrightarrow> well_opened len w) \<Longrightarrow> well_opened len (use_window now len v)"
  by (auto simp: well_opened_def use_window_def open_window_def MAX_COUNT_def split: option.splits)

text \<open>One more use takes one from what remains of a window, or finds nothing left.\<close>

lemma remaining_use:
  "limit < MAX_COUNT \<Longrightarrow>
   (if min MAX_COUNT (uses w + 1) \<le> limit then 1 else 0) + remaining limit (w\<lparr> uses := min MAX_COUNT (uses w + 1) \<rparr>) \<le> remaining limit w"
  by (auto simp: remaining_def)

text \<open>
  From the instant \<open>a\<close> on, and for one window length: a window opened at or after \<open>a\<close> lasts to the end of the span, so
  it can only be used up; an older one can be followed by one more.
\<close>

lemma admitted_from:
  assumes "sorted ts" "\<And>x. x \<in> set ts \<Longrightarrow> a \<le> x" "0 < len" "1 \<le> limit" "limit < MAX_COUNT"
    "\<And>w. v = Some w \<Longrightarrow> well_opened len w"
  shows "admitted limit (\<lambda>now w. now < a + seconds len) (window_uses len v ts) \<le>
    (case v of None \<Rightarrow> limit | Some w \<Rightarrow> remaining limit w + (if started w < a then limit else 0))"
  using assms
proof (induction ts arbitrary: v)
  case (Cons now ts)
  define w' where "w' = use_window now len v"
  have IH: "admitted limit (\<lambda>now w. now < a + seconds len) (window_uses len (Some w') ts) \<le>
      remaining limit w' + (if started w' < a then limit else 0)"
    using Cons.IH[of "Some w'"] Cons.prems well_opened_use[of v len now] by (auto simp: w'_def)
  have head: "admitted limit (\<lambda>now w. now < a + seconds len) (window_uses len v (now # ts)) =
      (if now < a + seconds len \<and> uses w' \<le> limit then 1 else 0) +
      admitted limit (\<lambda>now w. now < a + seconds len) (window_uses len (Some w') ts)"
    by (simp add: w'_def Let_def)
  have now: "a \<le> now" using Cons.prems(2) by simp
  show ?case
  proof (cases "now < a + seconds len")
    case False
    then have "admitted limit (\<lambda>now w. now < a + seconds len) (window_uses len v (now # ts)) = 0"
      using Cons.prems(1) by (intro admitted_late) auto
    then show ?thesis using Cons.prems(4) by (auto simp: remaining_def split: option.splits)
  next
    case True
    show ?thesis
    proof (cases rule: use_window_cases[of now len v])
      case reset
      then have "started w' = now" "uses w' = 1" by (simp_all add: w'_def open_window_def)
      then have "admitted limit (\<lambda>now w. now < a + seconds len) (window_uses len v (now # ts)) \<le> limit"
        using head IH now Cons.prems(4) by (auto simp: remaining_def)
      moreover have "started w < a" if "v = Some w" for w
        using reset(2)[OF that] Cons.prems(6)[OF that] True by (simp add: well_opened_def)
      ultimately show ?thesis by (cases v) (auto simp: remaining_def)
    next
      case (use w)
      then have w': "w' = w\<lparr> uses := min MAX_COUNT (uses w + 1) \<rparr>" by (simp add: w'_def)
      show ?thesis
        using head IH remaining_use[OF Cons.prems(5), of w] use(1) True unfolding w' by (auto split: if_splits)
    qed
  qed
qed (auto simp: remaining_def split: option.splits)

text \<open>Any span as long as a window admits at most twice the limit.\<close>

lemma window_uses_append:
  "\<exists>v'. window_uses len v (xs @ ys) = window_uses len v xs @ window_uses len v' ys \<and>
     ((\<forall>w. v = Some w \<longrightarrow> well_opened len w) \<longrightarrow> (\<forall>w. v' = Some w \<longrightarrow> well_opened len w))"
proof (induction xs arbitrary: v)
  case (Cons x xs)
  show ?case using Cons.IH[of "Some (use_window x len v)"] well_opened_use[of v len x] by (auto simp: Let_def)
qed auto

lemma admitted_append: "admitted limit P (us @ ws) = admitted limit P us + admitted limit P ws"
  by (simp add: admitted_def)

lemma admitted_span:
  assumes "sorted ts" "0 < len" "1 \<le> limit" "limit < MAX_COUNT" "\<And>w. v = Some w \<Longrightarrow> well_opened len w"
  shows "admitted limit (\<lambda>now w. a \<le> now \<and> now < a + seconds len) (window_uses len v ts) \<le> 2 * limit"
proof -
  define early late where "early = takeWhile (\<lambda>x. x < a) ts" and "late = dropWhile (\<lambda>x. x < a) ts"
  have ts: "ts = early @ late" by (simp add: early_def late_def)
  have late: "a \<le> x" if "x \<in> set late" for x
  proof (cases late)
    case (Cons y ys)
    have "a \<le> y" using Cons unfolding late_def by (metis dropWhile_eq_Cons_conv not_less)
    moreover have "sorted late" using assms(1) ts by (metis sorted_append)
    ultimately show ?thesis using that Cons by auto
  qed (use that in simp)
  obtain v' where v': "window_uses len v ts = window_uses len v early @ window_uses len v' late"
      "\<And>w. v' = Some w \<Longrightarrow> well_opened len w"
    using window_uses_append[of len v early late] assms(5) ts by auto
  have none: "admitted limit (\<lambda>now w. a \<le> now \<and> now < a + seconds len) (window_uses len v early) = 0"
  proof -
    have "\<forall>x \<in> set early. x < a" unfolding early_def by (auto dest: set_takeWhileD)
    then show ?thesis by (induction early arbitrary: v) (auto simp: Let_def)
  qed
  have mono: "admitted limit (\<lambda>now w. a \<le> now \<and> now < a + seconds len) us \<le> admitted limit (\<lambda>now w. now < a + seconds len) us" for us
    by (induction us) auto
  have bound: "admitted limit (\<lambda>now w. now < a + seconds len) (window_uses len v' late) \<le> 2 * limit"
  proof -
    have "sorted late" using assms(1) ts by (metis sorted_append)
    from admitted_from[where v = v', OF this late assms(2,3,4) v'(2)] show ?thesis
      using v'(2) assms(3) by (cases v') (auto simp: remaining_def well_opened_def split: if_splits)
  qed
  show ?thesis using none mono[of "window_uses len v' late"] bound unfolding v'(1) admitted_append by linarith
qed

text \<open>One window admits at most the limit, whatever the clock does.\<close>

lemma admitted_window:
  assumes "0 < len" "1 \<le> limit" "limit < MAX_COUNT" "\<And>w. v = Some w \<Longrightarrow> well_opened len w"
  shows "admitted limit (\<lambda>now w. started w = s) (window_uses len v ts) \<le>
    (case v of None \<Rightarrow> limit | Some w \<Rightarrow> if started w = s then remaining limit w else if started w < s then limit else 0)"
  using assms(4)
proof (induction ts arbitrary: v)
  case (Cons now ts)
  define w' where "w' = use_window now len v"
  have IH: "admitted limit (\<lambda>now w. started w = s) (window_uses len (Some w') ts) \<le>
      (if started w' = s then remaining limit w' else if started w' < s then limit else 0)"
    using Cons.IH[of "Some w'"] Cons.prems well_opened_use[of v len now] by (auto simp: w'_def)
  have head: "admitted limit (\<lambda>now w. started w = s) (window_uses len v (now # ts)) =
      (if started w' = s \<and> uses w' \<le> limit then 1 else 0) +
      admitted limit (\<lambda>now w. started w = s) (window_uses len (Some w') ts)"
    by (simp add: w'_def Let_def)
  show ?case
  proof (cases rule: use_window_cases[of now len v])
    case reset
    then have "started w' = now" "uses w' = 1" by (simp_all add: w'_def open_window_def)
    moreover have "started w < now" if "v = Some w" for w
      using reset(2)[OF that] Cons.prems[OF that] assms(1) by (simp add: well_opened_def seconds_def)
    ultimately show ?thesis using head IH assms(2) by (cases v) (auto simp: remaining_def split: if_splits)
  next
    case (use w)
    then have w': "w' = w\<lparr> uses := min MAX_COUNT (uses w + 1) \<rparr>" by (simp add: w'_def)
    show ?thesis using head IH remaining_use[OF assms(3), of w] use(1) unfolding w' by (auto split: if_splits)
  qed
qed (use assms(2) in \<open>auto simp: remaining_def split: option.splits\<close>)

lemma key_times_sorted: "timeline now cs \<Longrightarrow> sorted (key_times k cs) \<and> (\<forall>x \<in> set (key_times k cs). now \<le> x)"
proof (induction cs arbitrary: now)
  case (Cons c cs)
  then have "sorted (key_times k cs)" "\<forall>x \<in> set (key_times k cs). prune_at (call_tx c) \<le> x" by auto
  then show ?case using Cons.prems by (auto simp: key_times_def)
qed (simp add: key_times_def)

lemma simulates_empty: "simulates now [] Map.empty"
  by (simp add: simulates_def row_keys_def row_get_Nil live_def)

text \<open>The answers a key got within its limit, counted over the whole history.\<close>

definition admitted_calls ::
  "int \<Rightarrow> string \<times> octets \<Rightarrow> (ConsumedCounter \<Rightarrow> bool) \<Rightarrow> (rate_call \<times> (rate_error + ConsumedCounter)) list \<Rightarrow> int" where
  "admitted_calls limit k P answers =
     int (length (filter (\<lambda>(c, d). call_key c = k \<and>
       (case d of Inr x \<Rightarrow> P x \<and> allowed (decision_of limit (call_window c) x) | Inl _ \<Rightarrow> False)) answers))"

lemma allowed_decision: "allowed (decision_of limit w x) \<longleftrightarrow> consumed_count x \<le> limit"
  by (simp add: decision_of_def)

lemma admitted_calls_windows:
  assumes "timeline now cs" "\<And>c. c \<in> set cs \<Longrightarrow> call_key c = k \<Longrightarrow> call_window c = len"
  shows "admitted_calls limit k P (zip cs (run_counters [] cs)) =
    admitted limit (\<lambda>now w. P (answer now w)) (window_uses len None (key_times k cs))"
proof -
  define answers where "answers = zip cs (run_windows Map.empty cs)"
  have run: "run_counters [] cs = run_windows Map.empty cs" by (rule run_simulates[OF simulates_empty assms(1)])
  define Q where "Q = (\<lambda>(c :: rate_call, d :: rate_error + ConsumedCounter). case d of Inr x \<Rightarrow> P x \<and> consumed_count x \<le> limit | Inl _ \<Rightarrow> False)"
  have "filter (\<lambda>(c, d). call_key c = k \<and> (case d of Inr x \<Rightarrow> P x \<and> consumed_count x \<le> limit | Inl _ \<Rightarrow> False)) answers
      = filter Q (filter (\<lambda>(c, d). call_key c = k \<and> (\<exists>x. d = Inr x)) answers)"
    unfolding filter_filter Q_def by (intro filter_cong refl) (simp add: case_prod_unfold split: sum.split)
  also have "\<dots> = filter Q (map (\<lambda>(c, u). (c, Inr (answer (fst u) (snd u))))
      (zip (filter (\<lambda>c. call_key c = k \<and> call_accepted c) cs) (window_uses len None (key_times k cs))))"
    using run_windows_key[where m = Map.empty and cs = cs and k = k and len = len, OF assms(2)] by (simp add: answers_def)
  finally have "length (filter (\<lambda>(c, d). call_key c = k \<and> (case d of Inr x \<Rightarrow> P x \<and> consumed_count x \<le> limit | Inl _ \<Rightarrow> False)) answers)
      = length (filter (\<lambda>(now, w). P (answer now w) \<and> uses w \<le> limit)
          (map snd (zip (filter (\<lambda>c. call_key c = k \<and> call_accepted c) cs) (window_uses len None (key_times k cs)))))"
    by (simp add: Q_def filter_map comp_def case_prod_unfold answer_def)
  moreover have "length (window_uses len v ts) = length ts" for v ts
    by (induction ts arbitrary: v) (auto simp: Let_def)
  ultimately show ?thesis
    unfolding admitted_calls_def admitted_def run answers_def allowed_decision by (simp add: key_times_def)
qed

end
