(* ===== verification/Rate_Keys.thy ===== *)
theory Rate_Keys
  imports Rate_Control
begin

text \<open>
  The privacy key of an identity: UTF-8 and the length frames can be undone, so different identities are hashed over
  different bytes, and the canonical Base64 text of a secret decodes to the secret.
\<close>

subsection \<open>Frames\<close>

lemma frame_length: "(of_nat (m div 16777216) :: 8 word) = of_nat (n div 16777216) \<Longrightarrow> (of_nat (m div 65536) :: 8 word) = of_nat (n div 65536) \<Longrightarrow>
    (of_nat (m div 256) :: 8 word) = of_nat (n div 256) \<Longrightarrow> (of_nat m :: 8 word) = of_nat n \<Longrightarrow>
    m < 2 ^ 32 \<Longrightarrow> n < 2 ^ 32 \<Longrightarrow> m = n"
proof -
  assume eq: "(of_nat (m div 16777216) :: 8 word) = of_nat (n div 16777216)" "(of_nat (m div 65536) :: 8 word) = of_nat (n div 65536)"
    "(of_nat (m div 256) :: 8 word) = of_nat (n div 256)" "(of_nat m :: 8 word) = of_nat n" and small: "m < 2 ^ 32" "n < 2 ^ 32"
  have mods: "m div 16777216 mod 256 = n div 16777216 mod 256" "m div 65536 mod 256 = n div 65536 mod 256"
      "m div 256 mod 256 = n div 256 mod 256" "m mod 256 = n mod 256"
    using eq by (metis octet_mod)+
  have digits: "k = k div 16777216 mod 256 * 16777216 + k div 65536 mod 256 * 65536 + k div 256 mod 256 * 256 + k mod 256"
    if "k < 2 ^ 32" for k :: nat
  proof -
    have top: "k div 16777216 < 256" using that by (simp add: less_mult_imp_div_less)
    have "k = k div 256 * 256 + k mod 256" "k div 256 = k div 65536 * 256 + k div 256 mod 256"
        "k div 65536 = k div 16777216 * 256 + k div 65536 mod 256"
      using div_mult_mod_eq[of k 256] div_mult_mod_eq[of "k div 256" 256] div_mult_mod_eq[of "k div 65536" 256]
      by (simp_all add: div_mult2_eq[symmetric])
    then show ?thesis unfolding mod_less[OF top] by linarith
  qed
  have "m = m div 16777216 mod 256 * 16777216 + m div 65536 mod 256 * 65536 + m div 256 mod 256 * 256 + m mod 256"
    by (rule digits[OF small(1)])
  also have "\<dots> = n div 16777216 mod 256 * 16777216 + n div 65536 mod 256 * 65536 + n div 256 mod 256 * 256 + n mod 256"
    by (simp only: mods)
  also have "\<dots> = n" by (rule digits[OF small(2), symmetric])
  finally show "m = n" .
qed

lemma frame_inj:
  assumes "frame v @ r = frame w @ r'" "length v < 2 ^ 32" "length w < 2 ^ 32"
  shows "v = w \<and> r = r'"
proof -
  have "length v = length w" using assms unfolding frame_def by (intro frame_length) auto
  then show ?thesis using assms(1) by (simp add: frame_def)
qed

subsection \<open>Messages\<close>

lemma ascii_scopes: "\<forall>x \<in> set RATE_SCOPES. \<forall>y \<in> set RATE_SCOPES. ascii x = ascii y \<longrightarrow> x = y"
  by code_simp

lemma key_preimage_inj:
  assumes "key_preimage scope issuer subject = key_preimage scope' issuer' subject'"
    "length issuer \<le> MAX_IDENTITY_BYTES" "length subject \<le> MAX_IDENTITY_BYTES"
    "length issuer' \<le> MAX_IDENTITY_BYTES" "length subject' \<le> MAX_IDENTITY_BYTES"
    "scope \<in> set RATE_SCOPES" "scope' \<in> set RATE_SCOPES"
  shows "scope = scope' \<and> issuer = issuer' \<and> subject = subject'"
proof -
  have short: "length (ascii x) < 2 ^ 32" if "x \<in> set RATE_SCOPES" for x using that by (auto simp: ascii_def RATE_SCOPES_def)
  have lens: "length issuer < 2 ^ 32" "length subject < 2 ^ 32" "length issuer' < 2 ^ 32" "length subject' < 2 ^ 32"
    using assms(2-5) by (simp_all add: MAX_IDENTITY_BYTES_def)
  have "frame (ascii scope) @ frame issuer @ frame subject = frame (ascii scope') @ frame issuer' @ frame subject'"
    using assms(1) by (simp add: key_preimage_def)
  then have heads: "ascii scope = ascii scope'" "frame issuer @ frame subject = frame issuer' @ frame subject'"
    using frame_inj short assms(6,7) by blast+
  then have bodies: "issuer = issuer'" "frame subject = frame subject'" using frame_inj[OF heads(2)] lens by simp_all
  have "subject = subject'" using frame_inj[of subject "[]" subject' "[]"] bodies(2) lens by simp
  moreover have "scope = scope'" using heads(1) assms(6,7) ascii_scopes by blast
  ultimately show ?thesis using bodies(1) by simp
qed

subsection \<open>Base64\<close>

lemma b64_value_char: "n < 64 \<Longrightarrow> b64_value (b64_char n) = Some n"
proof -
  have "\<forall>n \<in> set [0..<64]. b64_value (b64_char n) = Some n" by code_simp
  then show "n < 64 \<Longrightarrow> b64_value (b64_char n) = Some n" by simp
qed

lemma b64_char_no_pad: "n < 64 \<Longrightarrow> b64_char n \<noteq> pad_char"
  using b64_value_char[of n] by (auto simp: b64_value_def)

lemma octet_parts:
  "unat (a :: 8 word) div 4 < 64" "unat a mod 4 * 16 < 64" "unat a mod 4 * 16 + unat b div 16 < 64"
  "unat (b :: 8 word) mod 16 * 4 < 64" "unat b mod 16 * 4 + unat c div 64 < 64" "unat (c :: 8 word) mod 64 < 64"
  using octet_bound[of a] octet_bound[of b] octet_bound[of c]
  by (simp_all add: less_mult_imp_div_less)

lemma octet_join:
  "m < 16 \<Longrightarrow> of_nat (unat (a :: 8 word) div 4 * 4 + (unat a mod 4 * 16 + m) div 16) = a"
  "k < 4 \<Longrightarrow> of_nat ((x * 16 + unat (b :: 8 word) div 16) mod 16 * 16 + (unat b mod 16 * 4 + k) div 4) = b"
  "of_nat ((y * 4 + unat (c :: 8 word) div 64) mod 4 * 64 + unat c mod 64) = c"
proof -
  have upper: "unat b div 16 < 16" "unat c div 64 < 4"
    using octet_bound[of b] octet_bound[of c] by (simp_all add: less_mult_imp_div_less)
  have "unat a div 4 * 4 + (unat a mod 4 * 16 + m) div 16 = unat a" if "m < 16" using that by simp
  then show "m < 16 \<Longrightarrow> of_nat (unat a div 4 * 4 + (unat a mod 4 * 16 + m) div 16) = a" by simp
  have "(x * 16 + unat b div 16) mod 16 * 16 + (unat b mod 16 * 4 + k) div 4 = unat b" if "k < 4" using that upper(1) by simp
  then show "k < 4 \<Longrightarrow> of_nat ((x * 16 + unat b div 16) mod 16 * 16 + (unat b mod 16 * 4 + k) div 4) = b" by simp
  have "(y * 4 + unat c div 64) mod 4 * 64 + unat c mod 64 = unat c" using upper(2) by simp
  then show "of_nat ((y * 4 + unat c div 64) mod 4 * 64 + unat c mod 64) = c" by simp
qed

lemma b64_roundtrip: "b64decode (b64encode d) = Some d"
proof (induction d rule: b64encode.induct)
  case 1
  show ?case by simp
next
  case (2 a)
  show ?case using octet_join(1)[of 0 a] by (simp add: octet_parts b64_value_char del: of_nat_add of_nat_mult)
next
  case (3 a b)
  have "unat b div 16 < 16" using octet_bound[of b] by (simp add: less_mult_imp_div_less)
  then show ?case using octet_join(1)[of "unat b div 16" a] octet_join(2)[of 0 "unat a mod 4" b]
    by (simp add: octet_parts b64_value_char b64_char_no_pad del: of_nat_add of_nat_mult)
next
  case (4 a b c rest)
  have "unat b div 16 < 16" "unat c div 64 < 4"
    using octet_bound[of b] octet_bound[of c] by (simp_all add: less_mult_imp_div_less)
  then show ?case
    using octet_join(1)[of "unat b div 16" a] octet_join(2)[of "unat c div 64" "unat a mod 4" b]
      octet_join(3)[of "unat b mod 16" c] 4
    by (simp add: octet_parts b64_value_char b64_char_no_pad del: of_nat_add of_nat_mult)
qed

lemma b64_char_ascii: "n < 64 \<Longrightarrow> unat (b64_char n) < 128"
proof -
  have "\<forall>n \<in> set [0..<64]. unat (b64_char n) < 128" by code_simp
  then show "n < 64 \<Longrightarrow> unat (b64_char n) < 128" by simp
qed

lemma b64encode_ascii: "w \<in> set (b64encode d) \<Longrightarrow> unat w < 128"
proof (induction d rule: b64encode.induct)
  case (4 a b c rest)
  then show ?case by (auto simp: b64_char_ascii octet_parts)
qed (auto simp: b64_char_ascii octet_parts)

text \<open>The secrets the configuration accepts are the canonical texts of the keys of 32 to 64 octets.\<close>

lemma decode_secret_iff:
  "decode_api_rate_limit_key_secret secret = Inr key \<longleftrightarrow>
     32 \<le> length key \<and> length key \<le> 64 \<and> secret = map unat (b64encode key)"
proof
  assume "decode_api_rate_limit_key_secret secret = Inr key"
  then have ascii: "\<not> list_ex (\<lambda>c. c \<ge> 128) secret" and key: "32 \<le> length key" "length key \<le> 64" "b64encode key = map of_nat secret"
    by (auto simp: decode_api_rate_limit_key_secret_def Let_def need_def split: if_splits option.splits)
  have "map unat (map of_nat secret :: octets) = secret"
    using ascii by (auto simp: list_ex_iff unat_octet intro!: map_idI)
  then show "32 \<le> length key \<and> length key \<le> 64 \<and> secret = map unat (b64encode key)" using key by simp
next
  assume key: "32 \<le> length key \<and> length key \<le> 64 \<and> secret = map unat (b64encode key)"
  moreover have "map of_nat (map unat (b64encode key)) = b64encode key" by (simp add: comp_def)
  moreover have "\<not> list_ex (\<lambda>c. c \<ge> 128) secret" using key b64encode_ascii by (auto simp: list_ex_iff not_le)
  ultimately show "decode_api_rate_limit_key_secret secret = Inr key"
    by (auto simp: decode_api_rate_limit_key_secret_def Let_def need_def b64_roundtrip)
qed

lemma rate_key_digest_cases:
  assumes "rate_key_digest hmac secret scope issuer subject = Inr d"
  obtains key i s where "decode_api_rate_limit_key_secret secret = Inr key" "encode_utf8 issuer = Some i"
    "encode_utf8 subject = Some s" "d = hmac key (key_preimage scope i s)" "scope \<in> set RATE_SCOPES"
    "length i \<le> MAX_IDENTITY_BYTES" "length s \<le> MAX_IDENTITY_BYTES"
  using assms unfolding rate_key_digest_def by (auto simp: outcome_inv split: if_splits)

end
