(* ===== verification/Rate_Properties.thy ===== *)
theory Rate_Properties
  imports Rate_Windows Rate_Keys
begin

text \<open>
  The guarantees of the API rate control: the table answers like the windows it stands for, and a key cannot be used
  more often than its limit allows; further, the framing of the privacy key and the encoding of its secret are exact.
\<close>

subsection \<open>A scenario\<close>

definition rate_demo_call :: "8 word \<Rightarrow> instant \<Rightarrow> rate_call" where
  "rate_demo_call d now = \<lparr> call_scope = ''first_access'', call_digest = replicate 32 d, call_window = 60,
     call_tx = \<lparr> upsert_at = now, prune_at = now, locked_rows = \<lambda>_. False, database_ok = True \<rparr> \<rparr>"

text \<open>Three requests of one key in a window of a minute, one of another key, and one after the window has expired.\<close>

definition rate_demo :: "rate_call list" where
  "rate_demo = [rate_demo_call 1 0, rate_demo_call 1 10000000, rate_demo_call 2 20000000, rate_demo_call 1 30000000,
     rate_demo_call 2 90000000, rate_demo_call 1 90000000]"

lemma rate_demo_timeline: "timeline 0 rate_demo"
  by (simp add: rate_demo_def rate_demo_call_def)

definition rate_demo_secret :: "nat list" where
  "rate_demo_secret = map unat (b64encode (replicate 32 0))"

lemma rate_demo_key: "decode_api_rate_limit_key_secret rate_demo_secret = Inr (replicate 32 0)"
  by (simp add: decode_secret_iff rate_demo_secret_def)

subsection \<open>Windows\<close>

text \<open>
  C34. Pruning is invisible. On a database clock that does not run backwards, the answers to any sequence of requests,
  over any keys and however many expired rows each request deletes, are those of a machine that keeps one window per key
  and deletes nothing.
\<close>

theorem rate_answers_match_windows:
  assumes "timeline now calls"
  shows "run_counters [] calls = run_windows Map.empty calls"
  using run_simulates[OF simulates_empty assms] .

theorem rate_answers_match_windows_witness:
  "run_counters [] rate_demo = run_windows Map.empty rate_demo \<and>
   map (\<lambda>d. case d of Inr x \<Rightarrow> consumed_count x | Inl _ \<Rightarrow> 0) (run_windows Map.empty rate_demo) = [1, 2, 1, 3, 1, 1]"
  using rate_answers_match_windows[OF rate_demo_timeline]
  by (simp add: rate_demo_def rate_demo_call_def call_accepted_def RATE_SCOPES_def use_window_def open_window_def
      answer_def seconds_def MAX_COUNT_def Let_def)

text \<open>
  C33. The limit holds. Take any history on a database clock that does not run backwards in which the requests of one key
  agree on the length of the window. In every window the key is admitted at most \<open>limit\<close> times, and in any span as long
  as a window at most twice \<open>limit\<close>, however the requests of other keys are interleaved and whatever they prune.
\<close>

theorem rate_limit_holds:
  assumes "timeline now calls" "\<forall>c \<in> set calls. call_key c = k \<longrightarrow> call_window c = len"
    "0 < len" "1 \<le> limit" "limit < MAX_COUNT"
  shows "admitted_calls limit k (\<lambda>x. consumed_started_at x = s) (zip calls (run_counters [] calls)) \<le> limit \<and>
    admitted_calls limit k (\<lambda>x. a \<le> db_now x \<and> db_now x < a + seconds len) (zip calls (run_counters [] calls)) \<le> 2 * limit"
proof -
  note windows = admitted_calls_windows[OF assms(1), of k len]
  have "admitted limit (\<lambda>now w. started w = s) (window_uses len None (key_times k calls)) \<le> limit"
    using admitted_window[where v = None, OF assms(3-5)] by simp
  moreover have "admitted limit (\<lambda>now w. a \<le> now \<and> now < a + seconds len) (window_uses len None (key_times k calls)) \<le> 2 * limit"
    using admitted_span[where v = None, OF _ assms(3-5)] key_times_sorted[OF assms(1)] by simp
  ultimately show ?thesis using windows assms(2) by (simp add: answer_def)
qed

theorem rate_limit_holds_witness:
  "admitted_calls 2 (''first_access'', replicate 32 1) (\<lambda>x. consumed_started_at x = 0)
     (zip rate_demo (run_counters [] rate_demo)) \<le> 2 \<and>
   admitted_calls 2 (''first_access'', replicate 32 1) (\<lambda>x. 5000000 \<le> db_now x \<and> db_now x < 5000000 + seconds 60)
     (zip rate_demo (run_counters [] rate_demo)) \<le> 2 * 2"
  by (rule rate_limit_holds[OF rate_demo_timeline])
    (auto simp: rate_demo_def rate_demo_call_def MAX_COUNT_def)

subsection \<open>Keys\<close>

text \<open>
  C35. The privacy key is exact. The secrets that are accepted are the canonical Base64 texts of keys of 32 to 64 octets,
  one text for each key. Two identities that get a digest under one secret get the HMAC, under that key, of two
  messages, and the messages are the same exactly when the scope, the issuer and the subject are: no two identities
  are merged by the encoding or the framing, so only a collision of the hash could make them share a counter.
\<close>

theorem rate_key_exact:
  assumes "rate_key_digest hmac secret scope issuer subject = Inr d" "rate_key_digest hmac secret scope' issuer' subject' = Inr d'"
  shows "\<exists>key message message'. (\<forall>text. decode_api_rate_limit_key_secret text = Inr key \<longleftrightarrow> text = secret) \<and>
     32 \<le> length key \<and> length key \<le> 64 \<and> secret = map unat (b64encode key) \<and>
     d = hmac key message \<and> d' = hmac key message' \<and>
     (message = message' \<longleftrightarrow> scope = scope' \<and> issuer = issuer' \<and> subject = subject')"
proof -
  obtain key i s where one: "decode_api_rate_limit_key_secret secret = Inr key" "encode_utf8 issuer = Some i"
      "encode_utf8 subject = Some s" "d = hmac key (key_preimage scope i s)" "scope \<in> set RATE_SCOPES"
      "length i \<le> MAX_IDENTITY_BYTES" "length s \<le> MAX_IDENTITY_BYTES"
    by (rule rate_key_digest_cases[OF assms(1)])
  obtain key' i' s' where two: "decode_api_rate_limit_key_secret secret = Inr key'" "encode_utf8 issuer' = Some i'"
      "encode_utf8 subject' = Some s'" "d' = hmac key' (key_preimage scope' i' s')" "scope' \<in> set RATE_SCOPES"
      "length i' \<le> MAX_IDENTITY_BYTES" "length s' \<le> MAX_IDENTITY_BYTES"
    by (rule rate_key_digest_cases[OF assms(2)])
  have key: "32 \<le> length key" "length key \<le> 64" "secret = map unat (b64encode key)" "key' = key"
    using one(1) two(1) decode_secret_iff by auto
  have "key_preimage scope i s = key_preimage scope' i' s' \<longleftrightarrow> scope = scope' \<and> issuer = issuer' \<and> subject = subject'"
  proof
    assume "key_preimage scope i s = key_preimage scope' i' s'"
    from key_preimage_inj[OF this one(6,7) two(6,7) one(5) two(5)]
    show "scope = scope' \<and> issuer = issuer' \<and> subject = subject'"
      using encode_utf8_inj one(2,3) two(2,3) by auto
  qed (use one(2,3) two(2,3) in auto)
  then show ?thesis using one(4) two(4) key decode_secret_iff by blast
qed

theorem rate_key_exact_witness:
  "\<exists>message message'.
     rate_key_digest (@) rate_demo_secret ''first_access'' [97, 98] [99] = Inr (replicate 32 0 @ message) \<and>
     rate_key_digest (@) rate_demo_secret ''first_access'' [97] [98, 99] = Inr (replicate 32 0 @ message') \<and> message \<noteq> message'"
proof -
  have digests:
    "rate_key_digest (@) rate_demo_secret ''first_access'' [97, 98] [99] = Inr (replicate 32 0 @ key_preimage ''first_access'' [97, 98] [99])"
    "rate_key_digest (@) rate_demo_secret ''first_access'' [97] [98, 99] = Inr (replicate 32 0 @ key_preimage ''first_access'' [97] [98, 99])"
    by (simp_all add: rate_key_digest_def rate_demo_key encode_utf8_def scalar_value_def utf8_octets_def RATE_SCOPES_def MAX_IDENTITY_BYTES_def)
  from rate_key_exact[OF digests] obtain key message message' where
    "decode_api_rate_limit_key_secret rate_demo_secret = Inr key" "message \<noteq> message'"
    "replicate 32 0 @ key_preimage ''first_access'' [97, 98] [99] = key @ message"
    "replicate 32 0 @ key_preimage ''first_access'' [97] [98, 99] = key @ message'"
    by auto
  then show ?thesis using digests rate_demo_key by auto
qed

end
