(* ===== verification/Spec2Isabelle.thy ===== *)
theory Spec2Isabelle
  imports Model_Usage_Properties Model_Usage_Terms Outbox_Properties Outbox_Worker Archive_Properties Archive_Export_Properties Rate_Properties
begin

text \<open>
  Workstream: verification of the model-usage ledger.
\<close>

end
